(* ===== verification/Prelude.thy ===== *)
theory Prelude
  imports Main "HOL-Library.Char_ord" "HOL-Library.List_Lexorder"
begin

text \<open>
  Shared vocabulary of the development: results of fallible code, the JSON values the
  services exchange, and the operations of Python's \<^verbatim>\<open>str\<close> and \<^verbatim>\<open>int\<close> the services call.

  A Python \<^verbatim>\<open>str\<close> is modelled by its UTF-8 byte sequence, a \<^typ>\<open>string\<close>. Byte-wise order is
  code-point order, and \<open>in\<close>, \<open>split\<close>, \<open>partition\<close>, \<open>startswith\<close> and \<open>join\<close> with an ASCII
  argument are the same on both. \<open>strip\<close>, \<open>lower\<close> and \<open>int\<close> are modelled on the ASCII
  characters they act on; the white space, case pairs and digits beyond ASCII are left
  as they are.
\<close>

section \<open>Results\<close>

text \<open>Fallible code returns \<open>Inl\<close> of the raised error or \<open>Inr\<close> of the value.\<close>

type_synonym ('e, 'a) result = "'e + 'a"

fun bind_result :: "('e, 'a) result \<Rightarrow> ('a \<Rightarrow> ('e, 'b) result) \<Rightarrow> ('e, 'b) result" where
  "bind_result (Inl e) f = Inl e"
| "bind_result (Inr x) f = f x"

fun map_error :: "('e \<Rightarrow> 'f) \<Rightarrow> ('e, 'a) result \<Rightarrow> ('f, 'a) result" where
  "map_error f (Inl e) = Inl (f e)"
| "map_error f (Inr x) = Inr x"

definition guard_result :: "bool \<Rightarrow> 'e \<Rightarrow> ('e, unit) result" where
  "guard_result ok e = (if ok then Inr () else Inl e)"

named_theorems result_simps \<open>unfolding of successful and failed result computations\<close>

lemma bind_result_Inr_iff [result_simps]:
  "bind_result m f = Inr y \<longleftrightarrow> (\<exists>x. m = Inr x \<and> f x = Inr y)"
  by (cases m) auto

lemma bind_result_Inl_iff [result_simps]:
  "bind_result m f = Inl e \<longleftrightarrow> m = Inl e \<or> (\<exists>x. m = Inr x \<and> f x = Inl e)"
  by (cases m) auto

lemma map_error_Inr_iff [result_simps]: "map_error f m = Inr x \<longleftrightarrow> m = Inr x"
  by (cases m) auto

lemma map_error_Inl_iff [result_simps]: "map_error f m = Inl e \<longleftrightarrow> (\<exists>e'. m = Inl e' \<and> f e' = e)"
  by (cases m) auto

lemma guard_result_Inr_iff [result_simps]: "guard_result ok e = Inr u \<longleftrightarrow> ok"
  by (simp add: guard_result_def)

lemma guard_result_Inl_iff [result_simps]: "guard_result ok e = Inl e' \<longleftrightarrow> \<not> ok \<and> e' = e"
  by (auto simp: guard_result_def)

text \<open>A loop whose body may raise stops at the first error.\<close>

fun fold_result :: "('a \<Rightarrow> 's \<Rightarrow> ('e, 's) result) \<Rightarrow> 'a list \<Rightarrow> 's \<Rightarrow> ('e, 's) result" where
  "fold_result f [] s = Inr s"
| "fold_result f (x # xs) s = bind_result (f x s) (fold_result f xs)"

fun map_result :: "('a \<Rightarrow> ('e, 'b) result) \<Rightarrow> 'a list \<Rightarrow> ('e, 'b list) result" where
  "map_result f [] = Inr []"
| "map_result f (x # xs) = bind_result (f x) (\<lambda>y. bind_result (map_result f xs) (\<lambda>ys. Inr (y # ys)))"

lemma map_result_Inr_iff [result_simps]:
  "map_result f xs = Inr ys \<longleftrightarrow> list_all2 (\<lambda>x y. f x = Inr y) xs ys"
  by (induction xs arbitrary: ys) (auto simp: bind_result_Inr_iff list_all2_Cons1)

section \<open>Lists\<close>

lemma length_filter_split:
  assumes "\<And>x. \<not> (P x \<and> Q x)"
  shows "length (filter (\<lambda>x. \<not> P x \<and> \<not> Q x) xs) + length (filter P xs) + length (filter Q xs) = length xs"
  using assms by (induction xs) auto

lemma distinct_map_sort_key: "distinct (map g xs) \<Longrightarrow> distinct (map g (sort_key f xs))"
  by (auto simp: distinct_map)

lemma sort_key_eq_Nil [simp]: "sort_key f xs = [] \<longleftrightarrow> xs = []"
  by (metis length_0_conv length_sort)

section \<open>JSON values\<close>

text \<open>
  A decoded JSON body. An object is the list of its members; \<open>json.loads\<close> keeps one
  member per key. A float is carried by its \<open>repr\<close>, and a timestamp written into a
  JSON column by \<open>isoformat()\<close> is kept as the instant it renders (\<open>JTime\<close>).
\<close>

datatype json =
    JNull
  | JBool bool
  | JInt int
  | JFloat string
  | JStr string
  | JTime int
  | JList "json list"
  | JObj "(string \<times> json) list"

type_synonym json_object = "(string \<times> json) list"

fun is_object :: "json \<Rightarrow> bool" where
  "is_object (JObj _) = True"
| "is_object _ = False"

fun members :: "json \<Rightarrow> json_object" where
  "members (JObj ms) = ms"
| "members _ = []"

text \<open>Python's truth value of a decoded JSON value.\<close>

fun truthy :: "json \<Rightarrow> bool" where
  "truthy JNull = False"
| "truthy (JBool b) = b"
| "truthy (JInt i) = (i \<noteq> 0)"
| "truthy (JFloat f) = (f \<notin> {''0.0'', ''-0.0''})"
| "truthy (JStr s) = (s \<noteq> [])"
| "truthy (JTime t) = True"
| "truthy (JList xs) = (xs \<noteq> [])"
| "truthy (JObj ms) = (ms \<noteq> [])"

text \<open>\<open>{**old, **new}\<close>: the new members replace those of the same key.\<close>

definition json_update :: "json_object \<Rightarrow> json_object \<Rightarrow> json_object" where
  "json_update old new = filter (\<lambda>(k, v). k \<notin> fst ` set new) old @ new"

lemma json_update_get:
  "map_of (json_update old new) k = (case map_of new k of None \<Rightarrow> map_of old k | Some v \<Rightarrow> Some v)"
proof (induction old)
  case Nil
  then show ?case by (simp add: json_update_def split: option.split)
next
  case (Cons kv old)
  obtain a b where kv: "kv = (a, b)" by (cases kv)
  have "k \<in> fst ` set new \<longleftrightarrow> map_of new k \<noteq> None"
    by (simp add: map_of_eq_None_iff)
  with Cons show ?case
    by (auto simp: json_update_def kv split: option.splits)
qed

section \<open>Python strings\<close>

definition is_space :: "char \<Rightarrow> bool" where
  "is_space c = (let n = (of_char c :: nat) in 9 \<le> n \<and> n \<le> 13 \<or> 28 \<le> n \<and> n \<le> 32)"

definition lstrip :: "string \<Rightarrow> string" where
  "lstrip s = dropWhile is_space s"

definition rstrip :: "string \<Rightarrow> string" where
  "rstrip s = rev (dropWhile is_space (rev s))"

definition strip :: "string \<Rightarrow> string" where
  "strip s = rstrip (lstrip s)"

definition lower_char :: "char \<Rightarrow> char" where
  "lower_char c = (let n = (of_char c :: nat) in if 65 \<le> n \<and> n \<le> 90 then char_of (n + 32) else c)"

definition lower :: "string \<Rightarrow> string" where
  "lower s = map lower_char s"

text \<open>\<open>s.split(sep)\<close> with a one-character separator: always at least one part.\<close>

fun split_on :: "char \<Rightarrow> string \<Rightarrow> string list" where
  "split_on sep [] = [[]]"
| "split_on sep (c # cs) =
     (if c = sep then [] # split_on sep cs
      else case split_on sep cs of [] \<Rightarrow> [[c]] | p # ps \<Rightarrow> (c # p) # ps)"

text \<open>\<open>s.split(sep, n)\<close>: at most \<open>n\<close> splits, the rest is the last part.\<close>

fun split_max :: "nat \<Rightarrow> char \<Rightarrow> string \<Rightarrow> string list" where
  "split_max 0 sep s = [s]"
| "split_max (Suc n) sep [] = [[]]"
| "split_max (Suc n) sep (c # cs) =
     (if c = sep then [] # split_max n sep cs
      else case split_max (Suc n) sep cs of [] \<Rightarrow> [[c]] | p # ps \<Rightarrow> (c # p) # ps)"

text \<open>\<open>s.partition(sep)\<close> with a one-character separator: head, whether it was found, tail.\<close>

definition partition_on :: "char \<Rightarrow> string \<Rightarrow> string \<times> bool \<times> string" where
  "partition_on sep s =
     (let h = takeWhile (\<lambda>c. c \<noteq> sep) s; r = dropWhile (\<lambda>c. c \<noteq> sep) s
      in (h, r \<noteq> [], tl r))"

fun join :: "string \<Rightarrow> string list \<Rightarrow> string" where
  "join sep [] = []"
| "join sep [x] = x"
| "join sep (x # y # zs) = x @ sep @ join sep (y # zs)"

definition starts_with :: "string \<Rightarrow> string \<Rightarrow> bool" where
  "starts_with prefix s = (take (length prefix) s = prefix)"

definition is_digit :: "char \<Rightarrow> bool" where
  "is_digit c = (let n = (of_char c :: nat) in 48 \<le> n \<and> n \<le> 57)"

definition digit_value :: "char \<Rightarrow> nat" where
  "digit_value c = of_char c - 48"

definition digit_char :: "nat \<Rightarrow> char" where
  "digit_char n = char_of (48 + n)"

text \<open>\<open>str(n)\<close> for a non-negative integer, and for an integer.\<close>

fun show_nat :: "nat \<Rightarrow> string" where
  "show_nat n = (if n < 10 then [digit_char n] else show_nat (n div 10) @ [digit_char (n mod 10)])"

declare show_nat.simps [simp del]

definition show_int :: "int \<Rightarrow> string" where
  "show_int i = (if i < 0 then CHR ''-'' # show_nat (nat (- i)) else show_nat (nat i))"

text \<open>
  \<open>int(s)\<close>: surrounding white space is dropped, one sign is allowed, and digits may be
  separated by single underscores. \<open>None\<close> is \<open>ValueError\<close>.
\<close>

fun digits_value :: "nat \<Rightarrow> bool \<Rightarrow> string \<Rightarrow> nat option" where
  "digits_value acc after_digit [] = (if after_digit then Some acc else None)"
| "digits_value acc after_digit (c # cs) =
     (if is_digit c then digits_value (10 * acc + digit_value c) True cs
      else if c = CHR ''_'' \<and> after_digit \<and> cs \<noteq> [] then digits_value acc False cs
      else None)"

definition parse_int :: "string \<Rightarrow> int option" where
  "parse_int s =
     (case strip s of
        [] \<Rightarrow> None
      | c # cs \<Rightarrow>
          if c = CHR ''-'' then map_option (\<lambda>n. - int n) (digits_value 0 False cs)
          else if c = CHR ''+'' then map_option int (digits_value 0 False cs)
          else map_option int (digits_value 0 False (c # cs)))"

section \<open>Facts about strings\<close>

lemma split_on_nonempty [simp]: "split_on sep s \<noteq> []"
  by (induction s) (auto split: list.splits)

lemma split_on_no_sep: "sep \<notin> set s \<Longrightarrow> split_on sep s = [s]"
  by (induction s) auto

lemma split_on_append:
  "sep \<notin> set a \<Longrightarrow> split_on sep (a @ sep # b) = a # split_on sep b"
  by (induction a) auto

lemma split_max_no_sep: "sep \<notin> set s \<Longrightarrow> split_max n sep s = [s]"
proof (induction s)
  case Nil
  then show ?case by (cases n) auto
next
  case (Cons c s)
  then show ?case by (cases n) auto
qed

lemma split_max_append:
  "sep \<notin> set a \<Longrightarrow> split_max (Suc n) sep (a @ sep # b) = a # split_max n sep b"
  by (induction a) auto

lemma split_on_no_sep_parts: "p \<in> set (split_on sep s) \<Longrightarrow> sep \<notin> set p"
  by (induction s arbitrary: p) (auto split: list.splits if_splits)

lemma split_on_join:
  assumes "ps \<noteq> []" "\<forall>p\<in>set ps. sep \<notin> set p"
  shows "split_on sep (join [sep] ps) = ps"
  using assms
proof (induction "[sep]" ps rule: join.induct)
  case (2 x)
  then show ?case by (simp add: split_on_no_sep)
next
  case (3 x y zs)
  then show ?case by (simp add: split_on_append)
qed simp

lemma partition_on_append:
  "sep \<notin> set a \<Longrightarrow> partition_on sep (a @ sep # b) = (a, True, b)"
  by (auto simp: partition_on_def Let_def takeWhile_append dropWhile_append)

lemma partition_on_no_sep: "sep \<notin> set a \<Longrightarrow> partition_on sep a = (a, False, [])"
  by (induction a) (auto simp: partition_on_def)

lemma of_char_digit_char: "n < 10 \<Longrightarrow> (of_char (digit_char n) :: nat) = 48 + n"
  by (simp add: digit_char_def)

lemma is_digit_digit_char [simp]: "n < 10 \<Longrightarrow> is_digit (digit_char n)"
  by (simp add: is_digit_def of_char_digit_char)

lemma digit_value_digit_char [simp]: "n < 10 \<Longrightarrow> digit_value (digit_char n) = n"
  by (simp add: digit_value_def of_char_digit_char)

lemma show_nat_digits: "\<forall>c\<in>set (show_nat n). is_digit c"
proof (induction n rule: show_nat.induct)
  case (1 n)
  then show ?case by (cases "n < 10") (auto simp: show_nat.simps [of n])
qed

lemma show_nat_nonempty [simp]: "show_nat n \<noteq> []"
  by (subst show_nat.simps) simp

lemma not_digit_chars [simp]:
  "\<not> is_digit CHR '':''" "\<not> is_digit CHR ''@''" "\<not> is_digit CHR ''-''" "\<not> is_digit CHR ''+''"
  "\<not> is_digit CHR ''_''" "\<not> is_digit CHR '' ''"
  by (simp_all add: is_digit_def)

lemma digit_not_space: "is_digit c \<Longrightarrow> \<not> is_space c"
  by (auto simp: is_digit_def is_space_def Let_def)

lemma show_nat_no_char: "\<not> is_digit c \<Longrightarrow> c \<notin> set (show_nat n)"
  using show_nat_digits by blast

lemma digits_value_append:
  "digits_value acc b s = Some v \<Longrightarrow> s \<noteq> [] \<Longrightarrow> \<forall>c\<in>set s. is_digit c \<Longrightarrow>
   digits_value acc b (s @ t) = digits_value v True t"
  by (induction s arbitrary: acc b) (auto split: if_splits, case_tac "s = []", auto)

lemma digits_value_show_nat: "digits_value 0 b (show_nat n) = Some n"
proof (induction n arbitrary: b rule: show_nat.induct)
  case (1 n)
  show ?case
  proof (cases "n < 10")
    case True
    then show ?thesis by (simp add: show_nat.simps [of n])
  next
    case False
    with 1 have "digits_value 0 b (show_nat (n div 10)) = Some (n div 10)" by simp
    then have "digits_value 0 b (show_nat (n div 10) @ [digit_char (n mod 10)]) =
        digits_value (n div 10) True [digit_char (n mod 10)]"
      using show_nat_digits by (intro digits_value_append) auto
    with False show ?thesis by (simp add: show_nat.simps [of n])
  qed
qed

lemma strip_no_space:
  assumes "\<forall>c\<in>set s. \<not> is_space c"
  shows "strip s = s"
proof -
  have id: "dropWhile is_space t = t" if "\<forall>c\<in>set t. \<not> is_space c" for t
    using that by (cases t) auto
  show ?thesis using assms by (simp add: strip_def lstrip_def rstrip_def id)
qed

lemma parse_int_show_nat: "parse_int (show_nat n) = Some (int n)"
proof -
  have "strip (show_nat n) = show_nat n"
    using show_nat_digits digit_not_space by (intro strip_no_space) blast
  moreover obtain c cs where c: "show_nat n = c # cs"
    using show_nat_nonempty by (meson neq_Nil_conv)
  moreover have "is_digit c" using show_nat_digits [of n] c by simp
  then have "c \<noteq> CHR ''-''" "c \<noteq> CHR ''+''" by auto
  ultimately show ?thesis
    using digits_value_show_nat [of False n] by (simp add: parse_int_def)
qed

lemma set_lstrip: "set (lstrip s) \<subseteq> set s"
  by (auto simp: lstrip_def dest: set_dropWhileD)

lemma set_strip: "set (strip s) \<subseteq> set s"
  using set_lstrip [of s] by (auto simp: strip_def rstrip_def dest!: set_dropWhileD)

lemma dropWhile_idem: "dropWhile P (dropWhile P s) = dropWhile P s"
  by (induction s) auto

lemma strip_idem [simp]: "strip (strip s) = strip s"
proof -
  let ?d = "dropWhile is_space"
  have hd: "t = [] \<or> \<not> is_space (hd t)" if "t = ?d u" for t u
    using that hd_dropWhile [of is_space u] by (cases t) auto
  define a where "a = ?d s"
  define b where "b = rev (?d (rev a))"
  have last_b: "b = [] \<or> \<not> is_space (last b)"
    using hd [of "?d (rev a)" "rev a"] by (auto simp: b_def last_rev)
  have "b = [] \<or> (\<exists>r. a = b @ r)"
    unfolding b_def by (metis append_take_drop_id dropWhile_eq_drop rev_append rev_rev_ident)
  moreover have "a = [] \<or> \<not> is_space (hd a)" using hd [of a s] by (simp add: a_def)
  ultimately have hd_b: "b = [] \<or> \<not> is_space (hd b)"
    by (metis append_is_Nil_conv hd_append2)
  have "?d b = b" using hd_b by (cases b) auto
  moreover have "?d (rev b) = rev b" using last_b by (cases "rev b") (auto simp: hd_rev [symmetric])
  ultimately show ?thesis
    by (simp add: strip_def lstrip_def rstrip_def flip: a_def b_def)
qed

lemma lower_char_idem [simp]: "lower_char (lower_char c) = lower_char c"
  by (auto simp: lower_char_def Let_def)

lemma lower_idem [simp]: "lower (lower s) = lower s"
  by (simp add: lower_def)


section \<open>Characters and instants\<close>

text \<open>\<open>len(s)\<close> and \<open>s[:n]\<close> count characters: the bytes that do not continue one.\<close>

definition continues :: "char \<Rightarrow> bool" where
  "continues c = ((of_char c :: nat) div 64 = 2)"

definition char_len :: "string \<Rightarrow> nat" where
  "char_len s = length (filter (\<lambda>c. \<not> continues c) s)"

fun take_chars :: "nat \<Rightarrow> string \<Rightarrow> string" where
  "take_chars n [] = []"
| "take_chars n (c # cs) =
     (if continues c then c # take_chars n cs else if n = 0 then [] else c # take_chars (n - 1) cs)"

lemma char_len_take_chars: "char_len (take_chars n s) \<le> n"
  by (induction n s rule: take_chars.induct) (auto simp: char_len_def)

text \<open>
  \<open>isoformat()\<close> of a UTC instant given in microseconds since 1970: the proleptic Gregorian
  date of the day, the time of day, microseconds when there are any, and the offset.
\<close>

definition civil_of_days :: "int \<Rightarrow> int \<times> int \<times> int" where
  "civil_of_days days =
     (let z = days + 719468;
          era = z div 146097;
          doe = z mod 146097;
          yoe = (doe - doe div 1460 + doe div 36524 - doe div 146096) div 365;
          doy = doe - (365 * yoe + yoe div 4 - yoe div 100);
          mp = (5 * doy + 2) div 153;
          day = doy - (153 * mp + 2) div 5 + 1;
          month = (if mp < 10 then mp + 3 else mp - 9);
          year = yoe + era * 400 + (if month \<le> 2 then 1 else 0)
      in (year, month, day))"

definition zero_padded :: "nat \<Rightarrow> int \<Rightarrow> string" where
  "zero_padded w i = (let s = show_int i in replicate (w - length s) CHR ''0'' @ s)"

definition isoformat_utc :: "string \<Rightarrow> int \<Rightarrow> string" where
  "isoformat_utc offset t =
     (let secs = t div 1000000; us = t mod 1000000; (y, m, d) = civil_of_days (secs div 86400); tod = secs mod 86400
      in zero_padded 4 y @ ''-'' @ zero_padded 2 m @ ''-'' @ zero_padded 2 d @ ''T''
         @ zero_padded 2 (tod div 3600) @ '':'' @ zero_padded 2 (tod mod 3600 div 60) @ '':'' @ zero_padded 2 (tod mod 60)
         @ (if us = 0 then [] else ''.'' @ zero_padded 6 us) @ offset)"

lemma isoformat_utc_epoch: "isoformat_utc ''Z'' 0 = ''1970-01-01T00:00:00Z''"
  by code_simp

lemma isoformat_utc_leap_day: "isoformat_utc ''+00:00'' 951782400000001 = ''2000-02-29T00:00:00.000001+00:00''"
  by code_simp

section \<open>Values of a decoded object\<close>

text \<open>\<open>str(value or "")\<close> of a member of a decoded object; the parameter is Python's \<open>str\<close> of a container.\<close>

definition text_or_empty :: "(json \<Rightarrow> string) \<Rightarrow> json option \<Rightarrow> string" where
  "text_or_empty repr v =
     (case v of
        None \<Rightarrow> []
      | Some j \<Rightarrow>
          if \<not> truthy j then []
          else (case j of JStr s \<Rightarrow> s | JInt i \<Rightarrow> show_int i | JBool b \<Rightarrow> ''True'' | JFloat f \<Rightarrow> f | _ \<Rightarrow> repr j))"

text \<open>
  \<open>int(value)\<close> fails with \<open>TypeError\<close> or \<open>ValueError\<close>, which readers catch, or with \<open>OverflowError\<close>
  (an infinite float), which they do not.
\<close>

datatype int_failure = NotAnInt | IntOverflow

end
