(* ===== verification/Refs.thy ===== *)
theory Refs
  imports Prelude
begin

text \<open>
  The durable, cluster-qualified references of \<^verbatim>\<open>core/services/refs.py\<close>: storage, storage
  instance, volume, mount, node and guest references, each with its constructor check,
  \<open>serialize\<close> and \<open>parse\<close>, over a byte-exact model of \<open>urllib.parse.quote\<close>/\<open>unquote\<close> and of
  the acceptance test of \<open>uuid.UUID\<close>. The contract the formats share is the locale
  \<open>durable_ref\<close>; it is interpreted for every reference kind.
\<close>

section \<open>Percent encoding\<close>

definition is_ascii :: "char \<Rightarrow> bool" where
  "is_ascii c = ((of_char c :: nat) < 128)"

definition in_range :: "nat \<Rightarrow> nat \<Rightarrow> char \<Rightarrow> bool" where
  "in_range lo hi c = (lo \<le> of_char c \<and> of_char c \<le> hi)"

text \<open>The characters \<open>quote(s, safe='')\<close> leaves as they are.\<close>

definition unreserved :: "char \<Rightarrow> bool" where
  "unreserved c = (in_range 48 57 c \<or> in_range 65 90 c \<or> in_range 97 122 c
     \<or> c \<in> {CHR ''_'', CHR ''.'', CHR ''-'', CHR ''~''})"

definition hex_char :: "nat \<Rightarrow> char" where
  "hex_char n = char_of (if n < 10 then 48 + n else 55 + n)"

definition hex_value :: "char \<Rightarrow> nat option" where
  "hex_value c =
     (if in_range 48 57 c then Some (of_char c - 48)
      else if in_range 65 70 c then Some (of_char c - 55)
      else if in_range 97 102 c then Some (of_char c - 87)
      else None)"

definition quote_char :: "char \<Rightarrow> string" where
  "quote_char c =
     (if unreserved c then [c]
      else [CHR ''%'', hex_char (of_char c div 16), hex_char (of_char c mod 16)])"

definition quote :: "string \<Rightarrow> string" where
  "quote s = concat (map quote_char s)"

fun unquote_to_bytes :: "string \<Rightarrow> string" where
  "unquote_to_bytes (c # a # b # cs) =
     (if c = CHR ''%'' then
        (case (hex_value a, hex_value b) of
           (Some h, Some l) \<Rightarrow> char_of (16 * h + l) # unquote_to_bytes cs
         | _ \<Rightarrow> c # unquote_to_bytes (a # b # cs))
      else c # unquote_to_bytes (a # b # cs))"
| "unquote_to_bytes s = s"

text \<open>
  \<open>bytes.decode('utf-8', 'replace')\<close>: the length of the first sequence and whether it is
  well formed; every maximal ill-formed part becomes U+FFFD.
\<close>

definition byte_in :: "nat \<Rightarrow> nat \<Rightarrow> nat \<Rightarrow> string \<Rightarrow> bool" where
  "byte_in i lo hi bs = (i < length bs \<and> in_range lo hi (bs ! i))"

definition utf8_head :: "string \<Rightarrow> nat \<times> bool" where
  "utf8_head bs =
     (if byte_in 0 0 127 bs then (1, True)
      else if byte_in 0 194 223 bs then (if byte_in 1 128 191 bs then (2, True) else (1, False))
      else if byte_in 0 224 239 bs then
        (if byte_in 0 224 224 bs \<and> byte_in 1 160 191 bs \<or> byte_in 0 237 237 bs \<and> byte_in 1 128 159 bs
            \<or> \<not> byte_in 0 224 224 bs \<and> \<not> byte_in 0 237 237 bs \<and> byte_in 1 128 191 bs
         then (if byte_in 2 128 191 bs then (3, True) else (2, False))
         else (1, False))
      else if byte_in 0 240 244 bs then
        (if byte_in 0 240 240 bs \<and> byte_in 1 144 191 bs \<or> byte_in 0 244 244 bs \<and> byte_in 1 128 143 bs
            \<or> \<not> byte_in 0 240 240 bs \<and> \<not> byte_in 0 244 244 bs \<and> byte_in 1 128 191 bs
         then (if byte_in 2 128 191 bs then (if byte_in 3 128 191 bs then (4, True) else (3, False))
               else (2, False))
         else (1, False))
      else (1, False))"

lemma utf8_head_pos: "0 < fst (utf8_head bs)"
  by (simp add: utf8_head_def)

definition replacement_char :: string where
  "replacement_char = [char_of (239 :: nat), char_of (191 :: nat), char_of (189 :: nat)]"

function utf8_replace :: "string \<Rightarrow> string" where
  "utf8_replace bs =
     (if bs = [] then []
      else (if snd (utf8_head bs) then take (fst (utf8_head bs)) bs else replacement_char)
             @ utf8_replace (drop (fst (utf8_head bs)) bs))"
  by pat_completeness auto
termination
  by (relation "measure length") (auto simp: utf8_head_pos)

function valid_utf8 :: "string \<Rightarrow> bool" where
  "valid_utf8 bs =
     (if bs = [] then True
      else if snd (utf8_head bs) then valid_utf8 (drop (fst (utf8_head bs)) bs)
      else False)"
  by pat_completeness auto
termination
  by (relation "measure length") (auto simp: utf8_head_pos)

declare utf8_replace.simps [simp del] valid_utf8.simps [simp del]

text \<open>\<open>unquote\<close> decodes the ASCII runs and passes the other characters through.\<close>

function unquote_parts :: "string \<Rightarrow> string" where
  "unquote_parts s =
     (if s = [] then []
      else utf8_replace (unquote_to_bytes (takeWhile is_ascii s))
             @ takeWhile (\<lambda>c. \<not> is_ascii c) (dropWhile is_ascii s)
             @ unquote_parts (dropWhile (\<lambda>c. \<not> is_ascii c) (dropWhile is_ascii s)))"
  by pat_completeness auto
termination
proof (relation "measure length", goal_cases)
  case 1
  then show ?case by simp
next
  case (2 s)
  then obtain c cs where s: "s = c # cs" by (cases s) auto
  have "length (dropWhile (\<lambda>c. \<not> is_ascii c) (dropWhile is_ascii cs)) \<le> length cs"
    by (meson le_trans length_dropWhile_le)
  moreover have "length (dropWhile (\<lambda>c. \<not> is_ascii c) cs) \<le> length cs"
    by (rule length_dropWhile_le)
  ultimately show ?case by (simp add: s)
qed

declare unquote_parts.simps [simp del]

definition unquote :: "string \<Rightarrow> string" where
  "unquote s = (if CHR ''%'' \<notin> set s then s else unquote_parts s)"

section \<open>UUID texts\<close>

text \<open>\<open>s.replace(pat, '')\<close> for a non-empty pattern.\<close>

fun remove_sub :: "string \<Rightarrow> string \<Rightarrow> string" where
  "remove_sub pat [] = []"
| "remove_sub pat (c # cs) =
     (if starts_with pat (c # cs) then remove_sub pat (drop (length pat - 1) cs)
      else c # remove_sub pat cs)"

definition strip_chars :: "char set \<Rightarrow> string \<Rightarrow> string" where
  "strip_chars cs s = rev (dropWhile (\<lambda>c. c \<in> cs) (rev (dropWhile (\<lambda>c. c \<in> cs) s)))"

fun hex_digits_ok :: "bool \<Rightarrow> string \<Rightarrow> bool" where
  "hex_digits_ok after_digit [] = after_digit"
| "hex_digits_ok after_digit (c # cs) =
     (if hex_value c \<noteq> None then hex_digits_ok True cs
      else c = CHR ''_'' \<and> after_digit \<and> cs \<noteq> [] \<and> hex_digits_ok False cs)"

text \<open>Whether \<open>int(s, 16)\<close> accepts the text: white space, a sign, a \<open>0x\<close> prefix, underscores.\<close>

definition hex_int_ok :: "string \<Rightarrow> bool" where
  "hex_int_ok s =
     (let t = strip s;
          u = (case t of c # cs \<Rightarrow> if c = CHR ''+'' \<or> c = CHR ''-'' then cs else t | [] \<Rightarrow> t)
      in if starts_with ''0x'' u \<or> starts_with ''0X'' u
         then hex_digits_ok True (drop 2 u) \<and> drop 2 u \<noteq> []
         else hex_digits_ok False u)"

definition uuid_ok :: "string \<Rightarrow> bool" where
  "uuid_ok s =
     (let h = remove_sub ''-'' (strip_chars {CHR ''{'', CHR ''}''} (remove_sub ''uuid:'' (remove_sub ''urn:'' s)))
      in length h = 32 \<and> hex_int_ok h)"

section \<open>References\<close>

datatype ref_error =
    InvalidClusterStorage | InvalidStorageInstance | InvalidVolume | InvalidMountKey | InvalidMount
  | InvalidClusterKey string | InvalidNodeName string | InvalidObjectType string | InvalidVmid string
  | EmptyReference | MalformedReference string | UnsupportedVersion string string

record cluster_storage_ref =
  csr_cluster_key :: string
  csr_storage_id :: string

record storage_instance_ref =
  sir_cluster_key :: string
  sir_storage_id :: string
  sir_node :: string

record volume_ref =
  vr_instance :: storage_instance_ref
  vr_volid :: string

record mount_ref =
  mr_mount_key :: string

record node_ref =
  nr_cluster_key :: string
  nr_node :: string

record guest_ref =
  gr_cluster_key :: string
  gr_object_type :: string
  gr_vmid :: int
  gr_node :: string

text \<open>\<open>re.match(r"^[a-z0-9][a-z0-9-]{0,62}$", key)\<close>; \<open>$\<close> also matches before a final newline.\<close>

definition key_char :: "char \<Rightarrow> bool" where
  "key_char c = (in_range 97 122 c \<or> in_range 48 57 c)"

definition key_body_ok :: "string \<Rightarrow> bool" where
  "key_body_ok s =
     (case s of [] \<Rightarrow> False
      | c # cs \<Rightarrow> key_char c \<and> length cs \<le> 62 \<and> list_all (\<lambda>x. key_char x \<or> x = CHR ''-'') cs)"

definition newline :: char where
  "newline = CHR 0x0A"

definition cluster_key_ok :: "string \<Rightarrow> bool" where
  "cluster_key_ok s = (key_body_ok s \<or> (s \<noteq> [] \<and> last s = newline \<and> key_body_ok (butlast s)))"

subsection \<open>Storage, storage instance and volume references\<close>

definition make_cluster_storage_ref :: "string \<Rightarrow> string \<Rightarrow> (ref_error, cluster_storage_ref) result" where
  "make_cluster_storage_ref key sid =
     (if key = [] \<or> sid = [] \<or> CHR '':'' \<in> set key then Inl InvalidClusterStorage
      else Inr \<lparr>csr_cluster_key = key, csr_storage_id = sid\<rparr>)"

definition serialize_cluster_storage_ref :: "cluster_storage_ref \<Rightarrow> string" where
  "serialize_cluster_storage_ref r = ''sr1:'' @ quote (csr_cluster_key r) @ '':'' @ quote (csr_storage_id r)"

definition parse_cluster_storage_ref :: "string \<Rightarrow> (ref_error, cluster_storage_ref) result" where
  "parse_cluster_storage_ref raw =
     (case split_on CHR '':'' raw of
        [v, k, s] \<Rightarrow> if v \<noteq> ''sr1'' then Inl InvalidClusterStorage
                     else make_cluster_storage_ref (unquote k) (unquote s)
      | _ \<Rightarrow> Inl InvalidClusterStorage)"

definition serialize_storage_instance_ref :: "storage_instance_ref \<Rightarrow> string" where
  "serialize_storage_instance_ref r =
     join '':'' [''si1'', quote (sir_cluster_key r), quote (sir_storage_id r), quote (sir_node r)]"

definition parse_storage_instance_ref :: "string \<Rightarrow> (ref_error, storage_instance_ref) result" where
  "parse_storage_instance_ref raw =
     (case split_on CHR '':'' raw of
        [v, k, s, n] \<Rightarrow>
          if v \<noteq> ''si1'' \<or> unquote k = [] \<or> unquote s = [] then Inl InvalidStorageInstance
          else Inr \<lparr>sir_cluster_key = unquote k, sir_storage_id = unquote s, sir_node = unquote n\<rparr>
      | _ \<Rightarrow> Inl InvalidStorageInstance)"

definition serialize_volume_ref :: "volume_ref \<Rightarrow> string" where
  "serialize_volume_ref r =
     ''vr1:'' @ quote (serialize_storage_instance_ref (vr_instance r)) @ '':'' @ quote (vr_volid r)"

definition parse_volume_ref :: "string \<Rightarrow> (ref_error, volume_ref) result" where
  "parse_volume_ref raw =
     (case split_on CHR '':'' raw of
        [v, i, w] \<Rightarrow>
          if v \<noteq> ''vr1'' then Inl InvalidVolume
          else bind_result (parse_storage_instance_ref (unquote i))
                 (\<lambda>inst. Inr \<lparr>vr_instance = inst, vr_volid = unquote w\<rparr>)
      | _ \<Rightarrow> Inl InvalidVolume)"

subsection \<open>Mount references\<close>

definition make_mount_ref :: "string \<Rightarrow> (ref_error, mount_ref) result" where
  "make_mount_ref key = (if uuid_ok key then Inr \<lparr>mr_mount_key = key\<rparr> else Inl InvalidMountKey)"

definition serialize_mount_ref :: "mount_ref \<Rightarrow> string" where
  "serialize_mount_ref r = ''mr1:'' @ mr_mount_key r"

definition parse_mount_ref :: "string \<Rightarrow> (ref_error, mount_ref) result" where
  "parse_mount_ref raw =
     (case split_on CHR '':'' raw of
        [v, k] \<Rightarrow> if v \<noteq> ''mr1'' \<or> k = [] then Inl InvalidMount else make_mount_ref k
      | _ \<Rightarrow> Inl InvalidMount)"

subsection \<open>Node references\<close>

definition make_node_ref :: "string \<Rightarrow> string \<Rightarrow> (ref_error, node_ref) result" where
  "make_node_ref key node =
     (if \<not> cluster_key_ok key then Inl (InvalidClusterKey key)
      else if node = [] \<or> CHR '':'' \<in> set node then Inl (InvalidNodeName node)
      else Inr \<lparr>nr_cluster_key = key, nr_node = node\<rparr>)"

definition serialize_node_ref :: "node_ref \<Rightarrow> string" where
  "serialize_node_ref r = ''nr1:'' @ nr_cluster_key r @ '':'' @ nr_node r"

definition parse_node_ref :: "string \<Rightarrow> (ref_error, node_ref) result" where
  "parse_node_ref raw =
     (if raw = [] then Inl EmptyReference
      else case split_max 2 CHR '':'' raw of
        [v, k, n] \<Rightarrow> if v \<noteq> ''nr1'' then Inl (UnsupportedVersion v raw) else make_node_ref k n
      | _ \<Rightarrow> Inl (MalformedReference raw))"

subsection \<open>Guest references\<close>

definition make_guest_ref :: "string \<Rightarrow> string \<Rightarrow> int \<Rightarrow> string \<Rightarrow> (ref_error, guest_ref) result" where
  "make_guest_ref key kind vmid node =
     (if \<not> cluster_key_ok key then Inl (InvalidClusterKey key)
      else if kind \<noteq> ''vm'' \<and> kind \<noteq> ''ct'' then Inl (InvalidObjectType kind)
      else if vmid \<le> 0 then Inl (InvalidVmid (show_int vmid))
      else if node \<noteq> [] \<and> (CHR '':'' \<in> set node \<or> CHR ''@'' \<in> set node) then Inl (InvalidNodeName node)
      else Inr \<lparr>gr_cluster_key = key, gr_object_type = kind, gr_vmid = vmid, gr_node = node\<rparr>)"

definition identity_tuple :: "guest_ref \<Rightarrow> string \<times> string \<times> int" where
  "identity_tuple r = (gr_cluster_key r, gr_object_type r, gr_vmid r)"

definition guest_node_ref :: "guest_ref \<Rightarrow> (ref_error, node_ref option) result" where
  "guest_node_ref r =
     (if gr_node r = [] then Inr None
      else bind_result (make_node_ref (gr_cluster_key r) (gr_node r)) (\<lambda>n. Inr (Some n)))"

definition without_node :: "guest_ref \<Rightarrow> guest_ref" where
  "without_node r = (if gr_node r = [] then r else r\<lparr>gr_node := []\<rparr>)"

definition serialize_guest_ref :: "bool \<Rightarrow> guest_ref \<Rightarrow> string" where
  "serialize_guest_ref include_node r =
     (let head = ''gr1:'' @ gr_cluster_key r @ '':'' @ gr_object_type r @ '':'' @ show_int (gr_vmid r)
      in if include_node \<and> gr_node r \<noteq> [] then head @ ''@'' @ gr_node r else head)"

definition parse_guest_ref :: "string \<Rightarrow> (ref_error, guest_ref) result" where
  "parse_guest_ref raw =
     (if raw = [] then Inl EmptyReference
      else case partition_on CHR ''@'' raw of (head, sep, node) \<Rightarrow>
        if sep \<and> node = [] then Inl (MalformedReference raw)
        else case split_max 3 CHR '':'' head of
            [v, k, t, i] \<Rightarrow>
              if v \<noteq> ''gr1'' then Inl (UnsupportedVersion v raw)
              else (case parse_int i of
                      None \<Rightarrow> Inl (InvalidVmid i)
                    | Some n \<Rightarrow> make_guest_ref k t n node)
          | _ \<Rightarrow> Inl (MalformedReference raw))"

section \<open>Facts about percent encoding\<close>

lemma of_char_bound: "(of_char c :: nat) < 256"
  using nat_of_char_less_256 [of c] by simp

lemma of_char_div_16: "(of_char c :: nat) div 16 < 16"
  using of_char_bound [of c] by (intro less_mult_imp_div_less) simp

lemma hex_value_hex_char: "n < 16 \<Longrightarrow> hex_value (hex_char n) = Some n"
  by (auto simp: hex_value_def hex_char_def in_range_def)

lemma hex_char_ascii: "n < 16 \<Longrightarrow> is_ascii (hex_char n) \<and> hex_char n \<noteq> CHR '':'' \<and> hex_char n \<noteq> CHR ''@''"
  by (auto simp: is_ascii_def hex_char_def split: if_splits dest!: arg_cong [where f = "of_char :: char \<Rightarrow> nat"])

lemma unreserved_ascii:
  "unreserved c \<Longrightarrow> is_ascii c \<and> c \<noteq> CHR '':'' \<and> c \<noteq> CHR ''@'' \<and> c \<noteq> CHR ''%''"
  by (auto simp: is_ascii_def unreserved_def in_range_def)

lemma quote_char_ascii: "\<forall>x\<in>set (quote_char c). is_ascii x \<and> x \<noteq> CHR '':'' \<and> x \<noteq> CHR ''@''"
proof -
  have "(of_char c :: nat) div 16 < 16" by (rule of_char_div_16)
  moreover have "(of_char c :: nat) mod 16 < 16" by simp
  moreover have "is_ascii CHR ''%''" by (simp add: is_ascii_def)
  ultimately show ?thesis
    using unreserved_ascii hex_char_ascii by (auto simp: quote_char_def)
qed

lemma quote_ascii: "\<forall>x\<in>set (quote s). is_ascii x \<and> x \<noteq> CHR '':'' \<and> x \<noteq> CHR ''@''"
  using quote_char_ascii by (fastforce simp: quote_def)

lemma quote_no_colon [simp]: "CHR '':'' \<notin> set (quote s)"
  using quote_ascii by blast

lemma quote_eq_Nil_iff [simp]: "quote s = [] \<longleftrightarrow> s = []"
  by (cases s) (auto simp: quote_def quote_char_def)

lemma unquote_to_bytes_plain: "c \<noteq> CHR ''%'' \<Longrightarrow> unquote_to_bytes (c # cs) = c # unquote_to_bytes cs"
  by (cases cs rule: unquote_to_bytes.cases) auto

lemma unquote_to_bytes_quote: "unquote_to_bytes (quote s) = s"
proof (induction s)
  case Nil
  then show ?case by (simp add: quote_def)
next
  case (Cons c s)
  have q: "quote (c # s) = quote_char c @ quote s" by (simp add: quote_def)
  show ?case
  proof (cases "unreserved c")
    case True
    then have "c \<noteq> CHR ''%''" using unreserved_ascii by blast
    with True Cons show ?thesis by (simp add: q quote_char_def unquote_to_bytes_plain)
  next
    case False
    have "(of_char c :: nat) div 16 < 16" by (rule of_char_div_16)
    moreover have "16 * ((of_char c :: nat) div 16) + of_char c mod 16 = of_char c" by simp
    ultimately show ?thesis
      using False Cons by (simp add: q quote_char_def hex_value_hex_char)
  qed
qed

lemma quote_Cons: "quote (c # s) = quote_char c @ quote s"
  by (simp add: quote_def)

lemma quote_plain: "CHR ''%'' \<notin> set (quote s) \<Longrightarrow> quote s = s"
proof (induction s)
  case Nil
  then show ?case by (simp add: quote_def)
next
  case (Cons c s)
  then have "unreserved c" by (auto simp: quote_Cons quote_char_def split: if_splits)
  with Cons show ?case by (simp add: quote_Cons quote_char_def)
qed

lemma utf8_replace_valid: "valid_utf8 bs \<Longrightarrow> utf8_replace bs = bs"
proof (induction bs rule: utf8_replace.induct)
  case (1 bs)
  show ?case
  proof (cases "bs = []")
    case True
    then show ?thesis by (simp add: utf8_replace.simps)
  next
    case False
    with 1 show ?thesis
      by (simp add: utf8_replace.simps [of bs] valid_utf8.simps [of bs] split: if_splits)
  qed
qed

lemma unquote_parts_ascii:
  assumes "\<forall>x\<in>set s. is_ascii x"
  shows "unquote_parts s = utf8_replace (unquote_to_bytes s)"
proof -
  have tw: "takeWhile is_ascii s = s" and dw: "dropWhile is_ascii s = []"
    using assms by (auto simp: takeWhile_eq_all_conv dropWhile_eq_Nil_conv)
  have nil: "unquote_parts [] = []" by (simp add: unquote_parts.simps)
  show ?thesis
  proof (cases "s = []")
    case True
    then show ?thesis by (simp add: nil utf8_replace.simps)
  next
    case False
    then show ?thesis
      by (simp only: unquote_parts.simps [of s] tw dw takeWhile.simps dropWhile.simps nil append_Nil2
          if_False append_Nil)
  qed
qed

lemma unquote_quote: "valid_utf8 s \<Longrightarrow> unquote (quote s) = s"
proof (cases "CHR ''%'' \<in> set (quote s)")
  case False
  then have "unquote (quote s) = quote s" by (simp add: unquote_def)
  with quote_plain [OF False] show ?thesis by metis
next
  case True
  assume valid: "valid_utf8 s"
  have "unquote_parts (quote s) = utf8_replace (unquote_to_bytes (quote s))"
    using quote_ascii by (intro unquote_parts_ascii) blast
  with True valid show ?thesis
    by (simp add: unquote_def unquote_to_bytes_quote utf8_replace_valid)
qed

text \<open>An ASCII text is well-formed UTF-8.\<close>

lemma valid_utf8_ascii: "\<forall>c\<in>set s. is_ascii c \<Longrightarrow> valid_utf8 s"
proof (induction s)
  case Nil
  then show ?case by (simp add: valid_utf8.simps)
next
  case (Cons c s)
  then have "utf8_head (c # s) = (1, True)"
    by (auto simp: utf8_head_def byte_in_def in_range_def is_ascii_def)
  with Cons show ?case by (subst valid_utf8.simps) simp
qed

section \<open>Facts about keys\<close>

lemma key_char_ascii: "key_char c \<Longrightarrow> is_ascii c \<and> c \<noteq> CHR '':'' \<and> c \<noteq> CHR ''@''"
  by (auto simp: key_char_def in_range_def is_ascii_def)

lemma key_body_chars:
  "key_body_ok s \<Longrightarrow> c \<in> set s \<Longrightarrow> is_ascii c \<and> c \<noteq> CHR '':'' \<and> c \<noteq> CHR ''@''"
  using key_char_ascii
  by (cases s) (fastforce simp: key_body_ok_def list_all_iff is_ascii_def)+

lemma cluster_key_chars:
  assumes "cluster_key_ok s" "c \<in> set s"
  shows "c \<noteq> CHR '':'' \<and> c \<noteq> CHR ''@''"
proof (cases "key_body_ok s")
  case True
  with assms(2) show ?thesis using key_body_chars by blast
next
  case False
  with assms(1) have s: "s = butlast s @ [newline]" "key_body_ok (butlast s)"
    by (auto simp: cluster_key_ok_def) (metis append_butlast_last_id)
  have "c \<in> set (butlast s) \<or> c = newline" using s(1) assms(2) by (metis Un_iff set_append empty_set list.simps(15) singletonD)
  with s(2) show ?thesis using key_body_chars by (auto simp: newline_def)
qed

lemma cluster_key_no_sep:
  "cluster_key_ok s \<Longrightarrow> CHR '':'' \<notin> set s" "cluster_key_ok s \<Longrightarrow> CHR ''@'' \<notin> set s"
  using cluster_key_chars by blast+

section \<open>The contract of a durable reference format\<close>

text \<open>
  A format promises that every reference its constructor accepts is read back from its
  text. Texts then identify references: they can be stored in queue payloads and audit
  rows in place of the reference.
\<close>

locale durable_ref =
  fixes valid :: "'r \<Rightarrow> bool"
    and serialize :: "'r \<Rightarrow> string"
    and parse :: "string \<Rightarrow> (ref_error, 'r) result"
  assumes parse_serialize: "valid r \<Longrightarrow> parse (serialize r) = Inr r"
begin

lemma serialize_inj: "valid r \<Longrightarrow> valid r' \<Longrightarrow> serialize r = serialize r' \<Longrightarrow> r = r'"
  by (metis parse_serialize sum.inject(2))

end

text \<open>A checked format only ever yields references the constructor accepts.\<close>

locale checked_ref = durable_ref +
  assumes parse_valid: "parse raw = Inr r \<Longrightarrow> valid r"
begin

lemma reparse: "parse raw = Inr r \<Longrightarrow> parse (serialize r) = Inr r"
  using parse_serialize parse_valid by blast

end

text \<open>A canonical format has one text per reference.\<close>

locale canonical_ref = checked_ref +
  assumes serialize_parse: "parse raw = Inr r \<Longrightarrow> serialize r = raw"
begin

lemma parse_inj: "parse raw = Inr r \<Longrightarrow> parse raw' = Inr r \<Longrightarrow> raw = raw'"
  using serialize_parse by blast

end

definition cluster_storage_ref_ok :: "cluster_storage_ref \<Rightarrow> bool" where
  "cluster_storage_ref_ok r =
     (csr_cluster_key r \<noteq> [] \<and> csr_storage_id r \<noteq> [] \<and> CHR '':'' \<notin> set (csr_cluster_key r))"

definition storage_instance_ref_ok :: "storage_instance_ref \<Rightarrow> bool" where
  "storage_instance_ref_ok r = (sir_cluster_key r \<noteq> [] \<and> sir_storage_id r \<noteq> [])"

definition node_ref_ok :: "node_ref \<Rightarrow> bool" where
  "node_ref_ok r = (cluster_key_ok (nr_cluster_key r) \<and> nr_node r \<noteq> [] \<and> CHR '':'' \<notin> set (nr_node r))"

definition guest_ref_ok :: "guest_ref \<Rightarrow> bool" where
  "guest_ref_ok r =
     (cluster_key_ok (gr_cluster_key r) \<and> gr_object_type r \<in> {''vm'', ''ct''} \<and> 0 < gr_vmid r
      \<and> CHR '':'' \<notin> set (gr_node r) \<and> CHR ''@'' \<notin> set (gr_node r))"

lemma make_node_ref_Inr_iff:
  "make_node_ref k n = Inr r \<longleftrightarrow> r = \<lparr>nr_cluster_key = k, nr_node = n\<rparr> \<and> node_ref_ok r"
  by (auto simp: make_node_ref_def node_ref_ok_def)

lemma make_guest_ref_Inr_iff:
  "make_guest_ref k t v n = Inr r \<longleftrightarrow>
     r = \<lparr>gr_cluster_key = k, gr_object_type = t, gr_vmid = v, gr_node = n\<rparr> \<and> guest_ref_ok r"
  by (auto simp: make_guest_ref_def guest_ref_ok_def)

subsection \<open>Node references are canonical\<close>

lemma parse_node_ref_parts:
  assumes "CHR '':'' \<notin> set k"
  shows "parse_node_ref (''nr1:'' @ k @ '':'' @ n) = make_node_ref k n"
proof -
  have "split_max 2 CHR '':'' (''nr1'' @ CHR '':'' # k @ CHR '':'' # n) = [''nr1'', k, n]"
    using assms by (subst numeral_2_eq_2, subst split_max_append, simp, subst split_max_append) simp_all
  then show ?thesis by (simp add: parse_node_ref_def)
qed

lemma split_max_join: "join [sep] (split_max n sep s) = s"
proof (induction n sep s rule: split_max.induct)
  case (3 n sep c cs)
  show ?case
  proof (cases "c = sep")
    case True
    have "split_max n sep cs \<noteq> []"
      by (cases n; cases cs) (auto split: list.splits)
    then obtain p ps where p: "split_max n sep cs = p # ps" by (meson neq_Nil_conv)
    then have "split_max (Suc n) sep (c # cs) = [] # p # ps" using True by simp
    with 3(1) [OF True] p True show ?thesis by simp
  next
    case False
    have "split_max (Suc n) sep cs \<noteq> []"
      by (cases cs) (auto split: list.splits)
    then obtain p ps where p: "split_max (Suc n) sep cs = p # ps" by (meson neq_Nil_conv)
    then have "split_max (Suc n) sep (c # cs) = (c # p) # ps" using False by simp
    with 3(2) [OF False] p show ?thesis by (cases ps) simp_all
  qed
qed simp_all

lemma serialize_parse_node_ref:
  assumes "parse_node_ref raw = Inr r"
  shows "serialize_node_ref r = raw"
proof -
  from assms obtain k n where parts: "split_max 2 CHR '':'' raw = [''nr1'', k, n]"
    and r: "make_node_ref k n = Inr r"
    by (auto simp: parse_node_ref_def split: if_splits list.splits)
  have "join '':'' [''nr1'', k, n] = raw"
    using split_max_join [of "CHR '':''" 2 raw] parts by simp
  with r show ?thesis by (auto simp: make_node_ref_Inr_iff serialize_node_ref_def)
qed

interpretation node_refs: canonical_ref node_ref_ok serialize_node_ref parse_node_ref
proof unfold_locales
  fix r assume "node_ref_ok r"
  then show "parse_node_ref (serialize_node_ref r) = Inr r"
    by (simp add: serialize_node_ref_def node_ref_ok_def cluster_key_no_sep
        parse_node_ref_parts [simplified] make_node_ref_def)
next
  fix raw r assume "parse_node_ref raw = Inr r"
  then show "node_ref_ok r"
    by (auto simp: parse_node_ref_def make_node_ref_Inr_iff split: if_splits list.splits)
next
  fix raw r assume "parse_node_ref raw = Inr r"
  then show "serialize_node_ref r = raw" by (rule serialize_parse_node_ref)
qed

subsection \<open>Guest references\<close>

lemma show_int_pos: "0 < i \<Longrightarrow> show_int i = show_nat (nat i)"
  by (simp add: show_int_def)

lemma parse_int_show_int_pos: "0 < i \<Longrightarrow> parse_int (show_int i) = Some i"
  by (simp add: show_int_pos parse_int_show_nat)

lemma parse_guest_ref_parts:
  assumes key: "cluster_key_ok k" and kind: "t \<in> {''vm'', ''ct''}" and id: "0 < i"
    and node: "tail = (if n = [] then [] else CHR ''@'' # n)"
  shows "parse_guest_ref (''gr1:'' @ k @ '':'' @ t @ '':'' @ show_int i @ tail) = make_guest_ref k t i n"
proof -
  define head where "head = ''gr1'' @ CHR '':'' # k @ CHR '':'' # t @ CHR '':'' # show_int i"
  have id_chars: "CHR '':'' \<notin> set (show_int i)" "CHR ''@'' \<notin> set (show_int i)"
    using id by (simp_all add: show_int_pos show_nat_no_char)
  have no_at: "CHR ''@'' \<notin> set head"
    using kind id_chars cluster_key_no_sep(2) [OF key] by (auto simp: head_def)
  have split: "split_max 3 CHR '':'' head = [''gr1'', k, t, show_int i]"
    unfolding head_def numeral_3_eq_3 using kind id_chars cluster_key_no_sep(1) [OF key]
    by (subst split_max_append, simp, subst split_max_append, simp, subst split_max_append)
      (auto simp: split_max_no_sep)
  have "partition_on CHR ''@'' (head @ tail) = (head, n \<noteq> [], n)"
    using node no_at by (simp add: partition_on_append partition_on_no_sep)
  moreover have "head \<noteq> []" by (simp add: head_def)
  ultimately have "parse_guest_ref (head @ tail) = make_guest_ref k t i n"
    using split parse_int_show_int_pos [OF id] by (simp add: parse_guest_ref_def)
  then show ?thesis by (simp add: head_def)
qed

lemma parse_serialize_guest_ref:
  assumes "guest_ref_ok r"
  shows "parse_guest_ref (serialize_guest_ref True r) = Inr r"
    and "parse_guest_ref (serialize_guest_ref False r) = Inr (without_node r)"
proof -
  have ok: "cluster_key_ok (gr_cluster_key r)" "gr_object_type r \<in> {''vm'', ''ct''}" "0 < gr_vmid r"
    using assms by (auto simp: guest_ref_ok_def)
  note parts = parse_guest_ref_parts [OF ok]
  show "parse_guest_ref (serialize_guest_ref True r) = Inr r"
    using assms parts [of "if gr_node r = [] then [] else CHR ''@'' # gr_node r" "gr_node r"]
    by (auto simp: serialize_guest_ref_def make_guest_ref_Inr_iff Let_def split: if_splits)
  show "parse_guest_ref (serialize_guest_ref False r) = Inr (without_node r)"
    using assms parts [of "[]" "[]"]
    by (auto simp: serialize_guest_ref_def make_guest_ref_Inr_iff without_node_def guest_ref_ok_def Let_def)
qed

lemma parse_guest_ref_ok: "parse_guest_ref raw = Inr r \<Longrightarrow> guest_ref_ok r"
  by (auto simp: parse_guest_ref_def make_guest_ref_Inr_iff split: if_splits list.splits option.splits prod.splits)

interpretation guest_refs: checked_ref guest_ref_ok "serialize_guest_ref True" parse_guest_ref
  by unfold_locales (simp_all add: parse_serialize_guest_ref parse_guest_ref_ok)

subsection \<open>Percent-encoded references\<close>

lemma split_on_3:
  "CHR '':'' \<notin> set a \<Longrightarrow> CHR '':'' \<notin> set b \<Longrightarrow> CHR '':'' \<notin> set c \<Longrightarrow>
   split_on CHR '':'' (a @ CHR '':'' # b @ CHR '':'' # c) = [a, b, c]"
  by (simp add: split_on_append split_on_no_sep)

definition cluster_storage_ref_text_ok :: "cluster_storage_ref \<Rightarrow> bool" where
  "cluster_storage_ref_text_ok r =
     (cluster_storage_ref_ok r \<and> valid_utf8 (csr_cluster_key r) \<and> valid_utf8 (csr_storage_id r))"

definition storage_instance_ref_text_ok :: "storage_instance_ref \<Rightarrow> bool" where
  "storage_instance_ref_text_ok r =
     (storage_instance_ref_ok r \<and> valid_utf8 (sir_cluster_key r) \<and> valid_utf8 (sir_storage_id r)
      \<and> valid_utf8 (sir_node r))"

definition volume_ref_text_ok :: "volume_ref \<Rightarrow> bool" where
  "volume_ref_text_ok r = (storage_instance_ref_text_ok (vr_instance r) \<and> valid_utf8 (vr_volid r))"

definition mount_ref_text_ok :: "mount_ref \<Rightarrow> bool" where
  "mount_ref_text_ok r = (uuid_ok (mr_mount_key r) \<and> CHR '':'' \<notin> set (mr_mount_key r))"

interpretation cluster_storage_refs:
  durable_ref cluster_storage_ref_text_ok serialize_cluster_storage_ref parse_cluster_storage_ref
proof
  fix r assume "cluster_storage_ref_text_ok r"
  then show "parse_cluster_storage_ref (serialize_cluster_storage_ref r) = Inr r"
    using split_on_3 [of "''sr1''" "quote (csr_cluster_key r)" "quote (csr_storage_id r)"]
    by (simp add: serialize_cluster_storage_ref_def parse_cluster_storage_ref_def unquote_quote
        cluster_storage_ref_text_ok_def cluster_storage_ref_ok_def make_cluster_storage_ref_def)
qed

lemma storage_instance_ref_roundtrip:
  assumes "storage_instance_ref_text_ok r"
  shows "parse_storage_instance_ref (serialize_storage_instance_ref r) = Inr r"
proof -
  have "split_on CHR '':'' (serialize_storage_instance_ref r) =
      [''si1'', quote (sir_cluster_key r), quote (sir_storage_id r), quote (sir_node r)]"
    unfolding serialize_storage_instance_ref_def by (rule split_on_join) simp_all
  with assms show ?thesis
    by (simp add: parse_storage_instance_ref_def unquote_quote storage_instance_ref_text_ok_def
        storage_instance_ref_ok_def)
qed

interpretation storage_instance_refs:
  durable_ref storage_instance_ref_text_ok serialize_storage_instance_ref parse_storage_instance_ref
  by unfold_locales (rule storage_instance_ref_roundtrip)

lemma serialize_storage_instance_ref_ascii: "\<forall>c\<in>set (serialize_storage_instance_ref r). is_ascii c"
proof -
  have "\<forall>c\<in>set ''si1:''. is_ascii c" by (simp add: is_ascii_def)
  then show ?thesis
    using quote_ascii by (fastforce simp: serialize_storage_instance_ref_def)
qed

interpretation volume_refs: durable_ref volume_ref_text_ok serialize_volume_ref parse_volume_ref
proof
  fix r assume r: "volume_ref_text_ok r"
  have "valid_utf8 (serialize_storage_instance_ref (vr_instance r))"
    using serialize_storage_instance_ref_ascii by (intro valid_utf8_ascii) blast
  with r show "parse_volume_ref (serialize_volume_ref r) = Inr r"
    using split_on_3 [of "''vr1''" "quote (serialize_storage_instance_ref (vr_instance r))" "quote (vr_volid r)"]
    by (simp add: serialize_volume_ref_def parse_volume_ref_def unquote_quote volume_ref_text_ok_def
        storage_instance_ref_roundtrip)
qed

interpretation mount_refs: durable_ref mount_ref_text_ok serialize_mount_ref parse_mount_ref
proof
  fix r assume r: "mount_ref_text_ok r"
  have "uuid_ok [] = False" by (simp add: uuid_ok_def strip_chars_def)
  with r have "mr_mount_key r \<noteq> []" by (auto simp: mount_ref_text_ok_def)
  moreover have "split_on CHR '':'' (''mr1'' @ CHR '':'' # mr_mount_key r) = [''mr1'', mr_mount_key r]"
    using r by (subst split_on_append) (simp_all add: split_on_no_sep mount_ref_text_ok_def)
  ultimately show "parse_mount_ref (serialize_mount_ref r) = Inr r"
    using r by (simp add: serialize_mount_ref_def parse_mount_ref_def make_mount_ref_def mount_ref_text_ok_def)
qed

lemma identity_tuple_without_node: "identity_tuple (without_node r) = identity_tuple r"
  by (simp add: without_node_def identity_tuple_def)

section \<open>Properties\<close>

text \<open>
  Node references are a canonical format: a text is read as a reference exactly when
  it is the serialization of that reference and the constructor accepts it. Two different
  texts never name the same node, and no accepted node is unreadable.
\<close>

theorem node_ref_canonical:
  "parse_node_ref raw = Inr r \<longleftrightarrow> node_ref_ok r \<and> raw = serialize_node_ref r"
  using node_refs.parse_valid node_refs.serialize_parse node_refs.parse_serialize by metis

text \<open>
  C29: A guest reference the constructor accepts is read back from its text, with its node
  when the node is included and without it otherwise; the stable text without the node
  identifies exactly the guest's identity tuple.
\<close>

theorem guest_ref_roundtrip:
  assumes "guest_ref_ok r"
  shows "parse_guest_ref (serialize_guest_ref True r) = Inr r
       \<and> parse_guest_ref (serialize_guest_ref False r) = Inr (without_node r)
       \<and> (guest_ref_ok r' \<longrightarrow>
            (serialize_guest_ref False r = serialize_guest_ref False r' \<longleftrightarrow> identity_tuple r = identity_tuple r'))"
proof -
  have "identity_tuple r = identity_tuple r'"
    if ok: "guest_ref_ok r'" and eq: "serialize_guest_ref False r = serialize_guest_ref False r'"
  proof -
    have "without_node r = without_node r'"
      using parse_serialize_guest_ref(2) [OF assms] parse_serialize_guest_ref(2) [OF ok] eq by simp
    then show ?thesis by (metis identity_tuple_without_node)
  qed
  moreover have "serialize_guest_ref False r = serialize_guest_ref False r'"
    if "identity_tuple r = identity_tuple r'"
    using that by (simp add: serialize_guest_ref_def identity_tuple_def)
  ultimately show ?thesis using parse_serialize_guest_ref [OF assms] by blast
qed

theorem guest_ref_roundtrip_witness:
  "parse_guest_ref ''gr1:lab:vm:101@pve1'' =
     Inr \<lparr>gr_cluster_key = ''lab'', gr_object_type = ''vm'', gr_vmid = 101, gr_node = ''pve1''\<rparr>"
proof -
  let ?r = "\<lparr>gr_cluster_key = ''lab'', gr_object_type = ''vm'', gr_vmid = 101, gr_node = ''pve1''\<rparr>"
  have ok: "guest_ref_ok ?r"
    by (simp add: guest_ref_ok_def cluster_key_ok_def key_body_ok_def key_char_def in_range_def)
  have "show_nat 101 = ''101''" by code_simp
  then have "serialize_guest_ref True ?r = ''gr1:lab:vm:101@pve1''"
    by (simp add: serialize_guest_ref_def show_int_def)
  with guest_ref_roundtrip [OF ok] show ?thesis by simp
qed



text \<open>
  The mount-key check and the mount reference format disagree: a key in the URN form
  that \<open>uuid.UUID\<close> accepts makes a reference whose own text \<open>parse\<close> refuses, because the
  text then has more than two fields.
\<close>

theorem mount_ref_urn_unreadable:
  "case make_mount_ref ''urn:uuid:00000000-0000-0000-0000-000000000000'' of
     Inl e \<Rightarrow> False
   | Inr r \<Rightarrow> parse_mount_ref (serialize_mount_ref r) = Inl InvalidMount"
  by code_simp

end
