(* ===== verification/Models.thy ===== *)
theory Models
  imports Prelude
begin

text \<open>
  The database of \<^verbatim>\<open>core/models.py\<close>: one record per model class the verified services read
  or write, one list of rows per table, and the queryset operations on them
  (\<open>filter(...).update\<close>, \<open>filter(...).delete\<close>, \<open>filter(...).count\<close>).

  A column keeps its Django name behind a two- or three-letter prefix for its table. A text
  column with \<open>choices\<close> is still free text at rest, so it is a \<^typ>\<open>string\<close>. An instant is an
  \<^typ>\<open>int\<close> (microseconds since the epoch, UTC). The \<open>created_at\<close>/\<open>updated_at\<close> columns of
  \<open>TimestampedModel\<close> are kept where a service reads them (credentials, trust, endpoints,
  runs) and left out elsewhere, as are the columns no modelled service touches.
\<close>

type_synonym time = int

section \<open>Querysets\<close>

definition update_where :: "('r \<Rightarrow> bool) \<Rightarrow> ('r \<Rightarrow> 'r) \<Rightarrow> 'r list \<Rightarrow> 'r list" where
  "update_where P f rows = map (\<lambda>r. if P r then f r else r) rows"

definition delete_where :: "('r \<Rightarrow> bool) \<Rightarrow> 'r list \<Rightarrow> 'r list" where
  "delete_where P rows = filter (\<lambda>r. \<not> P r) rows"

definition count_where :: "('r \<Rightarrow> bool) \<Rightarrow> 'r list \<Rightarrow> nat" where
  "count_where P rows = length (filter P rows)"

definition exists_where :: "('r \<Rightarrow> bool) \<Rightarrow> 'r list \<Rightarrow> bool" where
  "exists_where P rows = list_ex P rows"

text \<open>\<open>filter(...).first()\<close>.\<close>

definition first_where :: "('r \<Rightarrow> bool) \<Rightarrow> 'r list \<Rightarrow> 'r option" where
  "first_where P rows = List.find P rows"

text \<open>The key of the row \<open>objects.create\<close> inserts: one past the largest in use.\<close>

definition next_pk :: "('r \<Rightarrow> nat) \<Rightarrow> 'r list \<Rightarrow> nat" where
  "next_pk pk rows = Suc (foldr (\<lambda>r m. max (pk r) m) rows 0)"

text \<open>
  \<open>get_or_create\<close> of the row a unique key names, then assignments and \<open>save\<close>: every row that
  has the key is saved, or a new row with the assignments is inserted.
\<close>

definition upsert_where :: "('r \<Rightarrow> bool) \<Rightarrow> 'r \<Rightarrow> ('r \<Rightarrow> 'r) \<Rightarrow> 'r list \<Rightarrow> 'r list" where
  "upsert_where P new f rows = (if exists_where P rows then update_where P f rows else rows @ [f new])"

section \<open>Rows\<close>

datatype retirement_mode = VERIFIED | FORCED

fun mode_value :: "retirement_mode \<Rightarrow> string" where
  "mode_value VERIFIED = ''verified''"
| "mode_value FORCED = ''forced''"

record audit_event =
  ae_pk :: nat
  ae_user :: "nat option"
  ae_username :: string
  ae_source_ip :: "string option"
  ae_action :: string
  ae_object_type :: string
  ae_object_id :: string
  ae_outcome :: string
  ae_module :: string
  ae_cluster :: "nat option"
  ae_cluster_key_snapshot :: string
  ae_details :: json

record cluster =
  cl_pk :: nat
  cl_key :: string
  cl_display_name :: string
  cl_enabled :: bool
  cl_discovered_ca_uuid :: string
  cl_discovered_ca_fingerprint :: string
  cl_ingestion_quarantined :: bool
  cl_quarantine_reason :: string
  cl_retired_at :: "time option"
  cl_retired_by :: "nat option"
  cl_retirement_mode :: string
  cl_retirement_reason :: string
  cl_retired_ca_uuid :: string
  cl_retired_ca_fingerprint :: string
  cl_lifecycle_generation :: nat
  cl_operational_footprint_at :: "time option"
  cl_operational_footprint_reason :: string
  cl_enrollment_contract_version :: nat
  cl_enrollment_generation :: nat
  cl_enrollment_activated_at :: "time option"
  cl_enrollment_activated_by :: "nat option"

definition is_retired :: "cluster \<Rightarrow> bool" where
  "is_retired c = (cl_retired_at c \<noteq> None)"

record credential =
  cr_pk :: nat
  cr_cluster :: nat
  cr_token_id :: string
  cr_token_secret_sealed :: string
  cr_encryption_key_id :: string
  cr_rotated_at :: "time option"
  cr_updated_at :: time

record transport_trust =
  tr_pk :: nat
  tr_cluster :: nat
  tr_mode :: string
  tr_ca_pem :: string
  tr_approved_at :: "time option"
  tr_updated_at :: time

record endpoint =
  ep_pk :: nat
  ep_name :: string
  ep_cluster :: nat
  ep_normalized_url :: string
  ep_enabled :: bool
  ep_last_health_status :: string
  ep_updated_at :: time
  ep_url :: string
  ep_details :: json

record console_session =
  con_pk :: nat
  con_token_hash :: string
  con_cluster :: "nat option"
  con_target_type :: string
  con_target_vmid :: nat
  con_target_node :: string
  con_target_name_snapshot :: string
  con_created_by :: "nat option"
  con_username :: string
  con_source_ip :: "string option"
  con_expires_at :: time
  con_closed_at :: "time option"
  con_status :: string
  con_proxmox_endpoint :: string
  con_proxmox_node :: string
  con_proxmox_upid :: string
  con_proxmox_port :: string
  con_proxmox_ticket :: string
  con_proxmox_password :: string
  con_close_reason :: string
  con_details :: json

record storage_mount =
  sm_pk :: nat
  sm_storage_id :: string
  sm_mount_key :: string
  sm_display_name :: string
  sm_expected_consumers :: "string list"
  sm_enabled :: bool
  sm_backend_identity :: string

record catalog_state =
  cs_pk :: nat
  cs_cluster :: nat
  cs_metadata_generation :: "string option"
  cs_metadata_complete :: bool

record cluster_storage =
  st_pk :: nat
  st_cluster :: nat
  st_storage_id :: string
  st_shared :: bool
  st_nodes :: "string list"
  st_present :: bool
  st_unmanaged_at :: "time option"
  st_observed_metadata_generation :: "string option"
  st_storage_type :: string
  st_disabled :: bool
  st_config :: json

record storage_node_state =
  sns_pk :: nat
  sns_storage :: nat
  sns_node :: string
  sns_present :: bool
  sns_observed_metadata_generation :: "string option"
  sns_active :: bool
  sns_enabled :: bool

record storage_binding =
  sb_pk :: nat
  sb_storage :: nat
  sb_mount :: nat
  sb_scope :: string
  sb_node :: "string option"

record volume_coverage =
  vc_pk :: nat
  vc_storage :: nat
  vc_scope :: string
  vc_node :: "string option"
  vc_complete :: bool
  vc_volume_generation :: "string option"
  vc_based_on_metadata_generation :: "string option"
  vc_error_reason :: string

record volume_observation =
  vo_pk :: nat
  vo_storage :: nat
  vo_node :: string
  vo_volid :: string

record scan_run =
  sr_pk :: nat
  sr_status :: string

record scan_observation =
  so_scan_run :: nat
  so_cluster :: nat
  so_nodes_attempted :: "string list"
  so_nodes_succeeded :: "string list"
  so_errors :: "(string \<times> json) list"

record guest =
  g_pk :: nat
  g_cluster :: nat
  g_node :: string
  g_object_type :: string
  g_vmid :: nat
  g_name :: string
  g_status :: string
  g_published :: bool
  g_based_on_enrollment_generation :: nat
  g_source_endpoint :: "nat option"
  g_source_scan :: "nat option"
  g_cpu_usage :: string
  g_memory_used_bytes :: int
  g_memory_max_bytes :: int
  g_disk_used_bytes :: int
  g_disk_max_bytes :: int
  g_uptime_seconds :: int
  g_runtime_lock :: string
  g_pool :: string
  g_ha_state :: string
  g_agent_info :: json
  g_agent_observed_at :: "time option"
  g_config :: json
  g_config_complete :: bool
  g_disk_references :: "string list"
  g_observed_at :: time
  g_runtime_observed_at :: "time option"
  g_config_observed_at :: "time option"

record guest_inventory_state =
  gs_pk :: nat
  gs_cluster :: nat
  gs_complete :: bool
  gs_refreshed_at :: "time option"
  gs_last_complete_at :: "time option"
  gs_source_scan :: "nat option"
  gs_unreachable :: bool
  gs_endpoints_attempted :: "string list"
  gs_endpoints_succeeded :: "string list"
  gs_covered_nodes :: "string list"
  gs_errors :: json
  gs_linked_clone_lineage :: json

record storage_consumer =
  sc_pk :: nat
  sc_storage :: nat
  sc_cluster :: nat
  sc_expected_node_name :: string
  sc_last_successful_inventory_scan :: "time option"
  sc_last_gate_status :: string

record scheduled_action =
  sa_pk :: nat
  sa_name :: string
  sa_enabled :: bool
  sa_action_type :: string
  sa_action_timeout_seconds :: nat
  sa_cluster :: nat
  sa_target_type :: string
  sa_target_vmid :: nat
  sa_target_node :: string
  sa_target_name_snapshot :: string
  sa_parameters :: json
  sa_schedule_type :: string
  sa_run_at :: "time option"
  sa_recurrence :: json
  sa_recurrence_kind :: string
  sa_timezone :: string
  sa_catch_up_policy :: string
  sa_max_lateness_minutes :: nat
  sa_end_condition :: string
  sa_run_until :: "time option"
  sa_max_scheduled_runs :: "nat option"
  sa_scheduled_run_count :: nat
  sa_last_run_at :: "time option"
  sa_next_run_at :: "time option"
  sa_last_status :: string
  sa_deleted_at :: "time option"

record scheduled_run =
  ru_pk :: nat
  ru_scheduled_action :: nat
  ru_planned_for :: time
  ru_occurrence_key :: string
  ru_started_at :: "time option"
  ru_finished_at :: "time option"
  ru_status :: string
  ru_outcome :: string
  ru_proxmox_task_upid :: string
  ru_proxmox_task_node :: string
  ru_preflight_snapshot :: json
  ru_result :: json
  ru_error :: string
  ru_triggered_by :: "nat option"
  ru_created_at :: time

record membership_state =
  ms_cluster :: nat
  ms_topology_role :: string
  ms_transition_pending :: bool
  ms_pending_topology_role :: string
  ms_membership_generation :: nat
  ms_member_count :: nat
  ms_quorate :: bool
  ms_observed_from :: string

record handoff_intent =
  hi_pk :: nat
  hi_cluster :: nat
  hi_source_cluster_key_snapshot :: string
  hi_storage_id :: string
  hi_mount :: nat
  hi_scope :: string
  hi_node :: "string option"
  hi_status :: string
  hi_applied_at :: "time option"
  hi_refusal_reason :: string

record node_state =
  ns_cluster :: nat
  ns_node_name :: string
  ns_nodeid :: "nat option"
  ns_present :: bool
  ns_online :: bool
  ns_reported_ring_address :: string
  ns_membership_generation :: nat
  ns_first_discovered_at :: "time option"
  ns_last_discovered_at :: "time option"

record projection_coverage =
  cov_cluster :: nat
  cov_domain :: string
  cov_node_name :: "string option"
  cov_generation :: nat
  cov_based_on_generation :: "nat option"
  cov_complete :: bool
  cov_attempted_at :: "time option"
  cov_observed_at :: "time option"
  cov_error_code :: string

record node_interface =
  ni_cluster :: nat
  ni_node_name :: string
  ni_iface :: string
  ni_attachable :: bool
  ni_present :: bool
  ni_unreachable :: bool

record node_enrollment =
  en_cluster :: nat
  en_node_name :: string
  en_node_ref_snapshot :: string
  en_mode :: string
  en_enrolled_at :: time
  en_enrolled_by :: "nat option"
  en_mode_changed_at :: "time option"
  en_mode_changed_by :: "nat option"
  en_mode_change_reason :: string
  en_onboarded_via_endpoint :: "nat option"

section \<open>The database\<close>

record db =
  clusters :: "cluster list"
  credentials :: "credential list"
  trusts :: "transport_trust list"
  endpoints :: "endpoint list"
  consoles :: "console_session list"
  storage_mounts :: "storage_mount list"
  catalog_states :: "catalog_state list"
  storages :: "cluster_storage list"
  storage_node_states :: "storage_node_state list"
  storage_bindings :: "storage_binding list"
  volume_coverages :: "volume_coverage list"
  volume_observations :: "volume_observation list"
  scan_runs :: "scan_run list"
  guests :: "guest list"
  guest_states :: "guest_inventory_state list"
  storage_consumers :: "storage_consumer list"
  scheduled_actions :: "scheduled_action list"
  scheduled_runs :: "scheduled_run list"
  membership_states :: "membership_state list"
  handoff_intents :: "handoff_intent list"
  node_states :: "node_state list"
  coverages :: "projection_coverage list"
  node_interfaces :: "node_interface list"
  enrollments :: "node_enrollment list"
  audit_events :: "audit_event list"
  scan_observations :: "scan_observation list"

text \<open>An installation with no rows.\<close>

definition empty_db :: db where
  "empty_db = \<lparr>clusters = [], credentials = [], trusts = [], endpoints = [], consoles = [],
     storage_mounts = [], catalog_states = [], storages = [], storage_node_states = [],
     storage_bindings = [], volume_coverages = [], volume_observations = [], scan_runs = [],
     guests = [], guest_states = [], storage_consumers = [], scheduled_actions = [],
     scheduled_runs = [], membership_states = [], handoff_intents = [], node_states = [],
     coverages = [], node_interfaces = [], enrollments = [], audit_events = [], scan_observations = []\<rparr>"

text \<open>\<open>ProxmoxCluster(key=..., display_name=...)\<close> with the defaults of the model's fields.\<close>

definition new_cluster :: "nat \<Rightarrow> string \<Rightarrow> string \<Rightarrow> cluster" where
  "new_cluster pk key name =
     \<lparr>cl_pk = pk, cl_key = key, cl_display_name = name, cl_enabled = True,
      cl_discovered_ca_uuid = [], cl_discovered_ca_fingerprint = [],
      cl_ingestion_quarantined = False, cl_quarantine_reason = [],
      cl_retired_at = None, cl_retired_by = None, cl_retirement_mode = [], cl_retirement_reason = [],
      cl_retired_ca_uuid = [], cl_retired_ca_fingerprint = [], cl_lifecycle_generation = 1,
      cl_operational_footprint_at = None, cl_operational_footprint_reason = [],
      cl_enrollment_contract_version = 0, cl_enrollment_generation = 0,
      cl_enrollment_activated_at = None, cl_enrollment_activated_by = None\<rparr>"

text \<open>The rows \<open>get_or_create\<close> inserts, with the defaults of their fields; a float is kept as its text.\<close>

definition new_guest :: "nat \<Rightarrow> string \<Rightarrow> nat \<Rightarrow> guest" where
  "new_guest pk object_type vmid =
     \<lparr>g_pk = 0, g_cluster = pk, g_node = [], g_object_type = object_type, g_vmid = vmid, g_name = [], g_status = [],
      g_published = True, g_based_on_enrollment_generation = 0, g_source_endpoint = None, g_source_scan = None,
      g_cpu_usage = ''0'', g_memory_used_bytes = 0, g_memory_max_bytes = 0, g_disk_used_bytes = 0, g_disk_max_bytes = 0,
      g_uptime_seconds = 0, g_runtime_lock = [], g_pool = [], g_ha_state = [], g_agent_info = JObj [],
      g_agent_observed_at = None, g_config = JObj [], g_config_complete = True, g_disk_references = [],
      g_observed_at = 0, g_runtime_observed_at = None, g_config_observed_at = None\<rparr>"

definition new_guest_state :: "nat \<Rightarrow> guest_inventory_state" where
  "new_guest_state pk =
     \<lparr>gs_pk = 0, gs_cluster = pk, gs_complete = False, gs_refreshed_at = None, gs_last_complete_at = None,
      gs_source_scan = None, gs_unreachable = False, gs_endpoints_attempted = [], gs_endpoints_succeeded = [],
      gs_covered_nodes = [], gs_errors = JObj [], gs_linked_clone_lineage = JObj []\<rparr>"

definition get_cluster :: "nat \<Rightarrow> db \<Rightarrow> cluster option" where
  "get_cluster pk d = first_where (\<lambda>c. cl_pk c = pk) (clusters d)"

definition update_cluster :: "nat \<Rightarrow> (cluster \<Rightarrow> cluster) \<Rightarrow> db \<Rightarrow> db" where
  "update_cluster pk f d = d\<lparr>clusters := update_where (\<lambda>c. cl_pk c = pk) f (clusters d)\<rparr>"

definition unique_clusters :: "db \<Rightarrow> bool" where
  "unique_clusters d = distinct (map cl_pk (clusters d))"

section \<open>Facts about querysets\<close>

named_theorems table_simps \<open>querysets: what a lookup, a count or a filter finds after a write\<close>

lemma update_where_length [simp]: "length (update_where P f rows) = length rows"
  by (simp add: update_where_def)

lemma update_where_Nil [simp]: "update_where P f [] = []"
  by (simp add: update_where_def)

lemma update_where_Cons [simp]: "update_where P f (r # rows) = (if P r then f r else r) # update_where P f rows"
  by (simp add: update_where_def)

lemma delete_where_Nil [simp]: "delete_where P [] = []"
  by (simp add: delete_where_def)

lemma delete_where_Cons [simp]:
  "delete_where P (r # rows) = (if P r then delete_where P rows else r # delete_where P rows)"
  by (simp add: delete_where_def)

lemma set_delete_where [table_simps]: "set (delete_where P rows) = {r \<in> set rows. \<not> P r}"
  by (auto simp: delete_where_def)

lemma exists_where_iff [table_simps]: "exists_where P rows \<longleftrightarrow> (\<exists>r\<in>set rows. P r)"
  by (auto simp: exists_where_def list_ex_iff)

lemma exists_where_delete [simp]: "\<not> exists_where P (delete_where P rows)"
  by (auto simp: exists_where_iff set_delete_where)

lemma filter_empty_iff: "filter P rows = [] \<longleftrightarrow> \<not> exists_where P rows"
  by (auto simp: exists_where_iff filter_empty_conv)

lemma count_where_0_iff [table_simps]: "count_where P rows = 0 \<longleftrightarrow> \<not> exists_where P rows"
  by (auto simp: count_where_def exists_where_iff filter_empty_conv)

lemma filter_update_where_frame:
  assumes "\<And>r. r \<in> set rows \<Longrightarrow> P r \<Longrightarrow> \<not> Q r \<and> \<not> Q (f r)"
  shows "filter Q (update_where P f rows) = filter Q rows"
  using assms by (induction rows) auto

lemma filter_delete_where_frame:
  assumes "\<And>r. r \<in> set rows \<Longrightarrow> P r \<Longrightarrow> \<not> Q r"
  shows "filter Q (delete_where P rows) = filter Q rows"
  using assms by (induction rows) auto

lemma exists_where_update:
  "exists_where Q (update_where P f rows) \<longleftrightarrow> (\<exists>r\<in>set rows. if P r then Q (f r) else Q r)"
  by (auto simp: exists_where_iff update_where_def)

lemma exists_where_Nil [simp]: "\<not> exists_where P []"
  by (simp add: exists_where_def)

lemma exists_where_Cons [simp]: "exists_where P (r # rows) \<longleftrightarrow> P r \<or> exists_where P rows"
  by (simp add: exists_where_def)

lemma exists_where_update_stable:
  "(\<And>r. Q (f r) = Q r) \<Longrightarrow> exists_where Q (update_where P f rows) = exists_where Q rows"
  by (induction rows) auto

lemma map_update_where:
  "(\<And>r. g (f r) = g r) \<Longrightarrow> map g (update_where P f rows) = map g rows"
  by (induction rows) auto

lemma first_where_Some_iff:
  "first_where P rows = Some r \<Longrightarrow> r \<in> set rows \<and> P r"
  by (auto simp: first_where_def find_Some_iff)

lemma first_where_None_iff: "first_where P rows = None \<longleftrightarrow> \<not> exists_where P rows"
  by (auto simp: first_where_def find_None_iff exists_where_iff)

lemma first_where_update_same:
  assumes "\<And>r. P (f r) = P r"
  shows "first_where P (update_where P f rows) = map_option f (first_where P rows)"
  using assms by (induction rows) (auto simp: first_where_def)

lemma first_where_update_other:
  assumes "\<And>r. Q r \<Longrightarrow> \<not> P r \<and> \<not> P (f r)"
  shows "first_where P (update_where Q f rows) = first_where P rows"
  using assms by (induction rows) (auto simp: first_where_def)

lemma first_where_cong_rows:
  "filter P rows = filter P rows' \<Longrightarrow> first_where P rows = first_where P rows'"
proof -
  have hd: "first_where P xs = (case filter P xs of [] \<Rightarrow> None | x # _ \<Rightarrow> Some x)" for xs
    by (induction xs) (auto simp: first_where_def)
  show "filter P rows = filter P rows' \<Longrightarrow> ?thesis" by (simp add: hd)
qed

lemma update_where_none: "\<not> exists_where P rows \<Longrightarrow> update_where P f rows = rows"
  by (induction rows) (auto simp: exists_where_iff)

lemma update_where_cong:
  assumes "\<And>r. r \<in> set rows \<Longrightarrow> (if P r then f r else r) = (if Q r then g r else r)"
  shows "update_where P f rows = update_where Q g rows"
  using assms by (simp add: update_where_def)

lemma distinct_map_unique:
  "distinct (map pk rows) \<Longrightarrow> x \<in> set rows \<Longrightarrow> y \<in> set rows \<Longrightarrow> pk x = pk y \<Longrightarrow> x = y"
  by (auto simp: distinct_map dest: inj_onD)

lemma next_pk_fresh: "r \<in> set rows \<Longrightarrow> pk r < next_pk pk rows"
  by (induction rows) (auto simp: next_pk_def max_def split: if_splits)

lemma get_cluster_update_same:
  "(\<And>c. cl_pk (f c) = cl_pk c) \<Longrightarrow> get_cluster pk (update_cluster pk f d) = map_option f (get_cluster pk d)"
  by (simp add: get_cluster_def update_cluster_def first_where_update_same)

lemma get_cluster_update_other:
  "pk' \<noteq> pk \<Longrightarrow> (\<And>c. cl_pk (f c) = cl_pk c) \<Longrightarrow> get_cluster pk' (update_cluster pk f d) = get_cluster pk' d"
  unfolding get_cluster_def update_cluster_def by (auto intro!: first_where_update_other)

lemma get_cluster_pk: "get_cluster pk d = Some c \<Longrightarrow> cl_pk c = pk"
  by (auto simp: get_cluster_def dest: first_where_Some_iff)

lemma mode_value_inject [simp]: "mode_value a = mode_value b \<longleftrightarrow> a = b"
  by (cases a; cases b) auto

text \<open>Reading back what an upsert wrote.\<close>

lemma first_where_Nil [simp]: "first_where P [] = None"
  by (simp add: first_where_def)

lemma first_where_Cons [simp]: "first_where P (r # rows) = (if P r then Some r else first_where P rows)"
  by (simp add: first_where_def)

lemma first_where_append:
  "first_where P (xs @ ys) = (case first_where P xs of None \<Rightarrow> first_where P ys | Some r \<Rightarrow> Some r)"
  by (induction xs) auto

lemma first_where_update_hit:
  assumes "\<And>r. P r \<Longrightarrow> P (f r)"
  shows "first_where P (update_where P f rows) = map_option f (first_where P rows)"
  using assms by (induction rows) auto

lemma first_where_upsert:
  assumes "\<And>r. P r \<Longrightarrow> P (f r)" and "P new"
  shows "first_where P (upsert_where P new f rows) =
    Some (f (case first_where P rows of None \<Rightarrow> new | Some r \<Rightarrow> r))"
proof (cases "first_where P rows")
  case None
  then have "\<not> exists_where P rows" by (simp add: first_where_None_iff)
  with None show ?thesis
    using assms by (simp add: upsert_where_def first_where_append)
next
  case (Some r)
  then have "exists_where P rows" using first_where_None_iff [of P rows] by auto
  with Some show ?thesis
    using assms by (simp add: upsert_where_def first_where_update_hit)
qed

lemma filter_upsert_frame:
  assumes "\<And>r. P r \<Longrightarrow> \<not> Q r" and "\<And>r. P r \<Longrightarrow> P (f r)" and "P new"
  shows "filter Q (upsert_where P new f rows) = filter Q rows"
  using assms by (auto simp: upsert_where_def intro!: filter_update_where_frame)

lemma set_upsert_where:
  "set (upsert_where P new f rows) =
     (\<lambda>r. if P r then f r else r) ` set rows \<union> (if exists_where P rows then {} else {f new})"
  by (auto simp: upsert_where_def update_where_def exists_where_iff)

lemma in_update_whereE:
  assumes "n \<in> set (update_where P f rows)"
  obtains (updated) r where "r \<in> set rows" "P r" "n = f r" | (kept) "n \<in> set rows" "\<not> P n"
  using assms by (auto simp: update_where_def split: if_splits)

lemma in_upsert_whereE:
  assumes "n \<in> set (upsert_where P new f rows)"
  obtains (saved) r where "r = new \<or> r \<in> set rows \<and> P r" "n = f r" | (kept) "n \<in> set rows" "\<not> P n"
  using assms
  by (auto simp: upsert_where_def exists_where_iff elim!: in_update_whereE split: if_splits)

lemma exists_where_upsert:
  "exists_where Q rows \<Longrightarrow> (\<And>r. Q r \<Longrightarrow> Q (f r)) \<Longrightarrow> exists_where Q (upsert_where P new f rows)"
  by (auto simp: upsert_where_def exists_where_update) (auto simp: exists_where_iff)

lemma upsert_distinct_key:
  assumes "distinct (map k rows)" and "\<And>r. P r \<longleftrightarrow> k r = k new" and "\<And>r. k (f r) = k r"
  shows "distinct (map k (upsert_where P new f rows))"
  using assms by (auto simp: upsert_where_def map_update_where exists_where_iff)

end
