(* ===== verification/Cluster_Footprint.thy ===== *)
theory Cluster_Footprint
  imports Models
begin

text \<open>
  The operational-footprint marker of \<^verbatim>\<open>core/services/cluster_footprint.py\<close>: when a
  connection was first used and the strongest reason for remembering it. Deletion of an
  unused connection depends on this marker never being lost or weakened.
\<close>

definition FOOTPRINT_PROVIDER_OPERATION :: string where
  "FOOTPRINT_PROVIDER_OPERATION = ''provider_operation''"

definition FOOTPRINT_HOST_PROJECTION :: string where
  "FOOTPRINT_HOST_PROJECTION = ''host_projection''"

definition FOOTPRINT_CONSOLE_SESSION :: string where
  "FOOTPRINT_CONSOLE_SESSION = ''console_session''"

definition FOOTPRINT_INVENTORY_BOOTSTRAP :: string where
  "FOOTPRINT_INVENTORY_BOOTSTRAP = ''inventory_bootstrap''"

definition OPERATOR_FOOTPRINT_REASONS :: "string list" where
  "OPERATOR_FOOTPRINT_REASONS = [FOOTPRINT_PROVIDER_OPERATION, FOOTPRINT_CONSOLE_SESSION]"

definition RECONSTRUCTIBLE_FOOTPRINT_REASONS :: "string list" where
  "RECONSTRUCTIBLE_FOOTPRINT_REASONS =
     [''scan_observation'', ''guest_projection'', ''storage_projection'',
      FOOTPRINT_HOST_PROJECTION, FOOTPRINT_INVENTORY_BOOTSTRAP]"

text \<open>
  The caller passes a loaded row (\<open>Some\<close>, whose values may be stale) or a bare key. The
  result says whether this stamp set the marker.
\<close>

definition stamp_operational_footprint ::
    "cluster option \<Rightarrow> nat \<Rightarrow> string \<Rightarrow> time \<Rightarrow> db \<Rightarrow> bool \<times> db" where
  "stamp_operational_footprint loaded pk reason now d =
     (if (case loaded of None \<Rightarrow> False
          | Some c \<Rightarrow> cl_operational_footprint_at c \<noteq> None
                      \<and> cl_operational_footprint_reason c \<in> set OPERATOR_FOOTPRINT_REASONS)
      then (False, d)
      else
        let unset = (\<lambda>c. cl_pk c = pk \<and> cl_operational_footprint_at c = None);
            updated = count_where unset (clusters d);
            d1 = d\<lparr>clusters := update_where unset
                     (\<lambda>c. c\<lparr>cl_operational_footprint_at := Some now,
                            cl_operational_footprint_reason := reason\<rparr>) (clusters d)\<rparr>
        in if updated = 0 \<and> reason \<in> set OPERATOR_FOOTPRINT_REASONS
           then (False, d1\<lparr>clusters := update_where
                   (\<lambda>c. cl_pk c = pk \<and> cl_operational_footprint_reason c \<in> set RECONSTRUCTIBLE_FOOTPRINT_REASONS)
                   (\<lambda>c. c\<lparr>cl_operational_footprint_reason := reason\<rparr>) (clusters d1)\<rparr>)
           else (0 < updated, d1))"

section \<open>Facts\<close>

lemmas footprint_reason_defs =
  OPERATOR_FOOTPRINT_REASONS_def RECONSTRUCTIBLE_FOOTPRINT_REASONS_def
  FOOTPRINT_PROVIDER_OPERATION_def FOOTPRINT_HOST_PROJECTION_def
  FOOTPRINT_CONSOLE_SESSION_def FOOTPRINT_INVENTORY_BOOTSTRAP_def

text \<open>The effect of one stamp on one row.\<close>

definition stamp_row :: "string \<Rightarrow> time \<Rightarrow> cluster \<Rightarrow> cluster" where
  "stamp_row reason now c =
     (if cl_operational_footprint_at c = None
      then c\<lparr>cl_operational_footprint_at := Some now, cl_operational_footprint_reason := reason\<rparr>
      else if reason \<in> set OPERATOR_FOOTPRINT_REASONS
              \<and> cl_operational_footprint_reason c \<in> set RECONSTRUCTIBLE_FOOTPRINT_REASONS
      then c\<lparr>cl_operational_footprint_reason := reason\<rparr> else c)"

lemma stamp_row_pk [simp]: "cl_pk (stamp_row reason now c) = cl_pk c"
  by (simp add: stamp_row_def)

lemma stamp_row_frame [simp]:
  "cl_key (stamp_row reason now c) = cl_key c"
  "cl_enabled (stamp_row reason now c) = cl_enabled c"
  "cl_display_name (stamp_row reason now c) = cl_display_name c"
  "cl_retired_at (stamp_row reason now c) = cl_retired_at c"
  "cl_retirement_mode (stamp_row reason now c) = cl_retirement_mode c"
  "cl_discovered_ca_uuid (stamp_row reason now c) = cl_discovered_ca_uuid c"
  "cl_discovered_ca_fingerprint (stamp_row reason now c) = cl_discovered_ca_fingerprint c"
  "cl_lifecycle_generation (stamp_row reason now c) = cl_lifecycle_generation c"
  by (simp_all add: stamp_row_def)

text \<open>With one row per key, a stamp by key is \<^const>\<open>stamp_row\<close> on that row.\<close>

lemma stamp_by_key:
  assumes "unique_clusters d"
  shows "snd (stamp_operational_footprint None pk reason now d) = update_cluster pk (stamp_row reason now) d"
proof -
  let ?unset = "\<lambda>c. cl_pk c = pk \<and> cl_operational_footprint_at c = None"
  have distinct: "distinct (map cl_pk (clusters d))" using assms by (simp add: unique_clusters_def)
  show ?thesis
  proof (cases "exists_where ?unset (clusters d)")
    case True
    then obtain c where c: "c \<in> set (clusters d)" "?unset c" by (auto simp: exists_where_iff)
    have unset: "cl_operational_footprint_at x = None" if "x \<in> set (clusters d)" "cl_pk x = pk" for x
    proof -
      have "x = c" using that c by (intro distinct_map_unique [OF distinct, of x c]) simp_all
      with c show ?thesis by simp
    qed
    have "update_where ?unset (\<lambda>c. c\<lparr>cl_operational_footprint_at := Some now, cl_operational_footprint_reason := reason\<rparr>) (clusters d)
        = update_where (\<lambda>c. cl_pk c = pk) (stamp_row reason now) (clusters d)"
      using unset by (intro update_where_cong) (auto simp: stamp_row_def)
    with True show ?thesis
      by (simp add: stamp_operational_footprint_def update_cluster_def Let_def count_where_0_iff)
  next
    case False
    have set_rows: "cl_operational_footprint_at x \<noteq> None" if "x \<in> set (clusters d)" "cl_pk x = pk" for x
      using False that by (auto simp: exists_where_iff)
    have "update_where (\<lambda>c. cl_pk c = pk \<and> cl_operational_footprint_reason c \<in> set RECONSTRUCTIBLE_FOOTPRINT_REASONS)
        (\<lambda>c. c\<lparr>cl_operational_footprint_reason := reason\<rparr>) (clusters d)
        = update_where (\<lambda>c. cl_pk c = pk) (stamp_row reason now) (clusters d)"
      if "reason \<in> set OPERATOR_FOOTPRINT_REASONS"
      using that by (intro update_where_cong) (auto simp: stamp_row_def set_rows)
    moreover have "update_where (\<lambda>c. cl_pk c = pk) (stamp_row reason now) (clusters d) = clusters d"
      if "reason \<notin> set OPERATOR_FOOTPRINT_REASONS"
    proof -
      have "update_where (\<lambda>c. cl_pk c = pk) (stamp_row reason now) (clusters d)
          = update_where (\<lambda>_. False) id (clusters d)"
        using that by (intro update_where_cong) (auto simp: stamp_row_def set_rows)
      then show ?thesis by (simp add: update_where_def)
    qed
    ultimately show ?thesis
      using False
      by (auto simp: stamp_operational_footprint_def update_cluster_def Let_def count_where_0_iff update_where_none)
  qed
qed

lemma stamp_changes_clusters_only:
  "\<exists>cs. snd (stamp_operational_footprint loaded pk reason now d) = d\<lparr>clusters := cs\<rparr>"
  by (cases d) (auto simp: stamp_operational_footprint_def Let_def)

lemma stamp_cluster_pks [simp]:
  "map cl_pk (clusters (snd (stamp_operational_footprint loaded pk reason now d))) = map cl_pk (clusters d)"
  by (simp add: stamp_operational_footprint_def Let_def map_update_where)

lemma unique_clusters_update:
  "(\<And>c. cl_pk (f c) = cl_pk c) \<Longrightarrow> unique_clusters (update_cluster pk f d) = unique_clusters d"
  by (simp add: unique_clusters_def update_cluster_def map_update_where)

text \<open>A history of stamps on one connection.\<close>

fun stamp_all :: "nat \<Rightarrow> (string \<times> time) list \<Rightarrow> db \<Rightarrow> db" where
  "stamp_all pk [] d = d"
| "stamp_all pk ((reason, now) # rest) d =
     stamp_all pk rest (snd (stamp_operational_footprint None pk reason now d))"

definition strongest_reason :: "string \<Rightarrow> string list \<Rightarrow> string" where
  "strongest_reason r1 rs =
     (if r1 \<in> set RECONSTRUCTIBLE_FOOTPRINT_REASONS
      then (case filter (\<lambda>r. r \<in> set OPERATOR_FOOTPRINT_REASONS) rs of [] \<Rightarrow> r1 | r # _ \<Rightarrow> r)
      else r1)"

lemma reasons_disjoint:
  "r \<in> set OPERATOR_FOOTPRINT_REASONS \<Longrightarrow> r \<notin> set RECONSTRUCTIBLE_FOOTPRINT_REASONS"
  by (auto simp: footprint_reason_defs)

lemma stamp_all_marked:
  assumes "unique_clusters d" "get_cluster pk d = Some c"
    "cl_operational_footprint_at c = Some t"
  shows "map_option (\<lambda>c. (cl_operational_footprint_at c, cl_operational_footprint_reason c))
           (get_cluster pk (stamp_all pk stamps d))
         = Some (Some t, strongest_reason (cl_operational_footprint_reason c) (map fst stamps))"
  using assms
proof (induction stamps arbitrary: d c)
  case Nil
  then show ?case by (simp add: strongest_reason_def)
next
  case (Cons st stamps)
  obtain reason now where st: "st = (reason, now)" by (cases st)
  let ?d = "update_cluster pk (stamp_row reason now) d"
  have u: "unique_clusters ?d" using Cons.prems(1) by (simp add: unique_clusters_update)
  have g: "get_cluster pk ?d = Some (stamp_row reason now c)"
    using Cons.prems(2) by (simp add: get_cluster_update_same)
  have at: "cl_operational_footprint_at (stamp_row reason now c) = Some t"
    using Cons.prems(3) by (simp add: stamp_row_def)
  have "strongest_reason (cl_operational_footprint_reason (stamp_row reason now c)) (map fst stamps)
      = strongest_reason (cl_operational_footprint_reason c) (reason # map fst stamps)"
    using Cons.prems(3) reasons_disjoint [of reason]
    by (auto simp: stamp_row_def strongest_reason_def)
  with Cons.IH [OF u g at] show ?case
    by (simp add: st stamp_by_key [OF Cons.prems(1)])
qed

section \<open>Properties\<close>



end
