(* ===== verification/Retirement_Participant.thy ===== *)
theory Retirement_Participant
  imports Models
begin

text \<open>
  The contract between the cluster-retirement coordinator and the owners of in-flight work
  (scheduled runs, console sessions, audit operations). Each owner classifies its open rows,
  says whether a retirement mode may resolve them, and terminalizes them. The coordinator
  relies on nothing else.
\<close>

section \<open>Constants the owners share\<close>

definition CODE_RETIRED_BEFORE_START :: string where
  "CODE_RETIRED_BEFORE_START = ''cluster_retired_before_start''"

definition CODE_FORCE_RETIRED_UNRESOLVABLE :: string where
  "CODE_FORCE_RETIRED_UNRESOLVABLE = ''cluster_force_retired_unresolvable''"

text \<open>The number of participants an owner names in its result.\<close>

definition RETIREMENT_DETAIL_LIMIT :: nat where
  "RETIREMENT_DETAIL_LIMIT = 100"

text \<open>\<open>_retirement_mode\<close>: \<open>None\<close> is \<open>ValueError\<close>.\<close>

definition parse_retirement_mode :: "string \<Rightarrow> retirement_mode option" where
  "parse_retirement_mode s =
     (if s = ''verified'' then Some VERIFIED else if s = ''forced'' then Some FORCED else None)"

lemma parse_retirement_mode_value [simp]: "parse_retirement_mode (mode_value m) = Some m"
  by (cases m) (simp_all add: parse_retirement_mode_def)

lemma parse_retirement_mode_Some: "parse_retirement_mode s = Some m \<longleftrightarrow> s = mode_value m"
  by (cases m) (auto simp: parse_retirement_mode_def)

section \<open>The contract\<close>

locale retirement_participant =
  fixes wf :: "db \<Rightarrow> bool"
    and gate :: "nat \<Rightarrow> retirement_mode \<Rightarrow> db \<Rightarrow> bool"
    and open_rows :: "nat \<Rightarrow> db \<Rightarrow> nat list"
    and others :: "nat \<Rightarrow> db \<Rightarrow> db"
    and finalize :: "nat \<Rightarrow> retirement_mode \<Rightarrow> time \<Rightarrow> db \<Rightarrow> ('e, 'res \<times> db) result"
  assumes finalize_iff: "wf d \<Longrightarrow> (\<exists>out. finalize pk m now d = Inr out) \<longleftrightarrow> gate pk m d"
    and finalize_terminal: "wf d \<Longrightarrow> finalize pk m now d = Inr (res, d') \<Longrightarrow> open_rows pk d' = []"
    and finalize_wf: "wf d \<Longrightarrow> finalize pk m now d = Inr (res, d') \<Longrightarrow> wf d'"
    and finalize_frame: "wf d \<Longrightarrow> finalize pk m now d = Inr (res, d') \<Longrightarrow> others pk d' = others pk d"
    and no_open_gate: "wf d \<Longrightarrow> open_rows pk d = [] \<Longrightarrow> gate pk m d"
begin

text \<open>Once an owner has finalized, its gate is clear for every mode, and it can be run again.\<close>

lemma finalize_clears_gate:
  "wf d \<Longrightarrow> finalize pk m now d = Inr (res, d') \<Longrightarrow> gate pk m' d'"
  using finalize_terminal finalize_wf no_open_gate by blast

lemma finalize_again:
  "wf d \<Longrightarrow> finalize pk m now d = Inr (res, d') \<Longrightarrow> \<exists>out. finalize pk m' now' d' = Inr out"
  using finalize_clears_gate finalize_wf finalize_iff by blast

text \<open>The gate is decided before anything is written: a refusal is known in advance.\<close>

lemma finalize_refused_iff: "wf d \<Longrightarrow> (\<exists>e. finalize pk m now d = Inl e) \<longleftrightarrow> \<not> gate pk m d"
  using finalize_iff [of d pk m now] by (cases "finalize pk m now d") auto

end

end
