(* ===== verification/Audit_Events.thy ===== *)
theory Audit_Events
  imports Refs Cluster_Footprint Retirement_Participant
begin

text \<open>
  \<^verbatim>\<open>core/services/audit_events.py\<close>: module classification and normalized creation of audit
  events, and the owner side of cluster retirement for provider operations that are still
  queued or running.
\<close>

section \<open>Registered actions\<close>

definition CLUSTER_CONFIGURATION_AUDIT_ACTIONS :: "string list" where
  "CLUSTER_CONFIGURATION_AUDIT_ACTIONS =
     [''cluster.add'', ''cluster.added'', ''cluster.credential.cutover'', ''cluster.credential.rotate'',
      ''cluster.credential.set'', ''cluster.credential_removed'', ''cluster.credential_rotated'',
      ''cluster.disabled'', ''cluster.display_name_changed'', ''cluster.enabled'',
      ''cluster.endpoint_added'', ''cluster.endpoint_disabled'', ''cluster.endpoint_enabled'',
      ''cluster.force_retired'', ''cluster.identity.reapprove'', ''cluster.identity_reapproved'',
      ''cluster.initial_key.set'', ''cluster.node.enrolled'', ''cluster.node.enrollment_failed'',
      ''cluster.node.mode_changed'', ''cluster.node.removed'', ''cluster.retired'',
      ''cluster.retirement_preflight_identity_mismatch'', ''cluster.retirement_refused'',
      ''cluster.retirement_verification_failed'', ''cluster.transport.approve'', ''cluster.trust.cutover'',
      ''cluster.topology_handoff_completed'', ''cluster.topology_handoff_storage_applied'',
      ''cluster.topology_handoff_storage_refused'', ''cluster.topology_membership_recovered'',
      ''cluster.topology_pending_repaired'', ''cluster.topology_transition_detected'',
      ''cluster.topology_transition_withdrawn'', ''cluster.unused_connection_deleted'', ''cluster.updated'']"

definition CLUSTER_OPERATOR_INITIATED_AUDIT_ACTIONS :: "string list" where
  "CLUSTER_OPERATOR_INITIATED_AUDIT_ACTIONS =
     [''cluster.host_projection.refresh'', ''storage.catalog.refresh'', ''tag.bulk_operation'',
      ''tag.inventory.refresh'']"

definition MACHINE_INITIATED_FOOTPRINT_REASONS :: "(string \<times> string) list" where
  "MACHINE_INITIATED_FOOTPRINT_REASONS = [(''cluster.inventory.bootstrap'', FOOTPRINT_INVENTORY_BOOTSTRAP)]"

definition CLUSTER_PROVIDER_AUDIT_ACTIONS :: "string list" where
  "CLUSTER_PROVIDER_AUDIT_ACTIONS =
     CLUSTER_OPERATOR_INITIATED_AUDIT_ACTIONS @ map fst MACHINE_INITIATED_FOOTPRINT_REASONS"

definition RETIREMENT_ACTIVE_OUTCOMES :: "string list" where
  "RETIREMENT_ACTIVE_OUTCOMES = [''queued'', ''running'']"

definition RETIREMENT_TERMINAL_OUTCOMES :: "string list" where
  "RETIREMENT_TERMINAL_OUTCOMES =
     [''cancelled'', ''failed'', ''failure'', ''missed'', ''refused'', ''skipped'', ''success'', ''warning'']"

definition is_provider_action :: "string \<Rightarrow> bool" where
  "is_provider_action action =
     (action \<in> set CLUSTER_PROVIDER_AUDIT_ACTIONS \<or> list_ex (\<lambda>p. starts_with p action) [''guest.''])"

section \<open>Recording\<close>

definition audit_module_key :: "string \<Rightarrow> string \<Rightarrow> json_object \<Rightarrow> string" where
  "audit_module_key action object_type details =
     (if starts_with ''auth.'' action then ''auth''
      else if starts_with ''network.'' action \<or> starts_with ''network'' object_type then ''network''
      else if starts_with ''vm.'' action \<or> starts_with ''scheduled_action.'' action
              \<or> object_type \<in> {''vm'', ''ct'', ''guest'', ''scheduled_action'', ''scheduled_action_run''}
           then ''vms''
      else if starts_with ''cluster.'' action \<or> starts_with ''cluster'' object_type then ''clusters''
      else if starts_with ''scan.'' action \<or> starts_with ''file.'' action \<or> starts_with ''trash.'' action
              \<or> object_type \<in> {''scan_run'', ''scan_schedule'', ''storage'', ''file''}
              \<or> (case map_of details ''target_storage'' of
                   None \<Rightarrow> False
                 | Some v \<Rightarrow> truthy v)
           then ''storage''
      else ''system'')"

record actor =
  ac_pk :: nat
  ac_is_authenticated :: bool
  ac_username :: string

record request =
  rq_user :: "actor option"
  rq_client_ip :: "string option"

text \<open>The keyword arguments of \<open>record_audit_event\<close>.\<close>

record audit_args =
  aa_request :: "request option"
  aa_user :: "actor option"
  aa_username :: string
  aa_source_ip :: "string option"
  aa_action :: string
  aa_object_type :: string
  aa_object_id :: string
  aa_outcome :: string
  aa_details :: json_object
  aa_system_username :: string
  aa_cluster :: "cluster option"
  aa_cluster_key_snapshot :: string
  aa_guest_ref :: "guest_ref option"
  aa_node_ref :: "node_ref option"

definition audit_call :: "string \<Rightarrow> audit_args" where
  "audit_call action =
     \<lparr>aa_request = None, aa_user = None, aa_username = [], aa_source_ip = None, aa_action = action,
      aa_object_type = [], aa_object_id = [], aa_outcome = ''success'', aa_details = [],
      aa_system_username = [], aa_cluster = None, aa_cluster_key_snapshot = [],
      aa_guest_ref = None, aa_node_ref = None\<rparr>"

datatype audit_error = NodesDisagree | ClusterKeyDisagrees | BadNodeRef ref_error

text \<open>Who the event is attributed to: user, username and source address.\<close>

definition resolve_actor :: "audit_args \<Rightarrow> nat option \<times> string \<times> string option" where
  "resolve_actor a =
     (let authenticated = (\<lambda>u. case u of Some v \<Rightarrow> if ac_is_authenticated v then Some v else None | None \<Rightarrow> None);
          named = (\<lambda>v. if aa_username a = [] then ac_username v else aa_username a)
      in case aa_request a of
        Some rq \<Rightarrow>
          (case authenticated (rq_user rq) of
             Some u \<Rightarrow> (Some (ac_pk u), ac_username u, rq_client_ip rq)
           | None \<Rightarrow>
               (case authenticated (aa_user a) of
                  Some v \<Rightarrow> (Some (ac_pk v), named v, rq_client_ip rq)
                | None \<Rightarrow> (None, if aa_system_username a \<noteq> [] then aa_system_username a else aa_username a,
                            rq_client_ip rq)))
      | None \<Rightarrow>
          (case authenticated (aa_user a) of
             Some v \<Rightarrow> (Some (ac_pk v), named v, aa_source_ip a)
           | None \<Rightarrow> (None, aa_username a, aa_source_ip a)))"

text \<open>The references of the call: object id, details and cluster key snapshot.\<close>

definition resolve_refs :: "audit_args \<Rightarrow> (audit_error, string \<times> json_object \<times> string) result" where
  "resolve_refs a =
     bind_result
       (case aa_guest_ref a of
          None \<Rightarrow> Inr (aa_object_id a, aa_details a, aa_cluster_key_snapshot a, aa_node_ref a)
        | Some g \<Rightarrow>
            bind_result (map_error BadNodeRef (guest_node_ref g)) (\<lambda>gn.
              if aa_node_ref a \<noteq> None \<and> gn \<noteq> None \<and> gn \<noteq> aa_node_ref a then Inl NodesDisagree
              else Inr (serialize_guest_ref True (without_node g),
                        json_update (aa_details a) [(''guest_ref'', JStr (serialize_guest_ref True g))],
                        if aa_cluster_key_snapshot a \<noteq> [] then aa_cluster_key_snapshot a else gr_cluster_key g,
                        if aa_node_ref a \<noteq> None then aa_node_ref a else gn)))
       (\<lambda>(oid, details, key, node).
          case node of
            None \<Rightarrow> Inr (oid, details, key)
          | Some n \<Rightarrow> Inr (oid, json_update details [(''node_ref'', JStr (serialize_node_ref n))],
                           if key \<noteq> [] then key else nr_cluster_key n))"

definition record_audit_event :: "time \<Rightarrow> audit_args \<Rightarrow> db \<Rightarrow> (audit_error, audit_event \<times> db) result" where
  "record_audit_event now a d =
     bind_result (resolve_refs a) (\<lambda>(oid, details, key0).
       bind_result
         (case aa_cluster a of
            Some c \<Rightarrow> if key0 \<noteq> [] \<and> cl_key c \<noteq> key0 then Inl ClusterKeyDisagrees else Inr (Some c, cl_key c)
          | None \<Rightarrow> Inr (if key0 \<noteq> [] then first_where (\<lambda>c. cl_key c = key0) (clusters d) else None, key0))
         (\<lambda>(cluster, key).
           let (user, username, ip) = resolve_actor a;
               event = \<lparr>ae_pk = next_pk ae_pk (audit_events d), ae_user = user, ae_username = username,
                        ae_source_ip = ip, ae_action = aa_action a, ae_object_type = aa_object_type a,
                        ae_object_id = oid, ae_outcome = aa_outcome a,
                        ae_module = audit_module_key (aa_action a) (aa_object_type a) details,
                        ae_cluster = map_option cl_pk cluster, ae_cluster_key_snapshot = key,
                        ae_details = JObj details\<rparr>;
               d1 = d\<lparr>audit_events := audit_events d @ [event]\<rparr>
           in Inr (event,
                case cluster of
                  None \<Rightarrow> d1
                | Some c \<Rightarrow>
                    if aa_action a \<in> set CLUSTER_CONFIGURATION_AUDIT_ACTIONS then d1
                    else snd (stamp_operational_footprint (Some c) (cl_pk c)
                           (case map_of MACHINE_INITIATED_FOOTPRINT_REASONS (aa_action a) of
                              None \<Rightarrow> FOOTPRINT_PROVIDER_OPERATION | Some r \<Rightarrow> r) now d1))))"

section \<open>Facts about recording\<close>

text \<open>
  An event of a registered configuration action that names a loaded cluster and no reference
  is always recorded: it appends one row and touches nothing else.
\<close>

lemma record_keyed_configuration_event:
  assumes "aa_cluster a = Some c" "aa_guest_ref a = None" "aa_node_ref a = None"
    and "aa_cluster_key_snapshot a \<in> {[], cl_key c}"
    and "aa_action a \<in> set CLUSTER_CONFIGURATION_AUDIT_ACTIONS"
  shows "\<exists>e. record_audit_event now a d = Inr (e, d\<lparr>audit_events := audit_events d @ [e]\<rparr>)
    \<and> ae_action e = aa_action a \<and> ae_outcome e = aa_outcome a \<and> ae_cluster e = Some (cl_pk c)
    \<and> ae_object_id e = aa_object_id a \<and> ae_details e = JObj (aa_details a)
    \<and> ae_username e = fst (snd (resolve_actor a)) \<and> ae_pk e = next_pk ae_pk (audit_events d)"
  using assms by (cases "resolve_actor a") (auto simp: record_audit_event_def resolve_refs_def Let_def)

lemma record_configuration_event:
  assumes "aa_cluster a = Some c" "aa_guest_ref a = None" "aa_node_ref a = None" "aa_cluster_key_snapshot a = []"
    and "aa_action a \<in> set CLUSTER_CONFIGURATION_AUDIT_ACTIONS"
  shows "\<exists>e. record_audit_event now a d = Inr (e, d\<lparr>audit_events := audit_events d @ [e]\<rparr>)
    \<and> ae_action e = aa_action a \<and> ae_outcome e = aa_outcome a \<and> ae_cluster e = Some (cl_pk c)
    \<and> ae_object_id e = aa_object_id a \<and> ae_details e = JObj (aa_details a)
    \<and> ae_username e = fst (snd (resolve_actor a)) \<and> ae_pk e = next_pk ae_pk (audit_events d)"
  using assms by (intro record_keyed_configuration_event) simp_all

lemma record_audit_event_effect:
  assumes "record_audit_event now a d = Inr (e, d')"
  shows "\<exists>cs. d' = d\<lparr>audit_events := audit_events d @ [e], clusters := cs\<rparr> \<and> map cl_pk cs = map cl_pk (clusters d)"
proof -
  let ?d1 = "d\<lparr>audit_events := audit_events d @ [e]\<rparr>"
  have stamped: "\<exists>cs. snd (stamp_operational_footprint l pk r now ?d1) = ?d1\<lparr>clusters := cs\<rparr> \<and> map cl_pk cs = map cl_pk (clusters d)" for l pk r
  proof -
    obtain cs where cs: "snd (stamp_operational_footprint l pk r now ?d1) = ?d1\<lparr>clusters := cs\<rparr>"
      using stamp_changes_clusters_only by blast
    with stamp_cluster_pks [of l pk r now ?d1] have "map cl_pk cs = map cl_pk (clusters d)" by simp
    with cs show ?thesis by blast
  qed
  obtain u n i where actor: "resolve_actor a = (u, n, i)" by (cases "resolve_actor a")
  from assms obtain oid details key0 cl key where
    "Inr (e, d') = (Inr (e, case cl of None \<Rightarrow> ?d1
       | Some c \<Rightarrow> if aa_action a \<in> set CLUSTER_CONFIGURATION_AUDIT_ACTIONS then ?d1
                   else snd (stamp_operational_footprint (Some c) (cl_pk c)
                     (case map_of MACHINE_INITIATED_FOOTPRINT_REASONS (aa_action a) of
                        None \<Rightarrow> FOOTPRINT_PROVIDER_OPERATION | Some r \<Rightarrow> r) now ?d1)) :: (audit_error, audit_event \<times> db) result)"
    unfolding record_audit_event_def
    by (auto simp: actor Let_def bind_result_Inr_iff split del: if_split)
  then show ?thesis
    using stamped by (cases cl) (auto intro: exI [of _ "clusters d"])
qed

lemma record_audit_event_frame:
  "record_audit_event now a d = Inr (e, d') \<Longrightarrow> \<exists>cs. d' = d\<lparr>audit_events := audit_events d @ [e], clusters := cs\<rparr>"
  using record_audit_event_effect by blast

lemma record_audit_event_pks:
  "record_audit_event now a d = Inr (e, d') \<Longrightarrow> map cl_pk (clusters d') = map cl_pk (clusters d)"
  using record_audit_event_effect by fastforce

section \<open>Retirement of audit operations\<close>

record audit_participant =
  ap_pk :: nat
  ap_action :: string
  ap_outcome :: string
  ap_object_type :: string
  ap_object_id :: string

record audit_preflight =
  apf_mode :: retirement_mode
  apf_queued_count :: nat
  apf_running_count :: nat
  apf_unknown_count :: int
  apf_participants :: "audit_participant list"
  apf_participant_count :: nat
  apf_participants_omitted :: int

definition audit_gate_clear :: "audit_preflight \<Rightarrow> bool" where
  "audit_gate_clear p =
     (apf_unknown_count p = 0 \<and> (apf_mode p = FORCED \<or> apf_running_count p = 0))"

record audit_retirement_result =
  arr_queued_cancelled :: nat
  arr_running_abandoned :: nat
  arr_participants :: "audit_participant list"
  arr_participant_count :: nat
  arr_participants_omitted :: int

text \<open>The rows of the candidate query.\<close>

definition audit_candidate :: "nat \<Rightarrow> audit_event \<Rightarrow> bool" where
  "audit_candidate pk e =
     (ae_cluster e = Some pk
      \<and> ae_action e \<notin> set CLUSTER_CONFIGURATION_AUDIT_ACTIONS
      \<and> (ae_outcome e \<in> set RETIREMENT_ACTIVE_OUTCOMES
         \<or> is_provider_action (ae_action e) \<and> ae_outcome e \<notin> set RETIREMENT_TERMINAL_OUTCOMES))"

definition audit_participant_of :: "audit_event \<Rightarrow> audit_participant" where
  "audit_participant_of e =
     \<lparr>ap_pk = ae_pk e, ap_action = ae_action e, ap_outcome = ae_outcome e,
      ap_object_type = ae_object_type e, ap_object_id = ae_object_id e\<rparr>"

text \<open>
  With \<open>lock\<close> the rows are read first and counted in Python; without it the database
  counts and only the first hundred rows are read.
\<close>

definition audit_retirement_preflight :: "nat \<Rightarrow> retirement_mode \<Rightarrow> bool \<Rightarrow> db \<Rightarrow> audit_preflight" where
  "audit_retirement_preflight pk mode lock d =
     (let candidates = sort_key ae_pk (filter (audit_candidate pk) (audit_events d));
          rows = (if lock then candidates else take RETIREMENT_DETAIL_LIMIT candidates);
          total = (if lock then length rows else count_where (audit_candidate pk) (audit_events d));
          queued = (if lock then length (filter (\<lambda>e. is_provider_action (ae_action e) \<and> ae_outcome e = ''queued'') rows)
                    else count_where (\<lambda>e. audit_candidate pk e \<and> is_provider_action (ae_action e) \<and> ae_outcome e = ''queued'')
                           (audit_events d));
          running = (if lock then length (filter (\<lambda>e. is_provider_action (ae_action e) \<and> ae_outcome e = ''running'') rows)
                     else count_where (\<lambda>e. audit_candidate pk e \<and> is_provider_action (ae_action e) \<and> ae_outcome e = ''running'')
                            (audit_events d));
          bounded = take RETIREMENT_DETAIL_LIMIT (map audit_participant_of rows)
      in \<lparr>apf_mode = mode, apf_queued_count = queued, apf_running_count = running,
          apf_unknown_count = int total - int queued - int running,
          apf_participants = bounded, apf_participant_count = total,
          apf_participants_omitted = int total - int (length bounded)\<rparr>)"

definition cancelled_event :: "string \<Rightarrow> time \<Rightarrow> audit_event \<Rightarrow> audit_event" where
  "cancelled_event code now e =
     e\<lparr>ae_outcome := ''cancelled'',
       ae_details := JObj (json_update (members (ae_details e))
         [(''stage'', JStr ''cancelled''), (''retirement_code'', JStr code), (''finished_at'', JTime now)])\<rparr>"

text \<open>The body of the loop over the participants: \<open>None\<close> is \<open>continue\<close>.\<close>

definition cancel_event :: "retirement_mode \<Rightarrow> time \<Rightarrow> audit_event \<Rightarrow> audit_event option" where
  "cancel_event mode now e =
     (if ae_outcome e = ''running'' then
        (if mode \<noteq> FORCED then None else Some (cancelled_event CODE_FORCE_RETIRED_UNRESOLVABLE now e))
      else if ae_outcome e = ''queued'' then
        Some (cancelled_event (if mode = FORCED then CODE_FORCE_RETIRED_UNRESOLVABLE else CODE_RETIRED_BEFORE_START) now e)
      else None)"

definition finalize_cluster_retirement_audit_operations ::
    "nat \<Rightarrow> retirement_mode \<Rightarrow> time \<Rightarrow> db \<Rightarrow> (audit_preflight, audit_retirement_result \<times> db) result" where
  "finalize_cluster_retirement_audit_operations pk mode now d =
     (let preflight = audit_retirement_preflight pk mode True d in
      if \<not> audit_gate_clear preflight then Inl preflight
      else
        let ids = (if apf_participants_omitted preflight \<noteq> 0
                   then map ae_pk (sort_key ae_pk (filter (\<lambda>e. ae_cluster e = Some pk \<and> is_provider_action (ae_action e)
                          \<and> ae_outcome e \<in> set RETIREMENT_ACTIVE_OUTCOMES) (audit_events d)))
                   else map ap_pk (apf_participants preflight));
            events = sort_key ae_pk (filter (\<lambda>e. ae_pk e \<in> set ids) (audit_events d));
            changed = filter (\<lambda>e. cancel_event mode now e \<noteq> None) events
        in Inr (\<lparr>arr_queued_cancelled = length (filter (\<lambda>e. ae_outcome e = ''queued'') changed),
                 arr_running_abandoned = length (filter (\<lambda>e. ae_outcome e = ''running'') changed),
                 arr_participants = apf_participants preflight,
                 arr_participant_count = apf_participant_count preflight,
                 arr_participants_omitted = apf_participants_omitted preflight\<rparr>,
                d\<lparr>audit_events := update_where (\<lambda>e. ae_pk e \<in> ae_pk ` set changed)
                     (\<lambda>e. case cancel_event mode now e of None \<Rightarrow> e | Some e' \<Rightarrow> e') (audit_events d)\<rparr>))"

section \<open>Facts about the audit owner\<close>

definition audit_wf :: "db \<Rightarrow> bool" where
  "audit_wf d = distinct (map ae_pk (audit_events d))"

definition audit_gate :: "nat \<Rightarrow> retirement_mode \<Rightarrow> db \<Rightarrow> bool" where
  "audit_gate pk mode d = audit_gate_clear (audit_retirement_preflight pk mode False d)"

definition audit_open_rows :: "nat \<Rightarrow> db \<Rightarrow> nat list" where
  "audit_open_rows pk d = map ae_pk (filter (audit_candidate pk) (audit_events d))"

text \<open>Everything but the audit rows of this cluster.\<close>

definition audit_others :: "nat \<Rightarrow> db \<Rightarrow> db" where
  "audit_others pk d = d\<lparr>audit_events := filter (\<lambda>e. ae_cluster e \<noteq> Some pk) (audit_events d)\<rparr>"

lemma audit_preflight_lock:
  "audit_retirement_preflight pk mode True d = audit_retirement_preflight pk mode False d"
  by (simp add: audit_retirement_preflight_def Let_def count_where_def filter_sort take_map conj_commute
      filter_filter [symmetric] del: filter_filter)

abbreviation operation_outcome :: "string \<Rightarrow> audit_event \<Rightarrow> bool" where
  "operation_outcome out e \<equiv> is_provider_action (ae_action e) \<and> ae_outcome e = out"

lemma audit_unknown_count:
  "apf_unknown_count (audit_retirement_preflight pk mode lock d) = 0 \<longleftrightarrow>
     (\<forall>e\<in>set (audit_events d). audit_candidate pk e \<longrightarrow>
        operation_outcome ''queued'' e \<or> operation_outcome ''running'' e)"
proof -
  let ?C = "filter (audit_candidate pk) (audit_events d)"
  have "int (length ?C) - int (length (filter (operation_outcome ''queued'') ?C))
      - int (length (filter (operation_outcome ''running'') ?C))
      = int (length (filter (\<lambda>e. \<not> operation_outcome ''queued'' e \<and> \<not> operation_outcome ''running'' e) ?C))"
    using length_filter_split [of "operation_outcome ''queued''" "operation_outcome ''running''" ?C] by auto
  moreover have "apf_unknown_count (audit_retirement_preflight pk mode False d) =
      int (length ?C) - int (length (filter (operation_outcome ''queued'') ?C))
      - int (length (filter (operation_outcome ''running'') ?C))"
    by (simp add: audit_retirement_preflight_def Let_def count_where_def conj_commute)
  ultimately show ?thesis
    using audit_preflight_lock by (cases lock) (auto simp: filter_empty_conv)
qed

lemma audit_running_count:
  "apf_running_count (audit_retirement_preflight pk mode lock d) = 0 \<longleftrightarrow>
     (\<forall>e\<in>set (audit_events d). audit_candidate pk e \<longrightarrow> \<not> operation_outcome ''running'' e)"
  using audit_preflight_lock
  by (cases lock) (auto simp: audit_retirement_preflight_def Let_def count_where_def filter_empty_conv)

lemma apf_mode_preflight [simp]: "apf_mode (audit_retirement_preflight pk mode lock d) = mode"
  by (simp add: audit_retirement_preflight_def Let_def)

lemma audit_gate_iff:
  "audit_gate pk mode d \<longleftrightarrow>
     (\<forall>e\<in>set (audit_events d). audit_candidate pk e \<longrightarrow>
        is_provider_action (ae_action e) \<and>
        (ae_outcome e = ''queued'' \<or> mode = FORCED \<and> ae_outcome e = ''running''))"
  by (auto simp: audit_gate_def audit_gate_clear_def audit_unknown_count audit_running_count)

lemma configuration_not_provider:
  "a \<in> set CLUSTER_CONFIGURATION_AUDIT_ACTIONS \<Longrightarrow> \<not> is_provider_action a"
  by (auto simp: CLUSTER_CONFIGURATION_AUDIT_ACTIONS_def is_provider_action_def starts_with_def
      CLUSTER_PROVIDER_AUDIT_ACTIONS_def CLUSTER_OPERATOR_INITIATED_AUDIT_ACTIONS_def
      MACHINE_INITIATED_FOOTPRINT_REASONS_def)

text \<open>The ids the finalizer collects are those of the candidates, also beyond the detail limit.\<close>

definition audit_participant_ids :: "nat \<Rightarrow> audit_preflight \<Rightarrow> db \<Rightarrow> nat list" where
  "audit_participant_ids pk preflight d =
     (if apf_participants_omitted preflight \<noteq> 0
      then map ae_pk (sort_key ae_pk (filter (\<lambda>e. ae_cluster e = Some pk \<and> is_provider_action (ae_action e)
             \<and> ae_outcome e \<in> set RETIREMENT_ACTIVE_OUTCOMES) (audit_events d)))
      else map ap_pk (apf_participants preflight))"

lemma audit_participant_ids_set:
  assumes "audit_gate pk mode d"
  shows "set (audit_participant_ids pk (audit_retirement_preflight pk mode True d) d) =
           ae_pk ` {e \<in> set (audit_events d). audit_candidate pk e}"
proof (cases "apf_participants_omitted (audit_retirement_preflight pk mode True d) = 0")
  case True
  let ?rows = "sort_key ae_pk (filter (audit_candidate pk) (audit_events d))"
  from True have "length ?rows \<le> RETIREMENT_DETAIL_LIMIT"
    by (simp add: audit_retirement_preflight_def Let_def)
  then have "apf_participants (audit_retirement_preflight pk mode True d) = map audit_participant_of ?rows"
    by (simp add: audit_retirement_preflight_def Let_def)
  with True show ?thesis
    by (auto simp: audit_participant_ids_def audit_participant_of_def)
next
  case False
  have "{e \<in> set (audit_events d). ae_cluster e = Some pk \<and> is_provider_action (ae_action e)
           \<and> ae_outcome e \<in> set RETIREMENT_ACTIVE_OUTCOMES}
      = {e \<in> set (audit_events d). audit_candidate pk e}"
    using assms configuration_not_provider
    by (auto simp: audit_gate_iff audit_candidate_def RETIREMENT_ACTIVE_OUTCOMES_def)
  with False show ?thesis by (auto simp: audit_participant_ids_def)
qed

lemma cancel_event_candidate:
  assumes "audit_gate pk mode d" "e \<in> set (audit_events d)" "audit_candidate pk e"
  shows "\<exists>e'. cancel_event mode now e = Some e' \<and> ae_outcome e' = ''cancelled'' \<and> ae_pk e' = ae_pk e
              \<and> ae_cluster e' = ae_cluster e"
  using assms by (auto simp: audit_gate_iff cancel_event_def cancelled_event_def)

lemma finalize_audit_effect:
  assumes wf: "audit_wf d" and gate: "audit_gate pk mode d"
  shows "\<exists>res. finalize_cluster_retirement_audit_operations pk mode now d =
     Inr (res, d\<lparr>audit_events := update_where (audit_candidate pk)
             (\<lambda>e. case cancel_event mode now e of None \<Rightarrow> e | Some e' \<Rightarrow> e') (audit_events d)\<rparr>)"
proof -
  let ?p = "audit_retirement_preflight pk mode True d"
  define changed where "changed = filter (\<lambda>e. cancel_event mode now e \<noteq> None)
    (sort_key ae_pk (filter (\<lambda>e. ae_pk e \<in> set (audit_participant_ids pk ?p d)) (audit_events d)))"
  have same: "x = y" if "x \<in> set (audit_events d)" "y \<in> set (audit_events d)" "ae_pk x = ae_pk y" for x y
    using wf that distinct_map_unique [of ae_pk "audit_events d" x y] by (simp add: audit_wf_def)
  have chosen: "ae_pk e \<in> ae_pk ` set changed \<longleftrightarrow> audit_candidate pk e" if e: "e \<in> set (audit_events d)" for e
  proof
    assume "ae_pk e \<in> ae_pk ` set changed"
    then have "ae_pk e \<in> set (audit_participant_ids pk ?p d)"
      unfolding changed_def by (elim imageE) simp
    then obtain y where y: "y \<in> set (audit_events d)" "audit_candidate pk y" "ae_pk y = ae_pk e"
      unfolding audit_participant_ids_set [OF gate] by auto
    then have "y = e" using e by (intro same)
    with y show "audit_candidate pk e" by simp
  next
    assume "audit_candidate pk e"
    then have "e \<in> set changed"
      using e cancel_event_candidate [OF gate e] by (auto simp: changed_def audit_participant_ids_set [OF gate])
    then show "ae_pk e \<in> ae_pk ` set changed" by simp
  qed
  have "update_where (\<lambda>e. ae_pk e \<in> ae_pk ` set changed) f (audit_events d)
      = update_where (audit_candidate pk) f (audit_events d)" for f
    using chosen by (intro update_where_cong) simp
  moreover have "audit_gate_clear ?p" using gate by (simp add: audit_gate_def audit_preflight_lock)
  ultimately show ?thesis
    by (simp add: finalize_cluster_retirement_audit_operations_def Let_def changed_def audit_participant_ids_def)
qed

lemma finalize_audit_refused:
  "\<not> audit_gate pk mode d \<Longrightarrow>
   finalize_cluster_retirement_audit_operations pk mode now d = Inl (audit_retirement_preflight pk mode True d)"
  by (simp add: finalize_cluster_retirement_audit_operations_def Let_def audit_gate_def audit_preflight_lock)

lemma finalize_audit_result:
  assumes "audit_wf d" "finalize_cluster_retirement_audit_operations pk mode now d = Inr (res, d')"
  shows "audit_gate pk mode d"
    and "d' = d\<lparr>audit_events := update_where (audit_candidate pk)
             (\<lambda>e. case cancel_event mode now e of None \<Rightarrow> e | Some e' \<Rightarrow> e') (audit_events d)\<rparr>"
proof -
  show gate: "audit_gate pk mode d"
    using assms(2) finalize_audit_refused by fastforce
  show "d' = d\<lparr>audit_events := update_where (audit_candidate pk)
             (\<lambda>e. case cancel_event mode now e of None \<Rightarrow> e | Some e' \<Rightarrow> e') (audit_events d)\<rparr>"
    using finalize_audit_effect [OF assms(1) gate, of now] assms(2) by auto
qed

interpretation audit_operations:
  retirement_participant audit_wf audit_gate audit_open_rows audit_others
    finalize_cluster_retirement_audit_operations
proof
  fix d pk m now
  assume wf: "audit_wf d"
  show "(\<exists>out. finalize_cluster_retirement_audit_operations pk m now d = Inr out) \<longleftrightarrow> audit_gate pk m d"
    using finalize_audit_effect [OF wf, of pk m now] finalize_audit_refused [of pk m d now]
    by (cases "audit_gate pk m d") auto
  show "audit_open_rows pk d = [] \<Longrightarrow> audit_gate pk m d"
    by (auto simp: audit_open_rows_def audit_gate_iff filter_empty_conv)
  fix res d'
  assume fin: "finalize_cluster_retirement_audit_operations pk m now d = Inr (res, d')"
  note gate = finalize_audit_result(1) [OF wf fin] and d' = finalize_audit_result(2) [OF wf fin]
  have pk_kept: "ae_pk (case cancel_event m now e of None \<Rightarrow> e | Some e' \<Rightarrow> e') = ae_pk e" for e
    by (auto simp: cancel_event_def cancelled_event_def)
  have cluster_kept: "ae_cluster (case cancel_event m now e of None \<Rightarrow> e | Some e' \<Rightarrow> e') = ae_cluster e" for e
    by (auto simp: cancel_event_def cancelled_event_def)
  have closed: "\<not> audit_candidate pk (case cancel_event m now e of None \<Rightarrow> e | Some e' \<Rightarrow> e')"
    if "e \<in> set (audit_events d)" "audit_candidate pk e" for e
    using cancel_event_candidate [OF gate that, of now]
    by (auto simp: audit_candidate_def RETIREMENT_ACTIVE_OUTCOMES_def RETIREMENT_TERMINAL_OUTCOMES_def)
  show "audit_open_rows pk d' = []"
    using closed by (auto simp: d' audit_open_rows_def filter_empty_conv update_where_def)
  show "audit_wf d'" using wf by (simp add: d' audit_wf_def map_update_where pk_kept)
  show "audit_others pk d' = audit_others pk d"
  proof -
    have "filter (\<lambda>e. ae_cluster e \<noteq> Some pk) (audit_events d') = filter (\<lambda>e. ae_cluster e \<noteq> Some pk) (audit_events d)"
      using cluster_kept by (auto simp: d' audit_candidate_def intro!: filter_update_where_frame)
    then show ?thesis by (simp add: audit_others_def d')
  qed
qed

end
