(* ===== verification/Console_Sessions.thy ===== *)
theory Console_Sessions
  imports Refs Cluster_Footprint Retirement_Participant
begin

text \<open>
  \<^verbatim>\<open>core/services/console_sessions.py\<close>: creation of a guest console session, and the owner
  side of cluster retirement, which closes the sessions a mode may close and removes every
  provider secret the cluster's sessions still hold.

  The Proxmox client is a parameter (\<open>post\<close>, with \<open>Inl\<close> the text of a \<open>ProxmoxAPIError\<close>), as are
  the random token, the SHA-256 digest and Python's \<open>repr\<close> of containers.
\<close>

section \<open>Retirement\<close>

definition PENDING_STATUSES :: "string list" where
  "PENDING_STATUSES = [''pending'']"

definition ACTIVE_STATUSES :: "string list" where
  "ACTIVE_STATUSES = [''connecting'', ''connected'']"

definition TERMINAL_STATUSES :: "string list" where
  "TERMINAL_STATUSES = [''closed'', ''failed'', ''expired'']"

record console_participant =
  cp_pk :: nat
  cp_status :: string
  cp_target_type :: string
  cp_target_vmid :: nat
  cp_target_node :: string

record console_preflight =
  cpf_mode :: retirement_mode
  cpf_pending_count :: nat
  cpf_active_count :: nat
  cpf_unknown_count :: int
  cpf_participants :: "console_participant list"
  cpf_participant_count :: nat
  cpf_participants_omitted :: int

definition console_gate_clear :: "console_preflight \<Rightarrow> bool" where
  "console_gate_clear p =
     (cpf_unknown_count p = 0 \<and> (cpf_mode p = FORCED \<or> cpf_active_count p = 0))"

record console_retirement_result =
  crr_pending_closed :: nat
  crr_active_closed :: nat
  crr_sessions_sanitized :: nat
  crr_participants :: "console_participant list"
  crr_participant_count :: nat
  crr_participants_omitted :: int

definition console_open :: "nat \<Rightarrow> console_session \<Rightarrow> bool" where
  "console_open pk c = (con_cluster c = Some pk \<and> con_status c \<notin> set TERMINAL_STATUSES)"

definition console_participant_of :: "console_session \<Rightarrow> console_participant" where
  "console_participant_of c =
     \<lparr>cp_pk = con_pk c, cp_status = con_status c, cp_target_type = con_target_type c,
      cp_target_vmid = con_target_vmid c, cp_target_node = con_target_node c\<rparr>"

definition console_retirement_preflight :: "nat \<Rightarrow> retirement_mode \<Rightarrow> bool \<Rightarrow> db \<Rightarrow> console_preflight" where
  "console_retirement_preflight pk mode lock d =
     (let sessions = sort_key con_pk (filter (console_open pk) (consoles d));
          rows = (if lock then sessions else take RETIREMENT_DETAIL_LIMIT sessions);
          total = (if lock then length rows else count_where (console_open pk) (consoles d));
          pending = (if lock then length (filter (\<lambda>c. con_status c \<in> set PENDING_STATUSES) rows)
                     else count_where (\<lambda>c. console_open pk c \<and> con_status c \<in> set PENDING_STATUSES) (consoles d));
          active = (if lock then length (filter (\<lambda>c. con_status c \<in> set ACTIVE_STATUSES) rows)
                    else count_where (\<lambda>c. console_open pk c \<and> con_status c \<in> set ACTIVE_STATUSES) (consoles d));
          bounded = take RETIREMENT_DETAIL_LIMIT (map console_participant_of rows)
      in \<lparr>cpf_mode = mode, cpf_pending_count = pending, cpf_active_count = active,
          cpf_unknown_count = int total - int pending - int active,
          cpf_participants = bounded, cpf_participant_count = total,
          cpf_participants_omitted = int total - int (length bounded)\<rparr>)"

definition sensitive :: "console_session \<Rightarrow> bool" where
  "sensitive c = (con_proxmox_ticket c \<noteq> [] \<or> con_proxmox_password c \<noteq> [] \<or> con_proxmox_endpoint c \<noteq> [])"

definition sanitized :: "console_session \<Rightarrow> console_session" where
  "sanitized c = c\<lparr>con_proxmox_ticket := [], con_proxmox_password := [], con_proxmox_endpoint := []\<rparr>"

definition closed_session :: "string \<Rightarrow> time \<Rightarrow> console_session \<Rightarrow> console_session" where
  "closed_session code now c =
     (sanitized c)\<lparr>con_status := ''closed'', con_closed_at := Some now, con_close_reason := code\<rparr>"

definition finalize_cluster_retirement_consoles ::
    "nat \<Rightarrow> retirement_mode \<Rightarrow> time \<Rightarrow> db \<Rightarrow> (console_preflight, console_retirement_result \<times> db) result" where
  "finalize_cluster_retirement_consoles pk mode now d =
     (let preflight = console_retirement_preflight pk mode True d in
      if \<not> console_gate_clear preflight then Inl preflight
      else
        let own = (\<lambda>c. con_cluster c = Some pk);
            sessions_sanitized = count_where (\<lambda>c. own c \<and> sensitive c) (consoles d);
            pending = (\<lambda>c. own c \<and> con_status c \<in> set PENDING_STATUSES);
            rows1 = update_where pending (closed_session CODE_RETIRED_BEFORE_START now) (consoles d);
            active = (\<lambda>c. own c \<and> con_status c \<in> set ACTIVE_STATUSES);
            rows2 = (if mode = FORCED
                     then update_where active (closed_session CODE_FORCE_RETIRED_UNRESOLVABLE now) rows1 else rows1);
            rows3 = update_where (\<lambda>c. own c \<and> sensitive c) sanitized rows2
        in Inr (\<lparr>crr_pending_closed = count_where pending (consoles d),
                 crr_active_closed = (if mode = FORCED then count_where active rows1 else 0),
                 crr_sessions_sanitized = sessions_sanitized,
                 crr_participants = cpf_participants preflight,
                 crr_participant_count = cpf_participant_count preflight,
                 crr_participants_omitted = cpf_participants_omitted preflight\<rparr>,
                d\<lparr>consoles := rows3\<rparr>))"

section \<open>Creation\<close>

record guest_detail =
  gd_object_type :: string
  gd_node :: string
  gd_status :: string
  gd_vmid :: nat
  gd_name :: string
  gd_cluster :: "cluster option"
  gd_guest_ref :: "guest_ref option"

record console_client =
  cc_endpoint :: string
  cc_token_id :: "string option"

type_synonym console_post = "console_client \<Rightarrow> string \<Rightarrow> json \<Rightarrow> (string, json) result"

record console_env =
  env_console_enabled :: bool
  env_ttl_seconds :: int
  env_clients :: "cluster \<Rightarrow> (string, console_client list) result"
  env_post :: console_post
  env_token :: string
  env_token_hash :: "string \<Rightarrow> string"
  env_repr :: "json \<Rightarrow> string"
  env_user :: "(nat \<times> string) option"
  env_source_ip :: "string option"

record console_session_result =
  csr_session :: console_session
  csr_token :: string
  csr_password :: string
  csr_console_type :: string

text \<open>The loop over the candidate clients: the first usable answer, or the last error.\<close>

fun first_answer ::
    "(console_client \<Rightarrow> (string, json) result) \<Rightarrow> console_client list \<Rightarrow> string
      \<Rightarrow> (string, console_client \<times> json_object) result" where
  "first_answer ask [] last_error = Inl last_error"
| "first_answer ask (c # cs) last_error =
     (case ask c of
        Inl e \<Rightarrow> first_answer ask cs e
      | Inr (JObj ms) \<Rightarrow> Inr (c, ms)
      | Inr _ \<Rightarrow> first_answer ask cs ''Unexpected vncproxy response.'')"

definition console_candidates :: "console_env \<Rightarrow> guest_detail \<Rightarrow> (string, console_client list) result" where
  "console_candidates env g =
     (case (gd_cluster g, gd_guest_ref g) of
        (Some c, Some r) \<Rightarrow>
          if cl_key c \<noteq> gr_cluster_key r then Inl ''Console target is missing cluster-qualified identity.''
          else env_clients env c
      | _ \<Rightarrow> Inl ''Console target is missing cluster-qualified identity.'')"

definition console_path :: "guest_detail \<Rightarrow> string" where
  "console_path g =
     (let vm = gd_object_type g = ''vm'' in
      ''nodes/'' @ quote (gd_node g) @ ''/'' @ (if vm then ''qemu'' else ''lxc'') @ ''/''
        @ show_nat (gd_vmid g) @ ''/'' @ (if vm then ''vncproxy'' else ''termproxy''))"

text \<open>The refusals before any provider call, in the order of the code.\<close>

definition console_refusal :: "console_env \<Rightarrow> guest_detail \<Rightarrow> string option" where
  "console_refusal env g =
     (if \<not> env_console_enabled env then Some ''Console access is disabled.''
      else if gd_object_type g \<notin> {''vm'', ''ct''}
      then Some ''Integrated console is available for VMs and containers only.''
      else if gd_node g = [] then Some ''The guest's node could not be resolved.''
      else if gd_status g \<noteq> ''running'' then Some ''The guest must be running before a console can be opened.''
      else None)"

definition console_type :: "guest_detail \<Rightarrow> string" where
  "console_type g = (if gd_object_type g = ''vm'' then ''novnc'' else ''xterm'')"

definition console_answer :: "console_env \<Rightarrow> guest_detail \<Rightarrow> (string, console_client \<times> json_object) result" where
  "console_answer env g =
     (let data = (if gd_object_type g = ''vm'' then JObj [(''websocket'', JInt 1)] else JNull);
          ask = (\<lambda>c. env_post env c (console_path g) data)
      in case console_candidates env g of
           Inl e \<Rightarrow> first_answer ask [] e
         | Inr cs \<Rightarrow> first_answer ask cs ''No Proxmox endpoint could create a console session.'')"

text \<open>The row handed to \<open>ConsoleSession.objects.create\<close>, from the client that answered and its answer.\<close>

definition answer_ticket :: "(string \<Rightarrow> string) \<Rightarrow> string" where
  "answer_ticket text = (if text ''ticket'' \<noteq> [] then text ''ticket'' else text ''vncticket'')"

definition answer_user :: "console_client \<Rightarrow> (string \<Rightarrow> string) \<Rightarrow> string" where
  "answer_user client text =
     (if text ''user'' \<noteq> [] then text ''user''
      else case cc_token_id client of None \<Rightarrow> [] | Some t \<Rightarrow> takeWhile (\<lambda>c. c \<noteq> CHR ''!'') t)"

definition console_row ::
    "console_env \<Rightarrow> guest_detail \<Rightarrow> time \<Rightarrow> nat \<Rightarrow> console_client \<Rightarrow> json_object \<Rightarrow> console_session" where
  "console_row env g now pk client response =
     (let text = (\<lambda>k. text_or_empty (env_repr env) (map_of response k)) in
      \<lparr>con_pk = pk, con_token_hash = env_token_hash env (env_token env),
       con_cluster = map_option cl_pk (gd_cluster g), con_target_type = gd_object_type g,
       con_target_vmid = gd_vmid g, con_target_node = gd_node g,
       con_target_name_snapshot = gd_name g, con_created_by = map_option fst (env_user env),
       con_username = (case env_user env of None \<Rightarrow> [] | Some (_, n) \<Rightarrow> n),
       con_source_ip = env_source_ip env,
       con_expires_at = now + max (env_ttl_seconds env) 5 * 1000000,
       con_closed_at = None, con_status = ''pending'',
       con_proxmox_endpoint = cc_endpoint client, con_proxmox_node = gd_node g,
       con_proxmox_upid = text ''upid'', con_proxmox_port = text ''port'',
       con_proxmox_ticket = answer_ticket text, con_proxmox_password = text ''password'',
       con_close_reason = [],
       con_details = JObj [(''cert_present'', JBool (case map_of response ''cert'' of None \<Rightarrow> False | Some v \<Rightarrow> truthy v)),
                           (''console_type'', JStr (console_type g)),
                           (''proxmox_user'', JStr (answer_user client text))]\<rparr>)"

definition create_guest_console_session ::
    "console_env \<Rightarrow> guest_detail \<Rightarrow> time \<Rightarrow> db \<Rightarrow> (string, console_session_result \<times> db) result" where
  "create_guest_console_session env g now d =
     (case console_refusal env g of
        Some e \<Rightarrow> Inl e
      | None \<Rightarrow>
          bind_result (console_answer env g) (\<lambda>(client, response).
            let session = console_row env g now (next_pk con_pk (consoles d)) client response;
                d1 = d\<lparr>consoles := consoles d @ [session]\<rparr>
            in if con_proxmox_port session = [] \<or> con_proxmox_ticket session = []
               then Inl ''Proxmox did not return a usable console ticket.''
               else Inr (\<lparr>csr_session = session, csr_token = env_token env,
                          csr_password = con_proxmox_password session, csr_console_type = console_type g\<rparr>,
                         case gd_cluster g of
                           None \<Rightarrow> d1
                         | Some c \<Rightarrow> snd (stamp_operational_footprint (Some c) (cl_pk c) FOOTPRINT_CONSOLE_SESSION now d1))))"

section \<open>Facts about retirement\<close>

lemmas console_status_defs = PENDING_STATUSES_def ACTIVE_STATUSES_def TERMINAL_STATUSES_def

definition console_gate :: "nat \<Rightarrow> retirement_mode \<Rightarrow> db \<Rightarrow> bool" where
  "console_gate pk mode d = console_gate_clear (console_retirement_preflight pk mode False d)"

definition console_open_rows :: "nat \<Rightarrow> db \<Rightarrow> nat list" where
  "console_open_rows pk d = map con_pk (filter (console_open pk) (consoles d))"

definition console_others :: "nat \<Rightarrow> db \<Rightarrow> db" where
  "console_others pk d = d\<lparr>consoles := filter (\<lambda>c. con_cluster c \<noteq> Some pk) (consoles d)\<rparr>"

lemma console_preflight_lock:
  "console_retirement_preflight pk mode True d = console_retirement_preflight pk mode False d"
  by (simp add: console_retirement_preflight_def Let_def count_where_def filter_sort take_map conj_commute
      filter_filter [symmetric] del: filter_filter)

lemma console_gate_iff:
  "console_gate pk mode d \<longleftrightarrow>
     (\<forall>c\<in>set (consoles d). console_open pk c \<longrightarrow>
        con_status c \<in> set PENDING_STATUSES \<or> mode = FORCED \<and> con_status c \<in> set ACTIVE_STATUSES)"
proof -
  let ?C = "filter (console_open pk) (consoles d)"
  let ?P = "\<lambda>c. con_status c \<in> set PENDING_STATUSES" and ?A = "\<lambda>c. con_status c \<in> set ACTIVE_STATUSES"
  have disjoint: "\<not> (?P c \<and> ?A c)" for c by (auto simp: console_status_defs)
  have "int (length ?C) - int (length (filter ?P ?C)) - int (length (filter ?A ?C))
      = int (length (filter (\<lambda>c. \<not> ?P c \<and> \<not> ?A c) ?C))"
    using length_filter_split [of ?P ?A ?C, OF disjoint] by linarith
  then show ?thesis
    by (auto simp: console_gate_def console_gate_clear_def console_retirement_preflight_def Let_def
        count_where_def conj_commute filter_empty_conv simp flip: filter_filter)
qed

text \<open>What the finalizer does to one session of the cluster.\<close>

definition retired_session :: "retirement_mode \<Rightarrow> time \<Rightarrow> console_session \<Rightarrow> console_session" where
  "retired_session mode now c =
     (if con_status c \<in> set PENDING_STATUSES then closed_session CODE_RETIRED_BEFORE_START now c
      else if mode = FORCED \<and> con_status c \<in> set ACTIVE_STATUSES then closed_session CODE_FORCE_RETIRED_UNRESOLVABLE now c
      else sanitized c)"

lemma sanitized_idem: "\<not> sensitive c \<Longrightarrow> sanitized c = c"
  by (cases c) (simp add: sensitive_def sanitized_def)

lemma retired_session_row:
  "con_cluster (retired_session mode now c) = con_cluster c"
  "con_pk (retired_session mode now c) = con_pk c"
  "\<not> sensitive (retired_session mode now c)"
  by (auto simp: retired_session_def closed_session_def sanitized_def sensitive_def)

lemma closed_session_row:
  "con_cluster (closed_session code now c) = con_cluster c"
  "con_status (closed_session code now c) = ''closed''"
  "\<not> sensitive (closed_session code now c)"
  by (simp_all add: closed_session_def sanitized_def sensitive_def)

text \<open>The three updates in a row, on one session.\<close>

definition close_pending :: "nat \<Rightarrow> time \<Rightarrow> console_session \<Rightarrow> console_session" where
  "close_pending pk now c =
     (if con_cluster c = Some pk \<and> con_status c \<in> set PENDING_STATUSES
      then closed_session CODE_RETIRED_BEFORE_START now c else c)"

definition close_active :: "nat \<Rightarrow> time \<Rightarrow> console_session \<Rightarrow> console_session" where
  "close_active pk now c =
     (if con_cluster c = Some pk \<and> con_status c \<in> set ACTIVE_STATUSES
      then closed_session CODE_FORCE_RETIRED_UNRESOLVABLE now c else c)"

definition sanitize_own :: "nat \<Rightarrow> console_session \<Rightarrow> console_session" where
  "sanitize_own pk c = (if con_cluster c = Some pk \<and> sensitive c then sanitized c else c)"

lemma retired_session_steps:
  "sanitize_own pk ((if mode = FORCED then close_active pk now else id) (close_pending pk now c)) =
     (if con_cluster c = Some pk then retired_session mode now c else c)"
  by (simp add: sanitize_own_def close_active_def close_pending_def retired_session_def closed_session_row
      sanitized_idem console_status_defs)

lemma finalize_consoles_effect:
  assumes "console_gate pk mode d"
  shows "\<exists>res. finalize_cluster_retirement_consoles pk mode now d =
    Inr (res, d\<lparr>consoles := update_where (\<lambda>c. con_cluster c = Some pk) (retired_session mode now) (consoles d)\<rparr>)"
proof -
  have clear: "console_gate_clear (console_retirement_preflight pk mode True d)"
    using assms by (simp add: console_gate_def console_preflight_lock)
  have "map (sanitize_own pk) (map (if mode = FORCED then close_active pk now else id) (map (close_pending pk now) rows))
    = update_where (\<lambda>c. con_cluster c = Some pk) (retired_session mode now) rows" for rows
    unfolding map_map update_where_def by (rule map_cong [OF refl]) (simp only: o_def retired_session_steps)
  with clear show ?thesis
    by (cases mode)
      (simp_all add: finalize_cluster_retirement_consoles_def Let_def update_where_def sanitize_own_def [abs_def]
        close_active_def [abs_def] close_pending_def [abs_def] del: map_map)
qed

lemma finalize_consoles_refused:
  "\<not> console_gate pk mode d \<Longrightarrow>
   finalize_cluster_retirement_consoles pk mode now d = Inl (console_retirement_preflight pk mode True d)"
  by (simp add: finalize_cluster_retirement_consoles_def Let_def console_gate_def console_preflight_lock)

lemma finalize_consoles_result:
  assumes "finalize_cluster_retirement_consoles pk mode now d = Inr (res, d')"
  shows "console_gate pk mode d"
    and "d' = d\<lparr>consoles := update_where (\<lambda>c. con_cluster c = Some pk) (retired_session mode now) (consoles d)\<rparr>"
proof -
  show gate: "console_gate pk mode d" using assms finalize_consoles_refused by fastforce
  show "d' = d\<lparr>consoles := update_where (\<lambda>c. con_cluster c = Some pk) (retired_session mode now) (consoles d)\<rparr>"
    using finalize_consoles_effect [OF gate, of now] assms by auto
qed

lemma retired_session_closed:
  assumes "console_gate pk mode d" "c \<in> set (consoles d)" "con_cluster c = Some pk"
  shows "\<not> console_open pk (retired_session mode now c)"
  using assms
  by (auto simp: console_gate_iff console_open_def retired_session_def closed_session_def sanitized_def console_status_defs)

lemma console_open_own: "console_open pk c \<Longrightarrow> con_cluster c = Some pk"
  by (simp add: console_open_def)

interpretation console_sessions:
  retirement_participant "\<lambda>_. True" console_gate console_open_rows console_others
    finalize_cluster_retirement_consoles
proof
  fix d pk m now
  show "(\<exists>out. finalize_cluster_retirement_consoles pk m now d = Inr out) \<longleftrightarrow> console_gate pk m d"
    using finalize_consoles_effect [of pk m d now] finalize_consoles_refused [of pk m d now]
    by (cases "console_gate pk m d") auto
  show "console_open_rows pk d = [] \<Longrightarrow> console_gate pk m d"
    by (auto simp: console_open_rows_def console_gate_iff filter_empty_conv)
  fix res d'
  assume fin: "finalize_cluster_retirement_consoles pk m now d = Inr (res, d')"
  note gate = finalize_consoles_result(1) [OF fin] and d' = finalize_consoles_result(2) [OF fin]
  show "console_open_rows pk d' = []"
    using retired_session_closed [OF gate]
    by (auto simp: d' console_open_rows_def filter_empty_iff exists_where_update dest: console_open_own split: if_splits)
  have "filter (\<lambda>c. con_cluster c \<noteq> Some pk) (consoles d') = filter (\<lambda>c. con_cluster c \<noteq> Some pk) (consoles d)"
    by (auto simp: d' retired_session_row intro!: filter_update_where_frame)
  then show "console_others pk d' = console_others pk d" by (simp add: console_others_def d')
qed simp_all

section \<open>Facts about creation\<close>

lemma first_answer_Inr:
  "first_answer ask cs e = Inr (c, ms) \<Longrightarrow> c \<in> set cs"
  by (induction cs arbitrary: e) (auto split: sum.splits json.splits)

lemma console_candidates_cluster:
  "console_candidates env g = Inr cs \<Longrightarrow>
   \<exists>c r. gd_cluster g = Some c \<and> gd_guest_ref g = Some r \<and> cl_key c = gr_cluster_key r \<and> env_clients env c = Inr cs"
  by (auto simp: console_candidates_def split: option.splits if_splits)

lemma console_answer_client:
  "console_answer env g = Inr (client, response) \<Longrightarrow>
   \<exists>c r cs. gd_cluster g = Some c \<and> gd_guest_ref g = Some r \<and> cl_key c = gr_cluster_key r
     \<and> env_clients env c = Inr cs \<and> client \<in> set cs"
  by (auto simp: console_answer_def Let_def split: sum.splits dest!: console_candidates_cluster first_answer_Inr)

lemma console_refusal_None:
  "console_refusal env g = None \<longleftrightarrow>
     env_console_enabled env \<and> gd_object_type g \<in> {''vm'', ''ct''} \<and> gd_node g \<noteq> [] \<and> gd_status g = ''running''"
  by (simp add: console_refusal_def)

text \<open>A created session, unfolded once: what the guards, the loop and the ticket check let through.\<close>

lemma create_console_session_Inr:
  assumes "create_guest_console_session env g now d = Inr (res, d')"
  obtains client response c where
    "console_refusal env g = None" "console_answer env g = Inr (client, response)" "gd_cluster g = Some c"
    "csr_session res = console_row env g now (next_pk con_pk (consoles d)) client response"
    "con_proxmox_port (csr_session res) \<noteq> []" "con_proxmox_ticket (csr_session res) \<noteq> []"
    "d' = snd (stamp_operational_footprint (Some c) (cl_pk c) FOOTPRINT_CONSOLE_SESSION now
              (d\<lparr>consoles := consoles d @ [csr_session res]\<rparr>))"
proof -
  from assms have none: "console_refusal env g = None"
    by (simp add: create_guest_console_session_def split: option.splits)
  with assms obtain client response where ans: "console_answer env g = Inr (client, response)"
    by (auto simp: create_guest_console_session_def bind_result_Inr_iff)
  then obtain c where c: "gd_cluster g = Some c" using console_answer_client by blast
  show ?thesis
    using assms that [OF none ans c]
    by (simp add: create_guest_console_session_def none ans c Let_def result_simps split: if_splits) auto
qed

section \<open>Properties\<close>

text \<open>
  C27: After a cluster's consoles have been finalized for retirement, no session of that
  cluster is open and none holds a Proxmox ticket, password or endpoint, whatever state it
  was in before; and nothing but that cluster's sessions has changed.
\<close>

theorem retired_consoles_hold_no_secret:
  assumes "finalize_cluster_retirement_consoles pk mode now d = Inr (res, d')"
  shows "(\<forall>c\<in>set (consoles d'). con_cluster c = Some pk \<longrightarrow>
            con_status c \<in> set TERMINAL_STATUSES \<and> \<not> sensitive c)
         \<and> console_others pk d' = console_others pk d"
proof
  note d' = finalize_consoles_result(2) [OF assms]
  have "\<not> exists_where (console_open pk) (consoles d')"
    using console_sessions.finalize_terminal [OF _ assms] by (simp add: console_open_rows_def filter_empty_iff)
  moreover have "\<not> sensitive c" if "c \<in> set (consoles d')" "con_cluster c = Some pk" for c
    using that retired_session_row by (auto simp: d' update_where_def)
  ultimately show "\<forall>c\<in>set (consoles d'). con_cluster c = Some pk \<longrightarrow>
      con_status c \<in> set TERMINAL_STATUSES \<and> \<not> sensitive c"
    by (auto simp: exists_where_iff console_open_def)
  show "console_others pk d' = console_others pk d"
    using console_sessions.finalize_frame [OF _ assms] by simp
qed

definition example_session :: "nat \<Rightarrow> string \<Rightarrow> console_session" where
  "example_session pk status =
     \<lparr>con_pk = pk, con_token_hash = [], con_cluster = Some 1, con_target_type = ''vm'', con_target_vmid = 100,
      con_target_node = ''pve1'', con_target_name_snapshot = [], con_created_by = None, con_username = [],
      con_source_ip = None, con_expires_at = 0, con_closed_at = None, con_status = status,
      con_proxmox_endpoint = ''https://pve1'', con_proxmox_node = ''pve1'', con_proxmox_upid = [],
      con_proxmox_port = ''5900'', con_proxmox_ticket = ''T'', con_proxmox_password = ''P'',
      con_close_reason = [], con_details = JNull\<rparr>"

theorem retired_consoles_hold_no_secret_witness:
  "case finalize_cluster_retirement_consoles 1 FORCED 5
          (empty_db\<lparr>consoles := [example_session 1 ''connected'', example_session 2 ''closed'']\<rparr>) of
     Inl e \<Rightarrow> False
   | Inr (res, d') \<Rightarrow> \<forall>c\<in>set (consoles d'). con_cluster c = Some 1 \<longrightarrow>
                        con_status c \<in> set TERMINAL_STATUSES \<and> \<not> sensitive c"
proof -
  let ?d = "empty_db\<lparr>consoles := [example_session 1 ''connected'', example_session 2 ''closed'']\<rparr>"
  have "console_gate 1 FORCED ?d"
    by (simp add: console_gate_iff console_open_def console_status_defs example_session_def)
  then obtain res d' where fin: "finalize_cluster_retirement_consoles 1 FORCED 5 ?d = Inr (res, d')"
    using finalize_consoles_effect by blast
  from retired_consoles_hold_no_secret [OF fin] fin show ?thesis by simp
qed

text \<open>
  A console session is only ever opened in the guest's own cluster: creation succeeds only
  for a running VM or container whose loaded cluster carries the key of its guest reference,
  through one of that cluster's own clients, and the stored session names that cluster, holds a
  usable port and ticket, starts out pending and expires no sooner than five seconds later.
  Creation never changes an existing session and never loses the footprint marker.
\<close>

theorem console_pinned_to_guest_cluster:
  assumes "create_guest_console_session env g now d = Inr (res, d')"
  shows "\<exists>c r cs client.
      gd_cluster g = Some c \<and> gd_guest_ref g = Some r \<and> cl_key c = gr_cluster_key r
    \<and> env_clients env c = Inr cs \<and> client \<in> set cs
    \<and> gd_object_type g \<in> {''vm'', ''ct''} \<and> gd_status g = ''running''
    \<and> con_cluster (csr_session res) = Some (cl_pk c)
    \<and> con_proxmox_endpoint (csr_session res) = cc_endpoint client
    \<and> con_proxmox_port (csr_session res) \<noteq> [] \<and> con_proxmox_ticket (csr_session res) \<noteq> []
    \<and> con_status (csr_session res) = ''pending''
    \<and> now + 5000000 \<le> con_expires_at (csr_session res)
    \<and> consoles d' = consoles d @ [csr_session res]
    \<and> con_pk (csr_session res) \<notin> con_pk ` set (consoles d)"
proof -
  have fresh: "next_pk con_pk (consoles d) \<notin> con_pk ` set (consoles d)"
    using next_pk_fresh [of _ "consoles d" con_pk] by fastforce
  have keep: "consoles (snd (stamp_operational_footprint l pk reason now d1)) = consoles d1" for l pk reason d1
    using stamp_changes_clusters_only [of l pk reason now d1] by auto
  from assms obtain client response c where
    none: "console_refusal env g = None" and ans: "console_answer env g = Inr (client, response)"
    and c: "gd_cluster g = Some c"
    and row: "csr_session res = console_row env g now (next_pk con_pk (consoles d)) client response"
    and ticket: "con_proxmox_port (csr_session res) \<noteq> []" "con_proxmox_ticket (csr_session res) \<noteq> []"
    and d': "d' = snd (stamp_operational_footprint (Some c) (cl_pk c) FOOTPRINT_CONSOLE_SESSION now
              (d\<lparr>consoles := consoles d @ [csr_session res]\<rparr>))"
    by (rule create_console_session_Inr)
  from console_answer_client [OF ans] c obtain r cs where
    cl: "gd_guest_ref g = Some r" "cl_key c = gr_cluster_key r" "env_clients env c = Inr cs" "client \<in> set cs"
    by auto
  have stored: "consoles d' = consoles d @ [csr_session res]" by (simp add: d' keep)
  show ?thesis
    using none ticket fresh
    by (intro exI [of _ c] exI [of _ r] exI [of _ cs] exI [of _ client])
      (auto simp: c cl stored row console_refusal_None console_row_def Let_def)
qed

definition example_guest :: guest_detail where
  "example_guest =
     \<lparr>gd_object_type = ''vm'', gd_node = ''pve1'', gd_status = ''running'', gd_vmid = 100, gd_name = ''web'',
      gd_cluster = Some (new_cluster 1 ''lab'' ''Lab''),
      gd_guest_ref = Some \<lparr>gr_cluster_key = ''lab'', gr_object_type = ''vm'', gr_vmid = 100, gr_node = ''pve1''\<rparr>\<rparr>"

definition example_env :: console_env where
  "example_env =
     \<lparr>env_console_enabled = True, env_ttl_seconds = 60,
      env_clients = (\<lambda>c. Inr [\<lparr>cc_endpoint = ''https://pve1'', cc_token_id = Some ''root@pam!t''\<rparr>]),
      env_post = (\<lambda>c path data. Inr (JObj [(''port'', JInt 5900), (''ticket'', JStr ''T'')])),
      env_token = ''t'', env_token_hash = id, env_repr = (\<lambda>_. []), env_user = None, env_source_ip = None\<rparr>"

theorem console_pinned_to_guest_cluster_witness:
  "case create_guest_console_session example_env example_guest 0 empty_db of
     Inl e \<Rightarrow> False
   | Inr (res, d') \<Rightarrow> con_cluster (csr_session res) = Some 1 \<and> 5000000 \<le> con_expires_at (csr_session res)"
proof (cases "create_guest_console_session example_env example_guest 0 empty_db")
  case (Inl e)
  then show ?thesis
    by (simp add: create_guest_console_session_def console_refusal_def console_answer_def console_candidates_def
        example_env_def example_guest_def new_cluster_def empty_db_def console_row_def Let_def result_simps
        text_or_empty_def answer_ticket_def show_int_def)
next
  case (Inr out)
  then obtain res d' where eq: "create_guest_console_session example_env example_guest 0 empty_db = Inr (res, d')"
    by (cases out) auto
  from console_pinned_to_guest_cluster [OF eq] eq show ?thesis
    by (auto simp: example_guest_def new_cluster_def)
qed

end
