(* ===== verification/Scheduled_Retirement.thy ===== *)
theory Scheduled_Retirement
  imports Retirement_Participant
begin

text \<open>
  The scheduled-action owner's part in retirement, \<^verbatim>\<open>core/services/scheduled_actions.py\<close>: the
  classification of a cluster's unfinished runs, the gate, and the finalizer that deletes the
  schedules and terminalizes the runs.
\<close>

section \<open>Statuses\<close>

definition IN_FLIGHT_RUN_STATUSES :: "string list" where
  "IN_FLIGHT_RUN_STATUSES = [''queued'', ''preflight'', ''submitted'', ''polling'']"

definition NOT_STARTED_RUN_STATUSES :: "string list" where
  "NOT_STARTED_RUN_STATUSES = [''queued'', ''preflight'']"

definition ACTIVE_RUN_STATUSES :: "string list" where
  "ACTIVE_RUN_STATUSES = [''submitted'', ''polling'']"

definition TERMINAL_RUN_STATUSES :: "string list" where
  "TERMINAL_RUN_STATUSES =
     [''completed'', ''failed'', ''skipped'', ''missed'', ''timeout'', ''stale'', ''cancelled'']"

lemmas run_status_defs = IN_FLIGHT_RUN_STATUSES_def NOT_STARTED_RUN_STATUSES_def ACTIVE_RUN_STATUSES_def
  TERMINAL_RUN_STATUSES_def

section \<open>Preflight and finalizer\<close>

record run_participant =
  rp_pk :: nat
  rp_scheduled_action_id :: nat
  rp_status :: string

record schedule_preflight =
  spf_mode :: retirement_mode
  spf_active_schedule_count :: nat
  spf_not_started_run_count :: nat
  spf_active_run_count :: nat
  spf_unknown_run_count :: int
  spf_participants :: "run_participant list"
  spf_participant_count :: nat
  spf_participants_omitted :: int

definition schedule_gate_clear :: "schedule_preflight \<Rightarrow> bool" where
  "schedule_gate_clear p =
     (spf_unknown_run_count p = 0 \<and> (spf_mode p = FORCED \<or> spf_active_run_count p = 0))"

record schedule_retirement_result =
  srr_schedules_deleted :: nat
  srr_not_started_runs_cancelled :: nat
  srr_active_runs_abandoned :: nat
  srr_participants :: "run_participant list"
  srr_participant_count :: nat
  srr_participants_omitted :: int

text \<open>\<open>scheduled_action__cluster_id=cluster.pk\<close>: the join of a run with its action.\<close>

definition own_run :: "nat \<Rightarrow> db \<Rightarrow> scheduled_run \<Rightarrow> bool" where
  "own_run pk d r =
     exists_where (\<lambda>a. sa_pk a = ru_scheduled_action r \<and> sa_cluster a = pk) (scheduled_actions d)"

definition run_open :: "nat \<Rightarrow> db \<Rightarrow> scheduled_run \<Rightarrow> bool" where
  "run_open pk d r = (own_run pk d r \<and> ru_status r \<notin> set TERMINAL_RUN_STATUSES)"

definition schedule_active :: "nat \<Rightarrow> scheduled_action \<Rightarrow> bool" where
  "schedule_active pk a = (sa_cluster a = pk \<and> sa_deleted_at a = None)"

definition run_participant_of :: "scheduled_run \<Rightarrow> run_participant" where
  "run_participant_of r =
     \<lparr>rp_pk = ru_pk r, rp_scheduled_action_id = ru_scheduled_action r, rp_status = ru_status r\<rparr>"

definition scheduled_retirement_preflight :: "nat \<Rightarrow> retirement_mode \<Rightarrow> bool \<Rightarrow> db \<Rightarrow> schedule_preflight" where
  "scheduled_retirement_preflight pk mode lock d =
     (let runs = sort_key ru_pk (filter (run_open pk d) (scheduled_runs d));
          rows = (if lock then runs else take RETIREMENT_DETAIL_LIMIT runs);
          total = (if lock then length rows else count_where (run_open pk d) (scheduled_runs d));
          not_started = (if lock then length (filter (\<lambda>r. ru_status r \<in> set NOT_STARTED_RUN_STATUSES) rows)
             else count_where (\<lambda>r. run_open pk d r \<and> ru_status r \<in> set NOT_STARTED_RUN_STATUSES) (scheduled_runs d));
          active = (if lock then length (filter (\<lambda>r. ru_status r \<in> set ACTIVE_RUN_STATUSES) rows)
             else count_where (\<lambda>r. run_open pk d r \<and> ru_status r \<in> set ACTIVE_RUN_STATUSES) (scheduled_runs d));
          bounded = take RETIREMENT_DETAIL_LIMIT (map run_participant_of rows)
      in \<lparr>spf_mode = mode,
          spf_active_schedule_count = count_where (schedule_active pk) (scheduled_actions d),
          spf_not_started_run_count = not_started, spf_active_run_count = active,
          spf_unknown_run_count = int total - int not_started - int active,
          spf_participants = bounded, spf_participant_count = total,
          spf_participants_omitted = int total - int (length bounded)\<rparr>)"

definition retired_schedule :: "time \<Rightarrow> scheduled_action \<Rightarrow> scheduled_action" where
  "retired_schedule now a = a\<lparr>sa_enabled := False, sa_next_run_at := None, sa_deleted_at := Some now\<rparr>"

definition cancelled_run :: "string \<Rightarrow> time \<Rightarrow> scheduled_run \<Rightarrow> scheduled_run" where
  "cancelled_run code now r =
     r\<lparr>ru_status := ''cancelled'', ru_outcome := ''cancelled'', ru_finished_at := Some now, ru_error := code,
       ru_result := JObj [(''retirement_code'', JStr code)]\<rparr>"

definition not_started_code :: "retirement_mode \<Rightarrow> string" where
  "not_started_code mode = (if mode = FORCED then CODE_FORCE_RETIRED_UNRESOLVABLE else CODE_RETIRED_BEFORE_START)"

definition finalize_cluster_retirement_scheduled_actions ::
    "nat \<Rightarrow> retirement_mode \<Rightarrow> time \<Rightarrow> db \<Rightarrow> (schedule_preflight, schedule_retirement_result \<times> db) result" where
  "finalize_cluster_retirement_scheduled_actions pk mode now d =
     (let preflight = scheduled_retirement_preflight pk mode True d in
      if \<not> schedule_gate_clear preflight then Inl preflight
      else
        let d1 = d\<lparr>scheduled_actions := update_where (schedule_active pk) (retired_schedule now) (scheduled_actions d)\<rparr>;
            not_started = (\<lambda>r. own_run pk d1 r \<and> ru_status r \<in> set NOT_STARTED_RUN_STATUSES);
            rows1 = update_where not_started (cancelled_run (not_started_code mode) now) (scheduled_runs d);
            active = (\<lambda>r. own_run pk d1 r \<and> ru_status r \<in> set ACTIVE_RUN_STATUSES);
            rows2 = (if mode = FORCED
                     then update_where active (cancelled_run CODE_FORCE_RETIRED_UNRESOLVABLE now) rows1 else rows1)
        in Inr (\<lparr>srr_schedules_deleted = count_where (schedule_active pk) (scheduled_actions d),
                 srr_not_started_runs_cancelled = count_where not_started (scheduled_runs d),
                 srr_active_runs_abandoned = (if mode = FORCED then count_where active rows1 else 0),
                 srr_participants = spf_participants preflight,
                 srr_participant_count = spf_participant_count preflight,
                 srr_participants_omitted = spf_participants_omitted preflight\<rparr>,
                d1\<lparr>scheduled_runs := rows2\<rparr>))"

section \<open>Facts\<close>

definition schedule_gate :: "nat \<Rightarrow> retirement_mode \<Rightarrow> db \<Rightarrow> bool" where
  "schedule_gate pk mode d = schedule_gate_clear (scheduled_retirement_preflight pk mode False d)"

definition schedule_open_rows :: "nat \<Rightarrow> db \<Rightarrow> nat list" where
  "schedule_open_rows pk d =
     map ru_pk (filter (run_open pk d) (scheduled_runs d)) @ map sa_pk (filter (schedule_active pk) (scheduled_actions d))"

definition schedule_others :: "nat \<Rightarrow> db \<Rightarrow> db" where
  "schedule_others pk d =
     d\<lparr>scheduled_runs := filter (\<lambda>r. \<not> own_run pk d r) (scheduled_runs d),
       scheduled_actions := filter (\<lambda>a. sa_cluster a \<noteq> pk) (scheduled_actions d)\<rparr>"

lemma schedule_preflight_lock:
  "scheduled_retirement_preflight pk mode True d = scheduled_retirement_preflight pk mode False d"
  by (simp add: scheduled_retirement_preflight_def Let_def count_where_def filter_sort take_map conj_commute
      filter_filter [symmetric] del: filter_filter)

lemma schedule_gate_iff:
  "schedule_gate pk mode d \<longleftrightarrow>
     (\<forall>r\<in>set (scheduled_runs d). run_open pk d r \<longrightarrow>
        ru_status r \<in> set NOT_STARTED_RUN_STATUSES \<or> mode = FORCED \<and> ru_status r \<in> set ACTIVE_RUN_STATUSES)"
proof -
  let ?R = "filter (run_open pk d) (scheduled_runs d)"
  let ?N = "\<lambda>r. ru_status r \<in> set NOT_STARTED_RUN_STATUSES" and ?A = "\<lambda>r. ru_status r \<in> set ACTIVE_RUN_STATUSES"
  have disjoint: "\<not> (?N r \<and> ?A r)" for r by (auto simp: run_status_defs)
  have "int (length ?R) - int (length (filter ?N ?R)) - int (length (filter ?A ?R))
      = int (length (filter (\<lambda>r. \<not> ?N r \<and> \<not> ?A r) ?R))"
    using length_filter_split [of ?N ?A ?R, OF disjoint] by linarith
  then show ?thesis
    by (auto simp: schedule_gate_def schedule_gate_clear_def scheduled_retirement_preflight_def Let_def
        count_where_def conj_commute filter_empty_conv simp flip: filter_filter)
qed

lemma own_run_retired:
  "own_run pk (d\<lparr>scheduled_actions := update_where P (retired_schedule now) (scheduled_actions d)\<rparr>) r = own_run pk d r"
  by (simp add: own_run_def exists_where_update_stable retired_schedule_def)

lemma cancelled_run_row [simp]:
  "ru_scheduled_action (cancelled_run code now r) = ru_scheduled_action r"
  "ru_pk (cancelled_run code now r) = ru_pk r"
  "ru_status (cancelled_run code now r) = ''cancelled''"
  by (simp_all add: cancelled_run_def)

lemma own_run_cancelled [simp]: "own_run pk d (cancelled_run code now r) = own_run pk d r"
  by (simp add: own_run_def)

text \<open>What the finalizer does to one run of the cluster.\<close>

definition retired_run :: "retirement_mode \<Rightarrow> time \<Rightarrow> scheduled_run \<Rightarrow> scheduled_run" where
  "retired_run mode now r =
     (if ru_status r \<in> set NOT_STARTED_RUN_STATUSES then cancelled_run (not_started_code mode) now r
      else if mode = FORCED \<and> ru_status r \<in> set ACTIVE_RUN_STATUSES
      then cancelled_run CODE_FORCE_RETIRED_UNRESOLVABLE now r else r)"

lemma retired_run_row [simp]:
  "ru_scheduled_action (retired_run mode now r) = ru_scheduled_action r" "ru_pk (retired_run mode now r) = ru_pk r"
  "own_run pk d (retired_run mode now r) = own_run pk d r"
  by (simp_all add: retired_run_def)

lemma finalize_schedules_effect:
  assumes "schedule_gate pk mode d"
  shows "\<exists>res. finalize_cluster_retirement_scheduled_actions pk mode now d =
    Inr (res, d\<lparr>scheduled_actions := update_where (schedule_active pk) (retired_schedule now) (scheduled_actions d),
                scheduled_runs := update_where (own_run pk d) (retired_run mode now) (scheduled_runs d)\<rparr>)"
proof -
  have clear: "schedule_gate_clear (scheduled_retirement_preflight pk mode True d)"
    using assms by (simp add: schedule_gate_def schedule_preflight_lock)
  have verified: "update_where (\<lambda>r. own_run pk d r \<and> ru_status r \<in> set NOT_STARTED_RUN_STATUSES)
      (cancelled_run (not_started_code VERIFIED) now) rows = update_where (own_run pk d) (retired_run VERIFIED now) rows" for rows
    by (rule update_where_cong) (simp add: retired_run_def)
  have forced: "update_where (\<lambda>r. own_run pk d r \<and> ru_status r \<in> set ACTIVE_RUN_STATUSES)
      (cancelled_run CODE_FORCE_RETIRED_UNRESOLVABLE now)
      (update_where (\<lambda>r. own_run pk d r \<and> ru_status r \<in> set NOT_STARTED_RUN_STATUSES)
        (cancelled_run (not_started_code FORCED) now) rows) = update_where (own_run pk d) (retired_run FORCED now) rows" for rows
    by (induction rows) (auto simp: retired_run_def run_status_defs)
  show ?thesis
    using clear verified forced
    by (cases mode) (simp_all add: finalize_cluster_retirement_scheduled_actions_def Let_def own_run_retired)
qed

lemma finalize_schedules_refused:
  "\<not> schedule_gate pk mode d \<Longrightarrow>
   finalize_cluster_retirement_scheduled_actions pk mode now d = Inl (scheduled_retirement_preflight pk mode True d)"
  by (simp add: finalize_cluster_retirement_scheduled_actions_def Let_def schedule_gate_def schedule_preflight_lock)

lemma finalize_schedules_result:
  assumes "finalize_cluster_retirement_scheduled_actions pk mode now d = Inr (res, d')"
  shows "schedule_gate pk mode d"
    and "d' = d\<lparr>scheduled_actions := update_where (schedule_active pk) (retired_schedule now) (scheduled_actions d),
                scheduled_runs := update_where (own_run pk d) (retired_run mode now) (scheduled_runs d)\<rparr>"
proof -
  show gate: "schedule_gate pk mode d" using assms finalize_schedules_refused by fastforce
  show "d' = d\<lparr>scheduled_actions := update_where (schedule_active pk) (retired_schedule now) (scheduled_actions d),
                scheduled_runs := update_where (own_run pk d) (retired_run mode now) (scheduled_runs d)\<rparr>"
    using finalize_schedules_effect [OF gate, of now] assms by auto
qed

lemma own_run_after:
  "own_run pk (d\<lparr>scheduled_actions := update_where P (retired_schedule now) (scheduled_actions d), scheduled_runs := rows\<rparr>) r
   = own_run pk d r"
  using own_run_retired [where pk = pk and d = d and P = P and now = now and r = r] by (simp add: own_run_def)

lemma retired_run_terminal:
  assumes "schedule_gate pk mode d" "r \<in> set (scheduled_runs d)" "own_run pk d r"
  shows "ru_status (retired_run mode now r) \<in> set TERMINAL_RUN_STATUSES"
proof (cases "ru_status r \<in> set TERMINAL_RUN_STATUSES")
  case True
  then show ?thesis by (auto simp: retired_run_def) (simp_all add: run_status_defs)
next
  case False
  with assms have "ru_status r \<in> set NOT_STARTED_RUN_STATUSES \<or> mode = FORCED \<and> ru_status r \<in> set ACTIVE_RUN_STATUSES"
    by (auto simp: schedule_gate_iff run_open_def)
  then have "ru_status (retired_run mode now r) = ''cancelled''" by (auto simp: retired_run_def)
  then show ?thesis by (simp add: run_status_defs)
qed

interpretation scheduled_actions_owner:
  retirement_participant "\<lambda>_. True" schedule_gate schedule_open_rows schedule_others
    finalize_cluster_retirement_scheduled_actions
proof
  fix d pk m now
  show "(\<exists>out. finalize_cluster_retirement_scheduled_actions pk m now d = Inr out) \<longleftrightarrow> schedule_gate pk m d"
    using finalize_schedules_effect [of pk m d now] finalize_schedules_refused [of pk m d now]
    by (cases "schedule_gate pk m d") auto
  show "schedule_open_rows pk d = [] \<Longrightarrow> schedule_gate pk m d"
    by (auto simp: schedule_open_rows_def schedule_gate_iff filter_empty_conv)
  fix res d'
  assume fin: "finalize_cluster_retirement_scheduled_actions pk m now d = Inr (res, d')"
  note gate = finalize_schedules_result(1) [OF fin] and d' = finalize_schedules_result(2) [OF fin]
  have own: "own_run pk d' r = own_run pk d r" for r by (simp add: d' own_run_after)
  have "\<not> run_open pk d' r" if "r \<in> set (scheduled_runs d')" for r
  proof -
    from that have "r \<in> set (update_where (own_run pk d) (retired_run m now) (scheduled_runs d))" by (simp add: d')
    then show ?thesis
      by (cases rule: in_update_whereE) (auto simp: run_open_def own retired_run_terminal [OF gate])
  qed
  moreover have "\<not> schedule_active pk a" if "a \<in> set (scheduled_actions d')" for a
  proof -
    from that have "a \<in> set (update_where (schedule_active pk) (retired_schedule now) (scheduled_actions d))" by (simp add: d')
    then show ?thesis
      by (cases rule: in_update_whereE) (simp_all add: schedule_active_def retired_schedule_def)
  qed
  ultimately show "schedule_open_rows pk d' = []"
    by (simp add: schedule_open_rows_def filter_empty_conv)
  have "filter (\<lambda>r. \<not> own_run pk d' r) (scheduled_runs d') = filter (\<lambda>r. \<not> own_run pk d r) (scheduled_runs d)"
    unfolding own by (auto simp: d' intro!: filter_update_where_frame)
  moreover have "filter (\<lambda>a. sa_cluster a \<noteq> pk) (scheduled_actions d') = filter (\<lambda>a. sa_cluster a \<noteq> pk) (scheduled_actions d)"
    by (auto simp: d' schedule_active_def retired_schedule_def intro!: filter_update_where_frame)
  ultimately show "schedule_others pk d' = schedule_others pk d"
    unfolding schedule_others_def by (simp add: d')
qed simp_all

end
