(* ===== verification/Storage_Retirement.thy ===== *)
theory Storage_Retirement
  imports Retirement_Participant Refs
begin

text \<open>
  The storage owner's part in retirement, \<^verbatim>\<open>core/services/storage_retirement.py\<close>: the impact
  snapshot and its digest, the consumer gate, and the finalizer that tombstones the
  definitions and removes the current publication state. Every queryset of the snapshot is
  a field of \<open>storage_impact\<close>, and the SHA-256 of their JSON text is a parameter, a function
  of that record. Row locks do not change what the snapshot reads.
\<close>

section \<open>The snapshot\<close>

definition AUDIT_REF_LIMIT :: nat where
  "AUDIT_REF_LIMIT = 100"

record storage_impact =
  si_cluster_pk :: nat
  si_cluster_key :: string
  si_mode :: retirement_mode
  si_catalog_states :: "catalog_state list"
  si_definitions :: "cluster_storage list"
  si_node_states :: "storage_node_state list"
  si_coverages :: "volume_coverage list"
  si_observations :: "volume_observation list"
  si_intents :: "handoff_intent list"
  si_bindings :: "(storage_binding \<times> string \<times> string) list"
  si_consumers :: "(storage_consumer \<times> string \<times> string \<times> string) list"

type_synonym impact_digest = "storage_impact \<Rightarrow> string"

record retirement_consumer =
  rcon_pk :: nat
  rcon_mount_ref :: string
  rcon_storage_id :: string
  rcon_storage_name :: string
  rcon_node_ref :: string
  rcon_node :: string
  rcon_last_observed_at :: "time option"
  rcon_last_gate_status :: string

record retirement_mount =
  rm_pk :: nat
  rm_definition_ref :: string
  rm_mount_ref :: string
  rm_storage_id :: string
  rm_node :: string
  rm_scope :: string

record storage_preflight =
  stp_mode :: retirement_mode
  stp_impact_digest :: string
  stp_metadata_generation :: string
  stp_definition_count :: nat
  stp_node_state_count :: nat
  stp_coverage_count :: nat
  stp_observation_count :: nat
  stp_handoff_intent_count :: nat
  stp_mounts :: "retirement_mount list"
  stp_consumers :: "retirement_consumer list"

definition consumer_gate_clear :: "storage_preflight \<Rightarrow> bool" where
  "consumer_gate_clear p = (stp_mode p = FORCED \<or> stp_consumers p = [])"

text \<open>The joins of the querysets: a storage row by key, a mount row by key.\<close>

definition own_storage :: "nat \<Rightarrow> db \<Rightarrow> nat \<Rightarrow> bool" where
  "own_storage pk d storage = exists_where (\<lambda>s. st_pk s = storage \<and> st_cluster s = pk) (storages d)"

definition storage_id_of :: "db \<Rightarrow> nat \<Rightarrow> string" where
  "storage_id_of d storage = (case first_where (\<lambda>s. st_pk s = storage) (storages d) of None \<Rightarrow> [] | Some s \<Rightarrow> st_storage_id s)"

definition mount_of :: "db \<Rightarrow> nat \<Rightarrow> string \<times> string \<times> string" where
  "mount_of d mount =
     (case first_where (\<lambda>m. sm_pk m = mount) (storage_mounts d) of
        None \<Rightarrow> ([], [], []) | Some m \<Rightarrow> (sm_mount_key m, sm_storage_id m, sm_display_name m))"

definition storage_impact_of :: "cluster \<Rightarrow> retirement_mode \<Rightarrow> db \<Rightarrow> storage_impact" where
  "storage_impact_of c mode d =
     (let pk = cl_pk c in
      \<lparr>si_cluster_pk = pk, si_cluster_key = cl_key c, si_mode = mode,
       si_catalog_states = sort_key cs_pk (filter (\<lambda>s. cs_cluster s = pk) (catalog_states d)),
       si_definitions = sort_key st_pk (filter (\<lambda>s. st_cluster s = pk) (storages d)),
       si_node_states = sort_key sns_pk (filter (\<lambda>n. own_storage pk d (sns_storage n)) (storage_node_states d)),
       si_coverages = sort_key vc_pk (filter (\<lambda>n. own_storage pk d (vc_storage n)) (volume_coverages d)),
       si_observations = sort_key vo_pk (filter (\<lambda>n. own_storage pk d (vo_storage n)) (volume_observations d)),
       si_intents = sort_key hi_pk (filter (\<lambda>i. hi_cluster i = pk) (handoff_intents d)),
       si_bindings = map (\<lambda>b. (b, storage_id_of d (sb_storage b), fst (mount_of d (sb_mount b))))
          (sort_key sb_pk (filter (\<lambda>b. own_storage pk d (sb_storage b)) (storage_bindings d))),
       si_consumers = map (\<lambda>c. (c, mount_of d (sc_storage c)))
          (sort_key sc_pk (filter (\<lambda>c. sc_cluster c = pk) (storage_consumers d)))\<rparr>)"

definition retirement_mount_of ::
    "string \<Rightarrow> storage_binding \<times> string \<times> string \<Rightarrow> (ref_error, retirement_mount) result" where
  "retirement_mount_of key row =
     (case row of (b, storage_id, mount_key) \<Rightarrow>
       bind_result (make_cluster_storage_ref key storage_id) (\<lambda>sref.
       bind_result (make_mount_ref mount_key) (\<lambda>mref.
         Inr \<lparr>rm_pk = sb_pk b, rm_definition_ref = serialize_cluster_storage_ref sref,
              rm_mount_ref = serialize_mount_ref mref, rm_storage_id = storage_id,
              rm_node = (case sb_node b of None \<Rightarrow> [] | Some n \<Rightarrow> n), rm_scope = sb_scope b\<rparr>)))"

definition retirement_consumer_of ::
    "string \<Rightarrow> storage_consumer \<times> string \<times> string \<times> string \<Rightarrow> (ref_error, retirement_consumer) result" where
  "retirement_consumer_of key row =
     (case row of (c, mount_key, storage_id, name) \<Rightarrow>
       bind_result (make_mount_ref mount_key) (\<lambda>mref.
       bind_result (make_node_ref key (sc_expected_node_name c)) (\<lambda>nref.
         Inr \<lparr>rcon_pk = sc_pk c, rcon_mount_ref = serialize_mount_ref mref, rcon_storage_id = storage_id,
              rcon_storage_name = name, rcon_node_ref = serialize_node_ref nref,
              rcon_node = sc_expected_node_name c,
              rcon_last_observed_at = sc_last_successful_inventory_scan c,
              rcon_last_gate_status = sc_last_gate_status c\<rparr>)))"

definition storage_snapshot ::
    "impact_digest \<Rightarrow> cluster \<Rightarrow> retirement_mode \<Rightarrow> db \<Rightarrow> (ref_error, storage_preflight) result" where
  "storage_snapshot H c mode d =
     (let i = storage_impact_of c mode d in
      bind_result (map_result (retirement_mount_of (cl_key c)) (si_bindings i)) (\<lambda>mounts.
      bind_result (map_result (retirement_consumer_of (cl_key c)) (si_consumers i)) (\<lambda>consumers.
        Inr \<lparr>stp_mode = mode, stp_impact_digest = H i,
             stp_metadata_generation =
               (case si_catalog_states i of [] \<Rightarrow> []
                | s # _ \<Rightarrow> (case cs_metadata_generation s of None \<Rightarrow> [] | Some g \<Rightarrow> g)),
             stp_definition_count = length (si_definitions i), stp_node_state_count = length (si_node_states i),
             stp_coverage_count = length (si_coverages i), stp_observation_count = length (si_observations i),
             stp_handoff_intent_count = length (si_intents i), stp_mounts = mounts, stp_consumers = consumers\<rparr>)))"

section \<open>The finalizer\<close>

datatype storage_error =
    ImpactChanged string string
  | ConsumersBlock "retirement_consumer list"
  | StorageRefInvalid ref_error

record storage_retirement_result =
  str_impact_digest :: string
  str_definitions_unmanaged :: nat
  str_node_states_deleted :: nat
  str_coverages_deleted :: nat
  str_observations_deleted :: nat
  str_bindings_deleted :: nat
  str_handoff_intents_deleted :: nat
  str_consumers_deleted :: nat
  str_catalog_states_deleted :: nat
  str_mount_refs :: "string list"
  str_mount_ref_count :: nat
  str_mount_refs_omitted :: nat
  str_consumers :: "retirement_consumer list"
  str_consumer_refs :: "string list"
  str_consumer_ref_count :: nat
  str_consumer_refs_omitted :: nat

definition bounded_refs :: "string list \<Rightarrow> string list \<times> nat \<times> nat" where
  "bounded_refs values =
     (let unique = sort (remdups values); shown = take AUDIT_REF_LIMIT unique
      in (shown, length unique, length unique - length shown))"

definition storage_cleanup :: "nat \<Rightarrow> retirement_mode \<Rightarrow> time \<Rightarrow> db \<Rightarrow> db" where
  "storage_cleanup pk mode now d =
     d\<lparr>storages := update_where (\<lambda>s. st_cluster s = pk \<and> st_unmanaged_at s = None)
                     (\<lambda>s. s\<lparr>st_unmanaged_at := Some now\<rparr>) (storages d),
       volume_observations := delete_where (\<lambda>o1. own_storage pk d (vo_storage o1)) (volume_observations d),
       volume_coverages := delete_where (\<lambda>c. own_storage pk d (vc_storage c)) (volume_coverages d),
       storage_node_states := delete_where (\<lambda>n. own_storage pk d (sns_storage n)) (storage_node_states d),
       storage_bindings := delete_where (\<lambda>b. own_storage pk d (sb_storage b)) (storage_bindings d),
       handoff_intents := delete_where (\<lambda>i. hi_cluster i = pk) (handoff_intents d),
       catalog_states := delete_where (\<lambda>s. cs_cluster s = pk) (catalog_states d),
       storage_consumers := (if mode = FORCED then delete_where (\<lambda>c. sc_cluster c = pk) (storage_consumers d)
                             else storage_consumers d)\<rparr>"

definition finalize_cluster_retirement_storage ::
    "impact_digest \<Rightarrow> cluster \<Rightarrow> retirement_mode \<Rightarrow> string \<Rightarrow> time \<Rightarrow> db
      \<Rightarrow> (storage_error, storage_retirement_result \<times> db) result" where
  "finalize_cluster_retirement_storage H c mode expected_digest now d =
     bind_result (map_error StorageRefInvalid (storage_snapshot H c mode d)) (\<lambda>current.
       if stp_impact_digest current \<noteq> expected_digest
       then Inl (ImpactChanged expected_digest (stp_impact_digest current))
       else if mode = VERIFIED \<and> stp_consumers current \<noteq> [] then Inl (ConsumersBlock (stp_consumers current))
       else
         let pk = cl_pk c;
             (mount_refs, mount_ref_count, mount_refs_omitted) = bounded_refs (map rm_mount_ref (stp_mounts current));
             consumers = take AUDIT_REF_LIMIT (stp_consumers current)
         in Inr (\<lparr>str_impact_digest = stp_impact_digest current,
                  str_definitions_unmanaged = count_where (\<lambda>s. st_cluster s = pk \<and> st_unmanaged_at s = None) (storages d),
                  str_node_states_deleted = count_where (\<lambda>n. own_storage pk d (sns_storage n)) (storage_node_states d),
                  str_coverages_deleted = count_where (\<lambda>c. own_storage pk d (vc_storage c)) (volume_coverages d),
                  str_observations_deleted = count_where (\<lambda>o1. own_storage pk d (vo_storage o1)) (volume_observations d),
                  str_bindings_deleted = count_where (\<lambda>b. own_storage pk d (sb_storage b)) (storage_bindings d),
                  str_handoff_intents_deleted = count_where (\<lambda>i. hi_cluster i = pk) (handoff_intents d),
                  str_consumers_deleted =
                    (if mode = FORCED then count_where (\<lambda>c. sc_cluster c = pk) (storage_consumers d) else 0),
                  str_catalog_states_deleted = count_where (\<lambda>s. cs_cluster s = pk) (catalog_states d),
                  str_mount_refs = mount_refs, str_mount_ref_count = mount_ref_count,
                  str_mount_refs_omitted = mount_refs_omitted, str_consumers = consumers,
                  str_consumer_refs = map (\<lambda>k. rcon_mount_ref k @ ''@'' @ rcon_node_ref k) consumers,
                  str_consumer_ref_count = length (stp_consumers current),
                  str_consumer_refs_omitted = length (stp_consumers current) - length consumers\<rparr>,
                 storage_cleanup pk mode now d))"

section \<open>Facts\<close>

text \<open>The part of the database the snapshot reads.\<close>

definition storage_part :: "db \<Rightarrow> catalog_state list \<times> cluster_storage list \<times> storage_node_state list \<times> volume_coverage list
    \<times> volume_observation list \<times> handoff_intent list \<times> storage_binding list \<times> storage_consumer list \<times> storage_mount list" where
  "storage_part d = (catalog_states d, storages d, storage_node_states d, volume_coverages d, volume_observations d,
     handoff_intents d, storage_bindings d, storage_consumers d, storage_mounts d)"

lemma storage_snapshot_cong:
  assumes "storage_part d' = storage_part d" "cl_pk c' = cl_pk c" "cl_key c' = cl_key c"
  shows "storage_snapshot H c' mode d' = storage_snapshot H c mode d"
proof -
  have "own_storage pk d' = own_storage pk d" "storage_id_of d' = storage_id_of d" "mount_of d' = mount_of d" for pk
    using assms(1) by (simp_all add: fun_eq_iff own_storage_def storage_id_of_def mount_of_def storage_part_def)
  then have "storage_impact_of c' mode d' = storage_impact_of c mode d"
    using assms by (simp add: storage_impact_of_def storage_part_def Let_def)
  then show ?thesis using assms(3) by (simp add: storage_snapshot_def)
qed

lemma storage_snapshot_consumers:
  assumes "storage_snapshot H c mode d = Inr p"
  shows "stp_consumers p = [] \<longleftrightarrow> \<not> exists_where (\<lambda>k. sc_cluster k = cl_pk c) (storage_consumers d)"
    and "stp_mode p = mode" and "stp_impact_digest p = H (storage_impact_of c mode d)"
proof -
  from assms obtain consumers where
    cons: "map_result (retirement_consumer_of (cl_key c)) (si_consumers (storage_impact_of c mode d)) = Inr consumers"
    and p: "stp_consumers p = consumers" "stp_mode p = mode" "stp_impact_digest p = H (storage_impact_of c mode d)"
    by (auto simp: storage_snapshot_def Let_def result_simps)
  from cons have "length (si_consumers (storage_impact_of c mode d)) = length consumers"
    by (auto simp: map_result_Inr_iff dest: list_all2_lengthD)
  then have "consumers = [] \<longleftrightarrow> filter (\<lambda>k. sc_cluster k = cl_pk c) (storage_consumers d) = []"
    by (auto simp: storage_impact_of_def Let_def)
  with p show "stp_consumers p = [] \<longleftrightarrow> \<not> exists_where (\<lambda>k. sc_cluster k = cl_pk c) (storage_consumers d)"
    by (simp add: filter_empty_iff)
  show "stp_mode p = mode" "stp_impact_digest p = H (storage_impact_of c mode d)" by (fact p)+
qed

text \<open>Whether anything of the cluster's current storage publication is left.\<close>

definition storage_rows_left :: "nat \<Rightarrow> db \<Rightarrow> bool" where
  "storage_rows_left pk d =
     (exists_where (\<lambda>s. cs_cluster s = pk) (catalog_states d)
      \<or> exists_where (\<lambda>n. own_storage pk d (sns_storage n)) (storage_node_states d)
      \<or> exists_where (\<lambda>n. own_storage pk d (vc_storage n)) (volume_coverages d)
      \<or> exists_where (\<lambda>n. own_storage pk d (vo_storage n)) (volume_observations d)
      \<or> exists_where (\<lambda>b. own_storage pk d (sb_storage b)) (storage_bindings d)
      \<or> exists_where (\<lambda>i. hi_cluster i = pk) (handoff_intents d)
      \<or> exists_where (\<lambda>k. sc_cluster k = pk) (storage_consumers d)
      \<or> exists_where (\<lambda>s. st_cluster s = pk \<and> st_unmanaged_at s = None) (storages d))"

lemma own_storage_cleanup: "own_storage pk' (storage_cleanup pk mode now d) = own_storage pk' d"
  by (simp add: fun_eq_iff own_storage_def storage_cleanup_def exists_where_update_stable)

lemma storage_cleanup_empty:
  assumes "mode = FORCED \<or> \<not> exists_where (\<lambda>k. sc_cluster k = pk) (storage_consumers d)"
  shows "\<not> storage_rows_left pk (storage_cleanup pk mode now d)"
proof -
  have "\<not> exists_where (\<lambda>s. st_cluster s = pk \<and> st_unmanaged_at s = None) (storages (storage_cleanup pk mode now d))"
    by (auto simp: storage_cleanup_def exists_where_update split: if_splits)
  then show ?thesis
    using assms unfolding storage_rows_left_def own_storage_cleanup by (auto simp: storage_cleanup_def)
qed

lemma storage_snapshot_clean:
  assumes "\<not> storage_rows_left (cl_pk c) d"
  shows "\<exists>p. storage_snapshot H c mode d = Inr p \<and> stp_consumers p = [] \<and> stp_mounts p = [] \<and> stp_mode p = mode"
proof -
  have "filter (\<lambda>b. own_storage (cl_pk c) d (sb_storage b)) (storage_bindings d) = []"
    "filter (\<lambda>k. sc_cluster k = cl_pk c) (storage_consumers d) = []"
    using assms by (simp_all add: storage_rows_left_def filter_empty_iff)
  then show ?thesis by (simp add: storage_snapshot_def storage_impact_of_def Let_def)
qed

text \<open>The finalizer succeeds exactly for the digest the snapshot has now, with a clear consumer gate.\<close>

lemma finalize_storage_iff:
  assumes "storage_snapshot H c mode d = Inr p"
  shows "(\<exists>out. finalize_cluster_retirement_storage H c mode expected now d = Inr out) \<longleftrightarrow>
     stp_impact_digest p = expected \<and> consumer_gate_clear p"
  using assms storage_snapshot_consumers(2) [OF assms]
  by (cases mode) (auto simp: finalize_cluster_retirement_storage_def Let_def consumer_gate_clear_def bounded_refs_def)

lemma finalize_storage_result:
  assumes "finalize_cluster_retirement_storage H c mode expected now d = Inr (res, d')"
  shows "d' = storage_cleanup (cl_pk c) mode now d"
    and "\<exists>p. storage_snapshot H c mode d = Inr p \<and> stp_impact_digest p = expected \<and> consumer_gate_clear p"
proof -
  from assms obtain p where p: "storage_snapshot H c mode d = Inr p"
    by (auto simp: finalize_cluster_retirement_storage_def result_simps)
  with assms finalize_storage_iff [OF p, of expected now]
  show "\<exists>p. storage_snapshot H c mode d = Inr p \<and> stp_impact_digest p = expected \<and> consumer_gate_clear p" by auto
  from assms p show "d' = storage_cleanup (cl_pk c) mode now d"
    by (auto simp: finalize_cluster_retirement_storage_def Let_def bounded_refs_def split: if_splits)
qed

lemma finalize_storage_empty:
  assumes "finalize_cluster_retirement_storage H c mode expected now d = Inr (res, d')"
  shows "\<not> storage_rows_left (cl_pk c) d'"
proof -
  from finalize_storage_result(2) [OF assms] obtain p where
    p: "storage_snapshot H c mode d = Inr p" "consumer_gate_clear p" by blast
  with storage_snapshot_consumers [OF p(1)] have
    "mode = FORCED \<or> \<not> exists_where (\<lambda>k. sc_cluster k = cl_pk c) (storage_consumers d)"
    by (auto simp: consumer_gate_clear_def)
  then show ?thesis
    unfolding finalize_storage_result(1) [OF assms] by (rule storage_cleanup_empty)
qed

text \<open>What belongs to the other clusters.\<close>

definition storage_others :: "nat \<Rightarrow> db \<Rightarrow> db" where
  "storage_others pk d =
     d\<lparr>catalog_states := filter (\<lambda>s. cs_cluster s \<noteq> pk) (catalog_states d),
       storages := filter (\<lambda>s. st_cluster s \<noteq> pk) (storages d),
       storage_node_states := filter (\<lambda>n. \<not> own_storage pk d (sns_storage n)) (storage_node_states d),
       volume_coverages := filter (\<lambda>n. \<not> own_storage pk d (vc_storage n)) (volume_coverages d),
       volume_observations := filter (\<lambda>n. \<not> own_storage pk d (vo_storage n)) (volume_observations d),
       storage_bindings := filter (\<lambda>b. \<not> own_storage pk d (sb_storage b)) (storage_bindings d),
       handoff_intents := filter (\<lambda>i. hi_cluster i \<noteq> pk) (handoff_intents d),
       storage_consumers := filter (\<lambda>k. sc_cluster k \<noteq> pk) (storage_consumers d)\<rparr>"

lemma storage_cleanup_others: "storage_others pk (storage_cleanup pk mode now d) = storage_others pk d"
proof -
  have "filter (\<lambda>s. st_cluster s \<noteq> pk) (storages (storage_cleanup pk mode now d)) = filter (\<lambda>s. st_cluster s \<noteq> pk) (storages d)"
    by (auto simp: storage_cleanup_def intro!: filter_update_where_frame)
  then show ?thesis
    unfolding storage_others_def own_storage_cleanup
    by (simp add: storage_cleanup_def) (simp add: delete_where_def)
qed

section \<open>Properties\<close>

text \<open>
  The storage finalizer never acts on an impact the operator did not see. Whenever the
  cluster's storage rows between preflight and finalization differ and the digest of the two
  impacts differs, it refuses and names both digests; and when the impact is the confirmed one
  and the consumer gate is clear, it succeeds and leaves no current storage publication of the
  cluster, with every row of other clusters as it was.
\<close>

theorem storage_finalizer_bound_to_impact:
  assumes "storage_snapshot H c mode d0 = Inr p0" and "storage_snapshot H c mode d = Inr p"
    and "storage_impact_of c mode d \<noteq> storage_impact_of c mode d0 \<longrightarrow>
         H (storage_impact_of c mode d) \<noteq> H (storage_impact_of c mode d0)"
  shows "(storage_impact_of c mode d \<noteq> storage_impact_of c mode d0 \<longrightarrow>
           finalize_cluster_retirement_storage H c mode (stp_impact_digest p0) now d =
             Inl (ImpactChanged (stp_impact_digest p0) (stp_impact_digest p)))
    \<and> (storage_impact_of c mode d = storage_impact_of c mode d0 \<and> consumer_gate_clear p \<longrightarrow>
         (\<exists>res d'. finalize_cluster_retirement_storage H c mode (stp_impact_digest p0) now d = Inr (res, d')
            \<and> \<not> storage_rows_left (cl_pk c) d' \<and> storage_others (cl_pk c) d' = storage_others (cl_pk c) d))"
proof (intro conjI impI)
  note dig0 = storage_snapshot_consumers(3) [OF assms(1)] and dig = storage_snapshot_consumers(3) [OF assms(2)]
  show "finalize_cluster_retirement_storage H c mode (stp_impact_digest p0) now d =
      Inl (ImpactChanged (stp_impact_digest p0) (stp_impact_digest p))"
    if "storage_impact_of c mode d \<noteq> storage_impact_of c mode d0"
    using that assms by (simp add: finalize_cluster_retirement_storage_def dig dig0)
  assume same: "storage_impact_of c mode d = storage_impact_of c mode d0 \<and> consumer_gate_clear p"
  with finalize_storage_iff [OF assms(2), of "stp_impact_digest p0" now] dig dig0
  obtain res d' where fin: "finalize_cluster_retirement_storage H c mode (stp_impact_digest p0) now d = Inr (res, d')"
    by auto
  have "storage_others (cl_pk c) d' = storage_others (cl_pk c) d"
    by (simp add: finalize_storage_result(1) [OF fin] storage_cleanup_others)
  with fin finalize_storage_empty [OF fin]
  show "\<exists>res d'. finalize_cluster_retirement_storage H c mode (stp_impact_digest p0) now d = Inr (res, d')
      \<and> \<not> storage_rows_left (cl_pk c) d' \<and> storage_others (cl_pk c) d' = storage_others (cl_pk c) d"
    by blast
qed

definition example_storage :: cluster_storage where
  "example_storage = \<lparr>st_pk = 7, st_cluster = 1, st_storage_id = ''nfs'', st_shared = True, st_nodes = [], st_present = True,
     st_unmanaged_at = None, st_observed_metadata_generation = None, st_storage_type = ''nfs'', st_disabled = False, st_config = JObj []\<rparr>"

theorem storage_finalizer_bound_to_impact_witness:
  "finalize_cluster_retirement_storage (\<lambda>i. show_nat (length (si_definitions i))) (new_cluster 1 ''lab'' ''Lab'') VERIFIED
     (show_nat 0) 5 (empty_db\<lparr>storages := [example_storage]\<rparr>) = Inl (ImpactChanged (show_nat 0) (show_nat 1))"
proof -
  let ?H = "\<lambda>i. show_nat (length (si_definitions i))" and ?c = "new_cluster 1 ''lab'' ''Lab''"
  let ?d = "empty_db\<lparr>storages := [example_storage]\<rparr>"
  have snap0: "\<exists>p0. storage_snapshot ?H ?c VERIFIED empty_db = Inr p0 \<and> stp_impact_digest p0 = show_nat 0"
    by (simp add: storage_snapshot_def storage_impact_of_def Let_def empty_db_def)
  have snap: "\<exists>p. storage_snapshot ?H ?c VERIFIED ?d = Inr p \<and> stp_impact_digest p = show_nat 1"
    by (simp add: storage_snapshot_def storage_impact_of_def Let_def empty_db_def example_storage_def new_cluster_def)
  have diff: "storage_impact_of ?c VERIFIED ?d \<noteq> storage_impact_of ?c VERIFIED empty_db"
    by (simp add: storage_impact_of_def Let_def empty_db_def example_storage_def new_cluster_def)
  have "show_nat (Suc 0) \<noteq> show_nat 0" by (simp add: show_nat.simps digit_char_def)
  then have free: "?H (storage_impact_of ?c VERIFIED ?d) \<noteq> ?H (storage_impact_of ?c VERIFIED empty_db)"
    by (simp add: storage_impact_of_def Let_def empty_db_def example_storage_def new_cluster_def)
  from snap0 snap obtain p0 p where "storage_snapshot ?H ?c VERIFIED empty_db = Inr p0" "stp_impact_digest p0 = show_nat 0"
      "storage_snapshot ?H ?c VERIFIED ?d = Inr p" "stp_impact_digest p = show_nat 1" by blast
  with storage_finalizer_bound_to_impact [of ?H ?c VERIFIED empty_db p0 ?d p 5] diff free show ?thesis by simp
qed

end
