(* ===== verification/Topology_Role.thy ===== *)
theory Topology_Role
  imports Prelude
begin

text \<open>
  The standalone/corosync role state machine of \<^verbatim>\<open>core/services/cluster_topology_role.py\<close>:
  roles, observations, the decision for one observation against one stored role, and
  the operator-confirmed resolution of a pending hand-off. The module is pure and typed;
  its \<open>_require_role\<close> check is the type \<open>topology_role\<close>.
\<close>

section \<open>Roles and observations\<close>

datatype topology_role = STANDALONE | COROSYNC | UNKNOWN

datatype role_transition =
  STABLE | ADOPTED | TRANSITION_PENDING | TRANSITION_WITHDRAWN | INDETERMINATE | OBSERVER_NOT_A_MEMBER

fun role_value :: "topology_role \<Rightarrow> string" where
  "role_value STANDALONE = ''standalone''"
| "role_value COROSYNC = ''corosync''"
| "role_value UNKNOWN = ''unknown''"

text \<open>\<open>TopologyRole(text)\<close>: \<open>None\<close> is \<open>ValueError\<close>.\<close>

definition role_of_value :: "string \<Rightarrow> topology_role option" where
  "role_of_value s =
     (if s = ''standalone'' then Some STANDALONE
      else if s = ''corosync'' then Some COROSYNC
      else if s = ''unknown'' then Some UNKNOWN else None)"

record membership_observation =
  complete :: bool
  has_cluster_row :: bool
  member_count :: int
  quorate :: bool
  observed_from :: string
  accepted_members :: "string set"

definition speaks_for_the_scope :: "membership_observation \<Rightarrow> bool" where
  "speaks_for_the_scope obs =
     (if accepted_members obs = {} \<or> observed_from obs = [] then True
      else observed_from obs \<in> accepted_members obs)"

record role_decision =
  transition :: role_transition
  role :: topology_role
  previous_role :: topology_role
  pending_role :: topology_role
  reason :: string

definition transition_pending :: "role_decision \<Rightarrow> bool" where
  "transition_pending d = (pending_role d \<noteq> UNKNOWN)"

definition blocks_provider_work :: "role_decision \<Rightarrow> bool" where
  "blocks_provider_work d = transition_pending d"

section \<open>Operations\<close>

definition classify_role :: "membership_observation \<Rightarrow> topology_role" where
  "classify_role obs =
     (if \<not> complete obs \<or> \<not> speaks_for_the_scope obs then UNKNOWN
      else if has_cluster_row obs then COROSYNC else STANDALONE)"

definition observer_reason :: "string \<Rightarrow> string" where
  "observer_reason node =
     ''The node that answered ('' @ node @ '') is not a member this '' @
     ''scope accepts, so its complete response is not evidence about this scope. '' @
     ''Its endpoint is probably stale.''"

definition incomplete_reason :: string where
  "incomplete_reason =
     ''Membership coverage is incomplete; the previous role is preserved as stale.''"

definition withdrawn_reason :: "topology_role \<Rightarrow> topology_role \<Rightarrow> string" where
  "withdrawn_reason pending stored =
     ''The pending transition toward '' @ role_value pending @ '' was withdrawn: this '' @
     ''scope is observed as '' @ role_value stored @ '' again, which is what it is '' @
     ''registered as. Provider work is no longer blocked.''"

definition pending_reason :: "topology_role \<Rightarrow> topology_role \<Rightarrow> string" where
  "pending_reason stored observed =
     ''This scope is registered as '' @ role_value stored @ '' but is observed as '' @
     role_value observed @ ''. Provider work is blocked until the identity hand-off is confirmed.''"

definition evaluate_role_transition ::
    "topology_role \<Rightarrow> membership_observation \<Rightarrow> topology_role \<Rightarrow> role_decision" where
  "evaluate_role_transition stored obs pending =
     (let observed = classify_role obs in
      if observed = UNKNOWN then
        (if \<not> speaks_for_the_scope obs then
           \<lparr>transition = OBSERVER_NOT_A_MEMBER, role = stored, previous_role = stored,
            pending_role = pending, reason = observer_reason (observed_from obs)\<rparr>
         else
           \<lparr>transition = INDETERMINATE, role = stored, previous_role = stored,
            pending_role = pending, reason = incomplete_reason\<rparr>)
      else if pending \<noteq> UNKNOWN then
        (if observed = stored then
           \<lparr>transition = TRANSITION_WITHDRAWN, role = stored, previous_role = stored,
            pending_role = UNKNOWN, reason = withdrawn_reason pending stored\<rparr>
         else
           \<lparr>transition = TRANSITION_PENDING, role = stored, previous_role = stored,
            pending_role = pending, reason = pending_reason stored observed\<rparr>)
      else if stored = UNKNOWN then
        \<lparr>transition = ADOPTED, role = observed, previous_role = stored,
         pending_role = UNKNOWN, reason = []\<rparr>
      else if observed = stored then
        \<lparr>transition = STABLE, role = observed, previous_role = stored,
         pending_role = UNKNOWN, reason = []\<rparr>
      else
        \<lparr>transition = TRANSITION_PENDING, role = stored, previous_role = stored,
         pending_role = observed, reason = pending_reason stored observed\<rparr>)"

datatype resolve_error = NotPending | RoleNotConcrete | OtherPendingRole topology_role topology_role

definition resolve_transition :: "role_decision \<Rightarrow> topology_role \<Rightarrow> (resolve_error, role_decision) result" where
  "resolve_transition d confirmed =
     (if \<not> transition_pending d then Inl NotPending
      else if confirmed = UNKNOWN then Inl RoleNotConcrete
      else if confirmed \<noteq> pending_role d then Inl (OtherPendingRole (pending_role d) confirmed)
      else Inr \<lparr>transition = ADOPTED, role = confirmed, previous_role = previous_role d,
                pending_role = UNKNOWN, reason = []\<rparr>)"

section \<open>Facts\<close>

named_theorems topology_defs \<open>definitions of the role state machine\<close>

declare speaks_for_the_scope_def [topology_defs] classify_role_def [topology_defs]
  evaluate_role_transition_def [topology_defs] transition_pending_def [topology_defs]
  blocks_provider_work_def [topology_defs] resolve_transition_def [topology_defs]

lemma role_of_value_role_value [simp]: "role_of_value (role_value r) = Some r"
  by (cases r) (simp_all add: role_of_value_def)

lemma role_of_value_Some_iff: "role_of_value s = Some r \<longleftrightarrow> s = role_value r"
  by (cases r) (auto simp: role_of_value_def)

lemma role_value_inject [simp]: "role_value a = role_value b \<longleftrightarrow> a = b"
  by (metis role_of_value_role_value option.inject)

text \<open>The observation proves the role it reports, whatever the member count or quorum.\<close>

lemma classify_role_ignores_churn:
  "classify_role (obs\<lparr>member_count := n, quorate := q\<rparr>) = classify_role obs"
  by (simp add: topology_defs)

lemma classify_role_concrete_iff:
  "classify_role obs \<noteq> UNKNOWN \<longleftrightarrow> complete obs \<and> speaks_for_the_scope obs"
  by (simp add: classify_role_def)

text \<open>The verdict of one decision, one line per branch of the code.\<close>

lemma evaluate_pending_iff:
  "transition (evaluate_role_transition stored obs pending) = TRANSITION_PENDING \<longleftrightarrow>
     classify_role obs \<noteq> UNKNOWN \<and> classify_role obs \<noteq> stored \<and> (pending \<noteq> UNKNOWN \<or> stored \<noteq> UNKNOWN)"
  by (auto simp: evaluate_role_transition_def Let_def)

lemma evaluate_withdrawn_iff:
  "transition (evaluate_role_transition stored obs pending) = TRANSITION_WITHDRAWN \<longleftrightarrow>
     pending \<noteq> UNKNOWN \<and> stored \<noteq> UNKNOWN \<and> classify_role obs = stored"
  by (auto simp: evaluate_role_transition_def Let_def)

lemma evaluate_adopted_iff:
  "transition (evaluate_role_transition stored obs pending) = ADOPTED \<longleftrightarrow>
     stored = UNKNOWN \<and> pending = UNKNOWN \<and> classify_role obs \<noteq> UNKNOWN"
  by (auto simp: evaluate_role_transition_def Let_def)

lemma evaluate_stable_iff:
  "transition (evaluate_role_transition stored obs pending) = STABLE \<longleftrightarrow>
     stored \<noteq> UNKNOWN \<and> pending = UNKNOWN \<and> classify_role obs = stored"
  by (auto simp: evaluate_role_transition_def Let_def)

lemma evaluate_no_evidence_iff:
  "transition (evaluate_role_transition stored obs pending) \<in> {INDETERMINATE, OBSERVER_NOT_A_MEMBER} \<longleftrightarrow>
     classify_role obs = UNKNOWN"
  by (auto simp: evaluate_role_transition_def Let_def)

lemmas evaluate_iffs = evaluate_pending_iff evaluate_withdrawn_iff evaluate_adopted_iff
  evaluate_stable_iff

lemma evaluate_complete_cases:
  assumes "classify_role obs \<noteq> UNKNOWN"
  shows "transition (evaluate_role_transition stored obs pending) \<in>
           {STABLE, ADOPTED, TRANSITION_PENDING, TRANSITION_WITHDRAWN}"
  using assms by (auto simp: evaluate_role_transition_def Let_def)

lemma evaluate_role_kept:
  "stored \<noteq> UNKNOWN \<or> pending \<noteq> UNKNOWN \<Longrightarrow> role (evaluate_role_transition stored obs pending) = stored"
  by (auto simp: evaluate_role_transition_def Let_def)

lemma evaluate_pending_role:
  "pending_role (evaluate_role_transition stored obs pending) =
     (if classify_role obs = UNKNOWN then pending
      else if classify_role obs = stored then UNKNOWN
      else if pending \<noteq> UNKNOWN then pending
      else if stored = UNKNOWN then UNKNOWN else classify_role obs)"
  by (auto simp: evaluate_role_transition_def Let_def)

lemma evaluate_previous_role [simp]: "previous_role (evaluate_role_transition stored obs pending) = stored"
  by (auto simp: evaluate_role_transition_def Let_def)

lemma evaluate_role_or_adopt:
  "role (evaluate_role_transition stored obs pending) =
     (if stored = UNKNOWN \<and> pending = UNKNOWN then classify_role obs else stored)"
  by (auto simp: evaluate_role_transition_def Let_def)

text \<open>
  Several membership reads evaluated one after the other, each against the role and the
  pending target the one before it left.
\<close>

fun evaluate_all ::
    "topology_role \<Rightarrow> topology_role \<Rightarrow> membership_observation list \<Rightarrow> topology_role \<times> topology_role" where
  "evaluate_all stored pending [] = (stored, pending)"
| "evaluate_all stored pending (o1 # os) =
     (let d = evaluate_role_transition stored o1 pending in evaluate_all (role d) (pending_role d) os)"

lemma evaluate_all_role: "stored \<noteq> UNKNOWN \<Longrightarrow> fst (evaluate_all stored pending obs) = stored"
  by (induction obs arbitrary: pending) (auto simp: Let_def evaluate_role_kept)

lemma evaluate_all_pending_step:
  "evaluate_all stored pending (obs @ [o1]) =
     (let (s, p) = evaluate_all stored pending obs; d = evaluate_role_transition s o1 p
      in (role d, pending_role d))"
  by (induction obs arbitrary: stored pending) (auto simp: Let_def split: prod.splits)

section \<open>Properties\<close>

text \<open>
  A registered role is never changed by observations, and the block they open is
  exact. However many membership reads are evaluated one after the other, a scope that
  started with a concrete role keeps that role, and it is pending after the last read
  exactly when the last read that was evidence about this scope (complete, from an accepted
  member) reported the other role, or, when no read was evidence, when it was pending before.
\<close>

theorem registered_role_never_flips:
  assumes "stored \<noteq> UNKNOWN" and "pending \<noteq> stored"
  shows "evaluate_all stored pending obs =
    (stored,
     case filter (\<lambda>o1. classify_role o1 \<noteq> UNKNOWN) obs of
       [] \<Rightarrow> pending
     | _ \<Rightarrow> (if classify_role (last (filter (\<lambda>o1. classify_role o1 \<noteq> UNKNOWN) obs)) = stored then UNKNOWN
            else (if stored = STANDALONE then COROSYNC else STANDALONE)))"
proof (induction obs rule: rev_induct)
  case Nil
  then show ?case by simp
next
  case (snoc o1 obs)
  obtain s p where sp: "evaluate_all stored pending obs = (s, p)" by (cases "evaluate_all stored pending obs")
  let ?other = "if stored = STANDALONE then COROSYNC else STANDALONE"
  have s: "s = stored" using evaluate_all_role [OF assms(1), of pending obs] sp by simp
  have other: "r = ?other" if "r \<noteq> UNKNOWN" "r \<noteq> stored" for r
    using that assms(1) by (cases r; cases stored) auto
  have pending: "pending = UNKNOWN \<or> pending = ?other" using other [of pending] assms(2) by blast
  have p: "p = UNKNOWN \<or> p = ?other"
    using snoc sp pending by (simp split: list.splits if_splits)
  show ?case
    using snoc sp s p assms(1) other [of "classify_role o1"]
    by (auto simp: evaluate_all_pending_step evaluate_role_or_adopt evaluate_pending_role split: list.splits)
qed

theorem registered_role_never_flips_witness:
  "evaluate_all STANDALONE UNKNOWN
     [\<lparr>complete = True, has_cluster_row = True, member_count = 3, quorate = True,
       observed_from = ''pve1'', accepted_members = {''pve1''}\<rparr>] = (STANDALONE, COROSYNC)"
  using registered_role_never_flips
    [of STANDALONE UNKNOWN "[\<lparr>complete = True, has_cluster_row = True, member_count = 3, quorate = True,
       observed_from = ''pve1'', accepted_members = {''pve1''}\<rparr>]"]
  by (simp add: classify_role_def speaks_for_the_scope_def)

end
