(* ===== verification/Membership.thy ===== *)
theory Membership
  imports Audit_Events Topology_Role
begin

text \<open>
  Membership publication, \<^verbatim>\<open>core/services/cluster_membership.py\<close>: validation of the
  \<open>cluster/status\<close> body, the failover loop over the endpoints of one cluster, and the
  publication of one complete or one incomplete generation. With it the state rows' role
  accessors and check constraint (\<open>ClusterMembershipState\<close> in \<^verbatim>\<open>core/models.py\<close>), the endpoint order
  (\<open>enabled_endpoints\<close> in \<^verbatim>\<open>core/services/cluster_resolver.py\<close>) and the projection's lifecycle
  (\<^verbatim>\<open>core/services/cluster_projection.py\<close>). The provider call is a parameter of the refresh.
  The decorator \<open>transaction.atomic\<close> is the sum type: a raised error returns no database.
\<close>

section \<open>Validation of the body\<close>

record node_observation =
  no_node_name :: string
  no_nodeid :: nat
  no_online :: bool
  no_ring_address :: string

record normalized_membership =
  nm_nodes :: "node_observation list"
  nm_has_cluster_row :: bool
  nm_quorate :: bool
  nm_observed_from :: string

definition observation :: "normalized_membership \<Rightarrow> string set \<Rightarrow> membership_observation" where
  "observation nm accepted =
     \<lparr>complete = True, has_cluster_row = nm_has_cluster_row nm, member_count = int (length (nm_nodes nm)),
      quorate = nm_quorate nm, observed_from = nm_observed_from nm, accepted_members = accepted\<rparr>"

datatype payload_error =
    NotANonemptyList | RowNotMapping | UnknownRowType | AmbiguousShape
  | BadString string | BadInteger string | NotBinary string
  | BadNodeName | NotOneLocalNode | StandaloneManyNodes | ClusteredWithoutNodeid | NodeCountMismatch

definition required_str :: "json_object \<Rightarrow> string \<Rightarrow> bool \<Rightarrow> (payload_error, string) result" where
  "required_str row key nonempty =
     (case map_of row key of
        Some (JStr s) \<Rightarrow>
          if nonempty \<and> strip s = [] then Inl (BadString key)
          else Inr (if nonempty then strip s else s)
      | _ \<Rightarrow> Inl (BadString key))"

definition required_int :: "json_object \<Rightarrow> string \<Rightarrow> int \<Rightarrow> (payload_error, int) result" where
  "required_int row key minimum =
     (case map_of row key of
        Some (JInt i) \<Rightarrow> if i < minimum then Inl (BadInteger key) else Inr i
      | _ \<Rightarrow> Inl (BadInteger key))"

definition binary_int :: "json_object \<Rightarrow> string \<Rightarrow> (payload_error, bool) result" where
  "binary_int row key =
     bind_result (required_int row key 0) (\<lambda>i. if i \<notin> {0, 1} then Inl (NotBinary key) else Inr (i \<noteq> 0))"

definition optional_binary_int :: "json_object \<Rightarrow> string \<Rightarrow> (payload_error, bool) result" where
  "optional_binary_int row key = (if map_of row key = None then Inr False else binary_int row key)"

text \<open>One pass of the loop over the node rows: the nodes so far and the local names so far.\<close>

definition normalize_node ::
    "json_object \<Rightarrow> node_observation list \<times> string list
      \<Rightarrow> (payload_error, node_observation list \<times> string list) result" where
  "normalize_node row acc =
     (case acc of (nodes, local_names) \<Rightarrow>
       bind_result (required_str row ''name'' True) (\<lambda>node_name.
       if CHR '':'' \<in> set node_name \<or> node_name \<in> set (map no_node_name nodes) then Inl BadNodeName
       else
         bind_result (if map_of row ''ip'' = None then Inr [] else required_str row ''ip'' False) (\<lambda>ring_address.
         bind_result (required_int row ''nodeid'' 0) (\<lambda>nodeid.
         bind_result (binary_int row ''online'') (\<lambda>online.
         bind_result (optional_binary_int row ''local'') (\<lambda>is_local.
           Inr (nodes @ [\<lparr>no_node_name = node_name, no_nodeid = nat nodeid, no_online = online,
                          no_ring_address = ring_address\<rparr>],
                if is_local then local_names @ [node_name] else local_names)))))))"

definition row_type :: "json_object \<Rightarrow> string \<Rightarrow> bool" where
  "row_type row t = (map_of row ''type'' = Some (JStr t))"

definition cluster_quorate :: "json_object list \<Rightarrow> node_observation list \<Rightarrow> (payload_error, bool) result" where
  "cluster_quorate cluster_rows nodes =
     (case cluster_rows of
        [] \<Rightarrow> if length nodes \<noteq> 1 then Inl StandaloneManyNodes else Inr False
      | cluster_row # _ \<Rightarrow>
          if list_ex (\<lambda>n. no_nodeid n = 0) nodes then Inl ClusteredWithoutNodeid
          else bind_result (required_int cluster_row ''nodes'' 1) (\<lambda>reported.
            if reported \<noteq> int (length nodes) then Inl NodeCountMismatch
            else binary_int cluster_row ''quorate''))"

definition normalize_rows :: "json_object list \<Rightarrow> (payload_error, normalized_membership) result" where
  "normalize_rows rows =
     (let node_rows = filter (\<lambda>r. row_type r ''node'') rows;
          cluster_rows = filter (\<lambda>r. row_type r ''cluster'') rows
      in if length node_rows + length cluster_rows \<noteq> length rows then Inl UnknownRowType
         else if node_rows = [] \<or> 1 < length cluster_rows then Inl AmbiguousShape
         else bind_result (fold_result normalize_node node_rows ([], [])) (\<lambda>(nodes, local_names).
           if length local_names \<noteq> 1 then Inl NotOneLocalNode
           else bind_result (cluster_quorate cluster_rows nodes) (\<lambda>q.
             Inr \<lparr>nm_nodes = sort_key no_node_name nodes, nm_has_cluster_row = cluster_rows \<noteq> [],
                  nm_quorate = q, nm_observed_from = hd local_names\<rparr>)))"

definition normalize_cluster_status :: "json \<Rightarrow> (payload_error, normalized_membership) result" where
  "normalize_cluster_status payload =
     (case payload of
        JList items \<Rightarrow>
          if items = [] then Inl NotANonemptyList
          else if list_ex (\<lambda>i. \<not> is_object i) items then Inl RowNotMapping
          else normalize_rows (map members items)
      | _ \<Rightarrow> Inl NotANonemptyList)"

section \<open>Provider errors\<close>

text \<open>
  The exception of a failed call, with what \<open>_provider_error_code\<close> reads of it: the class, for
  a transport error whether its cause is a timeout, and otherwise the status code, the
  message and the status of an \<open>HTTPStatusError\<close> cause.
\<close>

datatype api_failure =
    InvalidResponse
  | TransportFailure bool
  | ApiFailure "int option" string "int option"

definition provider_error_code :: "api_failure \<Rightarrow> string" where
  "provider_error_code e =
     (case e of
        InvalidResponse \<Rightarrow> ''invalid_payload''
      | TransportFailure timeout \<Rightarrow> if timeout then ''provider_timeout'' else ''provider_error''
      | ApiFailure status_code message cause \<Rightarrow>
          if status_code \<in> {Some 401, Some 403} then ''provider_unauthorized''
          else let (leading, separator, _) = partition_on (CHR '':'') message in
            if separator \<and> strip leading \<in> {''401'', ''403''} then ''provider_unauthorized''
            else if cause \<in> {Some 401, Some 403} then ''provider_unauthorized''
            else ''provider_error'')"

section \<open>Stored state\<close>

text \<open>\<open>ClusterMembershipState\<close>: a new row's defaults, its accessors and its check constraint.\<close>

definition new_membership_state :: "nat \<Rightarrow> membership_state" where
  "new_membership_state pk =
     \<lparr>ms_cluster = pk, ms_topology_role = ''unknown'', ms_transition_pending = False,
      ms_pending_topology_role = ''unknown'', ms_membership_generation = 0, ms_member_count = 0,
      ms_quorate = False, ms_observed_from = []\<rparr>"

definition state_role :: "membership_state \<Rightarrow> topology_role" where
  "state_role s = (case role_of_value (ms_topology_role s) of None \<Rightarrow> UNKNOWN | Some r \<Rightarrow> r)"

definition state_pending_role :: "membership_state \<Rightarrow> topology_role" where
  "state_pending_role s = (case role_of_value (ms_pending_topology_role s) of None \<Rightarrow> UNKNOWN | Some r \<Rightarrow> r)"

definition pending_role_is_readable :: "membership_state \<Rightarrow> bool" where
  "pending_role_is_readable s = (role_of_value (ms_pending_topology_role s) \<noteq> None)"

definition pending_role_coherent :: "membership_state \<Rightarrow> bool" where
  "pending_role_coherent s =
     ((\<not> ms_transition_pending s \<and> ms_pending_topology_role s = ''unknown'')
      \<or> (ms_transition_pending s \<and> ms_pending_topology_role s \<notin> {'''', ''unknown''}
          \<and> ms_pending_topology_role s \<noteq> ms_topology_role s))"

definition membership_of :: "nat \<Rightarrow> db \<Rightarrow> membership_state option" where
  "membership_of pk d = first_where (\<lambda>s. ms_cluster s = pk) (membership_states d)"

definition is_membership_coverage :: "nat \<Rightarrow> projection_coverage \<Rightarrow> bool" where
  "is_membership_coverage pk c =
     (cov_cluster c = pk \<and> cov_domain c = ''membership'' \<and> cov_node_name c = None)"

definition new_coverage :: "nat \<Rightarrow> projection_coverage" where
  "new_coverage pk =
     \<lparr>cov_cluster = pk, cov_domain = ''membership'', cov_node_name = None, cov_generation = 0,
      cov_based_on_generation = None, cov_complete = False, cov_attempted_at = None,
      cov_observed_at = None, cov_error_code = []\<rparr>"

definition membership_coverage_of :: "nat \<Rightarrow> db \<Rightarrow> projection_coverage option" where
  "membership_coverage_of pk d = first_where (is_membership_coverage pk) (coverages d)"

definition stored_generation :: "nat \<Rightarrow> db \<Rightarrow> nat" where
  "stored_generation pk d = (case membership_of pk d of None \<Rightarrow> 0 | Some s \<Rightarrow> ms_membership_generation s)"

definition accepted_member_names :: "nat \<Rightarrow> db \<Rightarrow> string set" where
  "accepted_member_names pk d =
     (case (membership_of pk d, membership_coverage_of pk d) of
        (Some s, Some c) \<Rightarrow>
          if cov_observed_at c = None then {}
          else set (map ns_node_name (filter (\<lambda>n. ns_cluster n = pk \<and> ns_present n
                 \<and> ns_membership_generation n = ms_membership_generation s) (node_states d)))
      | _ \<Rightarrow> {})"

definition health_rank :: "endpoint \<Rightarrow> nat" where
  "health_rank e =
     (if ep_last_health_status e = ''ok'' then 0 else if ep_last_health_status e = [] then 1 else 2)"

text \<open>\<open>order_by("_health_rank", "name")\<close>: stable sorts, the last key first.\<close>

definition enabled_endpoints :: "nat \<Rightarrow> db \<Rightarrow> endpoint list" where
  "enabled_endpoints pk d =
     sort_key health_rank (sort_key ep_name (filter (\<lambda>e. ep_cluster e = pk \<and> ep_enabled e) (endpoints d)))"

definition stamp_cluster_projection_footprint :: "cluster \<Rightarrow> time \<Rightarrow> db \<Rightarrow> db" where
  "stamp_cluster_projection_footprint c now d =
     snd (stamp_operational_footprint (Some c) (cl_pk c) FOOTPRINT_HOST_PROJECTION now d)"

section \<open>Publication\<close>

definition publish_incomplete :: "cluster \<Rightarrow> time \<Rightarrow> string \<Rightarrow> db \<Rightarrow> nat \<times> db" where
  "publish_incomplete c attempted_at error_code d =
     (let pk = cl_pk c;
          d1 = d\<lparr>coverages := upsert_where (is_membership_coverage pk) (new_coverage pk)
                   (\<lambda>r. r\<lparr>cov_complete := False, cov_attempted_at := Some attempted_at,
                          cov_error_code := error_code\<rparr>) (coverages d)\<rparr>
      in (case membership_coverage_of pk d of None \<Rightarrow> 0 | Some r \<Rightarrow> cov_generation r,
          stamp_cluster_projection_footprint c attempted_at d1))"

datatype membership_error =
    ClusterMissing
  | ClientUnavailable string
  | UnexpectedDecision role_transition
  | AuditFailed audit_error

text \<open>
  The assignments to the state row for one decision: the row, the error code, whether this
  publication opened the gate, and the withdrawn target.
\<close>

definition apply_decision ::
    "role_decision \<Rightarrow> membership_state
      \<Rightarrow> (membership_error, membership_state \<times> string \<times> bool \<times> string) result" where
  "apply_decision dec s =
     (if transition dec \<in> {ADOPTED, STABLE}
      then Inr (s\<lparr>ms_topology_role := role_value (role dec)\<rparr>, [], False, [])
      else if transition dec = TRANSITION_PENDING
      then Inr (s\<lparr>ms_transition_pending := True, ms_pending_topology_role := role_value (pending_role dec)\<rparr>,
                ''topology_role_change_observed'', \<not> ms_transition_pending s, [])
      else if transition dec = TRANSITION_WITHDRAWN
      then Inr (s\<lparr>ms_transition_pending := False, ms_pending_topology_role := role_value UNKNOWN\<rparr>,
                [], False, ms_pending_topology_role s)
      else if transition dec = INDETERMINATE \<and> ms_transition_pending s \<and> \<not> pending_role_is_readable s
      then Inr (s, ''topology_role_change_observed'', False, [])
      else Inl (UnexpectedDecision (transition dec)))"

definition publication_event :: "cluster \<Rightarrow> role_decision \<Rightarrow> bool \<Rightarrow> string \<Rightarrow> audit_args option" where
  "publication_event c dec opened withdrawn =
     (if opened
      then Some ((audit_call ''cluster.topology_transition_detected'')
        \<lparr>aa_object_type := ''cluster'', aa_object_id := cl_key c, aa_outcome := ''warning'',
         aa_system_username := ''system'', aa_cluster := Some c,
         aa_details := [(''cluster_key'', JStr (cl_key c)),
                        (''registered_role'', JStr (role_value (previous_role dec))),
                        (''pending_role'', JStr (role_value (pending_role dec))),
                        (''operator_confirmation_required'', JBool True)]\<rparr>)
      else if transition dec = TRANSITION_WITHDRAWN
      then Some ((audit_call ''cluster.topology_transition_withdrawn'')
        \<lparr>aa_object_type := ''cluster'', aa_object_id := cl_key c,
         aa_system_username := ''system'', aa_cluster := Some c,
         aa_details := [(''cluster_key'', JStr (cl_key c)),
                        (''registered_role'', JStr (role_value (role dec))),
                        (''withdrawn_pending_role'', JStr withdrawn)]\<rparr>)
      else None)"

definition record_publication :: "time \<Rightarrow> audit_args option \<Rightarrow> db \<Rightarrow> (membership_error, db) result" where
  "record_publication now ev d =
     (case ev of
        None \<Rightarrow> Inr d
      | Some args \<Rightarrow> bind_result (map_error AuditFailed (record_audit_event now args d)) (\<lambda>(_, d1). Inr d1))"

text \<open>One observed node, and the rows no observation named.\<close>

definition is_node :: "nat \<Rightarrow> string \<Rightarrow> node_state \<Rightarrow> bool" where
  "is_node pk name n = (ns_cluster n = pk \<and> ns_node_name n = name)"

definition new_node_state :: "nat \<Rightarrow> string \<Rightarrow> node_state" where
  "new_node_state pk name =
     \<lparr>ns_cluster = pk, ns_node_name = name, ns_nodeid = None, ns_present = True, ns_online = False,
      ns_reported_ring_address = [], ns_membership_generation = 0,
      ns_first_discovered_at = None, ns_last_discovered_at = None\<rparr>"

definition observe_node :: "nat \<Rightarrow> time \<Rightarrow> node_observation \<Rightarrow> node_state \<Rightarrow> node_state" where
  "observe_node generation observed_at item row =
     row\<lparr>ns_first_discovered_at := (case ns_first_discovered_at row of None \<Rightarrow> Some observed_at | Some t \<Rightarrow> Some t),
         ns_nodeid := Some (no_nodeid item), ns_present := True, ns_online := no_online item,
         ns_reported_ring_address := no_ring_address item, ns_membership_generation := generation,
         ns_last_discovered_at := Some observed_at\<rparr>"

definition publish_nodes :: "nat \<Rightarrow> nat \<Rightarrow> time \<Rightarrow> node_observation list \<Rightarrow> node_state list \<Rightarrow> node_state list" where
  "publish_nodes pk generation observed_at items rows =
     fold (\<lambda>item. upsert_where (is_node pk (no_node_name item)) (new_node_state pk (no_node_name item))
                    (observe_node generation observed_at item)) items rows"

definition retract_nodes :: "nat \<Rightarrow> nat \<Rightarrow> node_observation list \<Rightarrow> node_state list \<Rightarrow> node_state list" where
  "retract_nodes pk generation items rows =
     update_where (\<lambda>n. ns_cluster n = pk \<and> ns_node_name n \<notin> set (map no_node_name items))
       (\<lambda>n. n\<lparr>ns_present := False, ns_online := False, ns_membership_generation := generation\<rparr>) rows"

definition publish_complete ::
    "cluster \<Rightarrow> normalized_membership \<Rightarrow> role_decision \<Rightarrow> time \<Rightarrow> db
      \<Rightarrow> (membership_error, (nat \<times> string) \<times> db) result" where
  "publish_complete c nm dec observed_at d =
     (let pk = cl_pk c;
          state = (case membership_of pk d of None \<Rightarrow> new_membership_state pk | Some s \<Rightarrow> s);
          generation = ms_membership_generation state + 1
      in bind_result (apply_decision dec state) (\<lambda>(s, error_code, opened, withdrawn).
         let saved = s\<lparr>ms_membership_generation := generation, ms_member_count := length (nm_nodes nm),
                       ms_quorate := nm_quorate nm, ms_observed_from := nm_observed_from nm\<rparr>;
             d1 = d\<lparr>membership_states := upsert_where (\<lambda>r. ms_cluster r = pk) (new_membership_state pk)
                      (\<lambda>_. saved) (membership_states d)\<rparr>
         in bind_result (record_publication observed_at (publication_event c dec opened withdrawn) d1) (\<lambda>d2.
            let d3 = d2\<lparr>node_states := retract_nodes pk generation (nm_nodes nm)
                          (publish_nodes pk generation observed_at (nm_nodes nm) (node_states d2)),
                        coverages := upsert_where (is_membership_coverage pk) (new_coverage pk)
                          (\<lambda>r. r\<lparr>cov_generation := generation, cov_complete := True,
                                 cov_attempted_at := Some observed_at, cov_observed_at := Some observed_at,
                                 cov_error_code := error_code\<rparr>) (coverages d2)\<rparr>
            in Inr ((generation, error_code), stamp_cluster_projection_footprint c observed_at d3))))"

section \<open>Refresh\<close>

record endpoint_attempt =
  at_endpoint_name :: string
  at_error_code :: string
  at_observed_from :: string

record refresh_result =
  rr_cluster_key :: string
  rr_generation :: nat
  rr_complete :: bool
  rr_error_code :: string
  rr_observed_from :: string
  rr_attempts :: "endpoint_attempt list"
  rr_role_decision :: "role_decision option"

definition zero_call_result :: "cluster \<Rightarrow> string \<Rightarrow> db \<Rightarrow> refresh_result" where
  "zero_call_result c error_code d =
     \<lparr>rr_cluster_key = cl_key c, rr_generation = stored_generation (cl_pk c) d, rr_complete = False,
      rr_error_code = error_code, rr_observed_from = [], rr_attempts = [], rr_role_decision = None\<rparr>"

text \<open>
  One endpoint: \<open>client_for_endpoint\<close> may raise, which ends the refresh; the read may fail with
  a provider error or return a body.
\<close>

type_synonym endpoint_read = "endpoint \<Rightarrow> (string, (api_failure, json) result) result"

definition attempt_endpoint ::
    "(api_failure, json) result \<Rightarrow> (string, normalized_membership) result" where
  "attempt_endpoint r =
     (case r of
        Inl e \<Rightarrow> Inl (provider_error_code e)
      | Inr payload \<Rightarrow> map_error (\<lambda>_. ''invalid_payload'') (normalize_cluster_status payload))"

text \<open>
  The failover loop: the attempts made, the outside observers met, and the answer that was
  accepted.
\<close>

fun read_endpoints ::
    "endpoint_read \<Rightarrow> string set \<Rightarrow> endpoint list
      \<Rightarrow> (membership_error, endpoint_attempt list \<times> string list \<times> normalized_membership option) result" where
  "read_endpoints rd accepted [] = Inr ([], [], None)"
| "read_endpoints rd accepted (e # es) =
     bind_result (map_error ClientUnavailable (rd e)) (\<lambda>r.
       case attempt_endpoint r of
         Inl code \<Rightarrow>
           bind_result (read_endpoints rd accepted es) (\<lambda>(attempts, outside, ans).
             Inr (\<lparr>at_endpoint_name = ep_name e, at_error_code = code, at_observed_from = []\<rparr> # attempts, outside, ans))
       | Inr nm \<Rightarrow>
           if speaks_for_the_scope (observation nm accepted)
           then Inr ([\<lparr>at_endpoint_name = ep_name e, at_error_code = [], at_observed_from = nm_observed_from nm\<rparr>], [], Some nm)
           else bind_result (read_endpoints rd accepted es) (\<lambda>(attempts, outside, ans).
             Inr (\<lparr>at_endpoint_name = ep_name e, at_error_code = ''observer_not_a_member'',
                   at_observed_from = nm_observed_from nm\<rparr> # attempts, nm_observed_from nm # outside, ans)))"

definition refresh_decision :: "membership_state option \<Rightarrow> membership_observation \<Rightarrow> role_decision" where
  "refresh_decision state obs =
     (let stored = (case state of None \<Rightarrow> UNKNOWN | Some s \<Rightarrow> state_role s);
          pending = (case state of None \<Rightarrow> UNKNOWN | Some s \<Rightarrow> state_pending_role s)
      in if (case state of None \<Rightarrow> False | Some s \<Rightarrow> ms_transition_pending s \<and> \<not> pending_role_is_readable s)
         then \<lparr>transition = INDETERMINATE, role = stored, previous_role = stored, pending_role = UNKNOWN,
               reason = ''The pending topology role was written by a newer build and requires operator repair.''\<rparr>
         else evaluate_role_transition stored obs pending)"

definition incomplete_error :: "endpoint_attempt list \<Rightarrow> string list \<Rightarrow> string \<times> string" where
  "incomplete_error attempts outside =
     (case outside of
        o1 # _ \<Rightarrow> (''observer_not_a_member'', o1)
      | [] \<Rightarrow> (case remdups (map at_error_code attempts) of
                [code] \<Rightarrow> (code, []) | _ \<Rightarrow> (''provider_error'', [])))"

definition refresh_acquirable ::
    "endpoint_read \<Rightarrow> cluster \<Rightarrow> endpoint list \<Rightarrow> time \<Rightarrow> db \<Rightarrow> (membership_error, refresh_result \<times> db) result" where
  "refresh_acquirable rd c eps now d =
     (let pk = cl_pk c; accepted = accepted_member_names pk d in
      bind_result (read_endpoints rd accepted eps) (\<lambda>(attempts, outside, ans).
        case ans of
          None \<Rightarrow>
            let (code, from) = incomplete_error attempts outside;
                (generation, d1) = publish_incomplete c now code d
            in Inr (\<lparr>rr_cluster_key = cl_key c, rr_generation = generation, rr_complete = False,
                     rr_error_code = code, rr_observed_from = from, rr_attempts = attempts,
                     rr_role_decision = None\<rparr>, d1)
        | Some nm \<Rightarrow>
            let dec = refresh_decision (membership_of pk d) (observation nm accepted)
            in bind_result (publish_complete c nm dec now d) (\<lambda>((generation, code), d1).
                 Inr (\<lparr>rr_cluster_key = cl_key c, rr_generation = generation, rr_complete = True,
                       rr_error_code = code, rr_observed_from = nm_observed_from nm, rr_attempts = attempts,
                       rr_role_decision = Some dec\<rparr>, d1))))"

definition refresh_cluster_membership ::
    "endpoint_read \<Rightarrow> nat \<Rightarrow> time \<Rightarrow> db \<Rightarrow> (membership_error, refresh_result \<times> db) result" where
  "refresh_cluster_membership rd pk now d =
     (case get_cluster pk d of
        None \<Rightarrow> Inl ClusterMissing
      | Some c \<Rightarrow>
          if cl_retired_at c \<noteq> None then Inr (zero_call_result c ''acquisition_retired'' d, d)
          else if \<not> cl_enabled c then Inr (zero_call_result c ''acquisition_disabled'' d, d)
          else if cl_ingestion_quarantined c then Inr (zero_call_result c ''acquisition_quarantined'' d, d)
          else if enabled_endpoints pk d = [] then Inr (zero_call_result c ''no_enabled_endpoint'' d, d)
          else refresh_acquirable rd c (enabled_endpoints pk d) now d)"

section \<open>Retirement of the projection\<close>

record projection_retirement_result =
  pr_membership_rows_deleted :: nat
  pr_node_rows_deleted :: nat
  pr_coverage_rows_deleted :: nat
  pr_interface_rows_deleted :: nat

definition retire_cluster_projection :: "nat \<Rightarrow> db \<Rightarrow> projection_retirement_result \<times> db" where
  "retire_cluster_projection pk d =
     (\<lparr>pr_membership_rows_deleted = count_where (\<lambda>r. ms_cluster r = pk) (membership_states d),
       pr_node_rows_deleted = count_where (\<lambda>r. ns_cluster r = pk) (node_states d),
       pr_coverage_rows_deleted = count_where (\<lambda>r. cov_cluster r = pk) (coverages d),
       pr_interface_rows_deleted = count_where (\<lambda>r. ni_cluster r = pk) (node_interfaces d)\<rparr>,
      d\<lparr>coverages := delete_where (\<lambda>r. cov_cluster r = pk) (coverages d),
        node_interfaces := delete_where (\<lambda>r. ni_cluster r = pk) (node_interfaces d),
        node_states := delete_where (\<lambda>r. ns_cluster r = pk) (node_states d),
        membership_states := delete_where (\<lambda>r. ms_cluster r = pk) (membership_states d)\<rparr>)"

section \<open>Facts about validation\<close>

text \<open>What one accepted node row adds, and what the loop keeps true.\<close>

definition node_list_ok :: "node_observation list \<times> string list \<Rightarrow> bool" where
  "node_list_ok acc =
     (distinct (map no_node_name (fst acc)) \<and> set (snd acc) \<subseteq> set (map no_node_name (fst acc))
      \<and> list_all (\<lambda>n. no_node_name n \<noteq> [] \<and> CHR '':'' \<notin> set (no_node_name n)) (fst acc))"

lemma required_str_nonempty: "required_str row key True = Inr s \<Longrightarrow> s \<noteq> []"
  by (auto simp: required_str_def split: option.splits json.splits if_splits)

lemma normalize_node_ok:
  assumes "normalize_node row acc = Inr acc'" "node_list_ok acc"
  shows "node_list_ok acc'" and "length (fst acc') = Suc (length (fst acc))"
  using assms required_str_nonempty
  by (auto simp: normalize_node_def node_list_ok_def result_simps split: prod.splits if_splits)

lemma normalize_nodes_ok:
  "fold_result normalize_node rows acc = Inr acc' \<Longrightarrow> node_list_ok acc \<Longrightarrow>
   node_list_ok acc' \<and> length (fst acc') = length rows + length (fst acc)"
proof (induction rows arbitrary: acc)
  case Nil
  then show ?case by simp
next
  case (Cons row rows)
  then obtain acc1 where acc1: "normalize_node row acc = Inr acc1" "fold_result normalize_node rows acc1 = Inr acc'"
    by (auto simp: result_simps)
  with Cons.IH [of acc1] normalize_node_ok [OF acc1(1) Cons.prems(2)] show ?case by simp
qed

text \<open>
  An accepted body, as the rest of the module relies on it: nodes sorted by distinct,
  nonempty, colon-free names; the answering node is one of them; a standalone answer has one
  node and is not quorate; a clustered answer has corosync ids.
\<close>

definition normalized_ok :: "normalized_membership \<Rightarrow> bool" where
  "normalized_ok nm =
     (nm_nodes nm \<noteq> [] \<and> distinct (map no_node_name (nm_nodes nm)) \<and> sorted (map no_node_name (nm_nodes nm))
      \<and> (\<forall>n\<in>set (nm_nodes nm). no_node_name n \<noteq> [] \<and> CHR '':'' \<notin> set (no_node_name n))
      \<and> nm_observed_from nm \<in> set (map no_node_name (nm_nodes nm))
      \<and> (if nm_has_cluster_row nm then \<forall>n\<in>set (nm_nodes nm). 0 < no_nodeid n
         else length (nm_nodes nm) = 1 \<and> \<not> nm_quorate nm))"

lemma normalize_rows_ok:
  assumes "normalize_rows rows = Inr nm"
  shows "normalized_ok nm \<and> length (nm_nodes nm) = length (filter (\<lambda>r. row_type r ''node'') rows)"
proof -
  let ?nodes = "filter (\<lambda>r. row_type r ''node'') rows" and ?clusters = "filter (\<lambda>r. row_type r ''cluster'') rows"
  from assms obtain nodes locals q where
    ne: "?nodes \<noteq> []" and fold: "fold_result normalize_node ?nodes ([], []) = Inr (nodes, locals)"
    and loc: "length locals = 1" and q: "cluster_quorate ?clusters nodes = Inr q"
    and nm: "nm = \<lparr>nm_nodes = sort_key no_node_name nodes, nm_has_cluster_row = ?clusters \<noteq> [],
                  nm_quorate = q, nm_observed_from = hd locals\<rparr>"
    by (auto simp: normalize_rows_def Let_def result_simps split: if_splits)
  from normalize_nodes_ok [OF fold] have ok: "node_list_ok (nodes, locals)" and len: "length nodes = length ?nodes"
    by (simp_all add: node_list_ok_def)
  have "hd locals \<in> set locals" using loc by (cases locals) auto
  then have local: "hd locals \<in> no_node_name ` set nodes" using ok by (auto simp: node_list_ok_def)
  have dist: "distinct (map no_node_name (sort_key no_node_name nodes))"
    using ok by (simp add: node_list_ok_def distinct_map)
  have "nodes \<noteq> []" using ne len by auto
  then have nonempty: "sort_key no_node_name nodes \<noteq> []"
    by (metis length_sort length_0_conv)
  have shape: "if ?clusters \<noteq> [] then \<forall>n\<in>set nodes. 0 < no_nodeid n else length nodes = 1 \<and> \<not> q"
    using q by (cases ?clusters) (auto simp: cluster_quorate_def list_ex_iff split: if_splits)
  have names: "\<forall>n\<in>set nodes. no_node_name n \<noteq> [] \<and> CHR '':'' \<notin> set (no_node_name n)"
    using ok by (simp add: node_list_ok_def list_all_iff)
  show ?thesis
    using local dist nonempty shape names len by (cases "?clusters = []") (simp_all add: normalized_ok_def nm)
qed

lemma normalize_ok: "normalize_cluster_status payload = Inr nm \<Longrightarrow> normalized_ok nm"
  by (auto simp: normalize_cluster_status_def normalize_rows_ok split: json.splits if_splits)

lemma attempt_endpoint_Inr:
  "attempt_endpoint r = Inr nm \<Longrightarrow> \<exists>payload. r = Inr payload \<and> normalize_cluster_status payload = Inr nm"
  by (auto simp: attempt_endpoint_def result_simps split: sum.splits)

lemma read_endpoints_answer:
  "read_endpoints rd accepted eps = Inr (attempts, outside, Some nm) \<Longrightarrow>
   speaks_for_the_scope (observation nm accepted)
   \<and> (\<exists>e\<in>set eps. \<exists>payload. rd e = Inr (Inr payload) \<and> normalize_cluster_status payload = Inr nm)"
proof (induction eps arbitrary: attempts outside)
  case Nil
  then show ?case by simp
next
  case (Cons e es)
  then obtain r where r: "rd e = Inr r" by (auto simp: result_simps)
  show ?case
  proof (cases "attempt_endpoint r")
    case (Inl code)
    with Cons r show ?thesis by (auto simp: result_simps)
  next
    case (Inr nm1)
    with Cons r attempt_endpoint_Inr [OF Inr] show ?thesis
      by (cases "speaks_for_the_scope (observation nm1 accepted)") (auto simp: result_simps)
  qed
qed

lemma read_endpoints_total:
  "\<forall>e\<in>set eps. \<exists>r. rd e = Inr r \<Longrightarrow> \<exists>out. read_endpoints rd accepted eps = Inr out"
proof (induction eps)
  case Nil
  then show ?case by simp
next
  case (Cons e es)
  then obtain r out where "rd e = Inr r" "read_endpoints rd accepted es = Inr out" by auto
  then show ?case by (cases out) (auto split: sum.splits)
qed

section \<open>Facts about publication\<close>

lemma observe_node_row [simp]:
  "ns_cluster (observe_node g t i n) = ns_cluster n" "ns_node_name (observe_node g t i n) = ns_node_name n"
  "ns_present (observe_node g t i n)" "ns_membership_generation (observe_node g t i n) = g"
  by (simp_all add: observe_node_def)

lemma is_node_new [simp]: "is_node pk name (new_node_state pk name)"
  by (simp add: is_node_def new_node_state_def)

lemma publish_nodes_snoc:
  "publish_nodes pk g t (items @ [i]) rows =
     upsert_where (is_node pk (no_node_name i)) (new_node_state pk (no_node_name i)) (observe_node g t i)
       (publish_nodes pk g t items rows)"
  by (simp add: publish_nodes_def)

lemma publish_nodes_others:
  "filter (\<lambda>n. ns_cluster n \<noteq> pk) (publish_nodes pk g t items rows) = filter (\<lambda>n. ns_cluster n \<noteq> pk) rows"
proof (induction items rule: rev_induct)
  case Nil
  then show ?case by (simp add: publish_nodes_def)
next
  case (snoc i items)
  then show ?case
    by (subst publish_nodes_snoc, subst filter_upsert_frame) (simp_all add: is_node_def new_node_state_def)
qed

text \<open>After the loop, the rows of the observed names are present at this generation, and each name has one.\<close>

lemma publish_nodes_observed:
  assumes "n \<in> set (publish_nodes pk g t items rows)" "ns_cluster n = pk" "ns_node_name n \<in> set (map no_node_name items)"
  shows "ns_present n \<and> ns_membership_generation n = g"
  using assms
proof (induction items arbitrary: n rule: rev_induct)
  case Nil
  then show ?case by simp
next
  case (snoc i items)
  from snoc.prems(1) have "n \<in> set (upsert_where (is_node pk (no_node_name i)) (new_node_state pk (no_node_name i))
      (observe_node g t i) (publish_nodes pk g t items rows))"
    by (simp only: publish_nodes_snoc)
  then show ?case
  proof (cases rule: in_upsert_whereE)
    case (saved r)
    then show ?thesis by simp
  next
    case kept
    with snoc.prems(2,3) have "ns_node_name n \<in> set (map no_node_name items)" by (auto simp: is_node_def)
    with snoc.IH [OF kept(1) snoc.prems(2)] show ?thesis by blast
  qed
qed

lemma publish_nodes_exists:
  "name \<in> set (map no_node_name items) \<Longrightarrow> exists_where (is_node pk name) (publish_nodes pk g t items rows)"
proof (induction items rule: rev_induct)
  case Nil
  then show ?case by simp
next
  case (snoc i items)
  show ?case
  proof (cases "exists_where (is_node pk name) (publish_nodes pk g t items rows)")
    case True
    then show ?thesis
      unfolding publish_nodes_snoc by (rule exists_where_upsert) (simp add: is_node_def)
  next
    case False
    with snoc have "name = no_node_name i" by auto
    with False show ?thesis
      by (simp add: publish_nodes_snoc upsert_where_def) (simp add: exists_where_iff is_node_def new_node_state_def)
  qed
qed

lemma retract_nodes_set:
  "set (retract_nodes pk g items rows) =
     (\<lambda>n. if ns_cluster n = pk \<and> ns_node_name n \<notin> set (map no_node_name items)
          then n\<lparr>ns_present := False, ns_online := False, ns_membership_generation := g\<rparr> else n) ` set rows"
  by (simp add: retract_nodes_def update_where_def)

text \<open>The node table after a complete publication.\<close>

definition published_nodes :: "nat \<Rightarrow> nat \<Rightarrow> time \<Rightarrow> node_observation list \<Rightarrow> node_state list \<Rightarrow> node_state list" where
  "published_nodes pk g t items rows = retract_nodes pk g items (publish_nodes pk g t items rows)"

lemma published_nodes_others:
  "filter (\<lambda>n. ns_cluster n \<noteq> pk) (published_nodes pk g t items rows) = filter (\<lambda>n. ns_cluster n \<noteq> pk) rows"
  unfolding published_nodes_def retract_nodes_def
  by (subst filter_update_where_frame) (auto simp: publish_nodes_others)

lemma published_nodes_current:
  assumes "n \<in> set (published_nodes pk g t items rows)" "ns_cluster n = pk"
  shows "ns_membership_generation n = g \<and> (ns_present n \<longleftrightarrow> ns_node_name n \<in> set (map no_node_name items))"
proof -
  from assms(1) have "n \<in> set (update_where (\<lambda>n. ns_cluster n = pk \<and> ns_node_name n \<notin> set (map no_node_name items))
       (\<lambda>n. n\<lparr>ns_present := False, ns_online := False, ns_membership_generation := g\<rparr>)
       (publish_nodes pk g t items rows))"
    by (simp add: published_nodes_def retract_nodes_def)
  then show ?thesis
  proof (cases rule: in_update_whereE)
    case (updated r)
    then show ?thesis by simp
  next
    case kept
    with assms(2) have "ns_node_name n \<in> set (map no_node_name items)" by blast
    with publish_nodes_observed [OF kept(1) assms(2)] show ?thesis by blast
  qed
qed

lemma published_nodes_exists:
  assumes "name \<in> set (map no_node_name items)"
  shows "\<exists>n\<in>set (published_nodes pk g t items rows). ns_cluster n = pk \<and> ns_node_name n = name"
proof -
  from publish_nodes_exists [OF assms, of pk g t rows] obtain n where
    n: "n \<in> set (publish_nodes pk g t items rows)" "ns_cluster n = pk" "ns_node_name n = name"
    by (auto simp: exists_where_iff is_node_def)
  then show ?thesis
    using assms by (auto simp: published_nodes_def retract_nodes_set intro!: image_eqI [of _ _ n])
qed

section \<open>Facts about the decision\<close>

text \<open>The three shapes of a coherent state row.\<close>

lemma coherent_cases:
  assumes "pending_role_coherent s"
  obtains (settled) "\<not> ms_transition_pending s" "state_pending_role s = UNKNOWN" "pending_role_is_readable s"
      "ms_pending_topology_role s = ''unknown''"
  | (unreadable) "ms_transition_pending s" "\<not> pending_role_is_readable s"
  | (pending) r where "ms_transition_pending s" "pending_role_is_readable s" "state_pending_role s = r" "r \<noteq> UNKNOWN"
      "ms_pending_topology_role s = role_value r" "ms_topology_role s \<noteq> role_value r"
proof (cases "role_of_value (ms_pending_topology_role s)")
  case None
  with assms that(1,2) show ?thesis
    by (auto simp: pending_role_coherent_def pending_role_is_readable_def state_pending_role_def role_of_value_def
        split: if_splits)
next
  case (Some r)
  then have r: "ms_pending_topology_role s = role_value r" by (simp add: role_of_value_Some_iff)
  with assms that(1) that(3) [of r] Some show ?thesis
    by (cases r) (auto simp: pending_role_coherent_def pending_role_is_readable_def state_pending_role_def)
qed

lemma state_role_text: "state_role s \<noteq> UNKNOWN \<Longrightarrow> ms_topology_role s = role_value (state_role s)"
  by (auto simp: state_role_def role_of_value_Some_iff split: option.splits)

lemma state_role_of_value [simp]: "state_role (s\<lparr>ms_topology_role := role_value r\<rparr>) = r"
  by (simp add: state_role_def)

lemma unknown_text [simp]: "role_value r = ''unknown'' \<longleftrightarrow> r = UNKNOWN" "role_value r \<noteq> []"
  by (cases r; simp)+

text \<open>
  The decision for a coherent row and an answer that speaks for the scope: it can always be
  applied, it leaves the row coherent, and it changes the registered role only when none was
  registered and nothing was pending.
\<close>

definition decision_effect :: "topology_role \<Rightarrow> membership_state \<Rightarrow> membership_state \<Rightarrow> bool" where
  "decision_effect observed s0 s =
     (pending_role_coherent s \<and> ms_cluster s = ms_cluster s0
      \<and> ms_topology_role s =
          (if state_role s0 = UNKNOWN \<and> \<not> ms_transition_pending s0 then role_value observed else ms_topology_role s0)
      \<and> (ms_transition_pending s0 \<and> \<not> pending_role_is_readable s0 \<longrightarrow> s = s0)
      \<and> (pending_role_is_readable s0 \<and> state_role s0 \<noteq> UNKNOWN \<longrightarrow>
           (ms_transition_pending s \<longleftrightarrow> observed \<noteq> state_role s0)))"

lemma apply_decision_effect:
  assumes coherent: "pending_role_coherent s0" and concrete: "classify_role obs \<noteq> UNKNOWN"
  shows "\<exists>s code opened w. apply_decision (refresh_decision (Some s0) obs) s0 = Inr (s, code, opened, w)
    \<and> decision_effect (classify_role obs) s0 s \<and> opened = (\<not> ms_transition_pending s0 \<and> ms_transition_pending s)"
  using coherent
proof (cases rule: coherent_cases)
  case settled
  then have dec: "refresh_decision (Some s0) obs = evaluate_role_transition (state_role s0) obs UNKNOWN"
    by (simp add: refresh_decision_def)
  consider "state_role s0 = UNKNOWN" | "state_role s0 = classify_role obs" "state_role s0 \<noteq> UNKNOWN"
    | "state_role s0 \<noteq> classify_role obs" "state_role s0 \<noteq> UNKNOWN" by blast
  then show ?thesis
    using settled concrete state_role_text [of s0]
    by cases (auto simp: dec evaluate_role_transition_def Let_def apply_decision_def decision_effect_def pending_role_coherent_def)
next
  case unreadable
  then show ?thesis
    using coherent
    by (auto simp: refresh_decision_def apply_decision_def decision_effect_def Let_def)
next
  case (pending r)
  then have dec: "refresh_decision (Some s0) obs = evaluate_role_transition (state_role s0) obs r"
    by (simp add: refresh_decision_def)
  show ?thesis
    using pending concrete
    by (cases "classify_role obs = state_role s0")
      (auto simp: dec evaluate_role_transition_def Let_def apply_decision_def decision_effect_def pending_role_coherent_def)
qed

lemma refresh_decision_new:
  "refresh_decision None obs = refresh_decision (Some (new_membership_state pk)) obs"
  by (simp add: refresh_decision_def new_membership_state_def state_role_def state_pending_role_def
      pending_role_is_readable_def role_of_value_def)

lemma new_state_coherent [simp]: "pending_role_coherent (new_membership_state pk)"
  by (simp add: pending_role_coherent_def new_membership_state_def)

section \<open>The effect of a publication\<close>

definition publish_base :: "nat \<Rightarrow> db \<Rightarrow> membership_state" where
  "publish_base pk d = (case membership_of pk d of None \<Rightarrow> new_membership_state pk | Some s \<Rightarrow> s)"

text \<open>Every stored state row of the cluster satisfies the table's check constraint.\<close>

definition membership_wf :: "db \<Rightarrow> bool" where
  "membership_wf d = (list_all pending_role_coherent (membership_states d) \<and> distinct (map ms_cluster (membership_states d)))"

lemma publish_base_wf:
  assumes "membership_wf d"
  shows "pending_role_coherent (publish_base pk d)" and "ms_cluster (publish_base pk d) = pk"
  using assms
  by (auto simp: publish_base_def membership_of_def membership_wf_def list_all_iff new_membership_state_def
      pending_role_coherent_def split: option.splits dest!: first_where_Some_iff)

lemma publish_base_cluster: "ms_cluster (publish_base pk d) = pk"
  by (auto simp: publish_base_def membership_of_def new_membership_state_def split: option.splits dest!: first_where_Some_iff)

lemma apply_decision_Inr:
  "apply_decision dec s0 = Inr (s, code, opened, w) \<Longrightarrow>
   ms_cluster s = ms_cluster s0 \<and> code \<in> {[], ''topology_role_change_observed''}"
  by (auto simp: apply_decision_def split: if_splits)

lemma refresh_decision_base:
  "refresh_decision (membership_of pk d) obs = refresh_decision (Some (publish_base pk d)) obs"
  by (cases "membership_of pk d") (simp_all add: publish_base_def refresh_decision_new [of _ pk])

lemma publication_event_recorded:
  "\<exists>es. record_publication now (publication_event c dec opened w) d = Inr (d\<lparr>audit_events := audit_events d @ es\<rparr>)
      \<and> length es = (if opened \<or> transition dec = TRANSITION_WITHDRAWN then 1 else 0)"
proof (cases "publication_event c dec opened w")
  case None
  then have "\<not> (opened \<or> transition dec = TRANSITION_WITHDRAWN)"
    by (auto simp: publication_event_def split: if_splits)
  with None show ?thesis by (intro exI [of _ "[]"]) (simp add: record_publication_def)
next
  case (Some a)
  have "aa_cluster a = Some c \<and> aa_guest_ref a = None \<and> aa_node_ref a = None \<and> aa_cluster_key_snapshot a = []
      \<and> aa_action a \<in> set CLUSTER_CONFIGURATION_AUDIT_ACTIONS"
    using Some by (auto simp: publication_event_def audit_call_def CLUSTER_CONFIGURATION_AUDIT_ACTIONS_def split: if_splits)
  then obtain e where "record_audit_event now a d = Inr (e, d\<lparr>audit_events := audit_events d @ [e]\<rparr>)"
    using record_configuration_event [of a c now d] by blast
  moreover have "opened \<or> transition dec = TRANSITION_WITHDRAWN"
    using Some by (auto simp: publication_event_def split: if_splits)
  ultimately show ?thesis
    using Some by (intro exI [of _ "[e]"]) (simp add: record_publication_def)
qed

text \<open>The database a complete publication leaves, as one update of the database before it.\<close>

definition published_state :: "normalized_membership \<Rightarrow> nat \<Rightarrow> membership_state \<Rightarrow> membership_state" where
  "published_state nm g s =
     s\<lparr>ms_membership_generation := g, ms_member_count := length (nm_nodes nm), ms_quorate := nm_quorate nm,
       ms_observed_from := nm_observed_from nm\<rparr>"

definition complete_coverage :: "nat \<Rightarrow> time \<Rightarrow> string \<Rightarrow> projection_coverage \<Rightarrow> projection_coverage" where
  "complete_coverage g t code r =
     r\<lparr>cov_generation := g, cov_complete := True, cov_attempted_at := Some t, cov_observed_at := Some t,
       cov_error_code := code\<rparr>"

lemma published_state_row [simp]:
  "ms_cluster (published_state nm g s) = ms_cluster s"
  "ms_topology_role (published_state nm g s) = ms_topology_role s"
  "ms_transition_pending (published_state nm g s) = ms_transition_pending s"
  "ms_pending_topology_role (published_state nm g s) = ms_pending_topology_role s"
  "ms_membership_generation (published_state nm g s) = g"
  by (simp_all add: published_state_def)

lemma complete_coverage_row [simp]:
  "is_membership_coverage pk (complete_coverage g t code r) = is_membership_coverage pk r"
  "cov_cluster (complete_coverage g t code r) = cov_cluster r"
  "cov_observed_at (complete_coverage g t code r) = Some t"
  "cov_error_code (complete_coverage g t code r) = code"
  by (simp_all add: complete_coverage_def is_membership_coverage_def)

lemma new_rows [simp]:
  "is_membership_coverage pk (new_coverage pk)" "ms_cluster (new_membership_state pk) = pk"
  by (simp_all add: is_membership_coverage_def new_coverage_def new_membership_state_def)

definition publication ::
    "nat \<Rightarrow> normalized_membership \<Rightarrow> nat \<Rightarrow> time \<Rightarrow> string \<Rightarrow> membership_state \<Rightarrow> audit_event list \<Rightarrow> cluster list \<Rightarrow> db \<Rightarrow> db" where
  "publication pk nm g t code s es cs d =
     d\<lparr>membership_states := upsert_where (\<lambda>r. ms_cluster r = pk) (new_membership_state pk)
                               (\<lambda>_. published_state nm g s) (membership_states d),
       node_states := published_nodes pk g t (nm_nodes nm) (node_states d),
       coverages := upsert_where (is_membership_coverage pk) (new_coverage pk) (complete_coverage g t code) (coverages d),
       audit_events := audit_events d @ es, clusters := cs\<rparr>"

lemma publish_complete_applied:
  assumes pk: "cl_pk c = pk" and g: "g = ms_membership_generation (publish_base pk d) + 1"
    and ap: "apply_decision dec (publish_base pk d) = Inr (s, code, opened, w)"
  shows "\<exists>cs es. publish_complete c nm dec t d = Inr ((g, code), publication pk nm g t code s es cs d)
    \<and> length es = (if opened \<or> transition dec = TRANSITION_WITHDRAWN then 1 else 0)"
proof -
  let ?d1 = "d\<lparr>membership_states := upsert_where (\<lambda>r. ms_cluster r = pk) (new_membership_state pk)
                 (\<lambda>_. published_state nm g s) (membership_states d)\<rparr>"
  obtain es where es: "record_publication t (publication_event c dec opened w) ?d1 = Inr (?d1\<lparr>audit_events := audit_events d @ es\<rparr>)"
    and len: "length es = (if opened \<or> transition dec = TRANSITION_WITHDRAWN then 1 else 0)"
    using publication_event_recorded [of t c dec opened w ?d1] by auto
  let ?d3 = "?d1\<lparr>audit_events := audit_events d @ es, node_states := published_nodes pk g t (nm_nodes nm) (node_states d),
        coverages := upsert_where (is_membership_coverage pk) (new_coverage pk) (complete_coverage g t code) (coverages d)\<rparr>"
  obtain cs where cs: "stamp_cluster_projection_footprint c t ?d3 = ?d3\<lparr>clusters := cs\<rparr>"
    using stamp_changes_clusters_only unfolding stamp_cluster_projection_footprint_def by blast
  have "publish_complete c nm dec t d = Inr ((g, code), stamp_cluster_projection_footprint c t ?d3)"
    using ap es
    by (simp add: publish_complete_def Let_def pk publish_base_def [symmetric] g published_state_def
        published_nodes_def complete_coverage_def [abs_def])
  with cs len show ?thesis
    by (intro exI [of _ cs] exI [of _ es]) (simp add: publication_def)
qed

lemma publish_complete_effect:
  assumes wf: "membership_wf d" and concrete: "classify_role obs \<noteq> UNKNOWN"
    and pk: "cl_pk c = pk" and g: "g = ms_membership_generation (publish_base pk d) + 1"
  shows "\<exists>s code cs es. publish_complete c nm (refresh_decision (membership_of pk d) obs) t d =
      Inr ((g, code), publication pk nm g t code s es cs d)
    \<and> decision_effect (classify_role obs) (publish_base pk d) s"
proof -
  have coherent: "pending_role_coherent (publish_base pk d)" by (rule publish_base_wf [OF wf])
  obtain s code opened w where
    "apply_decision (refresh_decision (membership_of pk d) obs) (publish_base pk d) = Inr (s, code, opened, w)"
    "decision_effect (classify_role obs) (publish_base pk d) s"
    using apply_decision_effect [OF coherent concrete] by (auto simp: refresh_decision_base)
  with publish_complete_applied [OF pk g, of _ s code opened w nm t] show ?thesis by blast
qed

text \<open>An incomplete publication touches the coverage row and the footprint marker only.\<close>

definition failed_coverage :: "time \<Rightarrow> string \<Rightarrow> projection_coverage \<Rightarrow> projection_coverage" where
  "failed_coverage t code r = r\<lparr>cov_complete := False, cov_attempted_at := Some t, cov_error_code := code\<rparr>"

lemma failed_coverage_row [simp]:
  "is_membership_coverage pk (failed_coverage t code r) = is_membership_coverage pk r"
  "cov_cluster (failed_coverage t code r) = cov_cluster r"
  "cov_observed_at (failed_coverage t code r) = cov_observed_at r"
  by (simp_all add: failed_coverage_def is_membership_coverage_def)

lemma publish_incomplete_effect:
  "\<exists>g cs. publish_incomplete c t code d =
     (g, d\<lparr>coverages := upsert_where (is_membership_coverage (cl_pk c)) (new_coverage (cl_pk c)) (failed_coverage t code) (coverages d),
           clusters := cs\<rparr>)"
proof -
  let ?d1 = "d\<lparr>coverages := upsert_where (is_membership_coverage (cl_pk c)) (new_coverage (cl_pk c)) (failed_coverage t code) (coverages d)\<rparr>"
  obtain cs where "stamp_cluster_projection_footprint c t ?d1 = ?d1\<lparr>clusters := cs\<rparr>"
    using stamp_changes_clusters_only unfolding stamp_cluster_projection_footprint_def by blast
  then show ?thesis
    by (intro exI) (simp add: publish_incomplete_def Let_def failed_coverage_def [abs_def])
qed

lemma membership_wf_upsert:
  assumes wf: "membership_wf d" and s: "pending_role_coherent s" "ms_cluster s = pk"
    and d': "membership_states d' = upsert_where (\<lambda>r. ms_cluster r = pk) (new_membership_state pk) (\<lambda>_. s) (membership_states d)"
  shows "membership_wf d'"
proof -
  have "pending_role_coherent x" if "x \<in> set (membership_states d')" for x
    using that wf s unfolding d' by (cases rule: in_upsert_whereE) (auto simp: membership_wf_def list_all_iff)
  moreover have "distinct (map ms_cluster (membership_states d'))"
  proof -
    have "map ms_cluster (update_where (\<lambda>r. ms_cluster r = pk) (\<lambda>_. s) rows) = map ms_cluster rows" for rows
      using s by (induction rows) auto
    then show ?thesis
      using wf s unfolding d' by (auto simp: upsert_where_def membership_wf_def exists_where_iff)
  qed
  ultimately show ?thesis by (simp add: membership_wf_def list_all_iff)
qed

lemma coherent_published: "pending_role_coherent (published_state nm g s) = pending_role_coherent s"
  by (simp add: pending_role_coherent_def)

section \<open>Facts about a refresh\<close>

lemma observation_concrete:
  "speaks_for_the_scope (observation nm accepted) \<Longrightarrow>
   classify_role (observation nm accepted) = (if nm_has_cluster_row nm then COROSYNC else STANDALONE)"
  by (simp add: classify_role_def) (simp add: observation_def)

text \<open>A refresh that returned is one of three: nothing done, a failed attempt noted, a generation published.\<close>

lemma refresh_cases:
  assumes wf: "membership_wf d" and run: "refresh_cluster_membership rd pk now d = Inr (res, d')"
  obtains (unchanged) "d' = d" "\<not> rr_complete res"
  | (failed) code cs where "\<not> rr_complete res"
      "d' = d\<lparr>coverages := upsert_where (is_membership_coverage pk) (new_coverage pk) (failed_coverage now code) (coverages d),
              clusters := cs\<rparr>"
  | (published) e payload nm s code cs es where "rr_complete res"
      "e \<in> set (enabled_endpoints pk d)" "rd e = Inr (Inr payload)" "normalize_cluster_status payload = Inr nm"
      "speaks_for_the_scope (observation nm (accepted_member_names pk d))"
      "rr_generation res = ms_membership_generation (publish_base pk d) + 1"
      "decision_effect (if nm_has_cluster_row nm then COROSYNC else STANDALONE) (publish_base pk d) s"
      "d' = publication pk nm (rr_generation res) now code s es cs d"
proof (cases "get_cluster pk d")
  case None
  with run show ?thesis by (simp add: refresh_cluster_membership_def)
next
  case (Some c)
  then have pk: "cl_pk c = pk" by (rule get_cluster_pk)
  let ?acc = "accepted_member_names pk d"
  show ?thesis
  proof (cases "cl_retired_at c \<noteq> None \<or> \<not> cl_enabled c \<or> cl_ingestion_quarantined c \<or> enabled_endpoints pk d = []")
    case True
    with run Some show ?thesis
      by (intro unchanged) (auto simp: refresh_cluster_membership_def zero_call_result_def split: if_splits)
  next
    case False
    with run Some have acq: "refresh_acquirable rd c (enabled_endpoints pk d) now d = Inr (res, d')"
      by (simp add: refresh_cluster_membership_def)
    then obtain attempts outside ans where
      rd: "read_endpoints rd ?acc (enabled_endpoints pk d) = Inr (attempts, outside, ans)"
      by (auto simp: refresh_acquirable_def Let_def pk result_simps)
    show ?thesis
    proof (cases ans)
      case None
      obtain code obs where inc: "incomplete_error attempts outside = (code, obs)" by fastforce
      obtain g cs where "publish_incomplete c now code d =
          (g, d\<lparr>coverages := upsert_where (is_membership_coverage pk) (new_coverage pk) (failed_coverage now code) (coverages d),
                clusters := cs\<rparr>)"
        using publish_incomplete_effect [of c now code d] pk by auto
      with acq rd None inc show ?thesis
        by (intro failed [of cs code]) (auto simp: refresh_acquirable_def Let_def pk)
    next
      case (Some nm)
      let ?obs = "observation nm ?acc"
      from read_endpoints_answer [OF rd [unfolded Some]] obtain e payload where
        ans: "speaks_for_the_scope ?obs" "e \<in> set (enabled_endpoints pk d)" "rd e = Inr (Inr payload)"
          "normalize_cluster_status payload = Inr nm" by blast
      have role: "classify_role ?obs = (if nm_has_cluster_row nm then COROSYNC else STANDALONE)"
        by (rule observation_concrete [OF ans(1)])
      then have concrete: "classify_role ?obs \<noteq> UNKNOWN" by simp
      let ?g = "ms_membership_generation (publish_base pk d) + 1"
      obtain s code cs es where pub: "publish_complete c nm (refresh_decision (membership_of pk d) ?obs) now d =
          Inr ((?g, code), publication pk nm ?g now code s es cs d)"
        and effect: "decision_effect (classify_role ?obs) (publish_base pk d) s"
        using publish_complete_effect [OF wf concrete pk refl, of nm now] by blast
      have "rr_complete res" "rr_generation res = ?g"
        using acq rd Some pub by (auto simp: refresh_acquirable_def Let_def pk)
      moreover have "d' = publication pk nm ?g now code s es cs d"
        using acq rd Some pub by (auto simp: refresh_acquirable_def Let_def pk)
      ultimately show ?thesis
        using ans effect role by (intro published [where e = e and payload = payload and nm = nm and s = s and code = code and es = es and cs = cs]) simp_all
    qed
  qed
qed

section \<open>Reading back a publication\<close>

lemma coverage_others:
  assumes "\<And>r. is_membership_coverage pk (f r) = is_membership_coverage pk r"
  shows "filter (\<lambda>c. cov_cluster c \<noteq> pk) (upsert_where (is_membership_coverage pk) (new_coverage pk) f rows)
       = filter (\<lambda>c. cov_cluster c \<noteq> pk) rows"
  using assms by (intro filter_upsert_frame) (simp_all, simp add: is_membership_coverage_def)

lemma new_coverage_unobserved [simp]: "cov_observed_at (new_coverage pk) = None"
  by (simp add: new_coverage_def)

lemma membership_of_published:
  assumes "membership_states d' = upsert_where (\<lambda>r. ms_cluster r = pk) (new_membership_state pk) (\<lambda>_. s) (membership_states d)"
    and "ms_cluster s = pk"
  shows "membership_of pk d' = Some s"
  using assms by (simp add: membership_of_def first_where_upsert)

lemma accepted_published:
  assumes "membership_of pk d' = Some s" "membership_coverage_of pk d' = Some cov" "cov_observed_at cov = Some t"
    and nodes: "node_states d' = published_nodes pk (ms_membership_generation s) now items rows"
  shows "accepted_member_names pk d' = set (map no_node_name items)"
proof -
  let ?rows = "published_nodes pk (ms_membership_generation s) now items rows"
  have "accepted_member_names pk d' =
      ns_node_name ` {n \<in> set ?rows. ns_cluster n = pk \<and> ns_present n \<and> ns_membership_generation n = ms_membership_generation s}"
    using assms by (simp add: accepted_member_names_def)
  also have "\<dots> = set (map no_node_name items)"
  proof
    show "\<dots> \<subseteq> set (map no_node_name items)"
      using published_nodes_current [of _ pk "ms_membership_generation s" now items rows] by fastforce
    show "set (map no_node_name items) \<subseteq>
      ns_node_name ` {n \<in> set ?rows. ns_cluster n = pk \<and> ns_present n \<and> ns_membership_generation n = ms_membership_generation s}"
    proof
      fix name assume name: "name \<in> set (map no_node_name items)"
      from published_nodes_exists [OF name, of pk "ms_membership_generation s" now rows] obtain n where
        n: "n \<in> set ?rows" "ns_cluster n = pk" "ns_node_name n = name" by blast
      with published_nodes_current [OF n(1,2)] name
      show "name \<in> ns_node_name ` {n \<in> set ?rows. ns_cluster n = pk \<and> ns_present n
          \<and> ns_membership_generation n = ms_membership_generation s}"
        by (intro image_eqI [of _ _ n]) simp_all
    qed
  qed
  finally show ?thesis .
qed

lemma publication_readback:
  assumes d': "d' = publication pk nm g t code s es cs d" and s: "ms_cluster s = pk"
  shows "membership_of pk d' = Some (published_state nm g s)"
    and "accepted_member_names pk d' = set (map no_node_name (nm_nodes nm))"
    and "\<exists>cov. membership_coverage_of pk d' = Some cov \<and> cov_observed_at cov = Some t \<and> cov_error_code cov = code"
proof -
  show state: "membership_of pk d' = Some (published_state nm g s)"
    using s by (intro membership_of_published [where d = d]) (simp_all add: d' publication_def)
  show cov: "\<exists>cov. membership_coverage_of pk d' = Some cov \<and> cov_observed_at cov = Some t \<and> cov_error_code cov = code"
    by (simp add: d' publication_def membership_coverage_of_def first_where_upsert)
  then obtain cov where cov: "membership_coverage_of pk d' = Some cov" "cov_observed_at cov = Some t" by blast
  have "node_states d' = published_nodes pk (ms_membership_generation (published_state nm g s)) t (nm_nodes nm) (node_states d)"
    by (simp add: d' publication_def)
  with accepted_published [OF state cov]
  show "accepted_member_names pk d' = set (map no_node_name (nm_nodes nm))" by blast
qed

lemma accepted_frame:
  "membership_states d' = membership_states d \<Longrightarrow> coverages d' = coverages d \<Longrightarrow> node_states d' = node_states d \<Longrightarrow>
   accepted_member_names pk d' = accepted_member_names pk d"
  unfolding accepted_member_names_def membership_of_def membership_coverage_of_def by (auto split: option.splits)

section \<open>Properties\<close>


text \<open>
  C19: A complete refresh publishes exactly what one endpoint of the cluster observed. The
  accepted members afterwards are the observed names; every node row of the cluster carries the
  new generation, one more than the stored one, and is present exactly when it was observed;
  and no row of another cluster has changed.
\<close>

theorem complete_refresh_publishes_observation:
  assumes "membership_wf d" and "refresh_cluster_membership rd pk now d = Inr (res, d')" and "rr_complete res"
  shows "\<exists>e\<in>set (enabled_endpoints pk d). \<exists>payload nm.
       rd e = Inr (Inr payload) \<and> normalize_cluster_status payload = Inr nm
     \<and> accepted_member_names pk d' = set (map no_node_name (nm_nodes nm))
     \<and> rr_generation res = stored_generation pk d + 1 \<and> stored_generation pk d' = rr_generation res
     \<and> (\<forall>n\<in>set (node_states d'). ns_cluster n = pk \<longrightarrow> ns_membership_generation n = rr_generation res
           \<and> (ns_present n \<longleftrightarrow> ns_node_name n \<in> set (map no_node_name (nm_nodes nm))))
     \<and> filter (\<lambda>n. ns_cluster n \<noteq> pk) (node_states d') = filter (\<lambda>n. ns_cluster n \<noteq> pk) (node_states d)
     \<and> filter (\<lambda>s. ms_cluster s \<noteq> pk) (membership_states d') = filter (\<lambda>s. ms_cluster s \<noteq> pk) (membership_states d)
     \<and> filter (\<lambda>c. cov_cluster c \<noteq> pk) (coverages d') = filter (\<lambda>c. cov_cluster c \<noteq> pk) (coverages d)"
  using assms(1,2)
proof (cases rule: refresh_cases)
  case (published e payload nm s code cs es)
  let ?g = "rr_generation res"
  have s: "ms_cluster s = pk"
    using published(7) publish_base_wf(2) [OF assms(1)] by (simp add: decision_effect_def)
  note state = publication_readback(1) [OF published(8) s] and names = publication_readback(2) [OF published(8) s]
  have old: "stored_generation pk d = ms_membership_generation (publish_base pk d)"
    by (simp add: stored_generation_def publish_base_def new_membership_state_def split: option.splits)
  have current: "\<forall>n\<in>set (node_states d'). ns_cluster n = pk \<longrightarrow> ns_membership_generation n = ?g
           \<and> (ns_present n \<longleftrightarrow> ns_node_name n \<in> set (map no_node_name (nm_nodes nm)))"
    using published_nodes_current [of _ pk ?g now "nm_nodes nm" "node_states d"] by (simp add: published(8) publication_def)
  have frame: "filter (\<lambda>s. ms_cluster s \<noteq> pk) (membership_states d') = filter (\<lambda>s. ms_cluster s \<noteq> pk) (membership_states d)"
    "filter (\<lambda>c. cov_cluster c \<noteq> pk) (coverages d') = filter (\<lambda>c. cov_cluster c \<noteq> pk) (coverages d)"
    "filter (\<lambda>n. ns_cluster n \<noteq> pk) (node_states d') = filter (\<lambda>n. ns_cluster n \<noteq> pk) (node_states d)"
    using s by (simp_all add: published(8) publication_def published_nodes_others filter_upsert_frame coverage_others)
  show ?thesis
    using published(2-4,6) names old current frame state
    by (intro bexI [of _ e] exI [of _ payload] exI [of _ nm]) (simp_all add: stored_generation_def)
qed (use assms(3) in simp_all)

text \<open>
  C20: A refresh that did not get a complete answer leaves the last accepted membership as it
  was: no state row, no node row and no audit event changes, the accepted members are the same,
  and other clusters' coverage is untouched.
\<close>

theorem incomplete_refresh_keeps_membership:
  assumes "membership_wf d" and "refresh_cluster_membership rd pk now d = Inr (res, d')" and "\<not> rr_complete res"
  shows "membership_states d' = membership_states d \<and> node_states d' = node_states d
     \<and> audit_events d' = audit_events d \<and> accepted_member_names pk d' = accepted_member_names pk d
     \<and> filter (\<lambda>c. cov_cluster c \<noteq> pk) (coverages d') = filter (\<lambda>c. cov_cluster c \<noteq> pk) (coverages d)"
  using assms(1,2)
proof (cases rule: refresh_cases)
  case (failed code cs)
  have cov: "membership_coverage_of pk d' =
      Some (failed_coverage now code (case membership_coverage_of pk d of None \<Rightarrow> new_coverage pk | Some c \<Rightarrow> c))"
    by (simp add: failed(2) membership_coverage_of_def first_where_upsert)
  have "accepted_member_names pk d' = accepted_member_names pk d"
    using cov by (auto simp: accepted_member_names_def failed(2) membership_of_def split: option.splits)
  then show ?thesis
    by (simp add: failed(2) coverage_others)
qed (use assms(3) in simp_all)

text \<open>
  Membership refreshes never re-register a cluster. A role that is registered, or that
  any pending question is about, keeps its stored text through every refresh; an unreadable
  pending target written by another build is kept as it is; and where the pending target is
  readable, provider work is blocked after a complete refresh exactly when the observed role
  is not the registered one.
\<close>

theorem refresh_never_reregisters:
  assumes "membership_wf d" and "refresh_cluster_membership rd pk now d = Inr (res, d')"
    and "membership_of pk d = Some s" and "state_role s \<noteq> UNKNOWN \<or> ms_transition_pending s"
  shows "\<exists>s'. membership_of pk d' = Some s' \<and> ms_topology_role s' = ms_topology_role s
     \<and> (ms_transition_pending s \<and> \<not> pending_role_is_readable s \<longrightarrow>
          ms_transition_pending s' \<and> ms_pending_topology_role s' = ms_pending_topology_role s)
     \<and> (rr_complete res \<and> pending_role_is_readable s \<and> state_role s \<noteq> UNKNOWN \<longrightarrow>
          (\<exists>e payload nm. rd e = Inr (Inr payload) \<and> normalize_cluster_status payload = Inr nm
            \<and> (ms_transition_pending s' \<longleftrightarrow>
                 (if nm_has_cluster_row nm then COROSYNC else STANDALONE) \<noteq> state_role s)))"
  using assms(1,2)
proof (cases rule: refresh_cases)
  case unchanged
  with assms(3) show ?thesis by auto
next
  case (failed code cs)
  with assms(3) show ?thesis by (auto simp: membership_of_def)
next
  case (published e payload nm s1 code cs es)
  have base: "publish_base pk d = s" by (simp add: publish_base_def assms(3))
  have effect: "decision_effect (if nm_has_cluster_row nm then COROSYNC else STANDALONE) s s1"
    using published(7) by (simp add: base)
  then have "ms_cluster s1 = pk"
    using publish_base_wf(2) [OF assms(1), of pk] by (simp add: base decision_effect_def)
  with published(8) have state: "membership_of pk d' = Some (published_state nm (rr_generation res) s1)"
    by (rule publication_readback)
  with effect assms(4) published(3,4) show ?thesis
    by (intro exI [of _ "published_state nm (rr_generation res) s1"]) (auto simp: decision_effect_def)
qed

section \<open>A concrete cluster\<close>

definition example_status :: json where
  "example_status =
     JList [JObj [(''type'', JStr ''cluster''), (''nodes'', JInt 2), (''quorate'', JInt 1)],
            JObj [(''type'', JStr ''node''), (''name'', JStr ''pve2''), (''nodeid'', JInt 2), (''online'', JInt 1)],
            JObj [(''type'', JStr ''node''), (''name'', JStr ''pve1''), (''nodeid'', JInt 1), (''online'', JInt 1),
                  (''local'', JInt 1)]]"

definition example_cluster_db :: db where
  "example_cluster_db =
     empty_db\<lparr>clusters := [new_cluster 1 ''lab'' ''Lab''],
       endpoints := [\<lparr>ep_pk = 1, ep_name = ''pve1'', ep_cluster = 1, ep_normalized_url = ''https://pve1'',
                      ep_enabled = True, ep_last_health_status = [], ep_updated_at = 0,
                      ep_url = ''https://pve1:8006'', ep_details = JObj []\<rparr>],
       membership_states := [(new_membership_state 1)\<lparr>ms_topology_role := ''standalone''\<rparr>]\<rparr>"

lemma example_cluster_wf: "membership_wf example_cluster_db"
  by code_simp

lemma example_refresh_complete:
  "case refresh_cluster_membership (\<lambda>_. Inr (Inr example_status)) 1 5 example_cluster_db of
     Inl e \<Rightarrow> False | Inr (res, d') \<Rightarrow> rr_complete res"
  by code_simp

lemma example_refresh_failed:
  "case refresh_cluster_membership (\<lambda>_. Inr (Inr JNull)) 1 5 example_cluster_db of
     Inl e \<Rightarrow> False | Inr (res, d') \<Rightarrow> \<not> rr_complete res"
  by code_simp


theorem complete_refresh_publishes_observation_witness:
  "case refresh_cluster_membership (\<lambda>_. Inr (Inr example_status)) 1 5 example_cluster_db of
     Inl e \<Rightarrow> False
   | Inr (res, d') \<Rightarrow> \<exists>nm. normalize_cluster_status example_status = Inr nm
       \<and> accepted_member_names 1 d' = set (map no_node_name (nm_nodes nm))"
proof (cases "refresh_cluster_membership (\<lambda>_. Inr (Inr example_status)) 1 5 example_cluster_db")
  case (Inl e)
  with example_refresh_complete show ?thesis by simp
next
  case (Inr out)
  then obtain res d' where run: "refresh_cluster_membership (\<lambda>_. Inr (Inr example_status)) 1 5 example_cluster_db = Inr (res, d')"
    by (cases out) auto
  with example_refresh_complete have "rr_complete res" by simp
  from complete_refresh_publishes_observation [OF example_cluster_wf run this] run show ?thesis by auto
qed

theorem incomplete_refresh_keeps_membership_witness:
  "case refresh_cluster_membership (\<lambda>_. Inr (Inr JNull)) 1 5 example_cluster_db of
     Inl e \<Rightarrow> False
   | Inr (res, d') \<Rightarrow> membership_states d' = membership_states example_cluster_db"
proof (cases "refresh_cluster_membership (\<lambda>_. Inr (Inr JNull)) 1 5 example_cluster_db")
  case (Inl e)
  with example_refresh_failed show ?thesis by simp
next
  case (Inr out)
  then obtain res d' where run: "refresh_cluster_membership (\<lambda>_. Inr (Inr JNull)) 1 5 example_cluster_db = Inr (res, d')"
    by (cases out) auto
  with example_refresh_failed have "\<not> rr_complete res" by simp
  from incomplete_refresh_keeps_membership [OF example_cluster_wf run this] run show ?thesis by simp
qed

theorem refresh_never_reregisters_witness:
  "case refresh_cluster_membership (\<lambda>_. Inr (Inr example_status)) 1 5 example_cluster_db of
     Inl e \<Rightarrow> False
   | Inr (res, d') \<Rightarrow> \<exists>s'. membership_of 1 d' = Some s' \<and> ms_topology_role s' = ''standalone''"
proof (cases "refresh_cluster_membership (\<lambda>_. Inr (Inr example_status)) 1 5 example_cluster_db")
  case (Inl e)
  with example_refresh_complete show ?thesis by simp
next
  case (Inr out)
  then obtain res d' where run: "refresh_cluster_membership (\<lambda>_. Inr (Inr example_status)) 1 5 example_cluster_db = Inr (res, d')"
    by (cases out) auto
  have state: "membership_of 1 example_cluster_db = Some ((new_membership_state 1)\<lparr>ms_topology_role := ''standalone''\<rparr>)"
    by (simp add: membership_of_def example_cluster_db_def)
  have "state_role ((new_membership_state 1)\<lparr>ms_topology_role := ''standalone''\<rparr>) \<noteq> UNKNOWN"
    by (simp add: state_role_def role_of_value_def)
  with refresh_never_reregisters [OF example_cluster_wf run state] run show ?thesis by auto
qed

text \<open>
  C26: A body that passes validation is a usable membership snapshot: its node names are
  distinct and sorted, the answering node is one of them, a standalone answer has exactly one
  node and no quorum, a clustered one has only nonzero corosync ids, and every node name makes
  a valid node reference under every valid cluster key.
\<close>

theorem accepted_status_is_sound:
  assumes "normalize_cluster_status payload = Inr nm" and "cluster_key_ok key"
  shows "distinct (map no_node_name (nm_nodes nm)) \<and> sorted (map no_node_name (nm_nodes nm))
     \<and> nm_observed_from nm \<in> set (map no_node_name (nm_nodes nm))
     \<and> (if nm_has_cluster_row nm then \<forall>n\<in>set (nm_nodes nm). 0 < no_nodeid n
        else length (nm_nodes nm) = 1 \<and> \<not> nm_quorate nm)
     \<and> (\<forall>n\<in>set (nm_nodes nm). \<exists>r. make_node_ref key (no_node_name n) = Inr r)"
  using normalize_ok [OF assms(1)] assms(2) by (auto simp: normalized_ok_def make_node_ref_def)

theorem accepted_status_is_sound_witness:
  "case normalize_cluster_status example_status of
     Inl e \<Rightarrow> False | Inr nm \<Rightarrow> \<forall>n\<in>set (nm_nodes nm). \<exists>r. make_node_ref ''lab'' (no_node_name n) = Inr r"
proof (cases "normalize_cluster_status example_status")
  case (Inl e)
  have "case normalize_cluster_status example_status of Inl e \<Rightarrow> False | Inr nm \<Rightarrow> True" by code_simp
  with Inl show ?thesis by simp
next
  case (Inr nm)
  have "cluster_key_ok ''lab''" by code_simp
  from accepted_status_is_sound [OF Inr this] Inr show ?thesis by simp
qed

end
