(* ===== verification/Topology_Handoff.thy ===== *)
theory Topology_Handoff
  imports Membership
begin

text \<open>
  The operator exits of a topology transition, \<^verbatim>\<open>core/services/cluster_topology_handoff.py\<close>: the
  decision a verified replacement has to resolve, the repair of unreadable pending evidence,
  the recovery from a stale observer, and the application of the storage mappings confirmed at
  hand-off. The provider calls, the verification of a registered endpoint and the digest are
  parameters.
\<close>

datatype handoff_error =
    HandoffRefused string
  | HandoffClusterMissing
  | EndpointNotVerified string
  | HandoffPublish membership_error
  | HandoffAudit audit_error

section \<open>The pending decision\<close>

record verified_connection =
  vf_membership_complete :: bool
  vf_topology_role :: topology_role
  vf_node_names :: "string list"

definition pending_decision :: "membership_state \<Rightarrow> verified_connection \<Rightarrow> (handoff_error, role_decision) result" where
  "pending_decision s v =
     (if \<not> ms_transition_pending s \<or> \<not> pending_role_is_readable s
      then Inl (HandoffRefused ''This topology hand-off is no longer available.'')
      else if \<not> vf_membership_complete v \<or> vf_topology_role v = UNKNOWN
      then Inl (HandoffRefused ''The replacement did not return a complete topology observation.'')
      else if vf_topology_role v \<noteq> state_pending_role s
      then Inl (HandoffRefused (''This connection is pending toward '' @ role_value (state_pending_role s)
             @ '', but the replacement verified as '' @ role_value (vf_topology_role v) @ ''.''))
      else
        let obs = \<lparr>complete = True, has_cluster_row = (vf_topology_role v = COROSYNC),
                   member_count = int (length (vf_node_names v)), quorate = False, observed_from = [],
                   accepted_members = {}\<rparr>
        in map_error (\<lambda>_. HandoffRefused
             ''The current pending topology decision cannot be resolved by this verified replacement.'')
             (resolve_transition (evaluate_role_transition (state_role s) obs (state_pending_role s)) (vf_topology_role v)))"

section \<open>Repair of unreadable evidence\<close>

definition repair_call :: "actor option \<Rightarrow> cluster \<Rightarrow> string \<Rightarrow> json_object \<Rightarrow> audit_args" where
  "repair_call who c outcome details =
     (audit_call ''cluster.topology_pending_repaired'')
       \<lparr>aa_user := who, aa_object_type := ''cluster'', aa_object_id := cl_key c, aa_outcome := outcome,
        aa_cluster := Some c, aa_details := (''cluster_key'', JStr (cl_key c)) # details\<rparr>"

text \<open>The transaction; a refusal rolls it back.\<close>

definition repair_transaction ::
    "cluster \<Rightarrow> string \<Rightarrow> actor option \<Rightarrow> time \<Rightarrow> db \<Rightarrow> (handoff_error, db) result" where
  "repair_transaction c typed who now d =
     (case get_cluster (cl_pk c) d of
        None \<Rightarrow> Inl HandoffClusterMissing
      | Some locked \<Rightarrow>
          let pk = cl_pk locked; state = membership_of pk d in
          if typed \<noteq> cl_key locked
          then Inl (HandoffRefused ''Type the exact permanent cluster key to discard the evidence.'')
          else (case state of
              Some s \<Rightarrow>
                if \<not> ms_transition_pending s \<or> pending_role_is_readable s
                then Inl (HandoffRefused ''There is no unreadable pending topology evidence to repair.'')
                else
                  let d1 = d\<lparr>membership_states := update_where (\<lambda>r. ms_cluster r = pk)
                               (\<lambda>r. r\<lparr>ms_transition_pending := False, ms_pending_topology_role := role_value UNKNOWN\<rparr>)
                               (membership_states d)\<rparr>
                  in bind_result (map_error HandoffAudit (record_audit_event now
                       (repair_call who locked ''success'' [(''discarded_pending_role'', JStr (ms_pending_topology_role s))]) d1))
                       (\<lambda>(_, d2). Inr d2)
            | None \<Rightarrow> Inl (HandoffRefused ''There is no unreadable pending topology evidence to repair.'')))"

text \<open>The service: a refusal is recorded outside the transaction, then raised again.\<close>

definition repair_unreadable_pending_transition ::
    "cluster \<Rightarrow> string \<Rightarrow> actor option \<Rightarrow> time \<Rightarrow> db \<Rightarrow> (handoff_error, unit) result \<times> db" where
  "repair_unreadable_pending_transition c typed who now d =
     (case repair_transaction c typed who now d of
        Inr d1 \<Rightarrow> (Inr (), d1)
      | Inl (HandoffRefused m) \<Rightarrow>
          (case record_audit_event now
              (repair_call who c ''refused'' [(''reason_code'', JStr ''cluster_topology_handoff_refused'')]) d of
             Inl e \<Rightarrow> (Inl (HandoffAudit e), d)
           | Inr (_, d1) \<Rightarrow> (Inl (HandoffRefused m), d1))
      | Inl e \<Rightarrow> (Inl e, d))"

section \<open>Recovery from a stale observer\<close>

record recovery_candidate =
  rc_endpoint_id :: nat
  rc_endpoint_name :: string
  rc_members :: "string list"
  rc_observed_from :: string
  rc_topology_role :: topology_role
  rc_digest :: string

text \<open>The provider side: the endpoint verification, the read and the digest of the reviewed facts.\<close>

record recovery_env =
  re_verify :: "cluster \<Rightarrow> endpoint \<Rightarrow> (string, unit) result"
  re_read :: endpoint_read
  re_hash :: "nat \<times> string list \<times> string \<times> bool \<Rightarrow> string"

definition membership_recovery_read ::
    "recovery_env \<Rightarrow> cluster \<Rightarrow> nat option \<Rightarrow> db \<Rightarrow> (handoff_error, normalized_membership \<times> recovery_candidate) result" where
  "membership_recovery_read env c endpoint_id d =
     (case first_where (\<lambda>e. endpoint_id = None \<or> endpoint_id = Some (ep_pk e)) (enabled_endpoints (cl_pk c) d) of
        None \<Rightarrow> Inl (HandoffRefused ''Choose an enabled endpoint for membership recovery.'')
      | Some e \<Rightarrow>
          bind_result (map_error EndpointNotVerified (re_verify env c e)) (\<lambda>_.
          bind_result (map_error EndpointNotVerified (re_read env e)) (\<lambda>r.
          bind_result
            (map_error (\<lambda>_. HandoffRefused ''The endpoint did not return a fresh complete membership response.'')
              (attempt_endpoint r)) (\<lambda>nm.
            let names = map no_node_name (nm_nodes nm) in
            Inr (nm, \<lparr>rc_endpoint_id = ep_pk e, rc_endpoint_name = ep_name e, rc_members = names,
                      rc_observed_from = nm_observed_from nm,
                      rc_topology_role = (if nm_has_cluster_row nm then COROSYNC else STANDALONE),
                      rc_digest = re_hash env (ep_pk e, names, nm_observed_from nm, nm_has_cluster_row nm)\<rparr>)))))"

definition stale_observer :: "nat \<Rightarrow> db \<Rightarrow> bool" where
  "stale_observer pk d =
     (case membership_coverage_of pk d of None \<Rightarrow> False | Some c \<Rightarrow> cov_error_code c = ''observer_not_a_member'')"

definition inspect_membership_recovery ::
    "recovery_env \<Rightarrow> cluster \<Rightarrow> nat option \<Rightarrow> db \<Rightarrow> (handoff_error, recovery_candidate) result" where
  "inspect_membership_recovery env c endpoint_id d =
     (if \<not> stale_observer (cl_pk c) d
      then Inl (HandoffRefused ''Membership recovery is available only for observer_not_a_member.'')
      else bind_result (membership_recovery_read env c endpoint_id d) (\<lambda>(_, candidate). Inr candidate))"

definition recovery_decision :: "membership_state option \<Rightarrow> normalized_membership \<Rightarrow> role_decision" where
  "recovery_decision state nm =
     evaluate_role_transition (case state of None \<Rightarrow> UNKNOWN | Some s \<Rightarrow> state_role s) (observation nm {})
       (case state of None \<Rightarrow> UNKNOWN | Some s \<Rightarrow> state_pending_role s)"

definition recovered_call :: "actor option \<Rightarrow> cluster \<Rightarrow> nat \<Rightarrow> recovery_candidate \<Rightarrow> nat \<Rightarrow> audit_args" where
  "recovered_call who c endpoint_id candidate generation =
     (audit_call ''cluster.topology_membership_recovered'')
       \<lparr>aa_user := who, aa_object_type := ''cluster'', aa_object_id := cl_key c, aa_cluster := Some c,
        aa_details := [(''cluster_key'', JStr (cl_key c)), (''endpoint_id'', JInt (int endpoint_id)),
                       (''accepted_members'', JList (map JStr (rc_members candidate))),
                       (''observed_from'', JStr (rc_observed_from candidate)),
                       (''membership_generation'', JInt (int generation))]\<rparr>"

definition confirm_membership_recovery ::
    "recovery_env \<Rightarrow> nat \<Rightarrow> nat \<Rightarrow> string \<Rightarrow> actor option \<Rightarrow> time \<Rightarrow> db \<Rightarrow> (handoff_error, db) result" where
  "confirm_membership_recovery env pk endpoint_id expected_digest who now d =
     (case get_cluster pk d of
        None \<Rightarrow> Inl HandoffClusterMissing
      | Some locked \<Rightarrow>
          if \<not> stale_observer pk d then Inl (HandoffRefused ''The stale-observer condition no longer exists.'')
          else bind_result (membership_recovery_read env locked (Some endpoint_id) d) (\<lambda>(nm, candidate).
            if rc_digest candidate \<noteq> expected_digest
            then Inl (HandoffRefused ''The candidate member set changed. Review it again.'')
            else bind_result
              (map_error HandoffPublish (publish_complete locked nm (recovery_decision (membership_of pk d) nm) now d))
              (\<lambda>((generation, _), d1).
                bind_result (map_error HandoffAudit
                  (record_audit_event now (recovered_call who locked endpoint_id candidate generation) d1))
                  (\<lambda>(_, d2). Inr d2))))"

section \<open>Storage mappings of a hand-off\<close>

definition is_pending_intent :: "nat \<Rightarrow> handoff_intent \<Rightarrow> bool" where
  "is_pending_intent pk i = (hi_cluster i = pk \<and> hi_status i = ''pending'')"

definition current_definition :: "nat \<Rightarrow> string option \<Rightarrow> db \<Rightarrow> string \<Rightarrow> cluster_storage option" where
  "current_definition pk generation d storage_id =
     first_where (\<lambda>s. st_cluster s = pk \<and> st_present s \<and> st_unmanaged_at s = None
        \<and> st_observed_metadata_generation s = generation \<and> st_storage_id s = storage_id) (storages d)"

definition node_metadata_present :: "string option \<Rightarrow> db \<Rightarrow> nat \<Rightarrow> string option \<Rightarrow> bool" where
  "node_metadata_present generation d storage node =
     exists_where (\<lambda>n. sns_storage n = storage \<and> Some (sns_node n) = node \<and> sns_present n
        \<and> sns_observed_metadata_generation n = generation) (storage_node_states d)"

definition binding_exists :: "db \<Rightarrow> nat \<Rightarrow> string option \<Rightarrow> bool" where
  "binding_exists d storage node =
     exists_where (\<lambda>b. sb_storage b = storage \<and> sb_node b = node) (storage_bindings d)"

definition node_text :: "string option \<Rightarrow> string" where
  "node_text n = (case n of None \<Rightarrow> ''None'' | Some s \<Rightarrow> s)"

definition quoted :: "string \<Rightarrow> string" where
  "quoted s = CHR 0x27 # s @ [CHR 0x27]"

text \<open>The checks of one intent, in order; \<open>None\<close> when it may be applied.\<close>

definition intent_refusal :: "nat \<Rightarrow> string option \<Rightarrow> db \<Rightarrow> handoff_intent \<Rightarrow> string option" where
  "intent_refusal pk generation d i =
     (let storage = ''Storage '' @ quoted (hi_storage_id i) @ '' '' in
      case current_definition pk generation d (hi_storage_id i) of
        None \<Rightarrow> Some (storage @ ''was absent from complete replacement metadata.'')
      | Some def \<Rightarrow>
          if st_shared def \<noteq> (hi_scope i = ''shared'') then Some (storage @ ''changed shared/node scope.'')
          else if hi_scope i = ''node'' \<and> st_nodes def \<noteq> [] \<and> hi_node i \<notin> Some ` set (st_nodes def)
          then Some (storage @ ''no longer permits node '' @ quoted (node_text (hi_node i)) @ ''.'')
          else if hi_scope i = ''node'' \<and> \<not> node_metadata_present generation d (st_pk def) (hi_node i)
          then Some (storage @ ''has no complete present metadata for node '' @ quoted (node_text (hi_node i)) @ ''.'')
          else if binding_exists d (st_pk def) (hi_node i)
          then Some (storage @ ''already has a binding for the confirmed scope and node; '' @ ''it may have changed after hand-off.'')
          else None)"

fun first_refusal :: "nat \<Rightarrow> string option \<Rightarrow> db \<Rightarrow> handoff_intent list \<Rightarrow> string option" where
  "first_refusal pk generation d [] = None"
| "first_refusal pk generation d (i # is) =
     (case intent_refusal pk generation d i of None \<Rightarrow> first_refusal pk generation d is | Some r \<Rightarrow> Some r)"

text \<open>\<open>ClusterStorageMount.objects.create\<close> for one applied intent.\<close>

definition bind_intent :: "nat \<Rightarrow> string option \<Rightarrow> db \<Rightarrow> handoff_intent \<Rightarrow> storage_binding list \<Rightarrow> storage_binding list" where
  "bind_intent pk generation d i bindings =
     (case current_definition pk generation d (hi_storage_id i) of
        None \<Rightarrow> bindings
      | Some def \<Rightarrow>
          bindings @ [\<lparr>sb_pk = next_pk sb_pk bindings, sb_storage = st_pk def, sb_mount = hi_mount i,
                       sb_scope = hi_scope i, sb_node = hi_node i\<rparr>])"

definition intents_call :: "cluster \<Rightarrow> string \<Rightarrow> string \<Rightarrow> string \<Rightarrow> string \<Rightarrow> handoff_intent list \<Rightarrow> audit_args" where
  "intents_call c action outcome refusal status intents =
     (audit_call action)
       \<lparr>aa_object_type := ''cluster_storage_handoff'', aa_object_id := cl_key c, aa_outcome := outcome,
        aa_system_username := ''system'', aa_cluster := Some c,
        aa_details := [(''cluster_key'', JStr (cl_key c)),
          (''intent_ids'', JList (map (\<lambda>i. JInt (int (hi_pk i))) intents)),
          (''reason'', JStr refusal), (''error_reason'', JStr refusal),
          (''bindings'', JList (map (\<lambda>i. JObj [(''storage_id'', JStr (hi_storage_id i)), (''scope'', JStr (hi_scope i)),
             (''node'', JStr (case hi_node i of None \<Rightarrow> [] | Some n \<Rightarrow> n)), (''mount_id'', JInt (int (hi_mount i))),
             (''status'', JStr status)]) intents))]\<rparr>"

definition metadata_current :: "nat \<Rightarrow> string option \<Rightarrow> db \<Rightarrow> bool" where
  "metadata_current pk generation d =
     (case first_where (\<lambda>s. cs_cluster s = pk) (catalog_states d) of
        None \<Rightarrow> False
      | Some s \<Rightarrow> cs_metadata_complete s \<and> cs_metadata_generation s \<noteq> None \<and> cs_metadata_generation s = generation)"

text \<open>All intents refused, or all applied, with the event that says so.\<close>

definition settle_intents ::
    "cluster \<Rightarrow> string option \<Rightarrow> time \<Rightarrow> handoff_intent list \<Rightarrow> db \<Rightarrow> audit_args \<times> db" where
  "settle_intents c generation now intents d =
     (let pk = cl_pk c in
      case first_refusal pk generation d intents of
        Some refusal \<Rightarrow>
          (intents_call c ''cluster.topology_handoff_storage_refused'' ''refused'' refusal ''refused'' intents,
           d\<lparr>handoff_intents := update_where (is_pending_intent pk)
               (\<lambda>i. i\<lparr>hi_status := ''refused'', hi_refusal_reason := refusal\<rparr>) (handoff_intents d)\<rparr>)
      | None \<Rightarrow>
          (intents_call c ''cluster.topology_handoff_storage_applied'' ''success'' [] ''applied'' intents,
           d\<lparr>storage_bindings := fold (bind_intent pk generation d) intents (storage_bindings d),
             handoff_intents := update_where (is_pending_intent pk)
               (\<lambda>i. i\<lparr>hi_status := ''applied'', hi_applied_at := Some now\<rparr>) (handoff_intents d)\<rparr>))"

definition apply_topology_handoff_storage_bindings ::
    "cluster \<Rightarrow> string option \<Rightarrow> time \<Rightarrow> db \<Rightarrow> (handoff_error, db) result" where
  "apply_topology_handoff_storage_bindings c generation now d =
     (let intents = sort_key hi_pk (filter (is_pending_intent (cl_pk c)) (handoff_intents d)) in
      if intents = [] then Inr d
      else if \<not> metadata_current (cl_pk c) generation d
      then Inl (HandoffRefused
        ''Storage hand-off mappings require the replacement's current complete metadata generation.'')
      else (case settle_intents c generation now intents d of
          (call, d1) \<Rightarrow> bind_result (map_error HandoffAudit (record_audit_event now call d1)) (\<lambda>(_, d2). Inr d2)))"

section \<open>Facts about storage mappings\<close>

definition binding_key :: "storage_binding \<Rightarrow> nat \<times> string option" where
  "binding_key b = (sb_storage b, sb_node b)"

definition intent_key :: "handoff_intent \<Rightarrow> nat \<times> string \<times> string option" where
  "intent_key i = (hi_cluster i, hi_storage_id i, hi_node i)"

text \<open>The unique constraints of the three tables.\<close>

definition handoff_wf :: "db \<Rightarrow> bool" where
  "handoff_wf d = (distinct (map binding_key (storage_bindings d)) \<and> distinct (map intent_key (handoff_intents d))
                   \<and> distinct (map st_pk (storages d)))"

lemma first_refusal_None_iff:
  "first_refusal pk g d is = None \<longleftrightarrow> (\<forall>i\<in>set is. intent_refusal pk g d i = None)"
  by (induction "is") (auto split: option.splits)

text \<open>The binding an applied intent gets, apart from its primary key.\<close>

definition bound_by :: "nat \<Rightarrow> string option \<Rightarrow> db \<Rightarrow> handoff_intent \<Rightarrow> storage_binding \<Rightarrow> bool" where
  "bound_by pk g d i b =
     (case current_definition pk g d (hi_storage_id i) of
        None \<Rightarrow> False
      | Some def \<Rightarrow> sb_storage b = st_pk def \<and> sb_mount b = hi_mount i \<and> sb_scope b = hi_scope i \<and> sb_node b = hi_node i)"

lemma intent_clear:
  "intent_refusal pk g d i = None \<Longrightarrow>
   \<exists>def. current_definition pk g d (hi_storage_id i) = Some def \<and> \<not> binding_exists d (st_pk def) (hi_node i)"
  by (auto simp: intent_refusal_def Let_def split: option.splits if_splits)

lemma fold_bind_intents:
  assumes "\<forall>i\<in>set is. current_definition pk g d (hi_storage_id i) \<noteq> None"
  shows "\<exists>new. fold (bind_intent pk g d) is bs = bs @ new \<and> list_all2 (bound_by pk g d) is new"
  using assms
proof (induction "is" arbitrary: bs)
  case Nil
  then show ?case by simp
next
  case (Cons i "is")
  then obtain def where def: "current_definition pk g d (hi_storage_id i) = Some def" by auto
  let ?b = "\<lparr>sb_pk = next_pk sb_pk bs, sb_storage = st_pk def, sb_mount = hi_mount i, sb_scope = hi_scope i, sb_node = hi_node i\<rparr>"
  from Cons obtain new where new: "fold (bind_intent pk g d) is (bs @ [?b]) = (bs @ [?b]) @ new"
      "list_all2 (bound_by pk g d) is new"
    by (metis list.set_intros(2))
  have "bind_intent pk g d i bs = bs @ [?b]" by (simp add: bind_intent_def def)
  moreover have "bound_by pk g d i ?b" by (simp add: bound_by_def def)
  ultimately show ?case
    using new by (intro exI [of _ "?b # new"]) simp
qed

lemma current_definition_Some:
  assumes "current_definition pk g d sid = Some def"
  shows "def \<in> set (storages d)" "st_storage_id def = sid"
  using first_where_Some_iff [OF assms [unfolded current_definition_def]] by auto

text \<open>Two intents that would bind the same storage and node are the same intent.\<close>

lemma bound_keys_distinct:
  assumes wf: "handoff_wf d" and "list_all2 (bound_by pk g d) is new"
    and "distinct (map intent_key is)" "\<forall>i\<in>set is. hi_cluster i = pk"
  shows "distinct (map binding_key new)"
  using assms(2-4)
proof (induction rule: list_all2_induct)
  case Nil
  then show ?case by simp
next
  case (Cons i "is" b new)
  obtain def where def: "current_definition pk g d (hi_storage_id i) = Some def" and b: "binding_key b = (st_pk def, hi_node i)"
    using Cons(1) by (auto simp: bound_by_def binding_key_def split: option.splits)
  have "binding_key b \<notin> set (map binding_key new)"
  proof
    assume "binding_key b \<in> set (map binding_key new)"
    then obtain b' where b': "b' \<in> set new" "binding_key b' = binding_key b" by auto
    from Cons(2) b'(1) obtain j where j: "j \<in> set is" "bound_by pk g d j b'"
      by (metis in_set_conv_nth list_all2_conv_all_nth)
    then obtain def' where def': "current_definition pk g d (hi_storage_id j) = Some def'"
        and key: "binding_key b' = (st_pk def', hi_node j)"
      by (auto simp: bound_by_def binding_key_def split: option.splits)
    have "st_pk def' = st_pk def" "hi_node j = hi_node i" using key b b'(2) by auto
    with wf current_definition_Some [OF def] current_definition_Some [OF def'] have "def' = def"
      by (intro distinct_map_unique [of st_pk "storages d"]) (simp_all add: handoff_wf_def)
    then have "hi_storage_id j = hi_storage_id i"
      using current_definition_Some(2) [OF def] current_definition_Some(2) [OF def'] by simp
    then have "intent_key j = intent_key i"
      using \<open>hi_node j = hi_node i\<close> Cons.prems(2) j(1) by (simp add: intent_key_def)
    moreover have "intent_key i \<notin> intent_key ` set is" using Cons.prems(1) by simp
    ultimately show False using j(1) by (metis image_eqI)
  qed
  with Cons show ?case by simp
qed

lemma intents_recorded:
  assumes "action \<in> {''cluster.topology_handoff_storage_refused'', ''cluster.topology_handoff_storage_applied''}"
  shows "\<exists>e. record_audit_event now (intents_call c action outcome refusal status is) d =
    Inr (e, d\<lparr>audit_events := audit_events d @ [e]\<rparr>) \<and> ae_action e = action"
proof -
  let ?a = "intents_call c action outcome refusal status is"
  have "aa_action ?a \<in> set CLUSTER_CONFIGURATION_AUDIT_ACTIONS"
    using assms by (auto simp: intents_call_def audit_call_def CLUSTER_CONFIGURATION_AUDIT_ACTIONS_def)
  then show ?thesis
    using record_configuration_event [of ?a c now d] by (auto simp: intents_call_def audit_call_def)
qed

text \<open>What the application did, in one of its three outcomes.\<close>

lemma apply_bindings_cases:
  assumes "apply_topology_handoff_storage_bindings c g now d = Inr d'"
    and pk_def: "pk = cl_pk c" and is_def: "is = sort_key hi_pk (filter (is_pending_intent pk) (handoff_intents d))"
  obtains (idle) "is = []" "d' = d"
  | (refused) refusal e where "first_refusal pk g d is = Some refusal"
      "d' = d\<lparr>handoff_intents := update_where (is_pending_intent pk)
                (\<lambda>i. i\<lparr>hi_status := ''refused'', hi_refusal_reason := refusal\<rparr>) (handoff_intents d),
              audit_events := audit_events d @ [e]\<rparr>"
  | (applied) e where "first_refusal pk g d is = None"
      "d' = d\<lparr>storage_bindings := fold (bind_intent pk g d) is (storage_bindings d),
              handoff_intents := update_where (is_pending_intent pk)
                (\<lambda>i. i\<lparr>hi_status := ''applied'', hi_applied_at := Some now\<rparr>) (handoff_intents d),
              audit_events := audit_events d @ [e]\<rparr>"
proof (cases "is = []")
  case True
  with assms(1) have "d' = d"
    by (simp add: apply_topology_handoff_storage_bindings_def is_def pk_def Let_def)
  with True show ?thesis by (rule idle)
next
  case False
  then have run: "(case settle_intents c g now is d of
      (call, d1) \<Rightarrow> bind_result (map_error HandoffAudit (record_audit_event now call d1)) (\<lambda>(_, d2). Inr d2)) = Inr d'"
    using assms(1) by (simp add: apply_topology_handoff_storage_bindings_def is_def pk_def Let_def split: if_splits)
  show ?thesis
  proof (cases "first_refusal pk g d is")
    case None
    with run obtain e where "d' = d\<lparr>storage_bindings := fold (bind_intent pk g d) is (storage_bindings d),
              handoff_intents := update_where (is_pending_intent pk)
                (\<lambda>i. i\<lparr>hi_status := ''applied'', hi_applied_at := Some now\<rparr>) (handoff_intents d),
              audit_events := audit_events d @ [e]\<rparr>"
      using intents_recorded [of "''cluster.topology_handoff_storage_applied''" now c "''success''" "[]" "''applied''" "is"
          "snd (settle_intents c g now is d)"]
      by (auto simp: settle_intents_def Let_def pk_def)
    with None show ?thesis by (rule applied)
  next
    case (Some refusal)
    with run obtain e where "d' = d\<lparr>handoff_intents := update_where (is_pending_intent pk)
                (\<lambda>i. i\<lparr>hi_status := ''refused'', hi_refusal_reason := refusal\<rparr>) (handoff_intents d),
              audit_events := audit_events d @ [e]\<rparr>"
      using intents_recorded [of "''cluster.topology_handoff_storage_refused''" now c "''refused''" refusal "''refused''" "is"
          "snd (settle_intents c g now is d)"]
      by (auto simp: settle_intents_def Let_def pk_def)
    with Some show ?thesis by (rule refused)
  qed
qed

definition unreadable_evidence :: "nat \<Rightarrow> db \<Rightarrow> bool" where
  "unreadable_evidence pk d =
     (case membership_of pk d of None \<Rightarrow> False | Some s \<Rightarrow> ms_transition_pending s \<and> \<not> pending_role_is_readable s)"

section \<open>Properties\<close>

text \<open>
  C21: The storage mappings confirmed at a topology hand-off are applied all together or not
  at all. Afterwards no intent of the cluster is pending. Either every pending intent was
  refused and no binding was made, or each of them got its own binding to the storage of the
  replacement's current metadata, with the confirmed mount, scope and node. The unique
  constraint on storage and node holds, and other clusters' intents are untouched.
\<close>

theorem handoff_bindings_all_or_nothing:
  assumes wf: "handoff_wf d" and run: "apply_topology_handoff_storage_bindings c g now d = Inr d'"
  shows "\<not> exists_where (is_pending_intent (cl_pk c)) (handoff_intents d')
    \<and> distinct (map binding_key (storage_bindings d'))
    \<and> filter (\<lambda>i. hi_cluster i \<noteq> cl_pk c) (handoff_intents d') = filter (\<lambda>i. hi_cluster i \<noteq> cl_pk c) (handoff_intents d)
    \<and> (storage_bindings d' = storage_bindings d
          \<and> (\<forall>i\<in>set (handoff_intents d'). i \<in> set (handoff_intents d) \<or> hi_status i = ''refused'')
       \<or> (\<exists>is new. set is = {i \<in> set (handoff_intents d). is_pending_intent (cl_pk c) i}
            \<and> storage_bindings d' = storage_bindings d @ new \<and> list_all2 (bound_by (cl_pk c) g d) is new
            \<and> (\<forall>i\<in>set (handoff_intents d'). i \<in> set (handoff_intents d) \<or> hi_status i = ''applied'')))"
  using run refl refl
proof (cases rule: apply_bindings_cases)
  case idle
  then have "\<not> exists_where (is_pending_intent (cl_pk c)) (handoff_intents d)"
    by (simp add: filter_empty_iff)
  with wf show ?thesis unfolding idle(2) by (simp add: handoff_wf_def)
next
  case (refused refusal e)
  have "\<not> exists_where (is_pending_intent (cl_pk c)) (handoff_intents d')"
    by (auto simp: refused(2) exists_where_update is_pending_intent_def)
  moreover have "i \<in> set (handoff_intents d) \<or> hi_status i = ''refused''" if "i \<in> set (handoff_intents d')" for i
    using that unfolding refused(2) by (auto elim: in_update_whereE)
  ultimately show ?thesis
    using wf by (auto simp: refused(2) handoff_wf_def is_pending_intent_def intro!: filter_update_where_frame)
next
  case (applied e)
  let ?is = "sort_key hi_pk (filter (is_pending_intent (cl_pk c)) (handoff_intents d))"
  have clear: "\<forall>i\<in>set ?is. intent_refusal (cl_pk c) g d i = None"
    using applied(1) by (simp only: first_refusal_None_iff)
  then have "\<forall>i\<in>set ?is. current_definition (cl_pk c) g d (hi_storage_id i) \<noteq> None"
    using intent_clear [of "cl_pk c" g d] by (metis option.distinct(1))
  from fold_bind_intents [OF this, of "storage_bindings d"] obtain new where
    new: "fold (bind_intent (cl_pk c) g d) ?is (storage_bindings d) = storage_bindings d @ new"
    and bound: "list_all2 (bound_by (cl_pk c) g d) ?is new" by blast
  have dist: "distinct (map intent_key ?is)"
    using wf by (auto simp: handoff_wf_def distinct_map inj_on_def)
  have own: "\<forall>i\<in>set ?is. hi_cluster i = cl_pk c" by (simp add: is_pending_intent_def)
  have fresh: "binding_key b \<notin> binding_key ` set (storage_bindings d)" if "b \<in> set new" for b
  proof -
    from that bound obtain i where i: "i \<in> set ?is" "bound_by (cl_pk c) g d i b"
      by (metis in_set_conv_nth list_all2_conv_all_nth)
    with clear intent_clear [of "cl_pk c" g d i] show ?thesis
      by (auto simp: bound_by_def binding_exists_def exists_where_iff binding_key_def)
  qed
  have "binding_key ` set new \<subseteq> - binding_key ` set (storage_bindings d)"
    using fresh by (simp add: image_subset_iff)
  then have unique: "distinct (map binding_key (storage_bindings d @ new))"
    using wf bound_keys_distinct [OF wf bound dist own] unfolding handoff_wf_def by (simp add: disjoint_eq_subset_Compl inf_commute)
  have settled: "\<not> exists_where (is_pending_intent (cl_pk c)) (handoff_intents d')"
    by (auto simp: applied(2) exists_where_update is_pending_intent_def)
  have status: "\<forall>i\<in>set (handoff_intents d'). i \<in> set (handoff_intents d) \<or> hi_status i = ''applied''"
    unfolding applied(2) by (auto elim: in_update_whereE)
  have others: "filter (\<lambda>i. hi_cluster i \<noteq> cl_pk c) (handoff_intents d') = filter (\<lambda>i. hi_cluster i \<noteq> cl_pk c) (handoff_intents d)"
    by (auto simp: applied(2) is_pending_intent_def intro!: filter_update_where_frame)
  have made: "storage_bindings d' = storage_bindings d @ new" by (simp add: applied(2) new)
  have "set ?is = {i \<in> set (handoff_intents d). is_pending_intent (cl_pk c) i}" by auto
  then show ?thesis
    using settled unique others made bound status
    by (intro conjI disjI2 exI [of _ ?is] exI [of _ new]) simp_all
qed

definition example_handoff_db :: db where
  "example_handoff_db =
     empty_db\<lparr>clusters := [new_cluster 2 ''lab-b'' ''Lab B''],
       catalog_states := [\<lparr>cs_pk = 1, cs_cluster = 2, cs_metadata_generation = Some ''g'', cs_metadata_complete = True\<rparr>],
       storages := [\<lparr>st_pk = 7, st_cluster = 2, st_storage_id = ''nfs'', st_shared = True, st_nodes = [], st_present = True,
                     st_unmanaged_at = None, st_observed_metadata_generation = Some ''g'', st_storage_type = ''nfs'', st_disabled = False, st_config = JObj []\<rparr>],
       handoff_intents := [\<lparr>hi_pk = 1, hi_cluster = 2, hi_source_cluster_key_snapshot = ''lab'', hi_storage_id = ''nfs'',
                            hi_mount = 3, hi_scope = ''shared'', hi_node = None, hi_status = ''pending'',
                            hi_applied_at = None, hi_refusal_reason = []\<rparr>]\<rparr>"

theorem handoff_bindings_all_or_nothing_witness:
  "case apply_topology_handoff_storage_bindings (new_cluster 2 ''lab-b'' ''Lab B'') (Some ''g'') 9 example_handoff_db of
     Inl e \<Rightarrow> False
   | Inr d' \<Rightarrow> \<not> exists_where (is_pending_intent 2) (handoff_intents d')"
proof -
  let ?c = "new_cluster 2 ''lab-b'' ''Lab B''"
  have ok: "case apply_topology_handoff_storage_bindings ?c (Some ''g'') 9 example_handoff_db of
      Inl e \<Rightarrow> False | Inr d' \<Rightarrow> True"
    by code_simp
  then obtain d' where run: "apply_topology_handoff_storage_bindings ?c (Some ''g'') 9 example_handoff_db = Inr d'"
    by (cases "apply_topology_handoff_storage_bindings ?c (Some ''g'') 9 example_handoff_db") auto
  have "handoff_wf example_handoff_db" by code_simp
  from handoff_bindings_all_or_nothing [OF this run] run show ?thesis by (simp add: new_cluster_def)
qed

text \<open>
  C22: Discarding unreadable pending evidence needs the exact key and evidence that really is
  unreadable. When both hold, the gate is cleared, the registered role stays and the discarded
  text is in the audit event; otherwise the call is refused and the only trace is one refused
  audit event.
\<close>

theorem repair_needs_key_and_unreadable_evidence:
  assumes "get_cluster (cl_pk c) d = Some locked"
  shows "\<exists>e. ae_action e = ''cluster.topology_pending_repaired''
    \<and> (if typed = cl_key locked \<and> unreadable_evidence (cl_pk c) d then
         (\<exists>s. membership_of (cl_pk c) d = Some s
            \<and> repair_unreadable_pending_transition c typed who now d =
               (Inr (), d\<lparr>membership_states := update_where (\<lambda>r. ms_cluster r = cl_pk c)
                            (\<lambda>r. r\<lparr>ms_transition_pending := False, ms_pending_topology_role := ''unknown''\<rparr>)
                            (membership_states d), audit_events := audit_events d @ [e]\<rparr>)
            \<and> ae_details e = JObj [(''cluster_key'', JStr (cl_key locked)),
                                  (''discarded_pending_role'', JStr (ms_pending_topology_role s))])
       else (\<exists>m. repair_unreadable_pending_transition c typed who now d =
               (Inl (HandoffRefused m), d\<lparr>audit_events := audit_events d @ [e]\<rparr>))
            \<and> ae_outcome e = ''refused'')"
proof -
  have pk: "cl_pk locked = cl_pk c" by (rule get_cluster_pk [OF assms(1)])
  have recorded: "\<exists>e. record_audit_event now (repair_call who cl outcome details) d1 =
      Inr (e, d1\<lparr>audit_events := audit_events d1 @ [e]\<rparr>) \<and> ae_action e = ''cluster.topology_pending_repaired''
      \<and> ae_outcome e = outcome \<and> ae_details e = JObj ((''cluster_key'', JStr (cl_key cl)) # details)" for cl outcome details d1
    using record_configuration_event [of "repair_call who cl outcome details" cl now d1]
    by (auto simp: repair_call_def audit_call_def CLUSTER_CONFIGURATION_AUDIT_ACTIONS_def)
  show ?thesis
  proof (cases "typed = cl_key locked \<and> unreadable_evidence (cl_pk c) d")
    case True
    then obtain s where s: "membership_of (cl_pk c) d = Some s" "ms_transition_pending s" "\<not> pending_role_is_readable s"
        "typed = cl_key locked" by (auto simp: unreadable_evidence_def split: option.splits)
    let ?d1 = "d\<lparr>membership_states := update_where (\<lambda>r. ms_cluster r = cl_pk c)
        (\<lambda>r. r\<lparr>ms_transition_pending := False, ms_pending_topology_role := ''unknown''\<rparr>) (membership_states d)\<rparr>"
    obtain e where "record_audit_event now
        (repair_call who locked ''success'' [(''discarded_pending_role'', JStr (ms_pending_topology_role s))]) ?d1
        = Inr (e, ?d1\<lparr>audit_events := audit_events d @ [e]\<rparr>)"
      "ae_action e = ''cluster.topology_pending_repaired''"
      "ae_details e = JObj [(''cluster_key'', JStr (cl_key locked)), (''discarded_pending_role'', JStr (ms_pending_topology_role s))]"
      using recorded [of locked "''success''" "[(''discarded_pending_role'', JStr (ms_pending_topology_role s))]" ?d1] by auto
    with True s assms(1) pk show ?thesis
      by (intro exI [of _ e])
        (simp add: repair_unreadable_pending_transition_def repair_transaction_def Let_def)
  next
    case False
    then have "\<exists>m. repair_transaction c typed who now d = Inl (HandoffRefused m)"
      using assms(1) pk by (auto simp: repair_transaction_def Let_def unreadable_evidence_def split: option.splits)
    then obtain m where m: "repair_transaction c typed who now d = Inl (HandoffRefused m)" ..
    obtain e where "record_audit_event now (repair_call who c ''refused''
          [(''reason_code'', JStr ''cluster_topology_handoff_refused'')]) d = Inr (e, d\<lparr>audit_events := audit_events d @ [e]\<rparr>)"
      "ae_action e = ''cluster.topology_pending_repaired''" "ae_outcome e = ''refused''"
      using recorded by blast
    with m have run: "repair_unreadable_pending_transition c typed who now d =
        (Inl (HandoffRefused m), d\<lparr>audit_events := audit_events d @ [e]\<rparr>)"
      by (simp add: repair_unreadable_pending_transition_def)
    show ?thesis
      unfolding if_not_P [OF False] by (intro exI [of _ e] conjI exI [of _ m]) fact+
  qed
qed

theorem repair_needs_key_and_unreadable_evidence_witness:
  "\<exists>e m. repair_unreadable_pending_transition (new_cluster 1 ''lab'' ''Lab'') ''lab'' None 3 example_cluster_db =
     (Inl (HandoffRefused m), example_cluster_db\<lparr>audit_events := audit_events example_cluster_db @ [e]\<rparr>)"
proof -
  have get: "get_cluster (cl_pk (new_cluster 1 ''lab'' ''Lab'')) example_cluster_db = Some (new_cluster 1 ''lab'' ''Lab'')"
    by (simp add: get_cluster_def example_cluster_db_def new_cluster_def)
  have "\<not> unreadable_evidence (cl_pk (new_cluster 1 ''lab'' ''Lab'')) example_cluster_db"
    by (simp add: unreadable_evidence_def membership_of_def example_cluster_db_def new_cluster_def new_membership_state_def)
  with repair_needs_key_and_unreadable_evidence [OF get, of "''lab''" None 3] show ?thesis by auto
qed

text \<open>
  C23: Confirming a membership recovery ends the stale-observer condition: it succeeds only
  while the condition exists and the fresh read has the reviewed digest, and afterwards the
  accepted members are exactly the nodes of that read, the answering node among them, so the
  same answer speaks for the scope at the next refresh.
\<close>

theorem recovery_accepts_the_reviewed_members:
  assumes "confirm_membership_recovery env pk endpoint_id digest who now d = Inr d'"
  shows "stale_observer pk d \<and> \<not> stale_observer pk d'
    \<and> (\<exists>c nm candidate. get_cluster pk d = Some c
         \<and> membership_recovery_read env c (Some endpoint_id) d = Inr (nm, candidate) \<and> rc_digest candidate = digest
         \<and> accepted_member_names pk d' = set (rc_members candidate)
         \<and> speaks_for_the_scope (observation nm (accepted_member_names pk d')))"
proof -
  from assms obtain c nm candidate generation code d1 e where
    c: "get_cluster pk d = Some c" and stale: "stale_observer pk d"
    and rd: "membership_recovery_read env c (Some endpoint_id) d = Inr (nm, candidate)"
    and dig: "rc_digest candidate = digest"
    and pub: "publish_complete c nm (recovery_decision (membership_of pk d) nm) now d = Inr ((generation, code), d1)"
    and ev: "record_audit_event now (recovered_call who c endpoint_id candidate generation) d1 = Inr (e, d')"
    by (auto simp: confirm_membership_recovery_def result_simps split: option.splits if_splits)
  have pk: "cl_pk c = pk" by (rule get_cluster_pk [OF c])
  obtain s opened w where ap: "apply_decision (recovery_decision (membership_of pk d) nm) (publish_base pk d) = Inr (s, code, opened, w)"
    using pub by (auto simp: publish_complete_def Let_def pk publish_base_def result_simps)
  from publish_complete_applied [OF pk refl ap, of nm now] pub obtain cs es where
    d1: "d1 = publication pk nm generation now code s es cs d" by auto
  have s: "ms_cluster s = pk" and code: "code \<noteq> ''observer_not_a_member''"
    using apply_decision_Inr [OF ap] publish_base_cluster [of pk d] by auto
  note readback = publication_readback [OF d1 s]
  obtain cs' where d': "d' = d1\<lparr>audit_events := audit_events d1 @ [e], clusters := cs'\<rparr>"
    using record_audit_event_frame [OF ev] by blast
  have names: "accepted_member_names pk d' = set (map no_node_name (nm_nodes nm))"
    using readback(2) accepted_frame [of d' d1 pk] by (simp add: d')
  have "\<not> stale_observer pk d'"
    using readback(3) code by (auto simp: d' stale_observer_def membership_coverage_of_def)
  moreover have "rc_members candidate = map no_node_name (nm_nodes nm)"
    "nm_observed_from nm \<in> set (map no_node_name (nm_nodes nm))"
    using rd by (auto simp: membership_recovery_read_def result_simps Let_def normalized_ok_def split: option.splits
        dest!: attempt_endpoint_Inr normalize_ok)
  ultimately show ?thesis
    using c stale rd dig names
    by (intro conjI exI [of _ c] exI [of _ nm] exI [of _ candidate]) (simp_all add: speaks_for_the_scope_def observation_def)
qed

definition example_recovery_env :: recovery_env where
  "example_recovery_env =
     \<lparr>re_verify = (\<lambda>c e. Inr ()), re_read = (\<lambda>e. Inr (Inr example_status)), re_hash = (\<lambda>(_, _, n, _). n)\<rparr>"

definition example_stale_db :: db where
  "example_stale_db = example_cluster_db\<lparr>coverages := [(new_coverage 1)\<lparr>cov_error_code := ''observer_not_a_member''\<rparr>]\<rparr>"

theorem recovery_accepts_the_reviewed_members_witness:
  "case confirm_membership_recovery example_recovery_env 1 1 ''pve1'' None 4 example_stale_db of
     Inl e \<Rightarrow> False | Inr d' \<Rightarrow> \<not> stale_observer 1 d'"
proof -
  have "case confirm_membership_recovery example_recovery_env 1 1 ''pve1'' None 4 example_stale_db of
      Inl e \<Rightarrow> False | Inr d' \<Rightarrow> True"
    by code_simp
  then obtain d' where run: "confirm_membership_recovery example_recovery_env 1 1 ''pve1'' None 4 example_stale_db = Inr d'"
    by (cases "confirm_membership_recovery example_recovery_env 1 1 ''pve1'' None 4 example_stale_db") auto
  from recovery_accepts_the_reviewed_members [OF run] run show ?thesis by simp
qed

text \<open>
  A membership recovery discards pending evidence it cannot read. For a cluster whose
  pending target this build cannot read and whose registered role is not the observed one, a
  confirmed recovery replaces the stored target by the observed role, without the repair the
  publication reserves for such evidence and without an event that names the discarded text.
\<close>

theorem recovery_overwrites_unreadable_evidence:
  assumes "confirm_membership_recovery env pk endpoint_id digest who now d = Inr d'"
    and "membership_recovery_read env c (Some endpoint_id) d = Inr (nm, candidate)" and "get_cluster pk d = Some c"
    and "membership_of pk d = Some s" "ms_transition_pending s" "\<not> pending_role_is_readable s"
    and "state_role s \<noteq> UNKNOWN" "rc_topology_role candidate \<noteq> state_role s"
  shows "\<exists>s' e. membership_of pk d' = Some s'
    \<and> ms_pending_topology_role s' = role_value (rc_topology_role candidate)
    \<and> audit_events d' = audit_events d @ [e] \<and> ae_action e = ''cluster.topology_membership_recovered''"
proof -
  have pk: "cl_pk c = pk" by (rule get_cluster_pk [OF assms(3)])
  from assms(1-3) obtain generation code d1 e where
    pub: "publish_complete c nm (recovery_decision (membership_of pk d) nm) now d = Inr ((generation, code), d1)"
    and ev: "record_audit_event now (recovered_call who c endpoint_id candidate generation) d1 = Inr (e, d')"
    by (auto simp: confirm_membership_recovery_def result_simps split: option.splits if_splits)
  let ?r = "if nm_has_cluster_row nm then COROSYNC else STANDALONE"
  have role: "rc_topology_role candidate = ?r"
    using assms(2) by (auto simp: membership_recovery_read_def result_simps Let_def split: option.splits)
  have unread: "state_pending_role s = UNKNOWN"
    using assms(6) by (simp add: pending_role_is_readable_def state_pending_role_def)
  have base: "publish_base pk d = s" by (simp add: publish_base_def assms(4))
  have obs: "classify_role (observation nm {}) = ?r"
    by (rule observation_concrete) (simp add: speaks_for_the_scope_def observation_def)
  have dec: "transition (recovery_decision (membership_of pk d) nm) = TRANSITION_PENDING"
    "pending_role (recovery_decision (membership_of pk d) nm) = ?r"
    using assms(7,8) role obs
    by (simp_all add: recovery_decision_def assms(4) unread evaluate_pending_iff evaluate_pending_role split: if_splits)
  let ?s = "s\<lparr>ms_transition_pending := True, ms_pending_topology_role := role_value ?r\<rparr>"
  have ap: "apply_decision (recovery_decision (membership_of pk d) nm) (publish_base pk d) =
      Inr (?s, ''topology_role_change_observed'', False, [])"
    using assms(5) by (simp add: apply_decision_def dec base)
  from publish_complete_applied [OF pk refl ap, of nm now] pub dec obtain cs where
    d1: "d1 = publication pk nm generation now code ?s [] cs d" by auto
  have "ms_cluster ?s = pk" using publish_base_cluster [of pk d] by (simp add: base)
  from publication_readback(1) [OF d1 this] have state: "membership_of pk d1 = Some (published_state nm generation ?s)" .
  have call: "aa_action (recovered_call who c endpoint_id candidate generation) = ''cluster.topology_membership_recovered''"
    by (simp add: recovered_call_def audit_call_def)
  obtain e' where "record_audit_event now (recovered_call who c endpoint_id candidate generation) d1 =
      Inr (e', d1\<lparr>audit_events := audit_events d1 @ [e']\<rparr>)" "ae_action e' = ''cluster.topology_membership_recovered''"
    using record_configuration_event [of "recovered_call who c endpoint_id candidate generation" c now d1] call
    by (auto simp: recovered_call_def audit_call_def CLUSTER_CONFIGURATION_AUDIT_ACTIONS_def)
  with ev have d': "d' = d1\<lparr>audit_events := audit_events d1 @ [e]\<rparr>" and act: "ae_action e = ''cluster.topology_membership_recovered''"
    by auto
  have "membership_of pk d' = membership_of pk d1" by (simp add: d' membership_of_def)
  with state act show ?thesis
    by (intro exI [of _ "published_state nm generation ?s"] exI [of _ e]) (simp add: role d' d1 publication_def)
qed

theorem recovery_overwrites_unreadable_evidence_witness:
  "case confirm_membership_recovery example_recovery_env 1 1 ''pve1'' None 4
     (example_stale_db\<lparr>membership_states := [(new_membership_state 1)\<lparr>ms_topology_role := ''standalone'',
         ms_transition_pending := True, ms_pending_topology_role := ''federated''\<rparr>]\<rparr>) of
     Inl e \<Rightarrow> False
   | Inr d' \<Rightarrow> \<exists>s'. membership_of 1 d' = Some s' \<and> ms_pending_topology_role s' = ''corosync''"
proof -
  let ?s = "(new_membership_state 1)\<lparr>ms_topology_role := ''standalone'',
         ms_transition_pending := True, ms_pending_topology_role := ''federated''\<rparr>"
  let ?d = "example_stale_db\<lparr>membership_states := [?s]\<rparr>"
  let ?c = "new_cluster 1 ''lab'' ''Lab''"
  have "case confirm_membership_recovery example_recovery_env 1 1 ''pve1'' None 4 ?d of Inl e \<Rightarrow> False | Inr d' \<Rightarrow> True"
    by code_simp
  then obtain d' where run: "confirm_membership_recovery example_recovery_env 1 1 ''pve1'' None 4 ?d = Inr d'"
    by (cases "confirm_membership_recovery example_recovery_env 1 1 ''pve1'' None 4 ?d") auto
  have "case membership_recovery_read example_recovery_env ?c (Some 1) ?d of
      Inl e \<Rightarrow> False | Inr (nm, candidate) \<Rightarrow> rc_topology_role candidate = COROSYNC"
    by code_simp
  then obtain nm candidate where rd: "membership_recovery_read example_recovery_env ?c (Some 1) ?d = Inr (nm, candidate)"
      and role: "rc_topology_role candidate = COROSYNC"
    by (cases "membership_recovery_read example_recovery_env ?c (Some 1) ?d") auto
  have "get_cluster 1 ?d = Some ?c" "membership_of 1 ?d = Some ?s" "\<not> pending_role_is_readable ?s" "state_role ?s = STANDALONE"
    by (simp_all add: example_stale_db_def example_cluster_db_def get_cluster_def new_cluster_def membership_of_def
        pending_role_is_readable_def state_role_def role_of_value_def)
  with recovery_overwrites_unreadable_evidence [OF run rd, of ?s] role run show ?thesis by auto
qed

text \<open>
  A hand-off is resolved only toward the pending role. The decision a verified
  replacement has to reach is produced exactly when the question is open and readable and the
  replacement was completely observed in the pending role; it then adopts that role and no
  longer blocks provider work.
\<close>

theorem handoff_resolves_only_the_pending_role:
  assumes "pending_role_coherent s"
  shows "((\<exists>dec. pending_decision s v = Inr dec) \<longleftrightarrow>
      ms_transition_pending s \<and> pending_role_is_readable s \<and> vf_membership_complete v
      \<and> vf_topology_role v = state_pending_role s)
    \<and> (\<forall>dec. pending_decision s v = Inr dec \<longrightarrow>
      transition dec = ADOPTED \<and> role dec = state_pending_role s \<and> previous_role dec = state_role s
      \<and> \<not> blocks_provider_work dec)"
proof -
  let ?obs = "\<lparr>complete = True, has_cluster_row = (vf_topology_role v = COROSYNC),
                member_count = int (length (vf_node_names v)), quorate = False, observed_from = [],
                accepted_members = {}\<rparr>"
  have obs: "classify_role ?obs = vf_topology_role v" if "vf_topology_role v \<noteq> UNKNOWN"
    using that by (cases "vf_topology_role v") (simp_all add: classify_role_def speaks_for_the_scope_def)
  have known: "state_pending_role s \<noteq> UNKNOWN \<and> state_pending_role s \<noteq> state_role s"
    if "ms_transition_pending s" "pending_role_is_readable s"
    using assms
  proof (cases rule: coherent_cases)
    case (pending r)
    then show ?thesis using state_role_text [of s] by fastforce
  qed (use that in simp_all)
  have resolved: "pending_decision s v = Inr dec \<longleftrightarrow>
      ms_transition_pending s \<and> pending_role_is_readable s \<and> vf_membership_complete v
      \<and> vf_topology_role v = state_pending_role s
      \<and> dec = \<lparr>transition = ADOPTED, role = state_pending_role s, previous_role = state_role s, pending_role = UNKNOWN, reason = []\<rparr>"
    for dec
    using known obs
    by (auto simp: pending_decision_def Let_def result_simps resolve_transition_def transition_pending_def
        evaluate_pending_role)
  show ?thesis
    by (simp add: resolved blocks_provider_work_def transition_pending_def)
qed

theorem handoff_resolves_only_the_pending_role_witness:
  "\<exists>dec. pending_decision
     ((new_membership_state 1)\<lparr>ms_topology_role := ''standalone'', ms_transition_pending := True, ms_pending_topology_role := ''corosync''\<rparr>)
     \<lparr>vf_membership_complete = True, vf_topology_role = COROSYNC, vf_node_names = [''pve1'']\<rparr> = Inr dec"
  using handoff_resolves_only_the_pending_role
    [of "(new_membership_state 1)\<lparr>ms_topology_role := ''standalone'', ms_transition_pending := True, ms_pending_topology_role := ''corosync''\<rparr>"
        "\<lparr>vf_membership_complete = True, vf_topology_role = COROSYNC, vf_node_names = [''pve1'']\<rparr>"]
  by (simp add: pending_role_coherent_def pending_role_is_readable_def state_pending_role_def role_of_value_def)

end
