(* ===== verification/Enrollment.thy ===== *)
theory Enrollment
  imports Models Refs
begin

text \<open>
  Node enrollment and publication: \<^verbatim>\<open>core/services/cluster_enrollment.py\<close> (the four writers, the
  blockers of a hide or remove, the retirement of the rows), \<^verbatim>\<open>core/services/publication_scope.py\<close>
  (what a cluster may publish, and the re-stamping of its guest rows),
  \<open>acquire_operable_cluster\<close> of \<^verbatim>\<open>core/services/cluster_lifecycle_lock.py\<close> and
  \<open>retire_cluster_guest_inventory\<close> of \<^verbatim>\<open>core/services/current_guest_inventory.py\<close>. Writers run in one
  transaction: an error returns no database.
\<close>

section \<open>Publication scope\<close>

record publication_scope =
  ps_cluster_id :: nat
  ps_contract_version :: nat
  ps_generation :: nat
  ps_managed_nodes :: "string set"
  ps_safety_nodes :: "string set"

definition filtering :: "publication_scope \<Rightarrow> bool" where
  "filtering s = (1 \<le> ps_contract_version s)"

definition publishes :: "publication_scope \<Rightarrow> string \<Rightarrow> bool" where
  "publishes s node = (if \<not> filtering s then True else node \<in> ps_managed_nodes s)"

definition observes :: "publication_scope \<Rightarrow> string \<Rightarrow> bool" where
  "observes s node = (if \<not> filtering s then True else node \<in> ps_safety_nodes s)"

definition publication_scope_of :: "cluster \<Rightarrow> db \<Rightarrow> publication_scope" where
  "publication_scope_of c d =
     (let rows = filter (\<lambda>e. en_cluster e = cl_pk c) (enrollments d) in
      \<lparr>ps_cluster_id = cl_pk c, ps_contract_version = cl_enrollment_contract_version c,
       ps_generation = cl_enrollment_generation c,
       ps_managed_nodes = set (map en_node_name (filter (\<lambda>e. en_mode e = ''managed'') rows)),
       ps_safety_nodes = set (map en_node_name rows)\<rparr>)"

text \<open>
  \<open>publication_scopes\<close>: many clusters in one query. The dictionary of the two node sets per cluster is
  filled by one walk over the enrollment rows of all of them.
\<close>

definition add_enrollment ::
    "node_enrollment \<Rightarrow> (nat \<times> string set \<times> string set) list \<Rightarrow> (nat \<times> string set \<times> string set) list" where
  "add_enrollment e by_cluster =
     map (\<lambda>(k, managed, safety).
       if k = en_cluster e
       then (k, if en_mode e = ''managed'' then insert (en_node_name e) managed else managed, insert (en_node_name e) safety)
       else (k, managed, safety)) by_cluster"

definition publication_scopes :: "cluster list \<Rightarrow> db \<Rightarrow> (nat \<times> publication_scope) list" where
  "publication_scopes cs d =
     (let by_cluster = fold add_enrollment (filter (\<lambda>e. en_cluster e \<in> set (map cl_pk cs)) (enrollments d))
            (map (\<lambda>c. (cl_pk c, {}, {})) cs);
          sets = (\<lambda>c. case map_of by_cluster (cl_pk c) of Some p \<Rightarrow> p | None \<Rightarrow> ({}, {}))
      in map (\<lambda>c. (cl_pk c, \<lparr>ps_cluster_id = cl_pk c, ps_contract_version = cl_enrollment_contract_version c,
           ps_generation = cl_enrollment_generation c, ps_managed_nodes = fst (sets c), ps_safety_nodes = snd (sets c)\<rparr>)) cs)"

definition published_node_names :: "cluster \<Rightarrow> string list \<Rightarrow> db \<Rightarrow> string list" where
  "published_node_names c live d = filter (publishes (publication_scope_of c d)) live"

definition refuse_unpublished_target :: "cluster \<Rightarrow> string \<Rightarrow> string \<Rightarrow> db \<Rightarrow> (string, unit) result" where
  "refuse_unpublished_target c node what d =
     (if publishes (publication_scope_of c d) node then Inr ()
      else Inl (''Node '' @ CHR 0x27 # node @ CHR 0x27 # '' is not an enrolled '' @ what @ '' on this connection.''))"

text \<open>\<open>_restamp\<close>: only rows whose stamp is wrong are written, and counted.\<close>

definition restamp :: "nat \<Rightarrow> bool \<Rightarrow> (guest \<Rightarrow> bool) \<Rightarrow> guest list \<Rightarrow> nat \<times> guest list" where
  "restamp generation published P rows =
     (let wrong = (\<lambda>g. P g \<and> \<not> (g_published g = published \<and> g_based_on_enrollment_generation g = generation))
      in (count_where wrong rows,
          update_where wrong (\<lambda>g. g\<lparr>g_published := published, g_based_on_enrollment_generation := generation\<rparr>) rows))"

definition apply_publication_scope :: "cluster \<Rightarrow> db \<Rightarrow> nat \<times> db" where
  "apply_publication_scope c d =
     (let scope = publication_scope_of c d; own = (\<lambda>g. g_cluster g = cl_pk c) in
      if \<not> filtering scope then
        let (n, rows) = restamp (ps_generation scope) True own (guests d) in (n, d\<lparr>guests := rows\<rparr>)
      else
        let (n1, rows1) = restamp (ps_generation scope) True (\<lambda>g. own g \<and> g_node g \<in> ps_managed_nodes scope) (guests d);
            (n2, rows2) = restamp (ps_generation scope) False (\<lambda>g. own g \<and> g_node g \<notin> ps_managed_nodes scope) rows1
        in (n1 + n2, d\<lparr>guests := rows2\<rparr>))"

section \<open>Writers\<close>

datatype enroll_error =
    EnrollRefused string
  | EnrollClusterMissing
  | EnrollRetired string
  | EnrollNotEnabled string
  | EnrollBadRef ref_error

record enrollment_write =
  ew_enrollment :: node_enrollment
  ew_changed :: bool
  ew_generation :: nat
  ew_previous_mode :: string

definition acquire_operable_cluster :: "nat \<Rightarrow> bool \<Rightarrow> db \<Rightarrow> (enroll_error, cluster) result" where
  "acquire_operable_cluster pk require_enabled d =
     (case get_cluster pk d of
        None \<Rightarrow> Inl EnrollClusterMissing
      | Some c \<Rightarrow>
          if cl_retired_at c \<noteq> None then Inl (EnrollRetired (cl_key c))
          else if require_enabled \<and> \<not> cl_enabled c then Inl (EnrollNotEnabled (cl_key c))
          else Inr c)"

definition BLOCKER_DETAIL_LIMIT :: nat where
  "BLOCKER_DETAIL_LIMIT = 10"

definition summarize :: "string \<Rightarrow> string list \<Rightarrow> string" where
  "summarize noun items =
     (let shown = take BLOCKER_DETAIL_LIMIT items;
          remainder = length items - length shown;
          listed = join '', '' shown @ (if 0 < remainder then '' and '' @ show_nat remainder @ '' more'' else [])
      in show_nat (length items) @ '' '' @ noun @ ''(s) targeting this node: '' @ listed)"

definition scheduled_targets :: "nat \<Rightarrow> string \<Rightarrow> db \<Rightarrow> (string \<times> nat) list" where
  "scheduled_targets pk node_name d =
     (let placed = map (\<lambda>g. (g_object_type g, g_vmid g)) (filter (\<lambda>g. g_cluster g = pk \<and> g_node g = node_name) (guests d))
      in remdups (map (\<lambda>a. (sa_target_type a, sa_target_vmid a))
           (filter (\<lambda>a. sa_cluster a = pk \<and> sa_enabled a
              \<and> ((sa_target_type a, sa_target_vmid a) \<in> set placed \<or> sa_target_node a = node_name)) (scheduled_actions d))))"

definition live_console :: "nat \<Rightarrow> string \<Rightarrow> time \<Rightarrow> console_session \<Rightarrow> bool" where
  "live_console pk node_name now s =
     (con_cluster s = Some pk \<and> con_target_node s = node_name \<and> now < con_expires_at s
      \<and> con_status s \<in> {''pending'', ''connecting'', ''connected''})"

definition node_change_blockers :: "nat \<Rightarrow> string \<Rightarrow> time \<Rightarrow> db \<Rightarrow> string list" where
  "node_change_blockers pk node_name now d =
     (let scheduled = scheduled_targets pk node_name d;
          consoles = count_where (live_console pk node_name now) (consoles d)
      in (if scheduled \<noteq> [] then [summarize ''scheduled action'' (sort (map (\<lambda>(k, v). k @ ''/'' @ show_nat v) scheduled))] else [])
         @ (if 0 < consoles then [show_nat consoles @ '' live console session(s) on this node''] else []))"

definition commit_generation :: "cluster \<Rightarrow> db \<Rightarrow> nat \<times> db" where
  "commit_generation locked d =
     (let g = cl_enrollment_generation locked + 1;
          d1 = update_cluster (cl_pk locked) (\<lambda>c. c\<lparr>cl_enrollment_generation := g\<rparr>) d
      in (g, snd (apply_publication_scope (locked\<lparr>cl_enrollment_generation := g\<rparr>) d1)))"

definition validate_mode :: "string \<Rightarrow> (enroll_error, string) result" where
  "validate_mode mode =
     (if mode \<notin> {''managed'', ''safety_only''}
      then Inl (EnrollRefused ''An enrollment mode must be either managed or safety only.'') else Inr mode)"

definition is_enrollment :: "nat \<Rightarrow> string \<Rightarrow> node_enrollment \<Rightarrow> bool" where
  "is_enrollment pk node_name e = (en_cluster e = pk \<and> en_node_name e = node_name)"

definition enrollment_of :: "nat \<Rightarrow> string \<Rightarrow> db \<Rightarrow> node_enrollment option" where
  "enrollment_of pk node_name d = first_where (is_enrollment pk node_name) (enrollments d)"

text \<open>\<open>ClusterNodeEnrollment.save\<close> of a new row: the snapshot is the reference of its own identity.\<close>

definition new_enrollment ::
    "cluster \<Rightarrow> string \<Rightarrow> string \<Rightarrow> nat option \<Rightarrow> nat option \<Rightarrow> time \<Rightarrow> (enroll_error, node_enrollment) result" where
  "new_enrollment c node_name mode who via now =
     bind_result (map_error EnrollBadRef (make_node_ref (cl_key c) node_name)) (\<lambda>ref.
       Inr \<lparr>en_cluster = cl_pk c, en_node_name = node_name, en_node_ref_snapshot = serialize_node_ref ref, en_mode = mode,
            en_enrolled_at = now, en_enrolled_by = who, en_mode_changed_at = None, en_mode_changed_by = None,
            en_mode_change_reason = [], en_onboarded_via_endpoint = via\<rparr>)"

definition enroll_node ::
    "nat \<Rightarrow> string \<Rightarrow> string \<Rightarrow> nat option \<Rightarrow> nat option \<Rightarrow> bool \<Rightarrow> time \<Rightarrow> db
      \<Rightarrow> (enroll_error, enrollment_write \<times> db) result" where
  "enroll_node pk raw_name raw_mode who via require_enabled now d =
     (let node_name = strip raw_name in
      if node_name = [] \<or> CHR '':'' \<in> set node_name
      then Inl (EnrollRefused (''A node name is required and may not contain '' @ CHR 0x27 # '':'' @ CHR 0x27 # ''.''))
      else
        bind_result (validate_mode raw_mode) (\<lambda>mode.
        bind_result (acquire_operable_cluster pk require_enabled d) (\<lambda>locked.
          case enrollment_of pk node_name d of
            Some e \<Rightarrow>
              Inr (\<lparr>ew_enrollment = e, ew_changed = False, ew_generation = cl_enrollment_generation locked,
                    ew_previous_mode = en_mode e\<rparr>, d)
          | None \<Rightarrow>
              bind_result (new_enrollment locked node_name mode who via now) (\<lambda>e.
                let (g, d1) = commit_generation locked (d\<lparr>enrollments := enrollments d @ [e]\<rparr>)
                in Inr (\<lparr>ew_enrollment = e, ew_changed = True, ew_generation = g, ew_previous_mode = []\<rparr>, d1)))))"

definition not_enrolled :: "string \<Rightarrow> enroll_error" where
  "not_enrolled node_name =
     EnrollRefused (''Node '' @ CHR 0x27 # node_name @ CHR 0x27 # '' is not enrolled on this cluster.'')"

definition changed_mode :: "string \<Rightarrow> time \<Rightarrow> nat option \<Rightarrow> string \<Rightarrow> node_enrollment \<Rightarrow> node_enrollment" where
  "changed_mode mode now who reason e =
     e\<lparr>en_mode := mode, en_mode_changed_at := Some now, en_mode_changed_by := who,
       en_mode_change_reason := take_chars 1000 reason\<rparr>"

definition change_enrollment_mode ::
    "nat \<Rightarrow> string \<Rightarrow> string \<Rightarrow> nat option \<Rightarrow> string \<Rightarrow> time \<Rightarrow> db \<Rightarrow> (enroll_error, enrollment_write \<times> db) result" where
  "change_enrollment_mode pk node_name raw_mode who reason now d =
     bind_result (validate_mode raw_mode) (\<lambda>mode.
     bind_result (acquire_operable_cluster pk True d) (\<lambda>locked.
       case enrollment_of pk node_name d of
         None \<Rightarrow> Inl (not_enrolled node_name)
       | Some e \<Rightarrow>
           if en_mode e = mode
           then Inr (\<lparr>ew_enrollment = e, ew_changed = False, ew_generation = cl_enrollment_generation locked,
                      ew_previous_mode = en_mode e\<rparr>, d)
           else if node_change_blockers pk node_name now d \<noteq> []
           then Inl (EnrollRefused (''Resolve this durable work first: '' @ join ''; '' (node_change_blockers pk node_name now d)))
           else
             let (g, d1) = commit_generation locked (d\<lparr>enrollments :=
                   update_where (is_enrollment pk node_name) (changed_mode mode now who reason) (enrollments d)\<rparr>)
             in Inr (\<lparr>ew_enrollment = changed_mode mode now who reason e, ew_changed = True, ew_generation = g,
                      ew_previous_mode = en_mode e\<rparr>, d1)))"

definition remove_enrollment :: "nat \<Rightarrow> string \<Rightarrow> time \<Rightarrow> db \<Rightarrow> (enroll_error, enrollment_write \<times> db) result" where
  "remove_enrollment pk node_name now d =
     bind_result (acquire_operable_cluster pk True d) (\<lambda>locked.
       case enrollment_of pk node_name d of
         None \<Rightarrow> Inl (not_enrolled node_name)
       | Some e \<Rightarrow>
           if node_change_blockers pk node_name now d \<noteq> []
           then Inl (EnrollRefused (''Resolve this durable work first: '' @ join ''; '' (node_change_blockers pk node_name now d)))
           else
             let (g, d1) = commit_generation locked (d\<lparr>enrollments := delete_where (is_enrollment pk node_name) (enrollments d)\<rparr>)
             in Inr (\<lparr>ew_enrollment = e, ew_changed = True, ew_generation = g, ew_previous_mode = en_mode e\<rparr>, d1))"

section \<open>Activation\<close>

text \<open>
  \<open>activate_cluster_enrollment\<close>. The reviewable members come from the projection reader and are
  an argument; the selection is the reviewed dictionary, as an association list.
\<close>

record activation_result =
  av_enrolled :: "(string \<times> string) list"
  av_generation :: nat
  av_contract_version :: nat

definition activate_node ::
    "cluster \<Rightarrow> string list \<Rightarrow> nat option \<Rightarrow> time \<Rightarrow> string \<times> string \<Rightarrow> db \<Rightarrow> (enroll_error, db) result" where
  "activate_node locked known who now sel d =
     (case sel of (node_name, raw_mode) \<Rightarrow>
       bind_result (validate_mode raw_mode) (\<lambda>mode.
       if node_name \<notin> set known
       then Inl (EnrollRefused (''Node '' @ CHR 0x27 # node_name @ CHR 0x27 #
              '' is not in this connection's current membership and cannot be reviewed.''))
       else (case enrollment_of (cl_pk locked) node_name d of
           None \<Rightarrow> bind_result (new_enrollment locked node_name mode who None now) (\<lambda>e.
             Inr (d\<lparr>enrollments := enrollments d @ [e]\<rparr>))
         | Some e \<Rightarrow>
             if en_mode e = mode then Inr d
             else Inr (d\<lparr>enrollments := update_where (is_enrollment (cl_pk locked) node_name)
                   (\<lambda>e. e\<lparr>en_mode := mode, en_mode_changed_at := Some now, en_mode_changed_by := who\<rparr>) (enrollments d)\<rparr>))))"

definition activate_cluster_enrollment ::
    "nat \<Rightarrow> (string \<times> string) list \<Rightarrow> string list \<Rightarrow> nat option \<Rightarrow> time \<Rightarrow> db
      \<Rightarrow> (enroll_error, activation_result \<times> db) result" where
  "activate_cluster_enrollment pk selections known who now d =
     bind_result (acquire_operable_cluster pk True d) (\<lambda>locked.
       if 1 \<le> cl_enrollment_contract_version locked
       then Inl (EnrollRefused ''This connection already uses the enrollment contract.'')
       else if selections = []
       then Inl (EnrollRefused ''Select at least one node. Activating with an empty set would publish nothing for this connection.'')
       else
         let ordered = sort_key fst selections in
         bind_result (fold_result (activate_node locked known who now) ordered d) (\<lambda>d1.
           let activated = locked\<lparr>cl_enrollment_contract_version := 1, cl_enrollment_activated_at := Some now,
                                  cl_enrollment_activated_by := who\<rparr>;
               d2 = update_cluster pk (\<lambda>c. c\<lparr>cl_enrollment_contract_version := 1, cl_enrollment_activated_at := Some now,
                                             cl_enrollment_activated_by := who\<rparr>) d1;
               (g, d3) = commit_generation activated d2
           in Inr (\<lparr>av_enrolled = ordered, av_generation = g, av_contract_version = 1\<rparr>, d3)))"

section \<open>Retirement of the rows\<close>

definition ENROLLMENT_RETIREMENT_DETAIL_LIMIT :: nat where
  "ENROLLMENT_RETIREMENT_DETAIL_LIMIT = 100"

record enrollment_retirement_result =
  err_enrollment_rows_deleted :: nat
  err_enrollments :: "(string \<times> string) list"
  err_enrollments_omitted :: nat

definition retire_cluster_enrollments :: "nat \<Rightarrow> db \<Rightarrow> enrollment_retirement_result \<times> db" where
  "retire_cluster_enrollments pk d =
     (let own = (\<lambda>e. en_cluster e = pk);
          shown = take ENROLLMENT_RETIREMENT_DETAIL_LIMIT
            (map (\<lambda>e. (en_node_ref_snapshot e, en_mode e)) (sort_key en_node_name (filter own (enrollments d))));
          total = count_where own (enrollments d)
      in (\<lparr>err_enrollment_rows_deleted = total, err_enrollments = shown,
           err_enrollments_omitted = total - length shown\<rparr>,
          d\<lparr>enrollments := delete_where own (enrollments d)\<rparr>))"

record guest_retirement_result =
  grr_guest_rows_deleted :: nat
  grr_state_rows_deleted :: nat

definition retire_cluster_guest_inventory :: "nat \<Rightarrow> db \<Rightarrow> guest_retirement_result \<times> db" where
  "retire_cluster_guest_inventory pk d =
     (\<lparr>grr_guest_rows_deleted = count_where (\<lambda>g. g_cluster g = pk) (guests d),
       grr_state_rows_deleted = count_where (\<lambda>s. gs_cluster s = pk) (guest_states d)\<rparr>,
      d\<lparr>guests := delete_where (\<lambda>g. g_cluster g = pk) (guests d),
        guest_states := delete_where (\<lambda>s. gs_cluster s = pk) (guest_states d)\<rparr>)"

section \<open>Facts about publication\<close>

text \<open>The stamp a guest row should carry under a scope, and what re-stamping writes.\<close>

definition stamp_guest :: "publication_scope \<Rightarrow> guest \<Rightarrow> guest" where
  "stamp_guest s g = g\<lparr>g_published := publishes s (g_node g), g_based_on_enrollment_generation := ps_generation s\<rparr>"

lemma restamp_rows:
  "snd (restamp generation published P rows) =
     update_where P (\<lambda>g. g\<lparr>g_published := published, g_based_on_enrollment_generation := generation\<rparr>) rows"
proof -
  have id: "g\<lparr>g_published := published, g_based_on_enrollment_generation := generation\<rparr> = g"
    if "g_published g = published" "g_based_on_enrollment_generation g = generation" for g
    using that by (cases g) simp
  show ?thesis
    unfolding restamp_def by (auto simp: Let_def id intro!: update_where_cong)
qed

lemma apply_publication_scope_rows:
  "snd (apply_publication_scope c d) =
     d\<lparr>guests := update_where (\<lambda>g. g_cluster g = cl_pk c) (stamp_guest (publication_scope_of c d)) (guests d)\<rparr>"
proof (cases "filtering (publication_scope_of c d)")
  case False
  have "update_where (\<lambda>g. g_cluster g = cl_pk c)
      (\<lambda>g. g\<lparr>g_published := True, g_based_on_enrollment_generation := ps_generation (publication_scope_of c d)\<rparr>) (guests d)
    = update_where (\<lambda>g. g_cluster g = cl_pk c) (stamp_guest (publication_scope_of c d)) (guests d)"
    using False by (intro update_where_cong) (simp add: stamp_guest_def publishes_def)
  with False show ?thesis
    by (simp add: apply_publication_scope_def Let_def case_prod_beta restamp_rows)
next
  case True
  let ?s = "publication_scope_of c d"
  let ?mark = "\<lambda>p g. g\<lparr>g_published := p, g_based_on_enrollment_generation := ps_generation ?s\<rparr>"
  have "update_where (\<lambda>g. g_cluster g = cl_pk c \<and> g_node g \<notin> ps_managed_nodes ?s) (?mark False)
      (update_where (\<lambda>g. g_cluster g = cl_pk c \<and> g_node g \<in> ps_managed_nodes ?s) (?mark True) rows)
    = update_where (\<lambda>g. g_cluster g = cl_pk c) (stamp_guest ?s) rows" for rows
    using True by (induction rows) (auto simp: stamp_guest_def publishes_def)
  with True show ?thesis
    by (simp add: apply_publication_scope_def Let_def case_prod_beta restamp_rows)
qed

text \<open>Every stored guest of the cluster carries the stamp of the current scope.\<close>

definition stamped :: "nat \<Rightarrow> db \<Rightarrow> bool" where
  "stamped pk d =
     (case get_cluster pk d of
        None \<Rightarrow> True
      | Some c \<Rightarrow> \<forall>g\<in>set (guests d). g_cluster g = pk \<longrightarrow>
          g_published g = publishes (publication_scope_of c d) (g_node g)
          \<and> g_based_on_enrollment_generation g = cl_enrollment_generation c)"

lemma publication_scope_frame:
  "enrollments d' = enrollments d \<Longrightarrow> publication_scope_of c d' = publication_scope_of c d"
  by (simp add: publication_scope_of_def)

lemma get_cluster_frame: "clusters d' = clusters d \<Longrightarrow> get_cluster pk d' = get_cluster pk d"
  by (simp add: get_cluster_def)

lemma commit_generation_effect:
  assumes "get_cluster pk d = Some c" and "commit_generation c d = (g, d')"
  shows "g = cl_enrollment_generation c + 1"
    and "get_cluster pk d' = Some (c\<lparr>cl_enrollment_generation := g\<rparr>)"
    and "d' = d\<lparr>clusters := update_where (\<lambda>c. cl_pk c = pk) (\<lambda>c. c\<lparr>cl_enrollment_generation := g\<rparr>) (clusters d),
               guests := update_where (\<lambda>g. g_cluster g = pk)
                 (stamp_guest (publication_scope_of (c\<lparr>cl_enrollment_generation := g\<rparr>) d)) (guests d)\<rparr>"
    and "stamped pk d'"
proof -
  have pk: "cl_pk c = pk" by (rule get_cluster_pk [OF assms(1)])
  show g: "g = cl_enrollment_generation c + 1" using assms(2) by (auto simp: commit_generation_def Let_def)
  show d': "d' = d\<lparr>clusters := update_where (\<lambda>c. cl_pk c = pk) (\<lambda>c. c\<lparr>cl_enrollment_generation := g\<rparr>) (clusters d),
               guests := update_where (\<lambda>g. g_cluster g = pk)
                 (stamp_guest (publication_scope_of (c\<lparr>cl_enrollment_generation := g\<rparr>) d)) (guests d)\<rparr>"
    using assms(2)
    by (auto simp: commit_generation_def Let_def apply_publication_scope_rows update_cluster_def pk publication_scope_of_def)
  have "get_cluster pk d' = get_cluster pk (update_cluster pk (\<lambda>c. c\<lparr>cl_enrollment_generation := g\<rparr>) d)"
    by (rule get_cluster_frame) (simp add: d' update_cluster_def)
  then show get: "get_cluster pk d' = Some (c\<lparr>cl_enrollment_generation := g\<rparr>)"
    by (simp add: get_cluster_update_same assms(1))
  have scope: "publication_scope_of (c\<lparr>cl_enrollment_generation := g\<rparr>) d'
      = publication_scope_of (c\<lparr>cl_enrollment_generation := g\<rparr>) d"
    by (rule publication_scope_frame) (simp add: d')
  have "g_published x = publishes (publication_scope_of (c\<lparr>cl_enrollment_generation := g\<rparr>) d) (g_node x)
      \<and> g_based_on_enrollment_generation x = g" if "x \<in> set (guests d')" "g_cluster x = pk" for x
  proof -
    from that(1) have "x \<in> set (update_where (\<lambda>g. g_cluster g = pk)
        (stamp_guest (publication_scope_of (c\<lparr>cl_enrollment_generation := g\<rparr>) d)) (guests d))" by (simp add: d')
    then show ?thesis
      using that(2)
      by (cases rule: in_update_whereE) (simp_all add: stamp_guest_def, simp add: publication_scope_of_def Let_def)
  qed
  then show "stamped pk d'" by (simp add: stamped_def get scope)
qed

section \<open>The contract of an enrollment writer\<close>

definition enrollment_key :: "node_enrollment \<Rightarrow> nat \<times> string" where
  "enrollment_key e = (en_cluster e, en_node_name e)"

text \<open>The constraints of the table, and the snapshot's agreement with the row's identity.\<close>

definition enrollment_ok :: "db \<Rightarrow> node_enrollment \<Rightarrow> bool" where
  "enrollment_ok d e =
     (en_mode e \<in> {''managed'', ''safety_only''} \<and> en_node_name e \<noteq> [] \<and> CHR '':'' \<notin> set (en_node_name e)
      \<and> (case get_cluster (en_cluster e) d of
           None \<Rightarrow> False
         | Some c \<Rightarrow> en_node_ref_snapshot e = serialize_node_ref \<lparr>nr_cluster_key = cl_key c, nr_node = en_node_name e\<rparr>))"

definition enrollment_wf :: "db \<Rightarrow> bool" where
  "enrollment_wf d = (distinct (map enrollment_key (enrollments d)) \<and> list_all (enrollment_ok d) (enrollments d))"

text \<open>
  What every writer of the module promises: a write that changed nothing leaves the database;
  a write that changed something edited the cluster's own enrollment rows and committed one
  generation; and the table stays well formed.
\<close>

locale enrollment_writer =
  fixes pk :: nat
    and op :: "db \<Rightarrow> (enroll_error, enrollment_write \<times> db) result"
  assumes write_unchanged: "op d = Inr (w, d') \<Longrightarrow> \<not> ew_changed w \<Longrightarrow> d' = d"
    and write_changed: "op d = Inr (w, d') \<Longrightarrow> ew_changed w \<Longrightarrow>
      \<exists>c es. get_cluster pk d = Some c \<and> cl_retired_at c = None
        \<and> filter (\<lambda>e. en_cluster e \<noteq> pk) es = filter (\<lambda>e. en_cluster e \<noteq> pk) (enrollments d)
        \<and> commit_generation c (d\<lparr>enrollments := es\<rparr>) = (ew_generation w, d')"
    and write_wf: "enrollment_wf d \<Longrightarrow> op d = Inr (w, d') \<Longrightarrow> enrollment_wf d'"
begin

text \<open>One generation per change, and publication re-stamped under it.\<close>

lemma write_publishes:
  assumes "op d = Inr (w, d')" "ew_changed w"
  shows "stamped pk d'"
    and "\<exists>c. get_cluster pk d = Some c \<and> ew_generation w = cl_enrollment_generation c + 1
            \<and> get_cluster pk d' = Some (c\<lparr>cl_enrollment_generation := ew_generation w\<rparr>)"
proof -
  from write_changed [OF assms] obtain c es where
    c: "get_cluster pk d = Some c" and commit: "commit_generation c (d\<lparr>enrollments := es\<rparr>) = (ew_generation w, d')" by blast
  have get: "get_cluster pk (d\<lparr>enrollments := es\<rparr>) = Some c" using c get_cluster_frame [of "d\<lparr>enrollments := es\<rparr>" d pk] by simp
  note effect = commit_generation_effect [OF get commit]
  show "stamped pk d'" by (rule effect(4))
  show "\<exists>c. get_cluster pk d = Some c \<and> ew_generation w = cl_enrollment_generation c + 1
            \<and> get_cluster pk d' = Some (c\<lparr>cl_enrollment_generation := ew_generation w\<rparr>)"
    using c effect(1,2) by blast
qed

text \<open>Hiding is marking: no guest row appears, disappears or moves, and other clusters keep theirs.\<close>

lemma write_keeps_guests:
  assumes "op d = Inr (w, d')"
  shows "map g_pk (guests d') = map g_pk (guests d)"
    and "filter (\<lambda>g. g_cluster g \<noteq> pk) (guests d') = filter (\<lambda>g. g_cluster g \<noteq> pk) (guests d)"
    and "filter (\<lambda>e. en_cluster e \<noteq> pk) (enrollments d') = filter (\<lambda>e. en_cluster e \<noteq> pk) (enrollments d)"
proof -
  have "map g_pk (guests d') = map g_pk (guests d)
      \<and> filter (\<lambda>g. g_cluster g \<noteq> pk) (guests d') = filter (\<lambda>g. g_cluster g \<noteq> pk) (guests d)
      \<and> filter (\<lambda>e. en_cluster e \<noteq> pk) (enrollments d') = filter (\<lambda>e. en_cluster e \<noteq> pk) (enrollments d)"
  proof (cases "ew_changed w")
    case False
    with write_unchanged [OF assms] show ?thesis by simp
  next
    case True
    from write_changed [OF assms True] obtain c es where
      c: "get_cluster pk d = Some c" and es: "filter (\<lambda>e. en_cluster e \<noteq> pk) es = filter (\<lambda>e. en_cluster e \<noteq> pk) (enrollments d)"
      and commit: "commit_generation c (d\<lparr>enrollments := es\<rparr>) = (ew_generation w, d')" by blast
    have get: "get_cluster pk (d\<lparr>enrollments := es\<rparr>) = Some c" using c get_cluster_frame [of "d\<lparr>enrollments := es\<rparr>" d pk] by simp
    show ?thesis
      unfolding commit_generation_effect(3) [OF get commit] using es
      by (auto simp: map_update_where stamp_guest_def intro!: filter_update_where_frame)
  qed
  then show "map g_pk (guests d') = map g_pk (guests d)"
    "filter (\<lambda>g. g_cluster g \<noteq> pk) (guests d') = filter (\<lambda>g. g_cluster g \<noteq> pk) (guests d)"
    "filter (\<lambda>e. en_cluster e \<noteq> pk) (enrollments d') = filter (\<lambda>e. en_cluster e \<noteq> pk) (enrollments d)" by blast+
qed

end

text \<open>
  A step of a writer, and the laws of the interface from it: the writers differ only in how they
  edit the rows.
\<close>

definition enrollment_step :: "nat \<Rightarrow> db \<Rightarrow> enrollment_write \<Rightarrow> db \<Rightarrow> bool" where
  "enrollment_step pk d w d' =
     (if \<not> ew_changed w then d' = d
      else (\<exists>c es. get_cluster pk d = Some c \<and> cl_retired_at c = None
        \<and> filter (\<lambda>e. en_cluster e \<noteq> pk) es = filter (\<lambda>e. en_cluster e \<noteq> pk) (enrollments d)
        \<and> (enrollment_wf d \<longrightarrow> enrollment_wf (d\<lparr>enrollments := es\<rparr>))
        \<and> commit_generation c (d\<lparr>enrollments := es\<rparr>) = (ew_generation w, d')))"

lemma enrollment_stepI:
  assumes "ew_changed w" and "get_cluster pk d = Some c" and "cl_retired_at c = None"
    and "filter (\<lambda>e. en_cluster e \<noteq> pk) es = filter (\<lambda>e. en_cluster e \<noteq> pk) (enrollments d)"
    and "enrollment_wf d \<Longrightarrow> enrollment_wf (d\<lparr>enrollments := es\<rparr>)"
    and "commit_generation c (d\<lparr>enrollments := es\<rparr>) = (ew_generation w, d')"
  shows "enrollment_step pk d w d'"
  unfolding enrollment_step_def using assms by metis

lemma enrollment_ok_frame:
  assumes "\<And>pk. map_option cl_key (get_cluster pk d') = map_option cl_key (get_cluster pk d)"
  shows "enrollment_ok d' = enrollment_ok d"
proof
  fix e
  show "enrollment_ok d' e = enrollment_ok d e"
    using assms [of "en_cluster e"]
    by (cases "get_cluster (en_cluster e) d"; cases "get_cluster (en_cluster e) d'") (simp_all add: enrollment_ok_def)
qed

lemma enrollment_wf_rows:
  "enrollment_wf (d\<lparr>enrollments := es\<rparr>) = (distinct (map enrollment_key es) \<and> list_all (enrollment_ok d) es)"
  by (simp add: enrollment_wf_def enrollment_ok_frame [of "d\<lparr>enrollments := es\<rparr>" d] get_cluster_def)

lemma commit_generation_wf:
  assumes "get_cluster pk d = Some c" and "commit_generation c d = (g, d')" and "enrollment_wf d"
  shows "enrollment_wf d'"
proof -
  note d' = commit_generation_effect(3) [OF assms(1,2)]
  have "enrollment_ok d' = enrollment_ok d"
  proof (rule enrollment_ok_frame)
    fix pk'
    have "get_cluster pk' d' = get_cluster pk' (update_cluster pk (\<lambda>c. c\<lparr>cl_enrollment_generation := g\<rparr>) d)"
      by (rule get_cluster_frame) (simp add: d' update_cluster_def)
    then show "map_option cl_key (get_cluster pk' d') = map_option cl_key (get_cluster pk' d)"
      by (cases "pk' = pk") (simp_all add: get_cluster_update_same get_cluster_update_other option.map_comp comp_def)
  qed
  moreover have "enrollments d' = enrollments d" by (simp add: d')
  ultimately show ?thesis using assms(3) by (simp add: enrollment_wf_def)
qed

lemma enrollment_writerI:
  assumes "\<And>d w d'. op d = Inr (w, d') \<Longrightarrow> enrollment_step pk d w d'"
  shows "enrollment_writer pk op"
proof (unfold_locales, goal_cases)
  case (1 d w d')
  with assms [OF 1(1)] show ?case by (simp add: enrollment_step_def)
next
  case (2 d w d')
  with assms [OF 2(1)] show ?case by (auto simp: enrollment_step_def)
next
  case (3 d w d')
  show ?case
  proof (cases "ew_changed w")
    case False
    with assms [OF 3(2)] 3(1) show ?thesis by (simp add: enrollment_step_def)
  next
    case True
    with assms [OF 3(2)] 3(1) obtain c es where
      "get_cluster pk (d\<lparr>enrollments := es\<rparr>) = Some c" "enrollment_wf (d\<lparr>enrollments := es\<rparr>)"
      "commit_generation c (d\<lparr>enrollments := es\<rparr>) = (ew_generation w, d')"
      by (auto simp: enrollment_step_def get_cluster_def)
    then show ?thesis by (metis commit_generation_wf)
  qed
qed

lemma acquire_operable_cluster_Inr:
  "acquire_operable_cluster pk r d = Inr c \<longleftrightarrow> get_cluster pk d = Some c \<and> cl_retired_at c = None \<and> (r \<longrightarrow> cl_enabled c)"
  by (auto simp: acquire_operable_cluster_def split: option.splits)

lemma validate_mode_Inr: "validate_mode m = Inr m' \<longleftrightarrow> m' = m \<and> m \<in> {''managed'', ''safety_only''}"
  by (auto simp: validate_mode_def)

lemma new_enrollment_Inr:
  assumes "new_enrollment c n m who via now = Inr e" and "get_cluster pk d = Some c" and "m \<in> {''managed'', ''safety_only''}"
  shows "enrollment_ok d e" and "en_cluster e = pk" and "en_node_name e = n" and "en_mode e = m"
  using assms get_cluster_pk [OF assms(2)]
  by (auto simp: new_enrollment_def enrollment_ok_def bind_result_Inr_iff map_error_Inr_iff make_node_ref_Inr_iff node_ref_ok_def
           split: option.splits)

lemma enrollment_key_absent:
  "enrollment_of pk n d = None \<Longrightarrow> (pk, n) \<notin> enrollment_key ` set (enrollments d)"
  by (auto simp: enrollment_of_def first_where_None_iff exists_where_iff is_enrollment_def enrollment_key_def)

lemma enrollment_wf_append:
  assumes "enrollment_wf d" and "enrollment_of pk n d = None" and "enrollment_ok d e" and "enrollment_key e = (pk, n)"
  shows "enrollment_wf (d\<lparr>enrollments := enrollments d @ [e]\<rparr>)"
  unfolding enrollment_wf_rows using assms enrollment_key_absent [OF assms(2)] by (simp add: enrollment_wf_def)

lemma enrollment_wf_update:
  assumes "enrollment_wf d" and "\<And>e. enrollment_key (f e) = enrollment_key e"
    and "\<And>e. enrollment_ok d e \<Longrightarrow> P e \<Longrightarrow> enrollment_ok d (f e)"
  shows "enrollment_wf (d\<lparr>enrollments := update_where P f (enrollments d)\<rparr>)"
  unfolding enrollment_wf_rows using assms
  by (auto simp: map_update_where list_all_iff enrollment_wf_def elim!: in_update_whereE)

lemma enrollment_wf_delete:
  assumes "enrollment_wf d"
  shows "enrollment_wf (d\<lparr>enrollments := delete_where P (enrollments d)\<rparr>)"
  unfolding enrollment_wf_rows using assms
  by (auto simp: enrollment_wf_def delete_where_def list_all_iff distinct_map inj_on_def)

lemma enroll_node_step:
  assumes "enroll_node pk n m who via r now d = Inr (w, d')"
  shows "enrollment_step pk d w d'"
proof (cases "enrollment_of pk (strip n) d")
  case (Some e)
  with assms show ?thesis
    by (auto simp: enroll_node_def Let_def enrollment_step_def bind_result_Inr_iff split: if_splits)
next
  case None
  with assms obtain c e where c: "get_cluster pk d = Some c" "cl_retired_at c = None" and m: "m \<in> {''managed'', ''safety_only''}"
    and new: "new_enrollment c (strip n) m who via now = Inr e"
    and w: "ew_changed w" "commit_generation c (d\<lparr>enrollments := enrollments d @ [e]\<rparr>) = (ew_generation w, d')"
    by (auto simp: enroll_node_def Let_def bind_result_Inr_iff validate_mode_Inr acquire_operable_cluster_Inr
             case_prod_beta split: if_splits)
  note e = new_enrollment_Inr [OF new c(1) m]
  have "enrollment_wf (d\<lparr>enrollments := enrollments d @ [e]\<rparr>)" if "enrollment_wf d"
    using enrollment_wf_append [OF that None e(1)] e by (simp add: enrollment_key_def)
  from enrollment_stepI [OF w(1) c _ this w(2)] show ?thesis using e(2) by simp
qed

lemma changed_mode_ok:
  "enrollment_ok d e \<Longrightarrow> m \<in> {''managed'', ''safety_only''} \<Longrightarrow> enrollment_ok d (changed_mode m now who reason e)"
  by (cases "get_cluster (en_cluster e) d") (simp_all add: enrollment_ok_def changed_mode_def)

lemma change_mode_step:
  assumes "change_enrollment_mode pk n m who reason now d = Inr (w, d')"
  shows "enrollment_step pk d w d'"
proof (cases "ew_changed w")
  case False
  with assms show ?thesis
    by (auto simp: change_enrollment_mode_def Let_def case_prod_beta enrollment_step_def bind_result_Inr_iff split: if_splits option.splits)
next
  case True
  let ?es = "update_where (is_enrollment pk n) (changed_mode m now who reason) (enrollments d)"
  from True assms obtain c where c: "get_cluster pk d = Some c" "cl_retired_at c = None" and m: "m \<in> {''managed'', ''safety_only''}"
    and w: "commit_generation c (d\<lparr>enrollments := ?es\<rparr>) = (ew_generation w, d')"
    by (auto simp: change_enrollment_mode_def Let_def bind_result_Inr_iff validate_mode_Inr acquire_operable_cluster_Inr
             case_prod_beta split: if_splits option.splits)
  have wf: "enrollment_wf (d\<lparr>enrollments := ?es\<rparr>)" if "enrollment_wf d"
    using that
    by (rule enrollment_wf_update) (simp add: enrollment_key_def changed_mode_def, rule changed_mode_ok [OF _ m])
  have "filter (\<lambda>e. en_cluster e \<noteq> pk) ?es = filter (\<lambda>e. en_cluster e \<noteq> pk) (enrollments d)"
    by (rule filter_update_where_frame) (simp add: is_enrollment_def changed_mode_def)
  from enrollment_stepI [OF True c this wf w] show ?thesis .
qed

lemma remove_step:
  assumes "remove_enrollment pk n now d = Inr (w, d')"
  shows "enrollment_step pk d w d'"
proof -
  let ?es = "delete_where (is_enrollment pk n) (enrollments d)"
  from assms obtain c where a: "acquire_operable_cluster pk True d = Inr c"
    by (auto simp: remove_enrollment_def bind_result_Inr_iff)
  obtain g d1 where g: "commit_generation c (d\<lparr>enrollments := ?es\<rparr>) = (g, d1)" by fastforce
  with assms a have w: "ew_changed w" "commit_generation c (d\<lparr>enrollments := ?es\<rparr>) = (ew_generation w, d')"
    by (auto simp: remove_enrollment_def split: if_splits option.splits)
  from a have c: "get_cluster pk d = Some c" "cl_retired_at c = None" by (simp_all add: acquire_operable_cluster_Inr)
  have "filter (\<lambda>e. en_cluster e \<noteq> pk) ?es = filter (\<lambda>e. en_cluster e \<noteq> pk) (enrollments d)"
    by (rule filter_delete_where_frame) (simp add: is_enrollment_def)
  from enrollment_stepI [OF w(1) c this enrollment_wf_delete w(2)] show ?thesis .
qed

interpretation enroll: enrollment_writer pk "enroll_node pk n m who via r now" for pk n m who via r now
  by (rule enrollment_writerI) (rule enroll_node_step)

interpretation change_mode: enrollment_writer pk "change_enrollment_mode pk n m who reason now" for pk n m who reason now
  by (rule enrollment_writerI) (rule change_mode_step)

interpretation remove: enrollment_writer pk "remove_enrollment pk n now" for pk n now
  by (rule enrollment_writerI) (rule remove_step)

section \<open>Facts about activation\<close>

lemma enrollment_of_append:
  "enrollment_of pk n' (d\<lparr>enrollments := enrollments d @ [e]\<rparr>) =
     (case enrollment_of pk n' d of None \<Rightarrow> if is_enrollment pk n' e then Some e else None | Some r \<Rightarrow> Some r)"
  by (simp add: enrollment_of_def first_where_append split: option.splits)

lemma enrollment_of_update:
  assumes "\<And>e. enrollment_key (f e) = enrollment_key e"
  shows "enrollment_of pk n' (d\<lparr>enrollments := update_where (is_enrollment pk n) f (enrollments d)\<rparr>) =
     (if n' = n then map_option f (enrollment_of pk n d) else enrollment_of pk n' d)"
proof -
  have eq: "is_enrollment pk m (f e) = is_enrollment pk m e" for m e
    using assms [of e] by (simp add: is_enrollment_def enrollment_key_def)
  show ?thesis
  proof (cases "n' = n")
    case True
    with eq show ?thesis by (simp add: enrollment_of_def first_where_update_hit)
  next
    case False
    have "first_where (is_enrollment pk n') (update_where (is_enrollment pk n) f (enrollments d))
        = first_where (is_enrollment pk n') (enrollments d)"
      using False eq by (intro first_where_update_other) (auto simp: is_enrollment_def)
    with False show ?thesis by (simp add: enrollment_of_def)
  qed
qed

lemma same_rows: "\<exists>es. d = d\<lparr>enrollments := es\<rparr>"
  by (rule exI [of _ "enrollments d"]) simp

lemma activate_node_effect:
  assumes "get_cluster pk d = Some c" and "enrollment_wf d" and "activate_node c known who now (n, m) d = Inr d'"
  shows "enrollment_wf d' \<and> n \<in> set known \<and> map_option en_mode (enrollment_of pk n d') = Some m
     \<and> (\<forall>n'. n' \<noteq> n \<longrightarrow> enrollment_of pk n' d' = enrollment_of pk n' d) \<and> (\<exists>es. d' = d\<lparr>enrollments := es\<rparr>)"
proof -
  have pk: "cl_pk c = pk" by (rule get_cluster_pk [OF assms(1)])
  from assms(3) have m: "m \<in> {''managed'', ''safety_only''}" and known: "n \<in> set known"
    by (auto simp: activate_node_def bind_result_Inr_iff validate_mode_Inr split: if_splits)
  show ?thesis
  proof (cases "enrollment_of pk n d")
    case None
    with assms(3) m known pk obtain e where new: "new_enrollment c n m who None now = Inr e"
      and d': "d' = d\<lparr>enrollments := enrollments d @ [e]\<rparr>"
      by (auto simp: activate_node_def bind_result_Inr_iff validate_mode_Inr)
    note e = new_enrollment_Inr [OF new assms(1) m]
    have "enrollment_wf d'" unfolding d'
      by (rule enrollment_wf_append [OF assms(2) None e(1)]) (simp add: enrollment_key_def e)
    then show ?thesis using e None known by (auto simp: d' enrollment_of_append is_enrollment_def split: option.splits)
  next
    case (Some e)
    let ?f = "\<lambda>e. e\<lparr>en_mode := m, en_mode_changed_at := Some now, en_mode_changed_by := who\<rparr>"
    show ?thesis
    proof (cases "en_mode e = m")
      case True
      with Some assms m known pk have "d' = d" by (auto simp: activate_node_def bind_result_Inr_iff validate_mode_Inr)
      then show ?thesis using Some assms(2) True known same_rows [of d] by simp
    next
      case False
      with Some assms m known pk have d': "d' = d\<lparr>enrollments := update_where (is_enrollment pk n) ?f (enrollments d)\<rparr>"
        by (auto simp: activate_node_def bind_result_Inr_iff validate_mode_Inr)
      have key: "enrollment_key (?f e) = enrollment_key e" for e by (simp add: enrollment_key_def)
      have ok: "enrollment_ok d e \<Longrightarrow> enrollment_ok d (?f e)" for e
        using m by (cases "get_cluster (en_cluster e) d") (simp_all add: enrollment_ok_def)
      have "enrollment_wf d'" unfolding d' by (rule enrollment_wf_update [OF assms(2) key ok])
      moreover have "enrollment_of pk n' d' = (if n' = n then map_option ?f (enrollment_of pk n d) else enrollment_of pk n' d)" for n'
        unfolding d' by (rule enrollment_of_update) (rule key)
      ultimately show ?thesis using Some known d' by auto
    qed
  qed
qed

lemma activate_nodes_effect:
  assumes "get_cluster pk d = Some c" and "enrollment_wf d" and "distinct (map fst sel)"
    and "fold_result (activate_node c known who now) sel d = Inr d'"
  shows "enrollment_wf d' \<and> (\<forall>(n, m)\<in>set sel. n \<in> set known \<and> map_option en_mode (enrollment_of pk n d') = Some m)
     \<and> (\<forall>n. n \<notin> fst ` set sel \<longrightarrow> enrollment_of pk n d' = enrollment_of pk n d) \<and> (\<exists>es. d' = d\<lparr>enrollments := es\<rparr>)"
  using assms
proof (induction sel arbitrary: d)
  case Nil
  then have d': "d' = d" by simp
  show ?case unfolding d' using Nil(2) same_rows [of d] by simp
next
  case (Cons x sel)
  obtain n m where x: "x = (n, m)" by fastforce
  from Cons.prems(4) [unfolded x fold_result.simps bind_result_Inr_iff]
  obtain d1 where d1: "activate_node c known who now (n, m) d = Inr d1"
    and rest: "fold_result (activate_node c known who now) sel d1 = Inr d'" by blast
  note one = activate_node_effect [OF Cons.prems(1,2) d1]
  then have "get_cluster pk d1 = Some c" using Cons.prems(1) by (auto simp: get_cluster_def)
  from Cons.IH [OF this _ _ rest] one Cons.prems(3)
  have rec: "enrollment_wf d' \<and> (\<forall>(n, m)\<in>set sel. n \<in> set known \<and> map_option en_mode (enrollment_of pk n d') = Some m)
     \<and> (\<forall>n. n \<notin> fst ` set sel \<longrightarrow> enrollment_of pk n d' = enrollment_of pk n d1) \<and> (\<exists>es. d' = d1\<lparr>enrollments := es\<rparr>)"
    by (simp add: x)
  have "n \<notin> fst ` set sel" using Cons.prems(3) by (simp add: x)
  then have "enrollment_of pk n d' = enrollment_of pk n d1" using rec by blast
  with one rec show ?case by (auto simp: x)
qed

lemma activate_cluster_enrollment_Inr:
  assumes "activate_cluster_enrollment pk sel known who now d = Inr (r, d')"
  shows "\<exists>c d1 g. get_cluster pk d = Some c \<and> cl_retired_at c = None \<and> cl_enabled c \<and> cl_enrollment_contract_version c = 0
    \<and> fold_result (activate_node c known who now) (sort_key fst sel) d = Inr d1
    \<and> commit_generation
        (c\<lparr>cl_enrollment_contract_version := 1, cl_enrollment_activated_at := Some now, cl_enrollment_activated_by := who\<rparr>)
        (update_cluster pk (\<lambda>c. c\<lparr>cl_enrollment_contract_version := 1, cl_enrollment_activated_at := Some now,
                                     cl_enrollment_activated_by := who\<rparr>) d1) = (g, d')"
proof -
  from assms obtain c where acq: "acquire_operable_cluster pk True d = Inr c"
    by (auto simp: activate_cluster_enrollment_def bind_result_Inr_iff)
  with assms obtain d1 where fold: "fold_result (activate_node c known who now) (sort_key fst sel) d = Inr d1"
    by (auto simp: activate_cluster_enrollment_def bind_result_Inr_iff Let_def split: if_splits)
  let ?on = "\<lambda>c. c\<lparr>cl_enrollment_contract_version := 1, cl_enrollment_activated_at := Some now, cl_enrollment_activated_by := who\<rparr>"
  obtain g d2 where commit: "commit_generation (?on c) (update_cluster pk ?on d1) = (g, d2)" by fastforce
  with assms acq fold have "d2 = d'" "cl_enrollment_contract_version c = 0"
    by (auto simp: activate_cluster_enrollment_def Let_def split: if_splits)
  with acq fold commit show ?thesis by (auto simp: acquire_operable_cluster_Inr)
qed

text \<open>With one row per node, the managed set is read off the row.\<close>

lemma managed_iff_mode:
  assumes "enrollment_wf d" and "enrollment_of (cl_pk c) n d = Some e"
  shows "n \<in> ps_managed_nodes (publication_scope_of c d) \<longleftrightarrow> en_mode e = ''managed''"
proof -
  have d: "distinct (map enrollment_key (enrollments d))" using assms(1) by (simp add: enrollment_wf_def)
  from assms(2) have e: "e \<in> set (enrollments d)" "en_cluster e = cl_pk c" "en_node_name e = n"
    by (auto simp: enrollment_of_def is_enrollment_def dest: first_where_Some_iff)
  have only: "e' = e" if "e' \<in> set (enrollments d)" "en_cluster e' = cl_pk c" "en_node_name e' = n" for e'
    using that e by (intro distinct_map_unique [OF d]) (simp_all add: enrollment_key_def)
  have "n \<in> ps_managed_nodes (publication_scope_of c d) \<longleftrightarrow>
      (\<exists>e'\<in>set (enrollments d). en_cluster e' = cl_pk c \<and> en_node_name e' = n \<and> en_mode e' = ''managed'')"
    by (auto simp: publication_scope_of_def Let_def)
  also have "\<dots> \<longleftrightarrow> en_mode e = ''managed''" using only e by metis
  finally show ?thesis .
qed

section \<open>Properties\<close>

text \<open>
  C17: Every enrollment write that changes something (enrolling a node, changing its mode,
  removing it) advances the cluster's enrollment generation by exactly one and leaves every
  stored guest row of the cluster stamped with the publication decision of the new node set
  under that generation; and it keeps the table's constraints.
\<close>

theorem enrollment_write_publishes:
  assumes "enrollment_wf d"
    and "op = enroll_node pk n m who via r now \<or> op = change_enrollment_mode pk n m who reason now
       \<or> op = remove_enrollment pk n now"
    and "op d = Inr (w, d')" and "ew_changed w"
  shows "stamped pk d' \<and> enrollment_wf d'
     \<and> (\<exists>c. get_cluster pk d = Some c \<and> cl_retired_at c = None \<and> ew_generation w = cl_enrollment_generation c + 1
         \<and> get_cluster pk d' = Some (c\<lparr>cl_enrollment_generation := ew_generation w\<rparr>))"
proof -
  from assms(2) have writer: "enrollment_writer pk op"
    using enroll.enrollment_writer_axioms change_mode.enrollment_writer_axioms remove.enrollment_writer_axioms by blast
  note law = enrollment_writer.write_publishes [OF writer assms(3,4)]
  from enrollment_writer.write_changed [OF writer assms(3,4)] law(2)
  have "\<exists>c. get_cluster pk d = Some c \<and> cl_retired_at c = None \<and> ew_generation w = cl_enrollment_generation c + 1
       \<and> get_cluster pk d' = Some (c\<lparr>cl_enrollment_generation := ew_generation w\<rparr>)" by auto
  with law(1) enrollment_writer.write_wf [OF writer assms(1,3)] show ?thesis by blast
qed

definition fleet_guest :: "nat \<Rightarrow> string \<Rightarrow> guest" where
  "fleet_guest vmid node = (new_guest 1 ''vm'' vmid)\<lparr>g_pk := vmid, g_node := node, g_name := ''web'', g_status := ''running''\<rparr>"

definition example_fleet :: db where
  "example_fleet = empty_db\<lparr>clusters := [(new_cluster 1 ''prod'' ''Production'')\<lparr>cl_enrollment_contract_version := 1\<rparr>],
     guests := [fleet_guest 100 ''pve1'', fleet_guest 101 ''pve2'']\<rparr>"

theorem enrollment_write_publishes_witness:
  "case enroll_node 1 ''pve1'' ''managed'' None None True 0 example_fleet of
     Inl e \<Rightarrow> False
   | Inr (w, d') \<Rightarrow> stamped 1 d' \<and> ew_generation w = 1 \<and> map g_published (guests d') = [True, False]"
proof -
  obtain w d' where run: "enroll_node 1 ''pve1'' ''managed'' None None True 0 example_fleet = Inr (w, d')"
    and w: "ew_changed w" and rest: "ew_generation w = 1 \<and> map g_published (guests d') = [True, False]"
  proof -
    have "case enroll_node 1 ''pve1'' ''managed'' None None True 0 example_fleet of Inl e \<Rightarrow> False
       | Inr (w, d') \<Rightarrow> ew_changed w \<and> ew_generation w = 1 \<and> map g_published (guests d') = [True, False]" by code_simp
    then show thesis using that by (auto split: sum.splits)
  qed
  have "enrollment_wf example_fleet" by code_simp
  from enrollment_write_publishes [OF this disjI1 [OF refl] run w] run rest show ?thesis by simp
qed

text \<open>
  Publication hides, it never deletes: whatever an enrollment write does, the guest rows
  keep their identity and order, and no guest or enrollment row of another cluster is touched.
\<close>

theorem enrollment_write_keeps_guest_rows:
  assumes "op = enroll_node pk n m who via r now \<or> op = change_enrollment_mode pk n m who reason now
       \<or> op = remove_enrollment pk n now"
    and "op d = Inr (w, d')"
  shows "map g_pk (guests d') = map g_pk (guests d)
     \<and> filter (\<lambda>g. g_cluster g \<noteq> pk) (guests d') = filter (\<lambda>g. g_cluster g \<noteq> pk) (guests d)
     \<and> filter (\<lambda>e. en_cluster e \<noteq> pk) (enrollments d') = filter (\<lambda>e. en_cluster e \<noteq> pk) (enrollments d)"
proof -
  from assms(1) have "enrollment_writer pk op"
    using enroll.enrollment_writer_axioms change_mode.enrollment_writer_axioms remove.enrollment_writer_axioms by blast
  from enrollment_writer.write_keeps_guests [OF this assms(2)] show ?thesis by blast
qed

theorem enrollment_write_keeps_guest_rows_witness:
  "case enroll_node 1 ''pve2'' ''safety_only'' None None True 0 example_fleet of
     Inl e \<Rightarrow> False | Inr (w, d') \<Rightarrow> map g_pk (guests d') = [100, 101]"
proof -
  obtain w d' where run: "enroll_node 1 ''pve2'' ''safety_only'' None None True 0 example_fleet = Inr (w, d')"
  proof -
    have "case enroll_node 1 ''pve2'' ''safety_only'' None None True 0 example_fleet of Inl e \<Rightarrow> False | Inr x \<Rightarrow> True" by code_simp
    then show thesis using that by (auto split: sum.splits)
  qed
  from enrollment_write_keeps_guest_rows [OF disjI1 [OF refl] run] have "map g_pk (guests d') = map g_pk (guests example_fleet)" by blast
  also have "\<dots> = [100, 101]" by (simp add: example_fleet_def fleet_guest_def)
  finally show ?thesis using run by simp
qed


definition example_managed_fleet :: db where
  "example_managed_fleet = example_fleet\<lparr>enrollments := [\<lparr>en_cluster = 1, en_node_name = ''pve1'',
     en_node_ref_snapshot = ''nr1:prod:pve1'', en_mode = ''managed'', en_enrolled_at = 0, en_enrolled_by = None,
     en_mode_changed_at = None, en_mode_changed_by = None, en_mode_change_reason = [], en_onboarded_via_endpoint = None\<rparr>]\<rparr>"





section \<open>One query for many clusters\<close>

definition add_sets :: "node_enrollment \<Rightarrow> (nat \<Rightarrow> string set \<times> string set) \<Rightarrow> nat \<Rightarrow> string set \<times> string set" where
  "add_sets e f k =
     (if k = en_cluster e
      then (if en_mode e = ''managed'' then insert (en_node_name e) (fst (f k)) else fst (f k), insert (en_node_name e) (snd (f k)))
      else f k)"

lemma fold_add_enrollment:
  "fold add_enrollment es (map (\<lambda>c. (cl_pk c, f (cl_pk c))) cs) = map (\<lambda>c. (cl_pk c, fold add_sets es f (cl_pk c))) cs"
proof (induction es arbitrary: f)
  case (Cons e es)
  have "add_enrollment e (map (\<lambda>c. (cl_pk c, f (cl_pk c))) cs) = map (\<lambda>c. (cl_pk c, add_sets e f (cl_pk c))) cs"
    by (simp add: add_enrollment_def add_sets_def case_prod_beta)
  with Cons show ?case by simp
qed simp

lemma fold_add_sets:
  "fold add_sets es f k =
     (fst (f k) \<union> en_node_name ` {e \<in> set es. en_cluster e = k \<and> en_mode e = ''managed''},
      snd (f k) \<union> en_node_name ` {e \<in> set es. en_cluster e = k})"
proof (induction es arbitrary: f)
  case (Cons e es)
  show ?case unfolding fold_Cons comp_apply Cons.IH by (auto simp: add_sets_def)
qed simp

lemma map_of_by_pk: "c \<in> set cs \<Longrightarrow> map_of (map (\<lambda>c. (cl_pk c, g (cl_pk c))) cs) (cl_pk c) = Some (g (cl_pk c))"
  by (induction cs) auto

text \<open>
  C37: resolving many clusters in one query is resolving each of them: \<open>publication_scopes\<close> gives every
  cluster the scope \<open>publication_scope\<close> gives it, so the shell that uses the first and the writers
  that use the second never disagree about what is published.
\<close>

theorem publication_scopes_pointwise:
  "publication_scopes cs d = map (\<lambda>c. (cl_pk c, publication_scope_of c d)) cs"
proof -
  let ?rows = "filter (\<lambda>e. en_cluster e \<in> set (map cl_pk cs)) (enrollments d)"
  let ?sets = "fold add_sets ?rows (\<lambda>_. ({}, {}))"
  have dict: "fold add_enrollment ?rows (map (\<lambda>c. (cl_pk c, {}, {})) cs) = map (\<lambda>c. (cl_pk c, ?sets (cl_pk c))) cs"
    using fold_add_enrollment [of ?rows "\<lambda>_. ({}, {})" cs] by simp
  have "?sets (cl_pk c) = (ps_managed_nodes (publication_scope_of c d), ps_safety_nodes (publication_scope_of c d))"
    if "c \<in> set cs" for c
    using that by (auto simp: fold_add_sets publication_scope_of_def Let_def)
  then show ?thesis
    unfolding publication_scopes_def Let_def dict
    by (auto simp: map_of_by_pk) (simp_all add: publication_scope_of_def Let_def)
qed

end
