(* ===== verification/Retirement_Preflight.thy ===== *)
theory Retirement_Preflight
  imports "HOL-Library.Countable" Audit_Events Console_Sessions Scheduled_Retirement Storage_Retirement Topology_Handoff Enrollment
begin

text \<open>
  The evidence of \<^verbatim>\<open>core/services/cluster_retirement.py\<close>: the local impact and its blockers, the
  signed confirmation (\<open>_payload\<close>, \<open>_load_confirmation\<close>), the two preflights that mint it and
  the validation that consumes it. Signing (Django's \<open>signing.dumps\<close> and \<open>loads\<close>), the digest of
  the storage impact and the provider read of the endpoint's identity are parameters. One call
  reads the clock once.
\<close>

section \<open>Refusals\<close>

datatype retirement_error =
    PreflightInvalid string
  | PreflightChanged string
  | PreflightNotAllowed string
  | PreflightEndpoint string
  | PreflightUnavailable string
  | PreflightIdentityMismatch string string
  | ConfirmationRequired string
  | RetirementBlocked string string
  | ActiveScan
  | PostconditionFailed
  | ScheduledActionBlocked schedule_preflight
  | ConsoleBlocked console_preflight
  | AuditBlocked audit_preflight
  | StorageBlocked storage_error
  | RecordFailed audit_error
  | UnexpectedFailure string
  | RetirementFailed

definition expired_confirmation :: retirement_error where
  "expired_confirmation = PreflightInvalid ''This retirement confirmation is invalid or has expired. Run preflight again.''"

definition connection_changed :: retirement_error where
  "connection_changed = PreflightChanged ''The cluster connection changed after preflight. Run preflight again.''"

text \<open>An exception of the reference classes is not one of the module's own refusals.\<close>

definition unexpected_ref :: "ref_error \<Rightarrow> retirement_error" where
  "unexpected_ref e = UnexpectedFailure ''ValueError''"

datatype identity_failure =
    IdentityUnreadable
  | ConfigurationUnusable
  | OtherFailure string

record retirement_env =
  rt_loads :: "string \<Rightarrow> time \<Rightarrow> json option"
  rt_dumps :: "json \<Rightarrow> time \<Rightarrow> string"
  rt_digest :: impact_digest
  rt_identity :: "endpoint \<Rightarrow> (identity_failure, string) result"

definition RETIREMENT_PREFLIGHT_MAX_AGE_SECONDS :: int where
  "RETIREMENT_PREFLIGHT_MAX_AGE_SECONDS = 10 * 60"

definition timestamp :: "time \<Rightarrow> int" where
  "timestamp now = now div 1000000"

section \<open>Confirmations\<close>

record retirement_token =
  tk_cluster_pk :: int
  tk_cluster_key :: string
  tk_mode :: string
  tk_endpoint_id :: "int option"
  tk_pinned_ca_uuid :: string
  tk_lifecycle_generation :: int
  tk_credential_version :: string
  tk_trust_version :: string
  tk_storage_impact_digest :: string
  tk_issued_at :: int
  tk_identity_verification :: string
  tk_replacement_ca_uuid :: string

definition TOKEN_FIELDS :: "string list" where
  "TOKEN_FIELDS = [''version'', ''cluster_pk'', ''cluster_key'', ''mode'', ''endpoint_id'', ''pinned_ca_uuid'',
     ''lifecycle_generation'', ''credential_version'', ''trust_version'', ''storage_impact_digest'', ''issued_at'',
     ''identity_verification'', ''replacement_ca_uuid'']"

definition token_payload :: "retirement_token \<Rightarrow> json" where
  "token_payload t = JObj
     [(''version'', JInt 2), (''cluster_pk'', JInt (tk_cluster_pk t)), (''cluster_key'', JStr (tk_cluster_key t)),
      (''mode'', JStr (tk_mode t)),
      (''endpoint_id'', case tk_endpoint_id t of None \<Rightarrow> JNull | Some i \<Rightarrow> JInt i),
      (''pinned_ca_uuid'', JStr (tk_pinned_ca_uuid t)), (''lifecycle_generation'', JInt (tk_lifecycle_generation t)),
      (''credential_version'', JStr (tk_credential_version t)), (''trust_version'', JStr (tk_trust_version t)),
      (''storage_impact_digest'', JStr (tk_storage_impact_digest t)), (''issued_at'', JInt (tk_issued_at t)),
      (''identity_verification'', JStr (tk_identity_verification t)),
      (''replacement_ca_uuid'', JStr (tk_replacement_ca_uuid t))]"

definition token_int :: "json_object \<Rightarrow> string \<Rightarrow> int option" where
  "token_int ms k = (case map_of ms k of Some (JInt i) \<Rightarrow> Some i | _ \<Rightarrow> None)"

definition token_str :: "json_object \<Rightarrow> string \<Rightarrow> string option" where
  "token_str ms k = (case map_of ms k of Some (JStr s) \<Rightarrow> Some s | _ \<Rightarrow> None)"

definition token_endpoint :: "json_object \<Rightarrow> int option option" where
  "token_endpoint ms =
     (case map_of ms ''endpoint_id'' of
        None \<Rightarrow> Some None | Some JNull \<Rightarrow> Some None | Some (JInt i) \<Rightarrow> Some (Some i) | _ \<Rightarrow> None)"

definition VERIFICATIONS :: "string list" where
  "VERIFICATIONS = [''matched'', ''skipped'', ''superseded_by_verified_handoff'']"

text \<open>Membership in a Python set needs a hashable value.\<close>

definition token_verification :: "json_object \<Rightarrow> (retirement_error, string) result" where
  "token_verification ms =
     (case map_of ms ''identity_verification'' of
        Some (JStr s) \<Rightarrow> if s \<in> set VERIFICATIONS then Inr s else Inl expired_confirmation
      | Some (JList xs) \<Rightarrow> Inl (UnexpectedFailure ''TypeError'')
      | Some (JObj xs) \<Rightarrow> Inl (UnexpectedFailure ''TypeError'')
      | _ \<Rightarrow> Inl expired_confirmation)"

definition decode_token :: "json \<Rightarrow> (retirement_error, retirement_token) result" where
  "decode_token payload =
     (if \<not> is_object payload then Inl expired_confirmation
      else
        let ms = members payload in
        if fst ` set ms \<noteq> set TOKEN_FIELDS \<or> map_of ms ''version'' \<notin> {Some (JInt 2), Some (JFloat ''2.0'')}
        then Inl expired_confirmation
        else (case (token_int ms ''cluster_pk'', token_int ms ''lifecycle_generation'', token_int ms ''issued_at'') of
            (Some pk, Some generation, Some issued) \<Rightarrow>
              (case (token_str ms ''cluster_key'', token_str ms ''mode'', token_str ms ''pinned_ca_uuid'',
                     token_str ms ''credential_version'', token_str ms ''trust_version'', token_str ms ''storage_impact_digest'') of
                 (Some key, Some mode, Some pinned, Some cred, Some trust, Some digest) \<Rightarrow>
                   bind_result (token_verification ms) (\<lambda>verification.
                     (case (token_str ms ''replacement_ca_uuid'', token_endpoint ms) of
                        (Some replacement, Some endpoint) \<Rightarrow>
                          Inr \<lparr>tk_cluster_pk = pk, tk_cluster_key = key, tk_mode = mode, tk_endpoint_id = endpoint,
                               tk_pinned_ca_uuid = pinned, tk_lifecycle_generation = generation, tk_credential_version = cred,
                               tk_trust_version = trust, tk_storage_impact_digest = digest, tk_issued_at = issued,
                               tk_identity_verification = verification, tk_replacement_ca_uuid = replacement\<rparr>
                      | _ \<Rightarrow> Inl expired_confirmation))
               | _ \<Rightarrow> Inl expired_confirmation)
          | _ \<Rightarrow> Inl expired_confirmation))"

definition load_confirmation :: "retirement_env \<Rightarrow> string \<Rightarrow> time \<Rightarrow> (retirement_error, retirement_token) result" where
  "load_confirmation env token now =
     (case rt_loads env token now of None \<Rightarrow> Inl expired_confirmation | Some payload \<Rightarrow> decode_token payload)"

section \<open>Reading the connection\<close>

definition normalize_retirement_mode :: "string \<Rightarrow> (retirement_error, retirement_mode) result" where
  "normalize_retirement_mode mode =
     (case parse_retirement_mode mode of
        None \<Rightarrow> Inl (PreflightInvalid ''Choose verified or forced retirement.'') | Some m \<Rightarrow> Inr m)"

definition configuration_version :: "nat \<Rightarrow> time \<Rightarrow> string" where
  "configuration_version pk updated_at = show_nat pk @ '':'' @ isoformat_utc ''+00:00'' updated_at"

definition credential_version :: "nat \<Rightarrow> db \<Rightarrow> string" where
  "credential_version pk d =
     (case sort_key cr_pk (filter (\<lambda>r. cr_cluster r = pk) (credentials d)) of
        [] \<Rightarrow> [] | r # _ \<Rightarrow> configuration_version (cr_pk r) (cr_updated_at r))"

definition trust_version :: "nat \<Rightarrow> db \<Rightarrow> string" where
  "trust_version pk d =
     (case sort_key tr_pk (filter (\<lambda>r. tr_cluster r = pk) (trusts d)) of
        [] \<Rightarrow> [] | r # _ \<Rightarrow> configuration_version (tr_pk r) (tr_updated_at r))"

definition current_cluster :: "nat \<Rightarrow> db \<Rightarrow> (retirement_error, cluster) result" where
  "current_cluster pk d =
     (case get_cluster pk d of
        None \<Rightarrow> Inl (PreflightNotAllowed ''The cluster connection no longer exists.'')
      | Some c \<Rightarrow> if cl_retired_at c \<noteq> None
                  then Inl (PreflightNotAllowed ''This cluster connection has already been retired.'') else Inr c)"

definition selected_endpoint :: "cluster \<Rightarrow> int option \<Rightarrow> db \<Rightarrow> (retirement_error, endpoint) result" where
  "selected_endpoint c endpoint_id d =
     (case endpoint_id of
        None \<Rightarrow> (case enabled_endpoints (cl_pk c) d of
            [] \<Rightarrow> Inl (PreflightEndpoint ''Choose an enabled endpoint for verified retirement.'')
          | e # _ \<Rightarrow> Inr e)
      | Some i \<Rightarrow>
          (case first_where (\<lambda>e. int (ep_pk e) = i \<and> ep_cluster e = cl_pk c \<and> ep_enabled e) (endpoints d) of
             None \<Rightarrow> Inl (PreflightEndpoint
               ''The selected endpoint is no longer enabled for this cluster. Choose an endpoint again.'')
           | Some e \<Rightarrow> Inr e))"

section \<open>Local impact\<close>

record local_impact =
  li_storage :: storage_preflight
  li_scheduled :: schedule_preflight
  li_consoles :: console_preflight
  li_audit :: audit_preflight
  li_active_scan_count :: nat
  li_blockers :: "string list"

definition active_scan :: "scan_run \<Rightarrow> bool" where
  "active_scan s = (sr_status s \<in> {''queued'', ''running''})"

definition impact_blockers ::
    "retirement_mode \<Rightarrow> storage_preflight \<Rightarrow> schedule_preflight \<Rightarrow> console_preflight \<Rightarrow> audit_preflight \<Rightarrow> nat \<Rightarrow> string list" where
  "impact_blockers mode storage scheduled sessions audit scans =
     (if scans \<noteq> 0 then [''active_scan''] else [])
     @ (if \<not> consumer_gate_clear storage then [''storage_consumers''] else [])
     @ (if spf_unknown_run_count scheduled \<noteq> 0 then [''scheduled_actions_unknown'']
        else if mode = VERIFIED \<and> spf_active_run_count scheduled \<noteq> 0 then [''scheduled_actions_active''] else [])
     @ (if cpf_unknown_count sessions \<noteq> 0 then [''consoles_unknown'']
        else if mode = VERIFIED \<and> cpf_active_count sessions \<noteq> 0 then [''consoles_active''] else [])
     @ (if apf_unknown_count audit \<noteq> 0 then [''audit_operations_unknown'']
        else if mode = VERIFIED \<and> apf_running_count audit \<noteq> 0 then [''audit_operations_active''] else [])"

definition local_impact_of :: "retirement_env \<Rightarrow> cluster \<Rightarrow> retirement_mode \<Rightarrow> db \<Rightarrow> (retirement_error, local_impact) result" where
  "local_impact_of env c mode d =
     bind_result (map_error unexpected_ref (storage_snapshot (rt_digest env) c mode d)) (\<lambda>storage.
       let scheduled = scheduled_retirement_preflight (cl_pk c) mode False d;
           sessions = console_retirement_preflight (cl_pk c) mode False d;
           audit = audit_retirement_preflight (cl_pk c) mode False d;
           scans = count_where active_scan (scan_runs d)
       in Inr \<lparr>li_storage = storage, li_scheduled = scheduled, li_consoles = sessions, li_audit = audit,
               li_active_scan_count = scans, li_blockers = impact_blockers mode storage scheduled sessions audit scans\<rparr>)"

definition verify_selected_endpoint :: "retirement_env \<Rightarrow> cluster \<Rightarrow> endpoint \<Rightarrow> (retirement_error, unit) result" where
  "verify_selected_endpoint env c e =
     (if cl_discovered_ca_uuid c = []
      then Inl (PreflightNotAllowed ''This cluster has no pinned Proxmox CA identity and cannot use verified retirement.'')
      else (case rt_identity env e of
          Inl IdentityUnreadable \<Rightarrow>
            Inl (PreflightUnavailable ''The selected endpoint could not report its Proxmox cluster identity.'')
        | Inl ConfigurationUnusable \<Rightarrow>
            Inl (PreflightUnavailable ''The selected endpoint cannot be verified with the stored connection configuration.'')
        | Inl (OtherFailure e) \<Rightarrow> Inl (UnexpectedFailure e)
        | Inr observed \<Rightarrow>
            if observed \<noteq> cl_discovered_ca_uuid c
            then Inl (PreflightIdentityMismatch observed (cl_discovered_ca_uuid c)) else Inr ()))"

section \<open>Preflight\<close>

record retirement_preflight =
  rpf_mode :: retirement_mode
  rpf_endpoint_id :: "nat option"
  rpf_identity_verification :: string
  rpf_observed_at :: time
  rpf_impact :: local_impact
  rpf_confirmation :: string

definition payload_of ::
    "cluster \<Rightarrow> retirement_mode \<Rightarrow> nat option \<Rightarrow> string \<Rightarrow> int \<Rightarrow> string \<Rightarrow> string \<Rightarrow> db \<Rightarrow> retirement_token" where
  "payload_of c mode endpoint_id digest issued_at verification replacement d =
     \<lparr>tk_cluster_pk = int (cl_pk c), tk_cluster_key = cl_key c, tk_mode = mode_value mode,
      tk_endpoint_id = map_option int endpoint_id,
      tk_pinned_ca_uuid = (if mode = VERIFIED then cl_discovered_ca_uuid c else []),
      tk_lifecycle_generation = int (cl_lifecycle_generation c), tk_credential_version = credential_version (cl_pk c) d,
      tk_trust_version = trust_version (cl_pk c) d, tk_storage_impact_digest = digest, tk_issued_at = issued_at,
      tk_identity_verification = verification, tk_replacement_ca_uuid = replacement\<rparr>"

definition mint :: "retirement_env \<Rightarrow> retirement_token \<Rightarrow> local_impact \<Rightarrow> time \<Rightarrow> string" where
  "mint env token impact now = (if li_blockers impact = [] then rt_dumps env (token_payload token) now else [])"

definition preflight_endpoint ::
    "cluster \<Rightarrow> retirement_mode \<Rightarrow> int option \<Rightarrow> db \<Rightarrow> (retirement_error, endpoint option) result" where
  "preflight_endpoint c mode endpoint_id d =
     (if mode = VERIFIED then
        (if cl_enabled c then Inl (PreflightNotAllowed ''Disable the cluster before verified retirement.'')
         else bind_result (selected_endpoint c endpoint_id d) (\<lambda>e. Inr (Some e)))
      else if endpoint_id \<noteq> None
      then Inl (PreflightEndpoint ''Forced retirement does not select or contact an endpoint.'')
      else Inr None)"

definition preflight_verification :: "retirement_env \<Rightarrow> cluster \<Rightarrow> endpoint option \<Rightarrow> (retirement_error, string) result" where
  "preflight_verification env c e =
     (case e of None \<Rightarrow> Inr ''skipped''
      | Some ep \<Rightarrow> bind_result (verify_selected_endpoint env c ep) (\<lambda>_. Inr ''matched''))"

definition cluster_retirement_preflight ::
    "retirement_env \<Rightarrow> nat \<Rightarrow> string \<Rightarrow> int option \<Rightarrow> time \<Rightarrow> db \<Rightarrow> (retirement_error, retirement_preflight) result" where
  "cluster_retirement_preflight env pk raw_mode endpoint_id now d =
     bind_result (normalize_retirement_mode raw_mode) (\<lambda>mode.
     bind_result (current_cluster pk d) (\<lambda>c.
     bind_result (preflight_endpoint c mode endpoint_id d) (\<lambda>endpoint.
     bind_result (local_impact_of env c mode d) (\<lambda>impact.
     bind_result (preflight_verification env c endpoint) (\<lambda>verification.
       Inr \<lparr>rpf_mode = mode, rpf_endpoint_id = map_option ep_pk endpoint, rpf_identity_verification = verification,
            rpf_observed_at = now, rpf_impact = impact,
            rpf_confirmation = mint env (payload_of c mode (map_option ep_pk endpoint)
              (stp_impact_digest (li_storage impact)) (timestamp now) verification [] d) impact now\<rparr>)))))"

definition handoff_verification ::
    "retirement_env \<Rightarrow> cluster \<Rightarrow> endpoint \<Rightarrow> string \<Rightarrow> (retirement_error, string \<times> string) result" where
  "handoff_verification env c e replacement =
     (if replacement = [] then Inl (PreflightInvalid ''The replacement Proxmox CA identity is required.'')
      else if replacement = cl_discovered_ca_uuid c
      then bind_result (verify_selected_endpoint env c e) (\<lambda>_. Inr (''matched'', []))
      else Inr (''superseded_by_verified_handoff'', replacement))"

definition cluster_handoff_retirement_preflight ::
    "retirement_env \<Rightarrow> nat \<Rightarrow> int option \<Rightarrow> string \<Rightarrow> time \<Rightarrow> db \<Rightarrow> (retirement_error, retirement_preflight) result" where
  "cluster_handoff_retirement_preflight env pk endpoint_id replacement now d =
     bind_result (current_cluster pk d) (\<lambda>c.
       if (case first_where (\<lambda>s. ms_cluster s = pk \<and> ms_transition_pending s) (membership_states d) of
             None \<Rightarrow> True | Some s \<Rightarrow> \<not> pending_role_is_readable s)
       then Inl (PreflightInvalid ''Topology hand-off retirement is available only for a readable pending identity transition.'')
       else
         bind_result (selected_endpoint c endpoint_id d) (\<lambda>endpoint.
         bind_result (local_impact_of env c VERIFIED d) (\<lambda>impact.
         bind_result (handoff_verification env c endpoint (strip replacement)) (\<lambda>(verification, superseding).
           Inr \<lparr>rpf_mode = VERIFIED, rpf_endpoint_id = Some (ep_pk endpoint), rpf_identity_verification = verification,
                rpf_observed_at = now, rpf_impact = impact,
                rpf_confirmation = mint env (payload_of c VERIFIED (Some (ep_pk endpoint))
                  (stp_impact_digest (li_storage impact)) (timestamp now) verification superseding d) impact now\<rparr>))))"

section \<open>Validation\<close>

record confirmed_preflight =
  cf_cluster_pk :: nat
  cf_cluster_key :: string
  cf_mode :: retirement_mode
  cf_endpoint_id :: "nat option"
  cf_pinned_ca_uuid :: string
  cf_lifecycle_generation :: nat
  cf_credential_version :: string
  cf_trust_version :: string
  cf_storage_impact_digest :: string
  cf_issued_at :: int
  cf_identity_verification :: string
  cf_replacement_ca_uuid :: string

definition same_connection :: "retirement_token \<Rightarrow> cluster \<Rightarrow> retirement_mode \<Rightarrow> db \<Rightarrow> bool" where
  "same_connection t c mode d =
     (tk_cluster_pk t = int (cl_pk c) \<and> tk_cluster_key t = cl_key c \<and> tk_mode t = mode_value mode
      \<and> tk_lifecycle_generation t = int (cl_lifecycle_generation c)
      \<and> tk_credential_version t = credential_version (cl_pk c) d \<and> tk_trust_version t = trust_version (cl_pk c) d)"

definition validate_identity ::
    "retirement_token \<Rightarrow> cluster \<Rightarrow> retirement_mode \<Rightarrow> db \<Rightarrow> (retirement_error, nat option) result" where
  "validate_identity t c mode d =
     (if mode = VERIFIED then
        if cl_enabled c then Inl connection_changed
        else (case selected_endpoint c (tk_endpoint_id t) d of
            Inl _ \<Rightarrow> Inl (PreflightChanged ''The selected endpoint changed after preflight. Choose an endpoint again.'')
          | Inr e \<Rightarrow>
              if tk_pinned_ca_uuid t \<noteq> cl_discovered_ca_uuid c
              then Inl (PreflightChanged ''The cluster identity changed after preflight. Run preflight again.'')
              else if tk_identity_verification t = ''superseded_by_verified_handoff''
              then (if tk_replacement_ca_uuid t = [] \<or> tk_replacement_ca_uuid t = tk_pinned_ca_uuid t
                    then Inl expired_confirmation else Inr (Some (ep_pk e)))
              else if tk_identity_verification t \<noteq> ''matched'' \<or> tk_replacement_ca_uuid t \<noteq> []
              then Inl expired_confirmation else Inr (Some (ep_pk e)))
      else if tk_endpoint_id t \<noteq> None \<or> tk_pinned_ca_uuid t \<noteq> [] \<or> tk_identity_verification t \<noteq> ''skipped''
              \<or> tk_replacement_ca_uuid t \<noteq> []
      then Inl expired_confirmation else Inr None)"

definition validate_retirement_preflight ::
    "retirement_env \<Rightarrow> string \<Rightarrow> nat \<Rightarrow> string \<Rightarrow> time \<Rightarrow> db \<Rightarrow> (retirement_error, confirmed_preflight) result" where
  "validate_retirement_preflight env token pk raw_mode now d =
     bind_result (normalize_retirement_mode raw_mode) (\<lambda>mode.
     bind_result (load_confirmation env token now) (\<lambda>t.
     bind_result (current_cluster pk d) (\<lambda>c.
       if \<not> same_connection t c mode d then Inl connection_changed
       else
         bind_result (validate_identity t c mode d) (\<lambda>endpoint_id.
         bind_result (map_error unexpected_ref (storage_snapshot (rt_digest env) c mode d)) (\<lambda>storage.
           if tk_storage_impact_digest t \<noteq> stp_impact_digest storage
           then Inl (PreflightChanged ''The storage impact changed after preflight. Review it again.'')
           else if timestamp now + 60 < tk_issued_at t then Inl expired_confirmation
           else Inr \<lparr>cf_cluster_pk = cl_pk c, cf_cluster_key = cl_key c, cf_mode = mode, cf_endpoint_id = endpoint_id,
                     cf_pinned_ca_uuid = tk_pinned_ca_uuid t, cf_lifecycle_generation = cl_lifecycle_generation c,
                     cf_credential_version = tk_credential_version t, cf_trust_version = tk_trust_version t,
                     cf_storage_impact_digest = stp_impact_digest storage, cf_issued_at = tk_issued_at t,
                     cf_identity_verification = tk_identity_verification t,
                     cf_replacement_ca_uuid = tk_replacement_ca_uuid t\<rparr>)))))"

section \<open>Facts\<close>

lemma token_fields_payload: "fst ` set (members (token_payload t)) = set TOKEN_FIELDS"
  by (simp add: token_payload_def TOKEN_FIELDS_def)

lemma decode_token_payload:
  assumes "tk_identity_verification t \<in> set VERIFICATIONS"
  shows "decode_token (token_payload t) = Inr t"
proof -
  let ?ms = "members (token_payload t)"
  have "token_int ?ms ''cluster_pk'' = Some (tk_cluster_pk t)" "token_int ?ms ''issued_at'' = Some (tk_issued_at t)"
    "token_int ?ms ''lifecycle_generation'' = Some (tk_lifecycle_generation t)"
    "token_str ?ms ''cluster_key'' = Some (tk_cluster_key t)" "token_str ?ms ''mode'' = Some (tk_mode t)"
    "token_str ?ms ''pinned_ca_uuid'' = Some (tk_pinned_ca_uuid t)"
    "token_str ?ms ''credential_version'' = Some (tk_credential_version t)"
    "token_str ?ms ''trust_version'' = Some (tk_trust_version t)"
    "token_str ?ms ''storage_impact_digest'' = Some (tk_storage_impact_digest t)"
    "token_str ?ms ''replacement_ca_uuid'' = Some (tk_replacement_ca_uuid t)"
    "token_endpoint ?ms = Some (tk_endpoint_id t)" "token_verification ?ms = Inr (tk_identity_verification t)"
    "map_of ?ms ''version'' = Some (JInt 2)" "is_object (token_payload t)"
    using assms
    by (simp_all add: token_int_def token_str_def token_endpoint_def token_verification_def token_payload_def split: option.splits)
  then show ?thesis by (simp add: decode_token_def Let_def token_fields_payload)
qed

text \<open>A confirmation is minted exactly when every owner's gate is clear and no scan is active.\<close>

definition gates_clear :: "cluster \<Rightarrow> retirement_mode \<Rightarrow> db \<Rightarrow> bool" where
  "gates_clear c mode d =
     (\<not> exists_where active_scan (scan_runs d)
      \<and> (mode = FORCED \<or> \<not> exists_where (\<lambda>k. sc_cluster k = cl_pk c) (storage_consumers d))
      \<and> schedule_gate (cl_pk c) mode d \<and> console_gate (cl_pk c) mode d \<and> audit_gate (cl_pk c) mode d)"

lemma preflight_modes [simp]:
  "spf_mode (scheduled_retirement_preflight pk mode lock d) = mode"
  "cpf_mode (console_retirement_preflight pk mode lock d) = mode"
  by (simp_all add: scheduled_retirement_preflight_def console_retirement_preflight_def Let_def)

lemma impact_blockers_iff:
  assumes "local_impact_of env c mode d = Inr impact"
  shows "li_blockers impact = [] \<longleftrightarrow> gates_clear c mode d"
    and "li_active_scan_count impact = count_where active_scan (scan_runs d)"
    and "storage_snapshot (rt_digest env) c mode d = Inr (li_storage impact)"
proof -
  from assms obtain storage where s: "storage_snapshot (rt_digest env) c mode d = Inr storage"
    and impact: "impact = \<lparr>li_storage = storage, li_scheduled = scheduled_retirement_preflight (cl_pk c) mode False d,
       li_consoles = console_retirement_preflight (cl_pk c) mode False d, li_audit = audit_retirement_preflight (cl_pk c) mode False d,
       li_active_scan_count = count_where active_scan (scan_runs d),
       li_blockers = impact_blockers mode storage (scheduled_retirement_preflight (cl_pk c) mode False d)
         (console_retirement_preflight (cl_pk c) mode False d) (audit_retirement_preflight (cl_pk c) mode False d)
         (count_where active_scan (scan_runs d))\<rparr>"
    by (auto simp: local_impact_of_def Let_def result_simps)
  show "li_active_scan_count impact = count_where active_scan (scan_runs d)"
    "storage_snapshot (rt_digest env) c mode d = Inr (li_storage impact)" by (simp_all add: impact s)
  note consumers = storage_snapshot_consumers [OF s]
  show "li_blockers impact = [] \<longleftrightarrow> gates_clear c mode d"
    by (cases mode)
       (auto simp: impact impact_blockers_def gates_clear_def consumers consumer_gate_clear_def count_where_0_iff
         schedule_gate_def schedule_gate_clear_def console_gate_def console_gate_clear_def audit_gate_def audit_gate_clear_def)
qed

text \<open>What the validation of a confirmation has established about the present connection.\<close>

lemma current_cluster_Inr: "current_cluster pk d = Inr c \<longleftrightarrow> get_cluster pk d = Some c \<and> cl_retired_at c = None"
  by (auto simp: current_cluster_def split: option.splits)

lemma normalize_retirement_mode_Inr: "normalize_retirement_mode s = Inr m \<longleftrightarrow> s = mode_value m"
  using parse_retirement_mode_Some by (auto simp: normalize_retirement_mode_def split: option.splits)

lemma validate_Inr:
  assumes "validate_retirement_preflight env token pk raw_mode now d = Inr cf"
  shows "\<exists>t c p. load_confirmation env token now = Inr t \<and> get_cluster pk d = Some c \<and> cl_retired_at c = None
    \<and> raw_mode = mode_value (cf_mode cf) \<and> same_connection t c (cf_mode cf) d
    \<and> validate_identity t c (cf_mode cf) d = Inr (cf_endpoint_id cf)
    \<and> storage_snapshot (rt_digest env) c (cf_mode cf) d = Inr p \<and> stp_impact_digest p = tk_storage_impact_digest t
    \<and> tk_issued_at t \<le> timestamp now + 60 \<and> cf_cluster_pk cf = pk \<and> cf_cluster_key cf = cl_key c
    \<and> cf_storage_impact_digest cf = stp_impact_digest p \<and> cf_replacement_ca_uuid cf = tk_replacement_ca_uuid t
    \<and> cf_identity_verification cf = tk_identity_verification t"
proof -
  from assms obtain mode t c endpoint_id p where
    mode: "normalize_retirement_mode raw_mode = Inr mode" and t: "load_confirmation env token now = Inr t"
    and c: "current_cluster pk d = Inr c" and same: "same_connection t c mode d"
    and e: "validate_identity t c mode d = Inr endpoint_id" and p: "storage_snapshot (rt_digest env) c mode d = Inr p"
    and digest: "stp_impact_digest p = tk_storage_impact_digest t" and issued: "\<not> timestamp now + 60 < tk_issued_at t"
    and cf: "cf = \<lparr>cf_cluster_pk = cl_pk c, cf_cluster_key = cl_key c, cf_mode = mode, cf_endpoint_id = endpoint_id,
                     cf_pinned_ca_uuid = tk_pinned_ca_uuid t, cf_lifecycle_generation = cl_lifecycle_generation c,
                     cf_credential_version = tk_credential_version t, cf_trust_version = tk_trust_version t,
                     cf_storage_impact_digest = stp_impact_digest p, cf_issued_at = tk_issued_at t,
                     cf_identity_verification = tk_identity_verification t,
                     cf_replacement_ca_uuid = tk_replacement_ca_uuid t\<rparr>"
    unfolding validate_retirement_preflight_def by (auto simp: result_simps split: if_splits)
  from c have "get_cluster pk d = Some c" "cl_retired_at c = None" "cl_pk c = pk"
    using get_cluster_pk by (auto simp: current_cluster_Inr)
  with mode t same e p digest issued show ?thesis by (auto simp: cf normalize_retirement_mode_Inr)
qed

section \<open>Properties\<close>

text \<open>What the development assumes of Django's signer: within the age limit, it gives back the payload it signed.\<close>

definition signing_ok :: "retirement_env \<Rightarrow> bool" where
  "signing_ok env = (\<forall>t issued now. issued \<le> now \<and> now \<le> issued + RETIREMENT_PREFLIGHT_MAX_AGE_SECONDS * 1000000
     \<longrightarrow> rt_loads env (rt_dumps env (token_payload t) issued) now = Some (token_payload t))"

lemma mode_value_verified [simp]: "(mode_value m = ''verified'') = (m = VERIFIED)" "(mode_value m = ''forced'') = (m = FORCED)"
  by (cases m; simp)+

lemma selected_endpoint_in:
  assumes "selected_endpoint c i d = Inr ep"
  shows "ep \<in> set (endpoints d) \<and> ep_cluster ep = cl_pk c \<and> ep_enabled ep"
proof (cases i)
  case None
  with assms obtain rest where "enabled_endpoints (cl_pk c) d = ep # rest"
    by (auto simp: selected_endpoint_def split: list.splits)
  then have "ep \<in> set (enabled_endpoints (cl_pk c) d)" by simp
  then show ?thesis by (simp add: enabled_endpoints_def)
next
  case (Some i)
  with assms show ?thesis by (auto simp: selected_endpoint_def dest: first_where_Some_iff split: option.splits)
qed

lemma preflight_endpoint_again:
  assumes "preflight_endpoint c mode endpoint_id d = Inr e" and "preflight_verification env c e = Inr v"
  shows "validate_identity (payload_of c mode (map_option ep_pk e) digest issued v [] d) c mode d = Inr (map_option ep_pk e)
    \<and> v \<in> set VERIFICATIONS"
proof (cases mode)
  case FORCED
  with assms show ?thesis
    by (auto simp: preflight_endpoint_def preflight_verification_def validate_identity_def payload_of_def VERIFICATIONS_def
             split: if_splits)
next
  case VERIFIED
  with assms(1) obtain ep where e: "e = Some ep" "selected_endpoint c endpoint_id d = Inr ep" and off: "\<not> cl_enabled c"
    by (auto simp: preflight_endpoint_def result_simps split: if_splits)
  from selected_endpoint_in [OF e(2)] have "exists_where (\<lambda>x. int (ep_pk x) = int (ep_pk ep) \<and> ep_cluster x = cl_pk c \<and> ep_enabled x) (endpoints d)"
    by (auto simp: exists_where_iff)
  then obtain ep' where "first_where (\<lambda>x. int (ep_pk x) = int (ep_pk ep) \<and> ep_cluster x = cl_pk c \<and> ep_enabled x) (endpoints d) = Some ep'"
    using first_where_None_iff by (metis not_None_eq)
  moreover from this have "ep_pk ep' = ep_pk ep" by (auto dest: first_where_Some_iff)
  ultimately have found: "selected_endpoint c (Some (int (ep_pk ep))) d = Inr ep'" "ep_pk ep' = ep_pk ep"
    by (simp_all add: selected_endpoint_def)
  from assms(2) have "v = ''matched''" by (auto simp: e preflight_verification_def result_simps)
  then show ?thesis using VERIFIED off found
    by (simp add: validate_identity_def payload_of_def e VERIFICATIONS_def)
qed

text \<open>
  C6: The evidence a preflight mints is the evidence retirement accepts: when the preflight
  found no blocker, its confirmation validates against the unchanged database for as long as it
  is not expired, for the same mode, endpoint and storage impact.
\<close>

theorem preflight_confirmation_validates:
  assumes "signing_ok env" and "cluster_retirement_preflight env pk raw_mode endpoint_id issued d = Inr p"
    and "li_blockers (rpf_impact p) = []"
    and "issued \<le> now" and "now \<le> issued + RETIREMENT_PREFLIGHT_MAX_AGE_SECONDS * 1000000"
  shows "\<exists>cf. validate_retirement_preflight env (rpf_confirmation p) pk raw_mode now d = Inr cf
     \<and> cf_mode cf = rpf_mode p \<and> cf_endpoint_id cf = rpf_endpoint_id p
     \<and> cf_storage_impact_digest cf = stp_impact_digest (li_storage (rpf_impact p))
     \<and> cf_identity_verification cf = rpf_identity_verification p \<and> cf_replacement_ca_uuid cf = []"
proof -
  from assms(2) obtain mode c e v where mode: "normalize_retirement_mode raw_mode = Inr mode" and c: "current_cluster pk d = Inr c"
    and e: "preflight_endpoint c mode endpoint_id d = Inr e" and impact: "local_impact_of env c mode d = Inr (rpf_impact p)"
    and v: "preflight_verification env c e = Inr v" and p: "rpf_mode p = mode" "rpf_endpoint_id p = map_option ep_pk e"
      "rpf_identity_verification p = v"
      "rpf_confirmation p = mint env (payload_of c mode (map_option ep_pk e) (stp_impact_digest (li_storage (rpf_impact p)))
         (timestamp issued) v [] d) (rpf_impact p) issued"
    by (auto simp: cluster_retirement_preflight_def result_simps)
  let ?t = "payload_of c mode (map_option ep_pk e) (stp_impact_digest (li_storage (rpf_impact p))) (timestamp issued) v [] d"
  note again = preflight_endpoint_again [OF e v, of "stp_impact_digest (li_storage (rpf_impact p))" "timestamp issued"]
  have "load_confirmation env (rpf_confirmation p) now = Inr ?t"
    using assms(1,3,4,5) again decode_token_payload [of ?t]
    by (simp add: p mint_def load_confirmation_def signing_ok_def) (simp add: payload_of_def)
  moreover have "same_connection ?t c mode d" by (simp add: same_connection_def payload_of_def)
  moreover have "timestamp issued \<le> timestamp now + 60"
    using assms(4) zdiv_mono1 [of issued now 1000000] by (simp add: timestamp_def)
  ultimately show ?thesis
    using mode c again impact_blockers_iff(3) [OF impact] p(1-3)
    by (simp add: validate_retirement_preflight_def) (simp add: payload_of_def)
qed

text \<open>
  No stale or foreign evidence is accepted. A confirmation that validates carries the
  cluster's own key and primary key, the requested mode, the present lifecycle generation,
  credential and trust versions and storage digest; verified evidence is only accepted for a
  disabled connection whose pinned identity is unchanged, through an enabled endpoint of it.
\<close>

theorem validated_evidence_is_current:
  assumes "validate_retirement_preflight env token pk raw_mode now d = Inr cf"
  shows "\<exists>t c. load_confirmation env token now = Inr t \<and> get_cluster pk d = Some c \<and> cl_retired_at c = None
    \<and> tk_cluster_pk t = int pk \<and> tk_cluster_key t = cl_key c \<and> tk_mode t = raw_mode
    \<and> tk_lifecycle_generation t = int (cl_lifecycle_generation c)
    \<and> tk_credential_version t = credential_version pk d \<and> tk_trust_version t = trust_version pk d
    \<and> (\<exists>p. storage_snapshot (rt_digest env) c (cf_mode cf) d = Inr p \<and> stp_impact_digest p = tk_storage_impact_digest t)
    \<and> (cf_mode cf = VERIFIED \<longrightarrow> \<not> cl_enabled c \<and> tk_pinned_ca_uuid t = cl_discovered_ca_uuid c
         \<and> (\<exists>e\<in>set (endpoints d). cf_endpoint_id cf = Some (ep_pk e) \<and> ep_cluster e = pk \<and> ep_enabled e)
         \<and> (tk_identity_verification t = ''matched'' \<or> tk_replacement_ca_uuid t \<notin> {[], cl_discovered_ca_uuid c}))
    \<and> (cf_mode cf = FORCED \<longrightarrow> cf_endpoint_id cf = None \<and> tk_identity_verification t = ''skipped'')"
proof -
  from validate_Inr [OF assms] obtain t c p where
    t: "load_confirmation env token now = Inr t" and c: "get_cluster pk d = Some c" "cl_retired_at c = None"
    and mode: "raw_mode = mode_value (cf_mode cf)" and same: "same_connection t c (cf_mode cf) d"
    and e: "validate_identity t c (cf_mode cf) d = Inr (cf_endpoint_id cf)"
    and p: "storage_snapshot (rt_digest env) c (cf_mode cf) d = Inr p" "stp_impact_digest p = tk_storage_impact_digest t"
    by blast
  have pk: "cl_pk c = pk" by (rule get_cluster_pk [OF c(1)])
  have verified: "\<not> cl_enabled c \<and> tk_pinned_ca_uuid t = cl_discovered_ca_uuid c
         \<and> (\<exists>e\<in>set (endpoints d). cf_endpoint_id cf = Some (ep_pk e) \<and> ep_cluster e = pk \<and> ep_enabled e)
         \<and> (tk_identity_verification t = ''matched'' \<or> tk_replacement_ca_uuid t \<notin> {[], cl_discovered_ca_uuid c})"
    if "cf_mode cf = VERIFIED"
  proof -
    from e that obtain ep where "selected_endpoint c (tk_endpoint_id t) d = Inr ep"
      by (auto simp: validate_identity_def split: if_splits sum.splits)
    moreover from this e that have "cf_endpoint_id cf = Some (ep_pk ep)"
      by (auto simp: validate_identity_def split: if_splits)
    ultimately show ?thesis
      using selected_endpoint_in [of c "tk_endpoint_id t" d ep] e that
      by (auto simp: validate_identity_def pk split: if_splits)
  qed
  have forced: "cf_endpoint_id cf = None \<and> tk_identity_verification t = ''skipped''" if "cf_mode cf = FORCED"
    using e that by (auto simp: validate_identity_def split: if_splits)
  show ?thesis
    using t c mode same p verified forced by (auto simp: same_connection_def pk)
qed

text \<open>
  A signer for the witnesses: the payload's number, in decimal. The instance that makes it
  injective is the library's.
\<close>

instance json :: countable
  by countable_datatype

definition example_retirement_env :: retirement_env where
  "example_retirement_env =
     \<lparr>rt_loads = \<lambda>s now. map_option (\<lambda>i. from_nat (nat i)) (parse_int s), rt_dumps = \<lambda>p now. show_nat (to_nat p),
      rt_digest = \<lambda>i. ''digest'', rt_identity = \<lambda>e. Inr ''uuid''\<rparr>"

lemma example_signing_ok: "signing_ok example_retirement_env"
  by (simp add: signing_ok_def example_retirement_env_def parse_int_show_nat)

definition example_retiring_db :: db where
  "example_retiring_db = empty_db\<lparr>clusters := [(new_cluster 1 ''prod'' ''Production'')\<lparr>cl_enabled := False, cl_discovered_ca_uuid := ''uuid''\<rparr>],
     endpoints := [\<lparr>ep_pk = 3, ep_name = ''pve1'', ep_cluster = 1, ep_normalized_url = ''https://pve1:8006'', ep_enabled = True,
       ep_last_health_status = ''ok'', ep_updated_at = 0, ep_url = ''https://pve1:8006'', ep_details = JObj []\<rparr>]\<rparr>"

lemmas retirement_eval = cluster_retirement_preflight_def normalize_retirement_mode_def parse_retirement_mode_def current_cluster_def
  get_cluster_def preflight_endpoint_def selected_endpoint_def enabled_endpoints_def local_impact_of_def storage_snapshot_def
  storage_impact_of_def scheduled_retirement_preflight_def console_retirement_preflight_def audit_retirement_preflight_def
  impact_blockers_def consumer_gate_clear_def preflight_verification_def verify_selected_endpoint_def mint_def
  new_cluster_def empty_db_def count_where_def Let_def

lemma example_preflight:
  "\<exists>p. cluster_retirement_preflight example_retirement_env 1 ''verified'' None 0 example_retiring_db = Inr p
     \<and> li_blockers (rpf_impact p) = [] \<and> rpf_endpoint_id p = Some 3"
  by (simp add: retirement_eval example_retirement_env_def example_retiring_db_def)

theorem preflight_confirmation_validates_witness:
  "\<exists>(p :: retirement_preflight) cf. validate_retirement_preflight example_retirement_env (rpf_confirmation p) 1 ''verified'' 60000000 example_retiring_db = Inr cf
     \<and> cf_endpoint_id cf = Some 3"
proof -
  from example_preflight obtain p where
    run: "cluster_retirement_preflight example_retirement_env 1 ''verified'' None 0 example_retiring_db = Inr p"
    and clear: "li_blockers (rpf_impact p) = []" and e: "rpf_endpoint_id p = Some 3" by blast
  have "(60000000 :: int) \<le> 0 + RETIREMENT_PREFLIGHT_MAX_AGE_SECONDS * 1000000"
    by (simp add: RETIREMENT_PREFLIGHT_MAX_AGE_SECONDS_def)
  from preflight_confirmation_validates [OF example_signing_ok run clear zero_le_numeral this] obtain cf where
    "validate_retirement_preflight example_retirement_env (rpf_confirmation p) 1 ''verified'' 60000000 example_retiring_db = Inr cf"
    "cf_endpoint_id cf = rpf_endpoint_id p" by blast
  with e show ?thesis by (intro exI conjI) (assumption, simp)
qed

definition example_retiring_cluster :: cluster where
  "example_retiring_cluster = (new_cluster 1 ''prod'' ''Production'')\<lparr>cl_enabled := False, cl_discovered_ca_uuid := ''uuid''\<rparr>"

definition example_payload :: "retirement_mode \<Rightarrow> retirement_token" where
  "example_payload m = payload_of example_retiring_cluster m (if m = VERIFIED then Some 3 else None) ''digest'' 0
     (if m = VERIFIED then ''matched'' else ''skipped'') [] example_retiring_db"

definition example_confirmation :: "retirement_mode \<Rightarrow> string" where
  "example_confirmation m = rt_dumps example_retirement_env (token_payload (example_payload m)) 0"

lemma example_load: "load_confirmation example_retirement_env (example_confirmation m) 0 = Inr (example_payload m)"
proof -
  have "decode_token (token_payload (example_payload m)) = Inr (example_payload m)"
    by (rule decode_token_payload) (simp add: example_payload_def payload_of_def VERIFICATIONS_def)
  moreover have "rt_loads example_retirement_env (example_confirmation m) 0 = Some (token_payload (example_payload m))"
    by (simp add: example_confirmation_def example_retirement_env_def parse_int_show_nat)
  ultimately show ?thesis by (simp add: load_confirmation_def)
qed

lemma example_snapshot:
  "\<exists>p. storage_snapshot (rt_digest example_retirement_env) example_retiring_cluster m example_retiring_db = Inr p \<and> stp_impact_digest p = ''digest''"
  by (simp add: storage_snapshot_def storage_impact_of_def example_retiring_db_def empty_db_def example_retirement_env_def Let_def)

lemma example_get_cluster: "get_cluster 1 example_retiring_db = Some example_retiring_cluster"
  by (simp add: get_cluster_def example_retiring_db_def example_retiring_cluster_def new_cluster_def)

lemma example_validates:
  "\<exists>cf. validate_retirement_preflight example_retirement_env (example_confirmation m) 1 (mode_value m) 0 example_retiring_db = Inr cf
     \<and> cf_mode cf = m \<and> cf_replacement_ca_uuid cf = []"
proof -
  have c: "current_cluster 1 example_retiring_db = Inr example_retiring_cluster"
    unfolding current_cluster_Inr example_get_cluster by (simp add: example_retiring_cluster_def new_cluster_def)
  have same: "same_connection (example_payload m) example_retiring_cluster m example_retiring_db"
    by (simp add: same_connection_def example_payload_def payload_of_def)
  have identity: "\<exists>i. validate_identity (example_payload m) example_retiring_cluster m example_retiring_db = Inr i"
    by (cases m) (simp_all add: validate_identity_def example_payload_def payload_of_def selected_endpoint_def example_retiring_db_def
        example_retiring_cluster_def new_cluster_def)
  have token: "tk_issued_at (example_payload m) = 0" "tk_storage_impact_digest (example_payload m) = ''digest''"
    "tk_replacement_ca_uuid (example_payload m) = []" by (simp_all add: example_payload_def payload_of_def)
  from example_snapshot [of m] identity c same token show ?thesis
    unfolding validate_retirement_preflight_def normalize_retirement_mode_def parse_retirement_mode_value example_load
    by (auto simp: timestamp_def)
qed

theorem validated_evidence_is_current_witness:
  "\<exists>t c. load_confirmation example_retirement_env (example_confirmation VERIFIED) 0 = Inr t
     \<and> get_cluster 1 example_retiring_db = Some c \<and> \<not> cl_enabled c \<and> tk_pinned_ca_uuid t = cl_discovered_ca_uuid c"
proof -
  from example_validates [of VERIFIED] obtain cf where
    run: "validate_retirement_preflight example_retirement_env (example_confirmation VERIFIED) 1 (mode_value VERIFIED) 0 example_retiring_db = Inr cf"
    and mode: "cf_mode cf = VERIFIED" by blast
  from validated_evidence_is_current [OF run] mode show ?thesis by blast
qed

end
