(* ===== verification/Cluster_Retirement.thy ===== *)
theory Cluster_Retirement
  imports Retirement_Preflight
begin

text \<open>
  The retirement transaction of \<^verbatim>\<open>core/services/cluster_retirement.py\<close>: \<open>_retire_cluster_atomic\<close>
  with its checks, the owners' finalizers, the tombstone and the postconditions, and
  \<open>retire_cluster\<close>, which records a refusal. The transaction returns no database on an error; the
  outer function always returns the database the caller is left with. Cache invalidation after
  the commit and the log are not part of the model.
\<close>

section \<open>The confirmation of a forced retirement\<close>

definition RETIREMENT_REASON_MAX_LENGTH :: nat where
  "RETIREMENT_REASON_MAX_LENGTH = 1000"

definition RETIREMENT_AUDIT_DETAIL_LIMIT :: nat where
  "RETIREMENT_AUDIT_DETAIL_LIMIT = 100"

record retirement_request =
  rq_confirmation :: string
  rq_actor :: "actor option"
  rq_reason :: string
  rq_typed_cluster_key :: string
  rq_permanent_unavailability_asserted :: bool
  rq_replacement_ca_uuid :: string

definition forced_confirmation :: "cluster \<Rightarrow> retirement_mode \<Rightarrow> retirement_request \<Rightarrow> (retirement_error, string) result" where
  "forced_confirmation c mode rq =
     (let why = strip (rq_reason rq) in
      if RETIREMENT_REASON_MAX_LENGTH < char_len why
      then Inl (ConfirmationRequired ''The retirement reason may contain at most 1000 characters.'')
      else if mode = FORCED then
        (if rq_typed_cluster_key rq \<noteq> cl_key c
         then Inl (ConfirmationRequired ''Type the exact permanent cluster key to force retirement.'')
         else if \<not> rq_permanent_unavailability_asserted rq
         then Inl (ConfirmationRequired ''Confirm that the Proxmox site is permanently unavailable before forced retirement.'')
         else if why = [] then Inl (ConfirmationRequired ''A reason is required for forced retirement.'')
         else Inr why)
      else Inr why)"

section \<open>The audit record\<close>

definition endpoint_snapshots :: "nat \<Rightarrow> db \<Rightarrow> json list \<times> nat" where
  "endpoint_snapshots pk d =
     (let rows = sort_key ep_pk (filter (\<lambda>e. ep_cluster e = pk) (endpoints d))
      in (map (\<lambda>e. JObj [(''name'', JStr (ep_name e)), (''url'', JStr (ep_normalized_url e)), (''enabled'', JBool (ep_enabled e))])
            (take RETIREMENT_AUDIT_DETAIL_LIMIT rows),
          length rows))"

definition credential_token_id :: "nat \<Rightarrow> db \<Rightarrow> string" where
  "credential_token_id pk d =
     (case sort_key cr_pk (filter (\<lambda>r. cr_cluster r = pk) (credentials d)) of [] \<Rightarrow> [] | r # _ \<Rightarrow> cr_token_id r)"

definition trust_mode :: "nat \<Rightarrow> db \<Rightarrow> string" where
  "trust_mode pk d =
     (case sort_key tr_pk (filter (\<lambda>r. tr_cluster r = pk) (trusts d)) of [] \<Rightarrow> [] | r # _ \<Rightarrow> tr_mode r)"

record retirement_results =
  rr_scheduled_actions :: schedule_retirement_result
  rr_consoles :: console_retirement_result
  rr_audit_operations :: audit_retirement_result
  rr_storage :: storage_retirement_result
  rr_guest_inventory :: guest_retirement_result
  rr_host_projection :: projection_retirement_result
  rr_enrollments :: enrollment_retirement_result

definition jnat :: "nat \<Rightarrow> json" where
  "jnat n = JInt (int n)"

definition participant_details :: "retirement_results \<Rightarrow> json" where
  "participant_details r = JObj
     [(''scheduled_runs'', JList (map (\<lambda>p. JObj [(''id'', jnat (rp_pk p)), (''scheduled_action_id'', jnat (rp_scheduled_action_id p)),
          (''state'', JStr (rp_status p))]) (srr_participants (rr_scheduled_actions r)))),
      (''scheduled_runs_omitted'', JInt (srr_participants_omitted (rr_scheduled_actions r))),
      (''consoles'', JList (map (\<lambda>p. JObj [(''id'', jnat (cp_pk p)), (''state'', JStr (cp_status p)),
          (''target_type'', JStr (cp_target_type p)), (''target_vmid'', jnat (cp_target_vmid p)),
          (''target_node'', JStr (cp_target_node p))]) (crr_participants (rr_consoles r)))),
      (''consoles_omitted'', JInt (crr_participants_omitted (rr_consoles r))),
      (''audit_operations'', JList (map (\<lambda>p. JObj [(''id'', jnat (ap_pk p)), (''action'', JStr (ap_action p)),
          (''state'', JStr (ap_outcome p)), (''object_type'', JStr (ap_object_type p)), (''object_id'', JStr (ap_object_id p))])
          (arr_participants (rr_audit_operations r)))),
      (''audit_operations_omitted'', JInt (arr_participants_omitted (rr_audit_operations r)))]"

definition cleanup_details :: "retirement_results \<Rightarrow> json" where
  "cleanup_details r = JObj
     [(''schedules_deleted'', jnat (srr_schedules_deleted (rr_scheduled_actions r))),
      (''scheduled_runs_cancelled'', jnat (srr_not_started_runs_cancelled (rr_scheduled_actions r))),
      (''scheduled_runs_abandoned'', jnat (srr_active_runs_abandoned (rr_scheduled_actions r))),
      (''consoles_closed_before_start'', jnat (crr_pending_closed (rr_consoles r))),
      (''consoles_abandoned'', jnat (crr_active_closed (rr_consoles r))),
      (''console_sessions_sanitized'', jnat (crr_sessions_sanitized (rr_consoles r))),
      (''audit_operations_cancelled'', jnat (arr_queued_cancelled (rr_audit_operations r))),
      (''audit_operations_abandoned'', jnat (arr_running_abandoned (rr_audit_operations r))),
      (''storage_definitions_unmanaged'', jnat (str_definitions_unmanaged (rr_storage r))),
      (''storage_node_states_deleted'', jnat (str_node_states_deleted (rr_storage r))),
      (''storage_coverages_deleted'', jnat (str_coverages_deleted (rr_storage r))),
      (''storage_observations_deleted'', jnat (str_observations_deleted (rr_storage r))),
      (''storage_bindings_deleted'', jnat (str_bindings_deleted (rr_storage r))),
      (''topology_handoff_storage_intents_deleted'', jnat (str_handoff_intents_deleted (rr_storage r))),
      (''storage_consumers_deleted'', jnat (str_consumers_deleted (rr_storage r))),
      (''storage_catalog_states_deleted'', jnat (str_catalog_states_deleted (rr_storage r))),
      (''current_guests_deleted'', jnat (grr_guest_rows_deleted (rr_guest_inventory r))),
      (''current_guest_states_deleted'', jnat (grr_state_rows_deleted (rr_guest_inventory r))),
      (''cluster_membership_states_deleted'', jnat (pr_membership_rows_deleted (rr_host_projection r))),
      (''cluster_node_states_deleted'', jnat (pr_node_rows_deleted (rr_host_projection r))),
      (''cluster_projection_coverages_deleted'', jnat (pr_coverage_rows_deleted (rr_host_projection r))),
      (''cluster_node_interfaces_deleted'', jnat (pr_interface_rows_deleted (rr_host_projection r))),
      (''cluster_node_enrollments_deleted'', jnat (err_enrollment_rows_deleted (rr_enrollments r)))]"

text \<open>The facts the record carries before and after the cleanup.\<close>

record retirement_facts =
  rf_endpoints :: "json list"
  rf_endpoint_count :: nat
  rf_credential_token_id :: string
  rf_trust_mode :: string

definition retirement_facts_of :: "nat \<Rightarrow> db \<Rightarrow> retirement_facts" where
  "retirement_facts_of pk d =
     \<lparr>rf_endpoints = fst (endpoint_snapshots pk d), rf_endpoint_count = snd (endpoint_snapshots pk d),
      rf_credential_token_id = credential_token_id pk d, rf_trust_mode = trust_mode pk d\<rparr>"

definition retirement_audit_details ::
    "cluster \<Rightarrow> confirmed_preflight \<Rightarrow> string \<Rightarrow> time \<Rightarrow> retirement_facts \<Rightarrow> retirement_results \<Rightarrow> json_object" where
  "retirement_audit_details c cf why retired_at f r =
     [(''display_name'', JStr (cl_display_name c)), (''cluster_key'', JStr (cl_key c)),
      (''retirement_mode'', JStr (mode_value (cf_mode cf))), (''retirement_reason'', JStr why),
      (''retired_at'', JTime retired_at), (''identity_verification'', JStr (cf_identity_verification cf)),
      (''replacement_ca_uuid'', JStr (cf_replacement_ca_uuid cf)), (''identity_observed_at'', JTime (cf_issued_at cf * 1000000)),
      (''verified_endpoint_id'', case cf_endpoint_id cf of None \<Rightarrow> JNull | Some i \<Rightarrow> jnat i),
      (''pinned_ca_uuid'', JStr (cl_discovered_ca_uuid c)), (''pinned_ca_fingerprint'', JStr (cl_discovered_ca_fingerprint c)),
      (''endpoint_count'', jnat (rf_endpoint_count f)), (''endpoints'', JList (rf_endpoints f)),
      (''endpoints_omitted'', JInt (max 0 (int (rf_endpoint_count f) - int (length (rf_endpoints f))))),
      (''credential_token_id'', JStr (rf_credential_token_id f)), (''trust_mode'', JStr (rf_trust_mode f)),
      (''cleanup'', cleanup_details r),
      (''node_enrollments'', JList (map (\<lambda>(ref, mode). JObj [(''node_ref_snapshot'', JStr ref), (''mode'', JStr mode)])
          (err_enrollments (rr_enrollments r)))),
      (''node_enrollments_omitted'', jnat (err_enrollments_omitted (rr_enrollments r))),
      (''storage_mount_refs'', JList (map JStr (str_mount_refs (rr_storage r)))),
      (''storage_mount_refs_omitted'', jnat (str_mount_refs_omitted (rr_storage r))),
      (''storage_consumer_refs'', JList (map JStr (str_consumer_refs (rr_storage r)))),
      (''storage_consumer_refs_omitted'', jnat (str_consumer_refs_omitted (rr_storage r))),
      (''participants'', participant_details r)]"

definition retirement_action :: "retirement_mode \<Rightarrow> string" where
  "retirement_action mode = (if mode = VERIFIED then ''cluster.retired'' else ''cluster.force_retired'')"

definition retirement_call :: "actor option \<Rightarrow> cluster \<Rightarrow> confirmed_preflight \<Rightarrow> string \<Rightarrow> retirement_facts \<Rightarrow> audit_args" where
  "retirement_call who c cf why f =
     (audit_call (retirement_action (cf_mode cf)))
       \<lparr>aa_user := who, aa_object_type := ''cluster'', aa_object_id := cl_key c, aa_outcome := ''success'',
        aa_cluster := Some c, aa_cluster_key_snapshot := cl_key c,
        aa_details := [(''display_name'', JStr (cl_display_name c)), (''cluster_key'', JStr (cl_key c)),
          (''retirement_mode'', JStr (mode_value (cf_mode cf))), (''retirement_reason'', JStr why),
          (''identity_verification'', JStr (cf_identity_verification cf)),
          (''replacement_ca_uuid'', JStr (cf_replacement_ca_uuid cf)), (''endpoint_count'', jnat (rf_endpoint_count f)),
          (''endpoints'', JList (rf_endpoints f)), (''credential_token_id'', JStr (rf_credential_token_id f)),
          (''trust_mode'', JStr (rf_trust_mode f))]\<rparr>"

section \<open>The transaction\<close>

definition raise_for_local_blockers :: "retirement_env \<Rightarrow> cluster \<Rightarrow> retirement_mode \<Rightarrow> db \<Rightarrow> (retirement_error, unit) result" where
  "raise_for_local_blockers env c mode d =
     bind_result (local_impact_of env c mode d) (\<lambda>impact.
       if li_active_scan_count impact \<noteq> 0 then Inl ActiveScan
       else (case li_blockers impact of
           [] \<Rightarrow> Inr ()
         | b # _ \<Rightarrow> Inl (RetirementBlocked
             ''The retirement impact changed or still contains work that this mode cannot resolve.'' b)))"

text \<open>Everything the transaction decides before it writes.\<close>

definition retirement_checks ::
    "retirement_env \<Rightarrow> nat \<Rightarrow> retirement_request \<Rightarrow> time \<Rightarrow> db \<Rightarrow> (retirement_error, cluster \<times> confirmed_preflight \<times> string) result" where
  "retirement_checks env pk rq now d =
     (case get_cluster pk d of
        None \<Rightarrow> Inl (PreflightNotAllowed ''The cluster connection no longer exists.'')
      | Some locked \<Rightarrow>
          bind_result (load_confirmation env (rq_confirmation rq) now) (\<lambda>t.
          bind_result (validate_retirement_preflight env (rq_confirmation rq) pk (tk_mode t) now d) (\<lambda>cf.
          bind_result (forced_confirmation locked (cf_mode cf) rq) (\<lambda>why.
            if cf_replacement_ca_uuid cf \<noteq> rq_replacement_ca_uuid rq
            then Inl (PreflightChanged ''The verified replacement identity changed. Run hand-off review again.'')
            else if filter active_scan (scan_runs d) \<noteq> [] then Inl ActiveScan
            else bind_result (raise_for_local_blockers env locked (cf_mode cf) d) (\<lambda>_. Inr (locked, cf, why))))))"

definition disable_forced :: "cluster \<Rightarrow> retirement_mode \<Rightarrow> db \<Rightarrow> db" where
  "disable_forced c mode d =
     (if mode = FORCED \<and> cl_enabled c then update_cluster (cl_pk c) (\<lambda>c. c\<lparr>cl_enabled := False\<rparr>) d else d)"

definition run_finalizers ::
    "retirement_env \<Rightarrow> cluster \<Rightarrow> confirmed_preflight \<Rightarrow> time \<Rightarrow> db \<Rightarrow> (retirement_error, retirement_results \<times> db) result" where
  "run_finalizers env c cf now d0 =
     bind_result (map_error ScheduledActionBlocked
       (finalize_cluster_retirement_scheduled_actions (cl_pk c) (cf_mode cf) now d0)) (\<lambda>(scheduled, d1).
     bind_result (map_error ConsoleBlocked
       (finalize_cluster_retirement_consoles (cl_pk c) (cf_mode cf) now d1)) (\<lambda>(sessions, d2).
     bind_result (map_error AuditBlocked
       (finalize_cluster_retirement_audit_operations (cl_pk c) (cf_mode cf) now d2)) (\<lambda>(audit, d3).
     bind_result (map_error StorageBlocked
       (finalize_cluster_retirement_storage (rt_digest env) c (cf_mode cf) (cf_storage_impact_digest cf) now d3)) (\<lambda>(storage, d4).
       let (guest_inventory, d5) = retire_cluster_guest_inventory (cl_pk c) d4;
           (host_projection, d6) = retire_cluster_projection (cl_pk c) d5;
           (enrollments, d7) = retire_cluster_enrollments (cl_pk c) d6
       in Inr (\<lparr>rr_scheduled_actions = scheduled, rr_consoles = sessions, rr_audit_operations = audit, rr_storage = storage,
                rr_guest_inventory = guest_inventory, rr_host_projection = host_projection, rr_enrollments = enrollments\<rparr>, d7)))))"

definition tombstone :: "cluster \<Rightarrow> confirmed_preflight \<Rightarrow> string \<Rightarrow> nat option \<Rightarrow> time \<Rightarrow> cluster \<Rightarrow> cluster" where
  "tombstone locked cf why who now c =
     c\<lparr>cl_enabled := False, cl_retired_at := Some now, cl_retired_by := who, cl_retirement_mode := mode_value (cf_mode cf),
       cl_retirement_reason := why, cl_retired_ca_uuid := cl_discovered_ca_uuid locked,
       cl_retired_ca_fingerprint := cl_discovered_ca_fingerprint locked, cl_discovered_ca_uuid := [],
       cl_discovered_ca_fingerprint := [], cl_lifecycle_generation := cl_lifecycle_generation c + 1\<rparr>"

definition close_connection ::
    "cluster \<Rightarrow> confirmed_preflight \<Rightarrow> string \<Rightarrow> nat option \<Rightarrow> time \<Rightarrow> nat \<Rightarrow> json_object \<Rightarrow> db \<Rightarrow> db" where
  "close_connection locked cf why who now event_pk details d =
     update_cluster (cl_pk locked) (tombstone locked cf why who now)
       (d\<lparr>audit_events := update_where (\<lambda>e. ae_pk e = event_pk) (\<lambda>e. e\<lparr>ae_details := JObj details\<rparr>) (audit_events d),
          endpoints := delete_where (\<lambda>e. ep_cluster e = cl_pk locked) (endpoints d),
          credentials := delete_where (\<lambda>r. cr_cluster r = cl_pk locked) (credentials d),
          trusts := delete_where (\<lambda>r. tr_cluster r = cl_pk locked) (trusts d)\<rparr>)"

definition config_or_current_exists :: "nat \<Rightarrow> db \<Rightarrow> bool" where
  "config_or_current_exists pk d =
     (exists_where (\<lambda>r. cr_cluster r = pk) (credentials d) \<or> exists_where (\<lambda>r. tr_cluster r = pk) (trusts d)
      \<or> exists_where (\<lambda>r. ep_cluster r = pk) (endpoints d) \<or> exists_where (\<lambda>r. g_cluster r = pk) (guests d)
      \<or> exists_where (\<lambda>r. gs_cluster r = pk) (guest_states d) \<or> exists_where (\<lambda>r. ms_cluster r = pk) (membership_states d)
      \<or> exists_where (\<lambda>r. ns_cluster r = pk) (node_states d) \<or> exists_where (\<lambda>r. ni_cluster r = pk) (node_interfaces d)
      \<or> exists_where (\<lambda>r. cov_cluster r = pk) (coverages d) \<or> exists_where (\<lambda>r. en_cluster r = pk) (enrollments d)
      \<or> exists_where (\<lambda>r. cs_cluster r = pk) (catalog_states d)
      \<or> exists_where (\<lambda>r. own_storage pk d (sns_storage r)) (storage_node_states d)
      \<or> exists_where (\<lambda>r. own_storage pk d (vc_storage r)) (volume_coverages d)
      \<or> exists_where (\<lambda>r. own_storage pk d (vo_storage r)) (volume_observations d)
      \<or> exists_where (\<lambda>r. own_storage pk d (sb_storage r)) (storage_bindings d)
      \<or> exists_where (\<lambda>r. hi_cluster r = pk) (handoff_intents d) \<or> exists_where (\<lambda>r. sc_cluster r = pk) (storage_consumers d)
      \<or> exists_where (schedule_active pk) (scheduled_actions d))"

definition assert_retirement_postconditions ::
    "retirement_env \<Rightarrow> nat \<Rightarrow> retirement_mode \<Rightarrow> db \<Rightarrow> (retirement_error, unit) result" where
  "assert_retirement_postconditions env pk mode d =
     (case get_cluster pk d of
        None \<Rightarrow> Inl (UnexpectedFailure ''DoesNotExist'')
      | Some c \<Rightarrow>
          bind_result (local_impact_of env c mode d) (\<lambda>impact.
            if cl_enabled c \<or> cl_retired_at c = None \<or> cl_retirement_mode c \<noteq> mode_value mode
               \<or> cl_discovered_ca_uuid c \<noteq> [] \<or> cl_discovered_ca_fingerprint c \<noteq> [] \<or> config_or_current_exists pk d
               \<or> exists_where (\<lambda>s. st_cluster s = pk \<and> st_unmanaged_at s = None) (storages d)
               \<or> li_active_scan_count impact \<noteq> 0 \<or> li_blockers impact \<noteq> []
            then Inl PostconditionFailed else Inr ()))"

record retirement_result =
  rs_cluster_pk :: nat
  rs_cluster_key :: string
  rs_mode :: retirement_mode
  rs_retired_at :: time
  rs_audit_event_id :: nat
  rs_results :: retirement_results
  rs_endpoints_deleted :: nat
  rs_credential_deleted :: bool
  rs_trust_deleted :: bool

definition retire_cluster_atomic ::
    "retirement_env \<Rightarrow> nat \<Rightarrow> retirement_request \<Rightarrow> time \<Rightarrow> db \<Rightarrow> (retirement_error, retirement_result \<times> db) result" where
  "retire_cluster_atomic env pk rq now d =
     bind_result (retirement_checks env pk rq now d) (\<lambda>(locked, cf, why).
     bind_result (map_error RecordFailed
       (record_audit_event now (retirement_call (rq_actor rq) locked cf why (retirement_facts_of pk d)) d)) (\<lambda>(event, d1).
     bind_result (run_finalizers env (locked\<lparr>cl_enabled := cl_enabled locked \<and> cf_mode cf = VERIFIED\<rparr>) cf now
        (disable_forced locked (cf_mode cf) d1)) (\<lambda>(results, d2).
       let d3 = close_connection locked cf why (map_option ac_pk (rq_actor rq)) now (ae_pk event)
                  (retirement_audit_details locked cf why now (retirement_facts_of pk d) results) d2
       in bind_result (assert_retirement_postconditions env pk (cf_mode cf) d3) (\<lambda>_.
          Inr (\<lparr>rs_cluster_pk = pk, rs_cluster_key = cl_key locked, rs_mode = cf_mode cf, rs_retired_at = now,
                rs_audit_event_id = ae_pk event, rs_results = results,
                rs_endpoints_deleted = count_where (\<lambda>e. ep_cluster e = pk) (endpoints d2),
                rs_credential_deleted = exists_where (\<lambda>r. cr_cluster r = pk) (credentials d2),
                rs_trust_deleted = exists_where (\<lambda>r. tr_cluster r = pk) (trusts d2)\<rparr>, d3)))))"

section \<open>The refusal\<close>

fun owner_blocked :: "retirement_error \<Rightarrow> bool" where
  "owner_blocked (ScheduledActionBlocked _) = True"
| "owner_blocked (ConsoleBlocked _) = True"
| "owner_blocked (AuditBlocked _) = True"
| "owner_blocked (StorageBlocked (ImpactChanged _ _)) = True"
| "owner_blocked (StorageBlocked (ConsumersBlock _)) = True"
| "owner_blocked _ = False"

fun refusal_code :: "retirement_error \<Rightarrow> string" where
  "refusal_code (PreflightInvalid _) = ''cluster_retirement_preflight_invalid''"
| "refusal_code (PreflightChanged _) = ''cluster_retirement_preflight_changed''"
| "refusal_code (PreflightNotAllowed _) = ''cluster_retirement_preflight_not_allowed''"
| "refusal_code (PreflightEndpoint _) = ''cluster_retirement_preflight_endpoint''"
| "refusal_code (PreflightUnavailable _) = ''cluster_retirement_preflight_unreachable''"
| "refusal_code (PreflightIdentityMismatch _ _) = ''cluster_retirement_preflight_identity_mismatch''"
| "refusal_code (ConfirmationRequired _) = ''cluster_retirement_confirmation_required''"
| "refusal_code (RetirementBlocked _ code) = code"
| "refusal_code ActiveScan = ''active_scan''"
| "refusal_code PostconditionFailed = ''cluster_retirement_postcondition_failed''"
| "refusal_code e = (if owner_blocked e then ''participant_changed'' else ''cluster_retirement_failed'')"

fun own_refusal :: "retirement_error \<Rightarrow> bool" where
  "own_refusal (ScheduledActionBlocked _) = False"
| "own_refusal (ConsoleBlocked _) = False"
| "own_refusal (AuditBlocked _) = False"
| "own_refusal (StorageBlocked _) = False"
| "own_refusal (RecordFailed _) = False"
| "own_refusal (UnexpectedFailure _) = False"
| "own_refusal _ = True"

definition raised_error :: "retirement_error \<Rightarrow> retirement_error" where
  "raised_error e =
     (if own_refusal e then e
      else if owner_blocked e
      then RetirementBlocked ''The retirement impact changed or contains work that cannot be resolved.'' ''participant_changed''
      else RetirementFailed)"

definition refusal_call :: "actor option \<Rightarrow> cluster \<Rightarrow> string \<Rightarrow> retirement_error \<Rightarrow> audit_args" where
  "refusal_call who c mode e =
     (audit_call ''cluster.retirement_refused'')
       \<lparr>aa_user := who, aa_object_type := ''cluster'', aa_object_id := cl_key c, aa_outcome := ''refused'',
        aa_cluster := Some c, aa_cluster_key_snapshot := cl_key c,
        aa_details := [(''cluster_key'', JStr (cl_key c)), (''retirement_mode'', JStr mode), (''reason_code'', JStr (refusal_code e))]\<rparr>"

definition record_retirement_refusal :: "nat \<Rightarrow> actor option \<Rightarrow> string \<Rightarrow> retirement_error \<Rightarrow> time \<Rightarrow> db \<Rightarrow> db" where
  "record_retirement_refusal pk who mode e now d =
     (case get_cluster pk d of
        None \<Rightarrow> d
      | Some c \<Rightarrow> (case record_audit_event now (refusal_call who c mode e) d of Inl _ \<Rightarrow> d | Inr (event, d1) \<Rightarrow> d1))"

definition retire_cluster ::
    "retirement_env \<Rightarrow> nat \<Rightarrow> retirement_request \<Rightarrow> time \<Rightarrow> db \<Rightarrow> (retirement_error, retirement_result) result \<times> db" where
  "retire_cluster env pk rq now d =
     (case load_confirmation env (rq_confirmation rq) now of
        Inl e \<Rightarrow> (Inl (raised_error e), record_retirement_refusal pk (rq_actor rq) [] e now d)
      | Inr t \<Rightarrow>
          (case retire_cluster_atomic env pk rq now d of
             Inl e \<Rightarrow> (Inl (raised_error e), record_retirement_refusal pk (rq_actor rq) (tk_mode t) e now d)
           | Inr (result, d') \<Rightarrow> (Inr result, d')))"

section \<open>Facts: the finalizers\<close>

lemma schedule_gate_cong:
  "scheduled_runs d' = scheduled_runs d \<Longrightarrow> scheduled_actions d' = scheduled_actions d \<Longrightarrow>
   schedule_gate pk m d' = schedule_gate pk m d"
  by (simp add: schedule_gate_iff run_open_def own_run_def)

lemma console_gate_cong: "consoles d' = consoles d \<Longrightarrow> console_gate pk m d' = console_gate pk m d"
  by (simp add: console_gate_iff)

lemma audit_gate_cong: "audit_events d' = audit_events d \<Longrightarrow> audit_gate pk m d' = audit_gate pk m d"
  by (simp add: audit_gate_iff)

text \<open>What the owners leave, and what the whole run of them leaves.\<close>

definition owners_retired :: "nat \<Rightarrow> retirement_mode \<Rightarrow> time \<Rightarrow> db \<Rightarrow> db" where
  "owners_retired pk mode now d =
     d\<lparr>scheduled_actions := update_where (schedule_active pk) (retired_schedule now) (scheduled_actions d),
       scheduled_runs := update_where (own_run pk d) (retired_run mode now) (scheduled_runs d),
       consoles := update_where (\<lambda>c. con_cluster c = Some pk) (retired_session mode now) (consoles d),
       audit_events := update_where (audit_candidate pk)
         (\<lambda>e. case cancel_event mode now e of None \<Rightarrow> e | Some e' \<Rightarrow> e') (audit_events d)\<rparr>"

definition finalized :: "nat \<Rightarrow> retirement_mode \<Rightarrow> time \<Rightarrow> db \<Rightarrow> db" where
  "finalized pk mode now d =
     (storage_cleanup pk mode now (owners_retired pk mode now d))
       \<lparr>guests := delete_where (\<lambda>g. g_cluster g = pk) (guests d),
        guest_states := delete_where (\<lambda>s. gs_cluster s = pk) (guest_states d),
        coverages := delete_where (\<lambda>r. cov_cluster r = pk) (coverages d),
        node_interfaces := delete_where (\<lambda>r. ni_cluster r = pk) (node_interfaces d),
        node_states := delete_where (\<lambda>r. ns_cluster r = pk) (node_states d),
        membership_states := delete_where (\<lambda>r. ms_cluster r = pk) (membership_states d),
        enrollments := delete_where (\<lambda>e. en_cluster e = pk) (enrollments d)\<rparr>"

lemma run_finalizers_effect:
  assumes gates: "gates_clear c (cf_mode cf) d" and wf: "audit_wf d"
    and p: "storage_snapshot (rt_digest env) c (cf_mode cf) d = Inr p" and digest: "stp_impact_digest p = cf_storage_impact_digest cf"
  shows "\<exists>res. run_finalizers env c cf now d = Inr (res, finalized (cl_pk c) (cf_mode cf) now d)"
proof -
  let ?pk = "cl_pk c" and ?m = "cf_mode cf"
  let ?d1 = "d\<lparr>scheduled_actions := update_where (schedule_active ?pk) (retired_schedule now) (scheduled_actions d),
                scheduled_runs := update_where (own_run ?pk d) (retired_run ?m now) (scheduled_runs d)\<rparr>"
  let ?d2 = "?d1\<lparr>consoles := update_where (\<lambda>c. con_cluster c = Some ?pk) (retired_session ?m now) (consoles ?d1)\<rparr>"
  let ?d3 = "owners_retired ?pk ?m now d"
  from gates have g: "schedule_gate ?pk ?m d" "console_gate ?pk ?m ?d1" "audit_gate ?pk ?m ?d2"
    by (simp_all add: gates_clear_def console_gate_iff audit_gate_iff)
  have wf2: "audit_wf ?d2" using wf by (simp add: audit_wf_def)
  from finalize_schedules_effect [OF g(1), of now] obtain s where
    s: "finalize_cluster_retirement_scheduled_actions ?pk ?m now d = Inr (s, ?d1)" by blast
  from finalize_consoles_effect [OF g(2), of now] obtain k where
    k: "finalize_cluster_retirement_consoles ?pk ?m now ?d1 = Inr (k, ?d2)" by blast
  from finalize_audit_effect [OF wf2 g(3), of now] obtain a where
    a: "finalize_cluster_retirement_audit_operations ?pk ?m now ?d2 = Inr (a, ?d3)" by (auto simp: owners_retired_def)
  have snap: "storage_snapshot (rt_digest env) c ?m ?d3 = Inr p"
    using p storage_snapshot_cong [of ?d3 d c c "rt_digest env" ?m] by (simp add: storage_part_def owners_retired_def)
  have "consumer_gate_clear p"
    using gates storage_snapshot_consumers [OF p] by (auto simp: gates_clear_def consumer_gate_clear_def)
  then obtain st d4 where st: "finalize_cluster_retirement_storage (rt_digest env) c ?m (cf_storage_impact_digest cf) now ?d3 = Inr (st, d4)"
    using finalize_storage_iff [OF snap, of "cf_storage_impact_digest cf" now] digest by fastforce
  have d4: "d4 = storage_cleanup ?pk ?m now ?d3" by (rule finalize_storage_result(1) [OF st])
  have last: "snd (retire_cluster_enrollments ?pk (snd (retire_cluster_projection ?pk (snd (retire_cluster_guest_inventory ?pk d4)))))
      = finalized ?pk ?m now d"
    by (simp add: d4 retire_cluster_guest_inventory_def retire_cluster_projection_def retire_cluster_enrollments_def Let_def
        finalized_def) (simp add: storage_cleanup_def owners_retired_def)
  show ?thesis
    unfolding run_finalizers_def s k a st map_error.simps bind_result.simps case_prod_beta fst_conv snd_conv Let_def last by blast
qed

text \<open>After them no owner has open rows and nothing current of the cluster is left.\<close>

definition current_rows_left :: "nat \<Rightarrow> db \<Rightarrow> bool" where
  "current_rows_left pk d =
     (exists_where (\<lambda>r. g_cluster r = pk) (guests d) \<or> exists_where (\<lambda>r. gs_cluster r = pk) (guest_states d)
      \<or> exists_where (\<lambda>r. ms_cluster r = pk) (membership_states d) \<or> exists_where (\<lambda>r. ns_cluster r = pk) (node_states d)
      \<or> exists_where (\<lambda>r. ni_cluster r = pk) (node_interfaces d) \<or> exists_where (\<lambda>r. cov_cluster r = pk) (coverages d)
      \<or> exists_where (\<lambda>r. en_cluster r = pk) (enrollments d) \<or> storage_rows_left pk d)"

definition connection_rows_left :: "nat \<Rightarrow> db \<Rightarrow> bool" where
  "connection_rows_left pk d =
     (exists_where (\<lambda>r. cr_cluster r = pk) (credentials d) \<or> exists_where (\<lambda>r. tr_cluster r = pk) (trusts d)
      \<or> exists_where (\<lambda>r. ep_cluster r = pk) (endpoints d))"

definition work_left :: "nat \<Rightarrow> db \<Rightarrow> bool" where
  "work_left pk d = (schedule_open_rows pk d \<noteq> [] \<or> console_open_rows pk d \<noteq> [] \<or> audit_open_rows pk d \<noteq> [])"

lemma storage_rows_left_cong:
  "storage_part d' = storage_part d \<Longrightarrow> storage_rows_left pk d' = storage_rows_left pk d"
  by (simp add: storage_part_def storage_rows_left_def own_storage_def)

lemma finalized_tables [simp]:
  "clusters (finalized pk m now d) = clusters d" "credentials (finalized pk m now d) = credentials d"
  "trusts (finalized pk m now d) = trusts d" "endpoints (finalized pk m now d) = endpoints d"
  "scan_runs (finalized pk m now d) = scan_runs d" "storage_mounts (finalized pk m now d) = storage_mounts d"
  "scheduled_actions (finalized pk m now d) = scheduled_actions (owners_retired pk m now d)"
  "scheduled_runs (finalized pk m now d) = scheduled_runs (owners_retired pk m now d)"
  "consoles (finalized pk m now d) = consoles (owners_retired pk m now d)"
  "audit_events (finalized pk m now d) = audit_events (owners_retired pk m now d)"
  "storage_part (finalized pk m now d) = storage_part (storage_cleanup pk m now (owners_retired pk m now d))"
  by (simp_all add: finalized_def owners_retired_def storage_cleanup_def storage_part_def)

lemma finalized_current:
  assumes "gates_clear c m d"
  shows "\<not> current_rows_left (cl_pk c) (finalized (cl_pk c) m now d)"
proof -
  have "m = FORCED \<or> \<not> exists_where (\<lambda>k. sc_cluster k = cl_pk c) (storage_consumers (owners_retired (cl_pk c) m now d))"
    using assms by (auto simp: gates_clear_def owners_retired_def)
  from storage_cleanup_empty [OF this]
  have "\<not> storage_rows_left (cl_pk c) (finalized (cl_pk c) m now d)"
    using storage_rows_left_cong [of "finalized (cl_pk c) m now d" "storage_cleanup (cl_pk c) m now (owners_retired (cl_pk c) m now d)"]
    by simp
  then show ?thesis by (simp add: current_rows_left_def finalized_def)
qed

lemma open_rows_cong:
  "scheduled_runs d' = scheduled_runs d \<Longrightarrow> scheduled_actions d' = scheduled_actions d \<Longrightarrow>
     schedule_open_rows pk d' = schedule_open_rows pk d"
  "consoles d' = consoles d \<Longrightarrow> console_open_rows pk d' = console_open_rows pk d"
  "audit_events d' = audit_events d \<Longrightarrow> audit_open_rows pk d' = audit_open_rows pk d"
  by (simp_all add: schedule_open_rows_def run_open_def [abs_def] own_run_def console_open_rows_def audit_open_rows_def)

lemma owners_retired_open:
  assumes "gates_clear c m d" and "audit_wf d"
  shows "\<not> work_left (cl_pk c) (owners_retired (cl_pk c) m now d)"
proof -
  let ?pk = "cl_pk c"
  from assms have g: "schedule_gate ?pk m d" "console_gate ?pk m d" "audit_gate ?pk m d" by (simp_all add: gates_clear_def)
  from finalize_schedules_effect [OF g(1), of now] obtain s where
    s: "finalize_cluster_retirement_scheduled_actions ?pk m now d = Inr (s, d\<lparr>scheduled_actions := update_where (schedule_active ?pk)
       (retired_schedule now) (scheduled_actions d), scheduled_runs := update_where (own_run ?pk d) (retired_run m now) (scheduled_runs d)\<rparr>)"
    by blast
  from finalize_consoles_effect [OF g(2), of now] obtain k where
    k: "finalize_cluster_retirement_consoles ?pk m now d = Inr (k, d\<lparr>consoles := update_where (\<lambda>c. con_cluster c = Some ?pk)
       (retired_session m now) (consoles d)\<rparr>)" by blast
  from finalize_audit_effect [OF assms(2) g(3), of now] obtain a where
    a: "finalize_cluster_retirement_audit_operations ?pk m now d = Inr (a, d\<lparr>audit_events := update_where (audit_candidate ?pk)
       (\<lambda>e. case cancel_event m now e of None \<Rightarrow> e | Some e' \<Rightarrow> e') (audit_events d)\<rparr>)" by blast
  have "schedule_open_rows ?pk (owners_retired ?pk m now d) = []"
    by (rule trans [OF open_rows_cong(1) scheduled_actions_owner.finalize_terminal [OF TrueI s]]) (simp_all add: owners_retired_def)
  moreover have "console_open_rows ?pk (owners_retired ?pk m now d) = []"
    using console_sessions.finalize_terminal [OF _ k] by (simp add: owners_retired_def console_open_rows_def)
  moreover have "audit_open_rows ?pk (owners_retired ?pk m now d) = []"
    using audit_operations.finalize_terminal [OF assms(2) a] by (simp add: owners_retired_def audit_open_rows_def)
  ultimately show ?thesis by (simp add: work_left_def)
qed

section \<open>Facts: the transaction\<close>

lemma raise_for_local_blockers_Inr:
  "raise_for_local_blockers env c m d = Inr u \<longleftrightarrow> (\<exists>impact. local_impact_of env c m d = Inr impact) \<and> gates_clear c m d"
proof (cases "local_impact_of env c m d")
  case (Inl e)
  then show ?thesis by (simp add: raise_for_local_blockers_def)
next
  case (Inr impact)
  note facts = impact_blockers_iff [OF Inr]
  have "li_active_scan_count impact = 0" if "gates_clear c m d"
    using that by (simp add: facts(2) count_where_0_iff gates_clear_def)
  with Inr facts(1) show ?thesis
    by (auto simp: raise_for_local_blockers_def split: list.splits)
qed

lemma retirement_checks_Inr:
  assumes "retirement_checks env pk rq now d = Inr (c, cf, why)"
  shows "get_cluster pk d = Some c" and "cl_retired_at c = None" and "gates_clear c (cf_mode cf) d"
    and "\<exists>p. storage_snapshot (rt_digest env) c (cf_mode cf) d = Inr p \<and> stp_impact_digest p = cf_storage_impact_digest cf"
    and "forced_confirmation c (cf_mode cf) rq = Inr why" and "cf_replacement_ca_uuid cf = rq_replacement_ca_uuid rq"
    and "\<exists>t. load_confirmation env (rq_confirmation rq) now = Inr t \<and> tk_mode t = mode_value (cf_mode cf)
           \<and> validate_retirement_preflight env (rq_confirmation rq) pk (tk_mode t) now d = Inr cf"
proof -
  from assms obtain t where get: "get_cluster pk d = Some c" and t: "load_confirmation env (rq_confirmation rq) now = Inr t"
    and v: "validate_retirement_preflight env (rq_confirmation rq) pk (tk_mode t) now d = Inr cf"
    and f: "forced_confirmation c (cf_mode cf) rq = Inr why" and r: "cf_replacement_ca_uuid cf = rq_replacement_ca_uuid rq"
    and b: "raise_for_local_blockers env c (cf_mode cf) d = Inr ()"
    by (auto simp: retirement_checks_def result_simps split: option.splits if_splits)
  show "get_cluster pk d = Some c" "forced_confirmation c (cf_mode cf) rq = Inr why"
    "cf_replacement_ca_uuid cf = rq_replacement_ca_uuid rq" by (fact get f r)+
  show "gates_clear c (cf_mode cf) d" using b by (simp add: raise_for_local_blockers_Inr)
  from validate_Inr [OF v] get show "cl_retired_at c = None"
    "\<exists>p. storage_snapshot (rt_digest env) c (cf_mode cf) d = Inr p \<and> stp_impact_digest p = cf_storage_impact_digest cf" by auto
  show "\<exists>t. load_confirmation env (rq_confirmation rq) now = Inr t \<and> tk_mode t = mode_value (cf_mode cf)
           \<and> validate_retirement_preflight env (rq_confirmation rq) pk (tk_mode t) now d = Inr cf"
    using t v validate_Inr [OF v] by blast
qed

lemma retirement_action_configuration: "retirement_action m \<in> set CLUSTER_CONFIGURATION_AUDIT_ACTIONS"
  by (cases m) (simp_all add: retirement_action_def CLUSTER_CONFIGURATION_AUDIT_ACTIONS_def)

lemma retirement_event:
  "\<exists>e. record_audit_event now (retirement_call who c cf why f) d = Inr (e, d\<lparr>audit_events := audit_events d @ [e]\<rparr>)
     \<and> ae_action e = retirement_action (cf_mode cf) \<and> ae_outcome e = ''success'' \<and> ae_cluster e = Some (cl_pk c)
     \<and> ae_pk e = next_pk ae_pk (audit_events d)"
  using record_keyed_configuration_event [of "retirement_call who c cf why f" c now d] retirement_action_configuration
  by (auto simp: retirement_call_def audit_call_def)

lemma audit_wf_append:
  "audit_wf d \<Longrightarrow> ae_pk e = next_pk ae_pk (audit_events d) \<Longrightarrow> audit_wf (d\<lparr>audit_events := audit_events d @ [e]\<rparr>)"
  using next_pk_fresh [of _ "audit_events d" ae_pk] by (force simp: audit_wf_def)

text \<open>The database a successful retirement leaves, and what is in it.\<close>

definition retired_db ::
    "cluster \<Rightarrow> confirmed_preflight \<Rightarrow> string \<Rightarrow> nat option \<Rightarrow> time \<Rightarrow> audit_event \<Rightarrow> json_object \<Rightarrow> db \<Rightarrow> db" where
  "retired_db c cf why who now e details d =
     close_connection c cf why who now (ae_pk e) details
       (finalized (cl_pk c) (cf_mode cf) now (disable_forced c (cf_mode cf) (d\<lparr>audit_events := audit_events d @ [e]\<rparr>)))"

lemma disable_forced_tables [simp]:
  "\<exists>cs. disable_forced c m d = d\<lparr>clusters := cs\<rparr>"
proof (cases "m = FORCED \<and> cl_enabled c")
  case True
  then show ?thesis by (auto simp: disable_forced_def update_cluster_def)
next
  case False
  have "disable_forced c m d = d\<lparr>clusters := clusters d\<rparr>" unfolding disable_forced_def if_not_P [OF False] by simp
  then show ?thesis by blast
qed

lemma gates_clear_recorded:
  assumes "gates_clear c m d" and "ae_action e \<in> set CLUSTER_CONFIGURATION_AUDIT_ACTIONS"
  shows "gates_clear c m (disable_forced c m (d\<lparr>audit_events := audit_events d @ [e]\<rparr>))"
proof -
  obtain cs where eq: "disable_forced c m (d\<lparr>audit_events := audit_events d @ [e]\<rparr>) = d\<lparr>audit_events := audit_events d @ [e], clusters := cs\<rparr>"
    using disable_forced_tables [of c m "d\<lparr>audit_events := audit_events d @ [e]\<rparr>"] by blast
  have "\<not> audit_candidate (cl_pk c) e" using assms(2) by (simp add: audit_candidate_def)
  then show ?thesis using assms(1) unfolding eq
    by (auto simp: gates_clear_def schedule_gate_iff console_gate_iff audit_gate_iff run_open_def own_run_def)
qed

lemma work_left_cong:
  assumes "scheduled_runs d' = scheduled_runs d" "scheduled_actions d' = scheduled_actions d" "consoles d' = consoles d"
    and "map ae_pk (filter (audit_candidate pk) (audit_events d')) = map ae_pk (filter (audit_candidate pk) (audit_events d))"
  shows "work_left pk d' = work_left pk d"
  unfolding work_left_def audit_open_rows_def open_rows_cong(1) [OF assms(1,2)] open_rows_cong(2) [OF assms(3)] assms(4) ..

lemma candidate_details: "audit_candidate pk (e\<lparr>ae_details := j\<rparr>) = audit_candidate pk e"
  by (simp add: audit_candidate_def)

lemma candidates_update_details:
  "map ae_pk (filter (audit_candidate pk) (update_where P (\<lambda>e. e\<lparr>ae_details := j\<rparr>) rows)) = map ae_pk (filter (audit_candidate pk) rows)"
  by (induction rows) (auto simp: candidate_details)

lemma retired_db_clean:
  assumes "gates_clear c (cf_mode cf) d" and "audit_wf d"
    and "ae_action e \<in> set CLUSTER_CONFIGURATION_AUDIT_ACTIONS" and "ae_pk e = next_pk ae_pk (audit_events d)"
  shows "\<not> current_rows_left (cl_pk c) (retired_db c cf why who now e details d)"
    and "\<not> connection_rows_left (cl_pk c) (retired_db c cf why who now e details d)"
    and "\<not> work_left (cl_pk c) (retired_db c cf why who now e details d)"
    and "\<not> exists_where active_scan (scan_runs (retired_db c cf why who now e details d))"
proof -
  let ?pk = "cl_pk c" and ?m = "cf_mode cf"
  let ?d1 = "disable_forced c ?m (d\<lparr>audit_events := audit_events d @ [e]\<rparr>)"
  obtain cs where eq: "?d1 = d\<lparr>audit_events := audit_events d @ [e], clusters := cs\<rparr>"
    using disable_forced_tables [of c ?m "d\<lparr>audit_events := audit_events d @ [e]\<rparr>"] by blast
  have gates: "gates_clear c ?m ?d1" by (rule gates_clear_recorded [OF assms(1,3)])
  have wf: "audit_wf ?d1" using audit_wf_append [OF assms(2,4)] by (simp add: eq audit_wf_def)
  let ?d2 = "finalized ?pk ?m now ?d1" and ?d3 = "retired_db c cf why who now e details d"
  have storage: "storage_part ?d3 = storage_part ?d2"
    by (simp add: retired_db_def close_connection_def update_cluster_def storage_part_def)
  show "\<not> current_rows_left ?pk ?d3"
    using finalized_current [OF gates, of now] storage_rows_left_cong [OF storage]
    by (simp add: current_rows_left_def retired_db_def close_connection_def update_cluster_def)
  show "\<not> connection_rows_left ?pk ?d3"
    by (simp add: connection_rows_left_def retired_db_def close_connection_def update_cluster_def)
  have "work_left ?pk ?d3 = work_left ?pk (owners_retired ?pk ?m now ?d1)"
    by (rule work_left_cong)
       (simp_all add: retired_db_def close_connection_def update_cluster_def candidates_update_details)
  then show "\<not> work_left ?pk ?d3" using owners_retired_open [OF gates wf, of now] by simp
  show "\<not> exists_where active_scan (scan_runs ?d3)"
    using gates by (simp add: gates_clear_def retired_db_def close_connection_def update_cluster_def)
qed

lemma retired_db_cluster:
  assumes "get_cluster pk d = Some c"
  shows "\<exists>b. get_cluster pk (retired_db c cf why who now e details d) = Some (tombstone c cf why who now (c\<lparr>cl_enabled := b\<rparr>))"
proof -
  have pk: "cl_pk c = pk" by (rule get_cluster_pk [OF assms])
  let ?d1 = "disable_forced c (cf_mode cf) (d\<lparr>audit_events := audit_events d @ [e]\<rparr>)"
  have "\<exists>b. get_cluster pk ?d1 = Some (c\<lparr>cl_enabled := b\<rparr>)"
  proof (cases "cf_mode cf = FORCED \<and> cl_enabled c")
    case True
    then have "?d1 = update_cluster pk (\<lambda>c. c\<lparr>cl_enabled := False\<rparr>) (d\<lparr>audit_events := audit_events d @ [e]\<rparr>)"
      by (simp add: disable_forced_def pk)
    then show ?thesis using assms by (simp add: get_cluster_update_same get_cluster_frame [of "d\<lparr>audit_events := audit_events d @ [e]\<rparr>" d]) blast
  next
    case False
    have "get_cluster pk ?d1 = Some (c\<lparr>cl_enabled := cl_enabled c\<rparr>)"
      unfolding disable_forced_def if_not_P [OF False]
      using assms by (simp add: get_cluster_frame [of "d\<lparr>audit_events := audit_events d @ [e]\<rparr>" d])
    then show ?thesis by blast
  qed
  then obtain b where b: "get_cluster pk ?d1 = Some (c\<lparr>cl_enabled := b\<rparr>)" by blast
  have "get_cluster pk (retired_db c cf why who now e details d)
      = map_option (tombstone c cf why who now) (get_cluster pk ?d1)"
    unfolding retired_db_def close_connection_def pk
    by (subst get_cluster_update_same) (simp_all add: tombstone_def get_cluster_def)
  then show ?thesis using b by auto
qed

lemma postconditions_hold:
  assumes "get_cluster pk d = Some c" and "\<not> cl_enabled c" "cl_retired_at c \<noteq> None" "cl_retirement_mode c = mode_value m"
    and "cl_discovered_ca_uuid c = []" "cl_discovered_ca_fingerprint c = []"
    and "\<not> current_rows_left pk d" "\<not> connection_rows_left pk d" "\<not> work_left pk d" "\<not> exists_where active_scan (scan_runs d)"
  shows "assert_retirement_postconditions env pk m d = Inr ()"
proof -
  have pk: "cl_pk c = pk" by (rule get_cluster_pk [OF assms(1)])
  have left: "\<not> storage_rows_left (cl_pk c) d" using assms(7) by (simp add: current_rows_left_def pk)
  obtain p where p: "storage_snapshot (rt_digest env) c m d = Inr p"
    using storage_snapshot_clean [OF left, of "rt_digest env" m] by blast
  then obtain impact where impact: "local_impact_of env c m d = Inr impact"
    by (simp add: local_impact_of_def Let_def)
  have "schedule_gate pk m d" "console_gate pk m d"
    using assms(9) scheduled_actions_owner.no_open_gate console_sessions.no_open_gate by (simp_all add: work_left_def)
  moreover have "audit_gate pk m d"
    using assms(9) by (auto simp: work_left_def audit_open_rows_def audit_gate_iff filter_empty_conv)
  ultimately have "gates_clear c m d" using assms(10) left by (simp add: gates_clear_def pk storage_rows_left_def)
  with impact_blockers_iff [OF impact] have "li_blockers impact = []" "li_active_scan_count impact = 0"
    using assms(10) by (simp_all add: count_where_0_iff)
  moreover have "\<not> exists_where (schedule_active pk) (scheduled_actions d)"
    using assms(9) by (simp add: work_left_def schedule_open_rows_def filter_empty_iff)
  ultimately show ?thesis
    using assms impact
    by (simp add: assert_retirement_postconditions_def config_or_current_exists_def current_rows_left_def connection_rows_left_def
        storage_rows_left_def)
qed

lemma retire_cluster_atomic_succeeds:
  assumes checks: "retirement_checks env pk rq now d = Inr (c, cf, why)" and wf: "audit_wf d"
  shows "\<exists>res e details. retire_cluster_atomic env pk rq now d =
      Inr (res, retired_db c cf why (map_option ac_pk (rq_actor rq)) now e details d)
    \<and> rs_mode res = cf_mode cf \<and> rs_audit_event_id res = ae_pk e \<and> rs_cluster_key res = cl_key c
    \<and> ae_action e = retirement_action (cf_mode cf) \<and> ae_outcome e = ''success'' \<and> ae_cluster e = Some pk
    \<and> ae_pk e = next_pk ae_pk (audit_events d)"
proof -
  note facts = retirement_checks_Inr [OF checks]
  have pk: "cl_pk c = pk" by (rule get_cluster_pk [OF facts(1)])
  let ?who = "map_option ac_pk (rq_actor rq)" and ?f = "retirement_facts_of pk d"
  obtain e where rec: "record_audit_event now (retirement_call (rq_actor rq) c cf why ?f) d = Inr (e, d\<lparr>audit_events := audit_events d @ [e]\<rparr>)"
    and e: "ae_action e = retirement_action (cf_mode cf)" "ae_outcome e = ''success''" "ae_cluster e = Some (cl_pk c)"
      "ae_pk e = next_pk ae_pk (audit_events d)"
    using retirement_event by blast
  let ?d1 = "disable_forced c (cf_mode cf) (d\<lparr>audit_events := audit_events d @ [e]\<rparr>)"
  let ?c' = "c\<lparr>cl_enabled := cl_enabled c \<and> cf_mode cf = VERIFIED\<rparr>"
  obtain cs where eq: "?d1 = d\<lparr>audit_events := audit_events d @ [e], clusters := cs\<rparr>"
    using disable_forced_tables [of c "cf_mode cf" "d\<lparr>audit_events := audit_events d @ [e]\<rparr>"] by blast
  have conf: "ae_action e \<in> set CLUSTER_CONFIGURATION_AUDIT_ACTIONS" by (simp add: e(1) retirement_action_configuration)
  have gates: "gates_clear ?c' (cf_mode cf) ?d1"
    using gates_clear_recorded [OF facts(3) conf] by (simp add: gates_clear_def)
  have wf1: "audit_wf ?d1" using audit_wf_append [OF wf e(4)] by (simp add: eq audit_wf_def)
  from facts(4) obtain p where p: "storage_snapshot (rt_digest env) c (cf_mode cf) d = Inr p" "stp_impact_digest p = cf_storage_impact_digest cf"
    by blast
  have snap: "storage_snapshot (rt_digest env) ?c' (cf_mode cf) ?d1 = Inr p"
    using p(1) storage_snapshot_cong [of ?d1 d ?c' c "rt_digest env" "cf_mode cf"] by (simp add: eq storage_part_def)
  from run_finalizers_effect [OF gates wf1 snap p(2), of now] obtain results where
    fin: "run_finalizers env ?c' cf now ?d1 = Inr (results, finalized pk (cf_mode cf) now ?d1)" by (auto simp: pk)
  let ?details = "retirement_audit_details c cf why now ?f results"
  let ?d3 = "retired_db c cf why ?who now e ?details d"
  have d3: "close_connection c cf why ?who now (ae_pk e) ?details (finalized pk (cf_mode cf) now ?d1) = ?d3"
    by (simp add: retired_db_def pk)
  obtain b where row: "get_cluster pk ?d3 = Some (tombstone c cf why ?who now (c\<lparr>cl_enabled := b\<rparr>))"
    using retired_db_cluster [OF facts(1)] by blast
  have post: "assert_retirement_postconditions env pk (cf_mode cf) ?d3 = Inr ()"
    by (rule postconditions_hold [OF row])
       (simp_all add: tombstone_def retired_db_clean [OF facts(3) wf conf e(4), unfolded pk])
  show ?thesis
    unfolding retire_cluster_atomic_def checks bind_result.simps prod.case rec map_error.simps fin Let_def d3 post
    using e by (auto simp: pk)
qed

lemma retire_cluster_atomic_checks:
  assumes "retire_cluster_atomic env pk rq now d = Inr out"
  shows "\<exists>c cf why. retirement_checks env pk rq now d = Inr (c, cf, why)"
  using assms by (auto simp: retire_cluster_atomic_def bind_result_Inr_iff)

lemma retire_cluster_success:
  assumes "retire_cluster env pk rq now d = (Inr res, d')" and "audit_wf d"
  shows "\<exists>c cf why e details. retirement_checks env pk rq now d = Inr (c, cf, why)
    \<and> d' = retired_db c cf why (map_option ac_pk (rq_actor rq)) now e details d
    \<and> rs_mode res = cf_mode cf \<and> rs_audit_event_id res = ae_pk e
    \<and> ae_action e = retirement_action (cf_mode cf) \<and> ae_outcome e = ''success'' \<and> ae_cluster e = Some pk
    \<and> ae_pk e = next_pk ae_pk (audit_events d)"
proof -
  from assms(1) have run: "retire_cluster_atomic env pk rq now d = Inr (res, d')"
    by (auto simp: retire_cluster_def split: sum.splits)
  from retire_cluster_atomic_checks [OF this] obtain c cf why where checks: "retirement_checks env pk rq now d = Inr (c, cf, why)" by blast
  from retire_cluster_atomic_succeeds [OF checks assms(2)] run checks show ?thesis by auto
qed

section \<open>Properties\<close>

text \<open>
  C3: Retirement is decided by its checks: when the evidence validates, the forced confirmation
  is complete, no scan is active and no owner is blocked, the transaction commits. No finalizer
  refuses, and the closing postconditions hold on every database it can leave.
\<close>

theorem retirement_succeeds_iff_checks:
  assumes "audit_wf d"
  shows "(\<exists>res d'. retire_cluster env pk rq now d = (Inr res, d')) \<longleftrightarrow>
     (\<exists>c cf why. retirement_checks env pk rq now d = Inr (c, cf, why))"
proof
  assume "\<exists>res d'. retire_cluster env pk rq now d = (Inr res, d')"
  then show "\<exists>c cf why. retirement_checks env pk rq now d = Inr (c, cf, why)"
    using retire_cluster_success [OF _ assms] by blast
next
  assume "\<exists>c cf why. retirement_checks env pk rq now d = Inr (c, cf, why)"
  then obtain c cf why where checks: "retirement_checks env pk rq now d = Inr (c, cf, why)" by blast
  from retirement_checks_Inr(7) [OF this] obtain t where "load_confirmation env (rq_confirmation rq) now = Inr t" by blast
  with retire_cluster_atomic_succeeds [OF checks assms] show "\<exists>res d'. retire_cluster env pk rq now d = (Inr res, d')"
    by (auto simp: retire_cluster_def)
qed

lemma retired_state:
  assumes "audit_wf d" "retire_cluster env pk rq now d = (Inr res, d')"
  shows "\<exists>c'. get_cluster pk d' = Some c' \<and> cl_retired_at c' = Some now" "\<not> work_left pk d'"
proof -
  from retire_cluster_success [OF assms(2,1)] obtain c cf why e details where
    checks: "retirement_checks env pk rq now d = Inr (c, cf, why)"
    and d': "d' = retired_db c cf why (map_option ac_pk (rq_actor rq)) now e details d"
    and e: "ae_action e = retirement_action (cf_mode cf)" "ae_pk e = next_pk ae_pk (audit_events d)" by blast
  note facts = retirement_checks_Inr [OF checks]
  have conf: "ae_action e \<in> set CLUSTER_CONFIGURATION_AUDIT_ACTIONS" by (simp add: e(1) retirement_action_configuration)
  show "\<exists>c'. get_cluster pk d' = Some c' \<and> cl_retired_at c' = Some now"
    using retired_db_cluster [OF facts(1)] d' by (fastforce simp: tombstone_def)
  show "\<not> work_left pk d'"
    using retired_db_clean(3) [OF facts(3) assms(1) conf e(2)] get_cluster_pk [OF facts(1)] unfolding d' by simp
qed

text \<open>
  C2: A committed retirement is complete and permanent. The row becomes a disabled tombstone:
  the pinned identity is moved to the retired columns and released, the lifecycle generation is
  advanced by one. No credential, trust or endpoint of the cluster is left, no current guest,
  host, enrollment or storage row, and no open scheduled run, console or audit operation. Any
  later retirement of the cluster is refused, whatever the evidence.
\<close>

theorem retired_connection_is_closed:
  assumes "audit_wf d" and "retire_cluster env pk rq now d = (Inr res, d')"
  shows "(\<exists>c c'. get_cluster pk d = Some c \<and> cl_retired_at c = None \<and> get_cluster pk d' = Some c'
       \<and> cl_retired_at c' = Some now \<and> \<not> cl_enabled c' \<and> cl_key c' = cl_key c
       \<and> cl_retirement_mode c' = mode_value (rs_mode res) \<and> cl_discovered_ca_uuid c' = [] \<and> cl_discovered_ca_fingerprint c' = []
       \<and> cl_retired_ca_uuid c' = cl_discovered_ca_uuid c \<and> cl_retired_ca_fingerprint c' = cl_discovered_ca_fingerprint c
       \<and> cl_lifecycle_generation c' = cl_lifecycle_generation c + 1)
     \<and> \<not> connection_rows_left pk d' \<and> \<not> current_rows_left pk d' \<and> \<not> work_left pk d'
     \<and> (\<forall>env' rq' now'. \<exists>e. fst (retire_cluster env' pk rq' now' d') = Inl e)"
proof -
  from retire_cluster_success [OF assms(2,1)] obtain c cf why e details where
    checks: "retirement_checks env pk rq now d = Inr (c, cf, why)"
    and d': "d' = retired_db c cf why (map_option ac_pk (rq_actor rq)) now e details d" and mode: "rs_mode res = cf_mode cf"
    and e: "ae_action e = retirement_action (cf_mode cf)" "ae_pk e = next_pk ae_pk (audit_events d)" by blast
  note facts = retirement_checks_Inr [OF checks]
  have pk: "cl_pk c = pk" by (rule get_cluster_pk [OF facts(1)])
  have conf: "ae_action e \<in> set CLUSTER_CONFIGURATION_AUDIT_ACTIONS" by (simp add: e(1) retirement_action_configuration)
  obtain b where row: "get_cluster pk d' = Some (tombstone c cf why (map_option ac_pk (rq_actor rq)) now (c\<lparr>cl_enabled := b\<rparr>))"
    using retired_db_cluster [OF facts(1)] d' by blast
  have again: "\<exists>e. fst (retire_cluster env' pk rq' now' d') = Inl e" for env' rq' now'
  proof (rule ccontr)
    assume "\<not> ?thesis"
    then obtain r where "fst (retire_cluster env' pk rq' now' d') = Inr r" by (metis obj_sumE)
    then obtain out where "retire_cluster_atomic env' pk rq' now' d' = Inr out"
      by (auto simp: retire_cluster_def split: sum.splits)
    from retire_cluster_atomic_checks [OF this] obtain c2 where "get_cluster pk d' = Some c2" "cl_retired_at c2 = None"
      using retirement_checks_Inr(1,2) by blast
    with row show False by (simp add: tombstone_def)
  qed
  have "\<exists>c c'. get_cluster pk d = Some c \<and> cl_retired_at c = None \<and> get_cluster pk d' = Some c'
       \<and> cl_retired_at c' = Some now \<and> \<not> cl_enabled c' \<and> cl_key c' = cl_key c
       \<and> cl_retirement_mode c' = mode_value (rs_mode res) \<and> cl_discovered_ca_uuid c' = [] \<and> cl_discovered_ca_fingerprint c' = []
       \<and> cl_retired_ca_uuid c' = cl_discovered_ca_uuid c \<and> cl_retired_ca_fingerprint c' = cl_discovered_ca_fingerprint c
       \<and> cl_lifecycle_generation c' = cl_lifecycle_generation c + 1"
    using facts(1,2) by (simp add: row tombstone_def mode)
  with again retired_db_clean [OF facts(3) assms(1) conf e(2), unfolded pk] show ?thesis unfolding d' by blast
qed

text \<open>The database without the cluster: everything that belongs to the other connections.\<close>

definition unrelated :: "nat \<Rightarrow> db \<Rightarrow> db" where
  "unrelated pk d = storage_others pk
     (d\<lparr>clusters := filter (\<lambda>r. cl_pk r \<noteq> pk) (clusters d), credentials := filter (\<lambda>r. cr_cluster r \<noteq> pk) (credentials d),
        trusts := filter (\<lambda>r. tr_cluster r \<noteq> pk) (trusts d), endpoints := filter (\<lambda>r. ep_cluster r \<noteq> pk) (endpoints d),
        consoles := filter (\<lambda>r. con_cluster r \<noteq> Some pk) (consoles d), guests := filter (\<lambda>r. g_cluster r \<noteq> pk) (guests d),
        guest_states := filter (\<lambda>r. gs_cluster r \<noteq> pk) (guest_states d),
        scheduled_runs := filter (\<lambda>r. \<not> own_run pk d r) (scheduled_runs d),
        scheduled_actions := filter (\<lambda>r. sa_cluster r \<noteq> pk) (scheduled_actions d),
        membership_states := filter (\<lambda>r. ms_cluster r \<noteq> pk) (membership_states d),
        node_states := filter (\<lambda>r. ns_cluster r \<noteq> pk) (node_states d), coverages := filter (\<lambda>r. cov_cluster r \<noteq> pk) (coverages d),
        node_interfaces := filter (\<lambda>r. ni_cluster r \<noteq> pk) (node_interfaces d),
        enrollments := filter (\<lambda>r. en_cluster r \<noteq> pk) (enrollments d),
        audit_events := filter (\<lambda>r. ae_cluster r \<noteq> Some pk) (audit_events d)\<rparr>)"

lemma filter_delete_same: "filter (\<lambda>r. f r \<noteq> k) (delete_where (\<lambda>r. f r = k) rows) = filter (\<lambda>r. f r \<noteq> k) rows"
  by (rule filter_delete_where_frame) simp

lemma update_cluster_others:
  "(\<And>c. cl_pk (f c) = cl_pk c) \<Longrightarrow>
   filter (\<lambda>r. cl_pk r \<noteq> pk) (update_where (\<lambda>c. cl_pk c = pk) f rows) = filter (\<lambda>r. cl_pk r \<noteq> pk) rows"
  by (rule filter_update_where_frame) simp

lemma cancel_event_keeps:
  "ae_pk (case cancel_event m now e of None \<Rightarrow> e | Some e' \<Rightarrow> e') = ae_pk e"
  "ae_cluster (case cancel_event m now e of None \<Rightarrow> e | Some e' \<Rightarrow> e') = ae_cluster e"
  by (auto simp: cancel_event_def cancelled_event_def)

lemma retired_audit_others:
  assumes "ae_cluster e = Some pk" and "ae_pk e = next_pk ae_pk rows"
  shows "filter (\<lambda>r. ae_cluster r \<noteq> Some pk) (update_where (\<lambda>x. ae_pk x = ae_pk e) (\<lambda>x. x\<lparr>ae_details := j\<rparr>)
      (update_where (audit_candidate pk) (\<lambda>e. case cancel_event m now e of None \<Rightarrow> e | Some e' \<Rightarrow> e') (rows @ [e])))
    = filter (\<lambda>r. ae_cluster r \<noteq> Some pk) rows"
proof -
  let ?cancel = "\<lambda>e. case cancel_event m now e of None \<Rightarrow> e | Some e' \<Rightarrow> e'"
  have own: "ae_cluster r = Some pk" if r: "r \<in> set (update_where (audit_candidate pk) ?cancel (rows @ [e]))" "ae_pk r = ae_pk e" for r
  proof -
    from r(1) obtain x where x: "x \<in> set (rows @ [e])" "ae_pk r = ae_pk x" "ae_cluster r = ae_cluster x"
      by (cases rule: in_update_whereE) (auto simp: cancel_event_keeps)
    have "x \<notin> set rows" using x(2) r(2) assms(2) next_pk_fresh [of x rows ae_pk] by auto
    with x assms(1) show ?thesis by simp
  qed
  have "filter (\<lambda>r. ae_cluster r \<noteq> Some pk) (update_where (\<lambda>x. ae_pk x = ae_pk e) (\<lambda>x. x\<lparr>ae_details := j\<rparr>)
      (update_where (audit_candidate pk) ?cancel (rows @ [e])))
    = filter (\<lambda>r. ae_cluster r \<noteq> Some pk) (update_where (audit_candidate pk) ?cancel (rows @ [e]))"
    using own by (intro filter_update_where_frame) auto
  also have "\<dots> = filter (\<lambda>r. ae_cluster r \<noteq> Some pk) (rows @ [e])"
    by (rule filter_update_where_frame) (simp add: cancel_event_keeps audit_candidate_def)
  finally show ?thesis using assms(1) by simp
qed

lemma retired_db_tables:
  assumes "disable_forced c (cf_mode cf) (d\<lparr>audit_events := audit_events d @ [e]\<rparr>) = d\<lparr>audit_events := audit_events d @ [e], clusters := cs\<rparr>"
  shows "retired_db c cf why who now e details d =
    (storage_cleanup (cl_pk c) (cf_mode cf) now d)
      \<lparr>clusters := update_where (\<lambda>r. cl_pk r = cl_pk c) (tombstone c cf why who now) cs,
       credentials := delete_where (\<lambda>r. cr_cluster r = cl_pk c) (credentials d),
       trusts := delete_where (\<lambda>r. tr_cluster r = cl_pk c) (trusts d),
       endpoints := delete_where (\<lambda>r. ep_cluster r = cl_pk c) (endpoints d),
       consoles := update_where (\<lambda>r. con_cluster r = Some (cl_pk c)) (retired_session (cf_mode cf) now) (consoles d),
       guests := delete_where (\<lambda>g. g_cluster g = cl_pk c) (guests d),
       guest_states := delete_where (\<lambda>s. gs_cluster s = cl_pk c) (guest_states d),
       scheduled_actions := update_where (schedule_active (cl_pk c)) (retired_schedule now) (scheduled_actions d),
       scheduled_runs := update_where (own_run (cl_pk c) d) (retired_run (cf_mode cf) now) (scheduled_runs d),
       membership_states := delete_where (\<lambda>r. ms_cluster r = cl_pk c) (membership_states d),
       node_states := delete_where (\<lambda>r. ns_cluster r = cl_pk c) (node_states d),
       coverages := delete_where (\<lambda>r. cov_cluster r = cl_pk c) (coverages d),
       node_interfaces := delete_where (\<lambda>r. ni_cluster r = cl_pk c) (node_interfaces d),
       enrollments := delete_where (\<lambda>r. en_cluster r = cl_pk c) (enrollments d),
       audit_events := update_where (\<lambda>x. ae_pk x = ae_pk e) (\<lambda>x. x\<lparr>ae_details := JObj details\<rparr>)
         (update_where (audit_candidate (cl_pk c)) (\<lambda>e. case cancel_event (cf_mode cf) now e of None \<Rightarrow> e | Some e' \<Rightarrow> e')
           (audit_events d @ [e]))\<rparr>"
  unfolding retired_db_def assms
  by (simp add: close_connection_def update_cluster_def finalized_def owners_retired_def storage_cleanup_def own_storage_def
      own_run_def [abs_def])

lemma unrelated_storage:
  "unrelated pk ((storage_cleanup pk m now d)
     \<lparr>clusters := v1, credentials := v2, trusts := v3, endpoints := v4, consoles := v5, guests := v6, guest_states := v7,
      scheduled_actions := v8, scheduled_runs := v9, membership_states := v10, node_states := v11, coverages := v12,
      node_interfaces := v13, enrollments := v14, audit_events := v15\<rparr>)
   = unrelated pk (d\<lparr>clusters := v1, credentials := v2, trusts := v3, endpoints := v4, consoles := v5, guests := v6, guest_states := v7,
      scheduled_actions := v8, scheduled_runs := v9, membership_states := v10, node_states := v11, coverages := v12,
      node_interfaces := v13, enrollments := v14, audit_events := v15\<rparr>)"
proof -
  have "filter (\<lambda>s. st_cluster s \<noteq> pk) (storages (storage_cleanup pk m now d)) = filter (\<lambda>s. st_cluster s \<noteq> pk) (storages d)"
    by (auto simp: storage_cleanup_def intro!: filter_update_where_frame)
  moreover have "own_storage pk (X\<lparr>storages := storages (storage_cleanup pk m now d)\<rparr>) = own_storage pk (X\<lparr>storages := storages d\<rparr>)" for X :: db
    by (simp add: fun_eq_iff own_storage_def storage_cleanup_def exists_where_update_stable)
  ultimately show ?thesis
    by (simp add: unrelated_def storage_others_def own_storage_def storage_cleanup_def exists_where_update_stable own_run_def)
       (simp add: delete_where_def)
qed

lemma unrelated_cong:
  assumes "filter (\<lambda>r. cl_pk r \<noteq> pk) v1 = filter (\<lambda>r. cl_pk r \<noteq> pk) (clusters d)"
    and "filter (\<lambda>r. cr_cluster r \<noteq> pk) v2 = filter (\<lambda>r. cr_cluster r \<noteq> pk) (credentials d)"
    and "filter (\<lambda>r. tr_cluster r \<noteq> pk) v3 = filter (\<lambda>r. tr_cluster r \<noteq> pk) (trusts d)"
    and "filter (\<lambda>r. ep_cluster r \<noteq> pk) v4 = filter (\<lambda>r. ep_cluster r \<noteq> pk) (endpoints d)"
    and "filter (\<lambda>r. con_cluster r \<noteq> Some pk) v5 = filter (\<lambda>r. con_cluster r \<noteq> Some pk) (consoles d)"
    and "filter (\<lambda>r. g_cluster r \<noteq> pk) v6 = filter (\<lambda>r. g_cluster r \<noteq> pk) (guests d)"
    and "filter (\<lambda>r. gs_cluster r \<noteq> pk) v7 = filter (\<lambda>r. gs_cluster r \<noteq> pk) (guest_states d)"
    and "filter (\<lambda>r. sa_cluster r \<noteq> pk) v8 = filter (\<lambda>r. sa_cluster r \<noteq> pk) (scheduled_actions d)"
    and "filter (\<lambda>r. \<not> own_run pk (d\<lparr>scheduled_actions := v8\<rparr>) r) v9 = filter (\<lambda>r. \<not> own_run pk d r) (scheduled_runs d)"
    and "filter (\<lambda>r. ms_cluster r \<noteq> pk) v10 = filter (\<lambda>r. ms_cluster r \<noteq> pk) (membership_states d)"
    and "filter (\<lambda>r. ns_cluster r \<noteq> pk) v11 = filter (\<lambda>r. ns_cluster r \<noteq> pk) (node_states d)"
    and "filter (\<lambda>r. cov_cluster r \<noteq> pk) v12 = filter (\<lambda>r. cov_cluster r \<noteq> pk) (coverages d)"
    and "filter (\<lambda>r. ni_cluster r \<noteq> pk) v13 = filter (\<lambda>r. ni_cluster r \<noteq> pk) (node_interfaces d)"
    and "filter (\<lambda>r. en_cluster r \<noteq> pk) v14 = filter (\<lambda>r. en_cluster r \<noteq> pk) (enrollments d)"
    and "filter (\<lambda>r. ae_cluster r \<noteq> Some pk) v15 = filter (\<lambda>r. ae_cluster r \<noteq> Some pk) (audit_events d)"
  shows "unrelated pk (d\<lparr>clusters := v1, credentials := v2, trusts := v3, endpoints := v4, consoles := v5, guests := v6, guest_states := v7,
      scheduled_actions := v8, scheduled_runs := v9, membership_states := v10, node_states := v11, coverages := v12,
      node_interfaces := v13, enrollments := v14, audit_events := v15\<rparr>) = unrelated pk d"
  using assms by (simp add: unrelated_def storage_others_def own_storage_def own_run_def)

lemma retired_db_unrelated:
  assumes "cl_pk c = pk" and "ae_cluster e = Some pk" and "ae_pk e = next_pk ae_pk (audit_events d)"
  shows "unrelated pk (retired_db c cf why who now e details d) = unrelated pk d"
proof -
  have "\<exists>cs. disable_forced c (cf_mode cf) (d\<lparr>audit_events := audit_events d @ [e]\<rparr>) = d\<lparr>audit_events := audit_events d @ [e], clusters := cs\<rparr>
      \<and> filter (\<lambda>r. cl_pk r \<noteq> pk) cs = filter (\<lambda>r. cl_pk r \<noteq> pk) (clusters d)"
  proof (cases "cf_mode cf = FORCED \<and> cl_enabled c")
    case True
    then show ?thesis by (auto simp: disable_forced_def update_cluster_def assms(1) update_cluster_others)
  next
    case False
    show ?thesis unfolding disable_forced_def if_not_P [OF False] by (rule exI [of _ "clusters d"]) simp
  qed
  then obtain cs where cs: "disable_forced c (cf_mode cf) (d\<lparr>audit_events := audit_events d @ [e]\<rparr>)
      = d\<lparr>audit_events := audit_events d @ [e], clusters := cs\<rparr>"
    and others: "filter (\<lambda>r. cl_pk r \<noteq> pk) cs = filter (\<lambda>r. cl_pk r \<noteq> pk) (clusters d)" by blast
  have runs: "filter (\<lambda>r. \<not> own_run pk (d\<lparr>scheduled_actions := update_where (schedule_active pk) (retired_schedule now) (scheduled_actions d)\<rparr>) r)
      (update_where (own_run pk d) (retired_run (cf_mode cf) now) (scheduled_runs d)) = filter (\<lambda>r. \<not> own_run pk d r) (scheduled_runs d)"
    unfolding own_run_retired by (rule filter_update_where_frame) simp
  have actions: "filter (\<lambda>r. sa_cluster r \<noteq> pk) (update_where (schedule_active pk) (retired_schedule now) (scheduled_actions d))
      = filter (\<lambda>r. sa_cluster r \<noteq> pk) (scheduled_actions d)"
    by (rule filter_update_where_frame) (simp add: schedule_active_def retired_schedule_def)
  have sessions: "filter (\<lambda>r. con_cluster r \<noteq> Some pk) (update_where (\<lambda>r. con_cluster r = Some pk) (retired_session (cf_mode cf) now) (consoles d))
      = filter (\<lambda>r. con_cluster r \<noteq> Some pk) (consoles d)"
    by (rule filter_update_where_frame) (simp add: retired_session_row)
  have tomb: "filter (\<lambda>r. cl_pk r \<noteq> pk) (update_where (\<lambda>r. cl_pk r = pk) (tombstone c cf why who now) cs) = filter (\<lambda>r. cl_pk r \<noteq> pk) (clusters d)"
    using others by (subst update_cluster_others) (simp_all add: tombstone_def)
  show ?thesis
    unfolding retired_db_tables [OF cs] assms(1) unrelated_storage
    by (rule unrelated_cong) (fact tomb filter_delete_same sessions actions runs retired_audit_others [OF assms(2,3)])+
qed

text \<open>
  C4: Retirement touches one connection: every row of every other cluster, and every row that
  belongs to no cluster, is the same after it, in the same order.
\<close>

theorem retirement_leaves_other_clusters:
  assumes "audit_wf d" and "retire_cluster env pk rq now d = (Inr res, d')"
  shows "unrelated pk d' = unrelated pk d"
proof -
  from retire_cluster_success [OF assms(2,1)] obtain c cf why e details where
    checks: "retirement_checks env pk rq now d = Inr (c, cf, why)"
    and d': "d' = retired_db c cf why (map_option ac_pk (rq_actor rq)) now e details d"
    and e: "ae_cluster e = Some pk" "ae_pk e = next_pk ae_pk (audit_events d)" by blast
  show ?thesis
    unfolding d' by (rule retired_db_unrelated [OF get_cluster_pk [OF retirement_checks_Inr(1) [OF checks]] e])
qed


text \<open>
  No cluster is force-retired by accident: a successful forced retirement had the exact
  permanent key typed, the permanent unavailability asserted and a non-blank reason of at most a
  thousand characters, which the tombstone keeps; a verified one was of a disabled connection.
\<close>

theorem forced_retirement_is_confirmed:
  assumes "audit_wf d" and "retire_cluster env pk rq now d = (Inr res, d')"
  shows "\<exists>c c'. get_cluster pk d = Some c \<and> get_cluster pk d' = Some c' \<and> cl_retirement_reason c' = strip (rq_reason rq)
     \<and> char_len (strip (rq_reason rq)) \<le> 1000
     \<and> (if rs_mode res = FORCED
        then rq_typed_cluster_key rq = cl_key c \<and> rq_permanent_unavailability_asserted rq \<and> strip (rq_reason rq) \<noteq> []
        else \<not> cl_enabled c)"
proof -
  from retire_cluster_success [OF assms(2,1)] obtain c cf why e details where
    checks: "retirement_checks env pk rq now d = Inr (c, cf, why)"
    and d': "d' = retired_db c cf why (map_option ac_pk (rq_actor rq)) now e details d" and mode: "rs_mode res = cf_mode cf" by blast
  note facts = retirement_checks_Inr [OF checks]
  obtain b where row: "get_cluster pk d' = Some (tombstone c cf why (map_option ac_pk (rq_actor rq)) now (c\<lparr>cl_enabled := b\<rparr>))"
    using retired_db_cluster [OF facts(1)] d' by blast
  from facts(7) obtain t :: retirement_token where "validate_retirement_preflight env (rq_confirmation rq) pk (tk_mode t) now d = Inr cf" by blast
  from validate_Inr [OF this] facts(1) obtain t' where "validate_identity t' c (cf_mode cf) d = Inr (cf_endpoint_id cf)" by auto
  then have verified: "\<not> cl_enabled c" if "cf_mode cf = VERIFIED" using that by (auto simp: validate_identity_def split: if_splits)
  from facts(5) have why: "why = strip (rq_reason rq)" "char_len (strip (rq_reason rq)) \<le> 1000"
    "cf_mode cf = FORCED \<Longrightarrow> rq_typed_cluster_key rq = cl_key c \<and> rq_permanent_unavailability_asserted rq \<and> strip (rq_reason rq) \<noteq> []"
    by (auto simp: forced_confirmation_def Let_def RETIREMENT_REASON_MAX_LENGTH_def split: if_splits)
  show ?thesis
    using facts(1) row why verified mode by (cases "cf_mode cf") (auto simp: tombstone_def)
qed

section \<open>Witnesses\<close>

definition example_retirement_request :: "retirement_mode \<Rightarrow> retirement_request" where
  "example_retirement_request m = \<lparr>rq_confirmation = example_confirmation m, rq_actor = None, rq_reason = ''site lost '',
     rq_typed_cluster_key = ''prod'', rq_permanent_unavailability_asserted = True, rq_replacement_ca_uuid = []\<rparr>"

lemma example_gates: "gates_clear example_retiring_cluster m example_retiring_db"
  by (simp add: gates_clear_def schedule_gate_iff console_gate_iff audit_gate_iff) (simp add: example_retiring_db_def empty_db_def)

lemma example_confirmed: "\<exists>why. forced_confirmation example_retiring_cluster m (example_retirement_request n) = Inr why"
proof -
  have "char_len (strip ''site lost '') \<le> 1000" by code_simp
  moreover have "strip ''site lost '' \<noteq> []" by code_simp
  ultimately show ?thesis
    by (cases m) (simp_all add: forced_confirmation_def Let_def RETIREMENT_REASON_MAX_LENGTH_def example_retirement_request_def
        example_retiring_cluster_def new_cluster_def)
qed

lemma example_checks:
  "\<exists>cf why. retirement_checks example_retirement_env 1 (example_retirement_request m) 0 example_retiring_db =
     Inr (example_retiring_cluster, cf, why) \<and> cf_mode cf = m"
proof -
  from example_validates [of m] obtain cf where
    v: "validate_retirement_preflight example_retirement_env (example_confirmation m) 1 (mode_value m) 0 example_retiring_db = Inr cf"
    and cf: "cf_mode cf = m" "cf_replacement_ca_uuid cf = []" by blast
  obtain why where f: "forced_confirmation example_retiring_cluster m (example_retirement_request m) = Inr why"
    using example_confirmed by blast
  have "\<exists>impact. local_impact_of example_retirement_env example_retiring_cluster m example_retiring_db = Inr impact"
    using example_snapshot [of m] by (auto simp: local_impact_of_def Let_def)
  then have b: "raise_for_local_blockers example_retirement_env example_retiring_cluster m example_retiring_db = Inr ()"
    using example_gates by (simp add: raise_for_local_blockers_Inr)
  have "scan_runs example_retiring_db = []" by (simp add: example_retiring_db_def empty_db_def)
  moreover have "tk_mode (example_payload m) = mode_value m" by (simp add: example_payload_def payload_of_def)
  moreover have "rq_confirmation (example_retirement_request m) = example_confirmation m"
    "rq_replacement_ca_uuid (example_retirement_request m) = []" by (simp_all add: example_retirement_request_def)
  ultimately show ?thesis
    unfolding retirement_checks_def example_get_cluster option.case using example_load [of m] v cf f b by (simp del: One_nat_def)
qed

lemma example_audit_wf: "audit_wf example_retiring_db"
  by (simp add: audit_wf_def example_retiring_db_def empty_db_def)

lemma example_retired:
  "\<exists>res d'. retire_cluster example_retirement_env 1 (example_retirement_request m) 0 example_retiring_db = (Inr res, d') \<and> rs_mode res = m"
proof -
  from example_checks [of m] obtain cf why where checks:
    "retirement_checks example_retirement_env 1 (example_retirement_request m) 0 example_retiring_db = Inr (example_retiring_cluster, cf, why)"
    and m: "cf_mode cf = m" by blast
  have "load_confirmation example_retirement_env (rq_confirmation (example_retirement_request m)) 0 = Inr (example_payload m)"
    by (simp add: example_retirement_request_def example_load)
  with retire_cluster_atomic_succeeds [OF checks example_audit_wf] m show ?thesis by (auto simp: retire_cluster_def)
qed

theorem retirement_succeeds_iff_checks_witness:
  "\<exists>res d'. retire_cluster example_retirement_env 1 (example_retirement_request VERIFIED) 0 example_retiring_db = (Inr res, d')"
proof -
  from example_checks [of VERIFIED] obtain cf why where
    "retirement_checks example_retirement_env 1 (example_retirement_request VERIFIED) 0 example_retiring_db = Inr (example_retiring_cluster, cf, why)"
    by blast
  then show ?thesis by (intro retirement_succeeds_iff_checks [OF example_audit_wf, THEN iffD2] exI)
qed

theorem retired_connection_is_closed_witness:
  "\<exists>res d'. retire_cluster example_retirement_env 1 (example_retirement_request VERIFIED) 0 example_retiring_db = (Inr res, d')
     \<and> connection_rows_left 1 example_retiring_db \<and> \<not> connection_rows_left 1 d'"
proof -
  from example_retired [of VERIFIED] obtain res d' where
    run: "retire_cluster example_retirement_env 1 (example_retirement_request VERIFIED) 0 example_retiring_db = (Inr res, d')" by blast
  have "connection_rows_left 1 example_retiring_db" by (simp add: connection_rows_left_def example_retiring_db_def)
  with retired_connection_is_closed [OF example_audit_wf run] run show ?thesis by blast
qed

theorem retirement_leaves_other_clusters_witness:
  "\<exists>res d'. retire_cluster example_retirement_env 1 (example_retirement_request FORCED) 0 example_retiring_db = (Inr res, d')
     \<and> unrelated 1 d' = unrelated 1 example_retiring_db"
proof -
  from example_retired [of FORCED] obtain res d' where
    run: "retire_cluster example_retirement_env 1 (example_retirement_request FORCED) 0 example_retiring_db = (Inr res, d')" by blast
  from retirement_leaves_other_clusters [OF example_audit_wf run] run show ?thesis by blast
qed


theorem forced_retirement_is_confirmed_witness:
  "\<exists>res d' c'. retire_cluster example_retirement_env 1 (example_retirement_request FORCED) 0 example_retiring_db = (Inr res, d')
     \<and> get_cluster 1 d' = Some c' \<and> cl_retirement_reason c' = ''site lost''"
proof -
  from example_retired [of FORCED] obtain res d' where
    run: "retire_cluster example_retirement_env 1 (example_retirement_request FORCED) 0 example_retiring_db = (Inr res, d')" by blast
  have "strip (rq_reason (example_retirement_request FORCED)) = ''site lost''"
    by (simp add: example_retirement_request_def) code_simp
  with forced_retirement_is_confirmed [OF example_audit_wf run] run show ?thesis by auto
qed

end
