(* ===== verification/Cluster_Resolver.thy ===== *)
theory Cluster_Resolver
  imports Membership
begin

text \<open>
  \<^verbatim>\<open>core/services/cluster_resolver.py\<close>: which endpoint of a cluster a provider call goes to. The
  client of an endpoint and the provider call are parameters; a mutation acts on a provider
  state (\<open>'w\<close>), so that what a failed attempt may have done is part of the model.
\<close>

section \<open>Acquisition\<close>

datatype resolution_error =
    ClusterRetired string
  | ClusterDisabled string
  | ClusterQuarantined string string
  | TopologyTransitionPending string
  | NoEnabledEndpoint string
  | ClientRefused string

definition refusal_message :: "resolution_error \<Rightarrow> string" where
  "refusal_message e =
     (case e of
        ClusterRetired _ \<Rightarrow> ''This connection is retired, so it can never read from or write to Proxmox again. Its retained history stays readable under Connections.''
      | ClusterQuarantined _ _ \<Rightarrow> ''This connection is quarantined because its cluster CA no longer matches the approved identity. Re-approve its identity before reading from it.''
      | ClusterDisabled _ \<Rightarrow> ''This connection is disabled. Re-enable it, which re-verifies its identity and trust, before reading from it.''
      | TopologyTransitionPending _ \<Rightarrow> ''This connection changed between standalone and corosync topology. Provider work is blocked until the identity hand-off is completed under Connections.''
      | _ \<Rightarrow> ''No usable Proxmox connection could be acquired for this cluster.'')"

definition has_pending_topology_transition :: "nat \<Rightarrow> db \<Rightarrow> bool" where
  "has_pending_topology_transition pk d = exists_where (\<lambda>s. ms_cluster s = pk \<and> ms_transition_pending s) (membership_states d)"

definition require_acquirable :: "cluster \<Rightarrow> db \<Rightarrow> (resolution_error, unit) result" where
  "require_acquirable c d =
     (if cl_retired_at c \<noteq> None then Inl (ClusterRetired (cl_key c))
      else if \<not> cl_enabled c then Inl (ClusterDisabled (cl_key c))
      else if cl_ingestion_quarantined c then Inl (ClusterQuarantined (cl_key c) (cl_quarantine_reason c))
      else if has_pending_topology_transition (cl_pk c) d then Inl (TopologyTransitionPending (cl_key c))
      else Inr ())"

definition client_of :: "(endpoint \<Rightarrow> (string, 'c) result) \<Rightarrow> endpoint \<Rightarrow> (resolution_error, 'c) result" where
  "client_of mk e = map_error ClientRefused (mk e)"

definition cluster_clients :: "(endpoint \<Rightarrow> (string, 'c) result) \<Rightarrow> cluster \<Rightarrow> db \<Rightarrow> (resolution_error, 'c list) result" where
  "cluster_clients mk c d =
     bind_result (require_acquirable c d) (\<lambda>_. map_result (client_of mk) (enabled_endpoints (cl_pk c) d))"

definition pin_cluster_write_client ::
    "(endpoint \<Rightarrow> (string, 'c) result) \<Rightarrow> cluster \<Rightarrow> db \<Rightarrow> (resolution_error, endpoint \<times> 'c) result" where
  "pin_cluster_write_client mk c d =
     bind_result (require_acquirable c d) (\<lambda>_.
       case enabled_endpoints (cl_pk c) d of
         [] \<Rightarrow> Inl (NoEnabledEndpoint (cl_key c))
       | e # _ \<Rightarrow> bind_result (client_of mk e) (\<lambda>k. Inr (e, k)))"

section \<open>Reads\<close>

datatype call_failure =
    Transport bool string
  | Answered string

record attempt =
  ea_endpoint_name :: string
  ea_ok :: bool
  ea_error :: string

record ('v, 'c) read_result =
  cr_cluster_key :: string
  cr_value :: "'v option"
  cr_answering_endpoint :: string
  cr_attempted :: "attempt list"
  cr_complete :: bool
  cr_client :: "'c option"

definition errors :: "('v, 'c) read_result \<Rightarrow> string list" where
  "errors r = map ea_error (filter (\<lambda>a. \<not> ea_ok a) (cr_attempted r))"

definition failed_attempt :: "endpoint \<Rightarrow> attempt" where
  "failed_attempt e = \<lparr>ea_endpoint_name = ep_name e, ea_ok = False, ea_error = ''This endpoint did not answer the read.''\<rparr>"

definition answered_attempt :: "endpoint \<Rightarrow> attempt" where
  "answered_attempt e = \<lparr>ea_endpoint_name = ep_name e, ea_ok = True, ea_error = []\<rparr>"

fun read_loop ::
    "(endpoint \<Rightarrow> (string, 'c) result) \<Rightarrow> ('c \<Rightarrow> (call_failure, 'v) result) \<Rightarrow> string \<Rightarrow> attempt list \<Rightarrow> endpoint list
      \<Rightarrow> (resolution_error, ('v, 'c) read_result) result" where
  "read_loop mk call key attempts [] =
     Inr \<lparr>cr_cluster_key = key, cr_value = None, cr_answering_endpoint = [], cr_attempted = attempts, cr_complete = False,
          cr_client = None\<rparr>"
| "read_loop mk call key attempts (e # es) =
     bind_result (client_of mk e) (\<lambda>client.
       case call client of
         Inl _ \<Rightarrow> read_loop mk call key (attempts @ [failed_attempt e]) es
       | Inr value \<Rightarrow>
           Inr \<lparr>cr_cluster_key = key, cr_value = Some value, cr_answering_endpoint = ep_name e,
                cr_attempted = attempts @ [answered_attempt e], cr_complete = True, cr_client = Some client\<rparr>)"

definition cluster_wide_read ::
    "(endpoint \<Rightarrow> (string, 'c) result) \<Rightarrow> ('c \<Rightarrow> (call_failure, 'v) result) \<Rightarrow> cluster \<Rightarrow> db
      \<Rightarrow> (resolution_error, ('v, 'c) read_result) result" where
  "cluster_wide_read mk call c d =
     bind_result (require_acquirable c d) (\<lambda>_. read_loop mk call (cl_key c) [] (enabled_endpoints (cl_pk c) d))"

section \<open>Writes\<close>

record ('v, 'c) write_result =
  cw_cluster_key :: string
  cw_value :: "'v option"
  cw_answering_endpoint :: string
  cw_client :: "'c option"
  cw_error :: string
  cw_attempted :: "attempt list"

definition write_ok :: "('v, 'c) write_result \<Rightarrow> bool" where
  "write_ok r = (cw_error r = [])"

definition unsent :: "call_failure \<Rightarrow> bool" where
  "unsent f = (case f of Transport request_sent _ \<Rightarrow> \<not> request_sent | Answered _ \<Rightarrow> False)"

definition failed_write :: "string \<Rightarrow> string \<Rightarrow> attempt list \<Rightarrow> ('v, 'c) write_result" where
  "failed_write key error attempts =
     \<lparr>cw_cluster_key = key, cw_value = None, cw_answering_endpoint = [], cw_client = None,
      cw_error = (if error = [] then ''No Proxmox endpoint in this cluster could reach the guest.'' else error),
      cw_attempted = attempts\<rparr>"

fun write_loop ::
    "(endpoint \<Rightarrow> (string, 'c) result) \<Rightarrow> ('c \<Rightarrow> 'w \<Rightarrow> (call_failure, 'v) result \<times> 'w) \<Rightarrow> (call_failure \<Rightarrow> string)
      \<Rightarrow> string \<Rightarrow> string \<Rightarrow> attempt list \<Rightarrow> endpoint list \<Rightarrow> 'w \<Rightarrow> (resolution_error, ('v, 'c) write_result) result \<times> 'w" where
  "write_loop mk call msg key error attempts [] w = (Inr (failed_write key error attempts), w)"
| "write_loop mk call msg key error attempts (e # es) w =
     (case client_of mk e of
        Inl err \<Rightarrow> (Inl err, w)
      | Inr client \<Rightarrow>
          (case call client w of
             (Inl f, w') \<Rightarrow>
               if unsent f then write_loop mk call msg key (msg f) (attempts @ [failed_attempt e]) es w'
               else (Inr (failed_write key (msg f) (attempts @ [failed_attempt e])), w')
           | (Inr value, w') \<Rightarrow>
               (Inr \<lparr>cw_cluster_key = key, cw_value = Some value, cw_answering_endpoint = ep_name e, cw_client = Some client,
                     cw_error = [], cw_attempted = attempts @ [answered_attempt e]\<rparr>, w')))"

definition cluster_write ::
    "(endpoint \<Rightarrow> (string, 'c) result) \<Rightarrow> ('c \<Rightarrow> 'w \<Rightarrow> (call_failure, 'v) result \<times> 'w) \<Rightarrow> (call_failure \<Rightarrow> string)
      \<Rightarrow> cluster \<Rightarrow> db \<Rightarrow> 'w \<Rightarrow> (resolution_error, ('v, 'c) write_result) result \<times> 'w" where
  "cluster_write mk call msg c d w =
     (case require_acquirable c d of
        Inl err \<Rightarrow> (Inl err, w)
      | Inr _ \<Rightarrow>
          if enabled_endpoints (cl_pk c) d = [] then (Inl (NoEnabledEndpoint (cl_key c)), w)
          else write_loop mk call msg (cl_key c) [] [] (enabled_endpoints (cl_pk c) d) w)"

section \<open>Facts\<close>

lemma enabled_endpoints_set: "set (enabled_endpoints pk d) = {e \<in> set (endpoints d). ep_cluster e = pk \<and> ep_enabled e}"
  by (auto simp: enabled_endpoints_def)

text \<open>
  The loop of a write. Its state is the provider state it started with until a request may have
  left; then it stops.
\<close>

definition one_call ::
    "(endpoint \<Rightarrow> (string, 'c) result) \<Rightarrow> ('c \<Rightarrow> 'w \<Rightarrow> (call_failure, 'v) result \<times> 'w) \<Rightarrow> endpoint \<Rightarrow> 'w
      \<Rightarrow> (call_failure, 'v) result \<Rightarrow> 'w \<Rightarrow> bool" where
  "one_call mk call e w r w' = (\<exists>client. mk e = Inr client \<and> call client w = (r, w'))"

text \<open>What \<^verbatim>\<open>request_sent = False\<close> promises: a request that was not sent changed nothing.\<close>

definition unsent_is_pure :: "('c \<Rightarrow> 'w \<Rightarrow> (call_failure, 'v) result \<times> 'w) \<Rightarrow> bool" where
  "unsent_is_pure call = (\<forall>client w f w'. call client w = (Inl f, w') \<longrightarrow> unsent f \<longrightarrow> w' = w)"

lemma write_loop_once:
  assumes unsent_pure: "unsent_is_pure call"
    and run: "write_loop mk call msg key error attempts es w = (out, w')"
  shows "(w' = w \<and> (\<forall>r. out = Inr r \<longrightarrow> cw_value r = None \<and> \<not> write_ok r))
    \<or> (\<exists>e\<in>set es. \<exists>res. one_call mk call e w res w'
         \<and> (case res of Inl f \<Rightarrow> \<not> unsent f \<and> (\<exists>as. out = Inr (failed_write key (msg f) as))
            | Inr v \<Rightarrow> (\<exists>r. out = Inr r \<and> write_ok r \<and> cw_value r = Some v \<and> cw_answering_endpoint r = ep_name e)))"
  using run
proof (induction es arbitrary: error attempts)
  case Nil
  then show ?case by (auto simp: failed_write_def write_ok_def split: if_splits)
next
  case (Cons e es)
  show ?case
  proof (cases "client_of mk e")
    case (Inl err)
    with Cons.prems show ?thesis by auto
  next
    case (Inr client)
    then have mk: "mk e = Inr client" by (auto simp: client_of_def result_simps)
    obtain res w1 where call: "call client w = (res, w1)" by fastforce
    show ?thesis
    proof (cases res)
      case (Inr v)
      with Cons.prems \<open>client_of mk e = Inr client\<close> call have "w1 = w'" "out = Inr \<lparr>cw_cluster_key = key, cw_value = Some v,
          cw_answering_endpoint = ep_name e, cw_client = Some client, cw_error = [], cw_attempted = attempts @ [answered_attempt e]\<rparr>"
        by simp_all
      then show ?thesis using mk call Inr by (intro disjI2 bexI [of _ e]) (auto simp: one_call_def write_ok_def)
    next
      case (Inl f)
      show ?thesis
      proof (cases "unsent f")
        case True
        with Inl call unsent_pure have w1: "w1 = w" by (auto simp: unsent_is_pure_def)
        with Cons.prems \<open>client_of mk e = Inr client\<close> call Inl True
        have "write_loop mk call msg key (msg f) (attempts @ [failed_attempt e]) es w = (out, w')" by simp
        from Cons.IH [OF this] show ?thesis by auto
      next
        case False
        with Cons.prems \<open>client_of mk e = Inr client\<close> call Inl
        have "w1 = w'" "out = Inr (failed_write key (msg f) (attempts @ [failed_attempt e]))" by simp_all
        then show ?thesis using mk call Inl False by (intro disjI2 bexI [of _ e]) (auto simp: one_call_def)
      qed
    qed
  qed
qed

section \<open>Properties\<close>

text \<open>
  C31: A mutation is never replayed and never leaves its cluster. When a failure that proves the
  request was not sent changes nothing at the provider, the whole of \<open>cluster_write\<close> does what at
  most one call does, through one enabled endpoint of that cluster: either nothing happened and
  the result is an error, or exactly one request may have been applied and the result is that
  request's answer. A retired, disabled, quarantined or pending connection is not called at all.
\<close>

theorem cluster_write_never_replays:
  assumes "unsent_is_pure call" and "cluster_write mk call msg c d w = (out, w')"
  shows "(w' = w \<and> (\<forall>r. out = Inr r \<longrightarrow> cw_value r = None \<and> \<not> write_ok r))
    \<or> (cl_retired_at c = None \<and> cl_enabled c \<and> \<not> cl_ingestion_quarantined c \<and> \<not> has_pending_topology_transition (cl_pk c) d
       \<and> (\<exists>e\<in>set (endpoints d). \<exists>res. ep_cluster e = cl_pk c \<and> ep_enabled e \<and> one_call mk call e w res w'
         \<and> (case res of Inl f \<Rightarrow> \<not> unsent f \<and> (\<exists>r. out = Inr r \<and> \<not> (\<exists>v. cw_value r = Some v))
            | Inr v \<Rightarrow> (\<exists>r. out = Inr r \<and> write_ok r \<and> cw_value r = Some v \<and> cw_answering_endpoint r = ep_name e))))"
proof (cases "require_acquirable c d")
  case (Inl err)
  with assms(2) show ?thesis by (auto simp: cluster_write_def)
next
  case (Inr u)
  then have ok: "cl_retired_at c = None \<and> cl_enabled c \<and> \<not> cl_ingestion_quarantined c \<and> \<not> has_pending_topology_transition (cl_pk c) d"
    by (auto simp: require_acquirable_def split: if_splits)
  show ?thesis
  proof (cases "enabled_endpoints (cl_pk c) d = []")
    case True
    with Inr assms(2) show ?thesis by (auto simp: cluster_write_def)
  next
    case False
    with Inr assms(2) have "write_loop mk call msg (cl_key c) [] [] (enabled_endpoints (cl_pk c) d) w = (out, w')"
      by (simp add: cluster_write_def)
    from write_loop_once [OF assms(1) this] show ?thesis
    proof (elim disjE bexE exE conjE)
      fix e res
      assume e: "e \<in> set (enabled_endpoints (cl_pk c) d)" and one: "one_call mk call e w res w'"
        and res: "case res of Inl f \<Rightarrow> \<not> unsent f \<and> (\<exists>as. out = Inr (failed_write (cl_key c) (msg f) as))
            | Inr v \<Rightarrow> (\<exists>r. out = Inr r \<and> write_ok r \<and> cw_value r = Some v \<and> cw_answering_endpoint r = ep_name e)"
      have "case res of Inl f \<Rightarrow> \<not> unsent f \<and> (\<exists>r. out = Inr r \<and> \<not> (\<exists>v. cw_value r = Some v))
            | Inr v \<Rightarrow> (\<exists>r. out = Inr r \<and> write_ok r \<and> cw_value r = Some v \<and> cw_answering_endpoint r = ep_name e)"
        using res by (auto simp: failed_write_def split: sum.splits)
      with e one ok show ?thesis by (intro disjI2 conjI bexI [of _ e] exI [of _ res]) (auto simp: enabled_endpoints_set)
    qed auto
  qed
qed

definition example_two_endpoints :: db where
  "example_two_endpoints =
     example_cluster_db\<lparr>endpoints := endpoints example_cluster_db @
       [\<lparr>ep_pk = 2, ep_name = ''pve2'', ep_cluster = 1, ep_normalized_url = ''https://pve2'', ep_enabled = True,
         ep_last_health_status = [], ep_updated_at = 0, ep_url = ''https://pve2:8006'', ep_details = JObj []\<rparr>]\<rparr>"

text \<open>A provider that counts what it applied: the first endpoint refuses the connection.\<close>

definition example_provider :: "string \<Rightarrow> nat \<Rightarrow> (call_failure, string) result \<times> nat" where
  "example_provider client w =
     (if client = ''pve1'' then (Inl (Transport False ''refused''), w) else (Inr ''UPID:pve2'', w + 1))"

lemma example_provider_pure: "unsent_is_pure example_provider"
  by (auto simp: unsent_is_pure_def example_provider_def split: if_splits)

lemma example_write_fails_over:
  "case cluster_write (\<lambda>e. Inr (ep_name e)) example_provider (\<lambda>_. ''failed'') (new_cluster 1 ''lab'' ''Lab'') example_two_endpoints 0 of
     (Inl e, w') \<Rightarrow> False
   | (Inr r, w') \<Rightarrow> write_ok r \<and> cw_answering_endpoint r = ''pve2'' \<and> w' = 1"
  by code_simp

theorem cluster_write_never_replays_witness:
  "\<exists>e\<in>set (endpoints example_two_endpoints). \<exists>res. one_call (\<lambda>e. Inr (ep_name e)) example_provider e 0 res (1::nat)"
proof -
  let ?run = "cluster_write (\<lambda>e. Inr (ep_name e)) example_provider (\<lambda>_. ''failed'') (new_cluster 1 ''lab'' ''Lab'') example_two_endpoints 0"
  obtain out w' where run: "?run = (out, w')" by fastforce
  with example_write_fails_over have "w' = 1" by (auto split: sum.splits)
  with cluster_write_never_replays [OF example_provider_pure run] show ?thesis by auto
qed

text \<open>The loop of a read: the answer of the first endpoint that answers.\<close>

lemma read_loop_first_answer:
  assumes "read_loop mk call key attempts es = Inr r"
  shows "if cr_complete r
         then \<exists>pre e post client v. es = pre @ e # post \<and> mk e = Inr client \<and> call client = Inr v
                \<and> (\<forall>x\<in>set pre. \<exists>k f. mk x = Inr k \<and> call k = Inl f)
                \<and> cr_value r = Some v \<and> cr_client r = Some client \<and> cr_answering_endpoint r = ep_name e
                \<and> cr_attempted r = attempts @ map failed_attempt pre @ [answered_attempt e]
         else (\<forall>x\<in>set es. \<exists>k f. mk x = Inr k \<and> call k = Inl f) \<and> cr_value r = None \<and> cr_client r = None
                \<and> cr_attempted r = attempts @ map failed_attempt es"
  using assms
proof (induction es arbitrary: attempts)
  case (Cons e es)
  then obtain client where mk: "mk e = Inr client" by (auto simp: client_of_def result_simps)
  show ?case
  proof (cases "call client")
    case (Inl f)
    with Cons.prems mk have "read_loop mk call key (attempts @ [failed_attempt e]) es = Inr r"
      by (simp add: client_of_def result_simps)
    note ih = Cons.IH [OF this]
    show ?thesis
    proof (cases "cr_complete r")
      case True
      with ih obtain pre x post k v where
        "es = pre @ x # post \<and> mk x = Inr k \<and> call k = Inr v \<and> (\<forall>x\<in>set pre. \<exists>k f. mk x = Inr k \<and> call k = Inl f)
           \<and> cr_value r = Some v \<and> cr_client r = Some k \<and> cr_answering_endpoint r = ep_name x
           \<and> cr_attempted r = attempts @ map failed_attempt (e # pre) @ [answered_attempt x]" by auto
      with True mk Inl show ?thesis
        by (simp, intro exI [of _ "e # pre"] exI [of _ x] exI [of _ post] exI [of _ k] exI [of _ v]) auto
    next
      case False
      with ih mk Inl show ?thesis by auto
    qed
  next
    case (Inr v)
    with Cons.prems mk have "r = \<lparr>cr_cluster_key = key, cr_value = Some v, cr_answering_endpoint = ep_name e,
        cr_attempted = attempts @ [answered_attempt e], cr_complete = True, cr_client = Some client\<rparr>"
      by (simp add: client_of_def result_simps)
    then show ?thesis using mk Inr by (auto intro!: exI [of _ "[]"])
  qed
qed auto

text \<open>
  C32: A cluster-wide read stays in its cluster and takes one authoritative answer. If the read is
  complete, the answer is that of one enabled endpoint of this cluster, the recorded attempts are
  exactly the endpoints before it in the health order, each of which failed, followed by the one
  that answered. If it is incomplete, every enabled endpoint was tried and failed, and no value
  and no client is handed out. Its error list has one message per failed attempt.
\<close>

theorem cluster_wide_read_first_answer:
  assumes "cluster_wide_read mk call c d = Inr r"
  shows "require_acquirable c d = Inr ()
    \<and> length (errors r) = length (filter (\<lambda>a. \<not> ea_ok a) (cr_attempted r))
    \<and> (if cr_complete r
       then \<exists>pre e post client v. enabled_endpoints (cl_pk c) d = pre @ e # post
              \<and> ep_cluster e = cl_pk c \<and> ep_enabled e \<and> mk e = Inr client \<and> call client = Inr v
              \<and> (\<forall>x\<in>set pre. \<exists>k f. mk x = Inr k \<and> call k = Inl f)
              \<and> cr_value r = Some v \<and> cr_client r = Some client
              \<and> cr_attempted r = map failed_attempt pre @ [answered_attempt e]
              \<and> length (errors r) = length pre
       else (\<forall>x\<in>set (enabled_endpoints (cl_pk c) d). \<exists>k f. mk x = Inr k \<and> call k = Inl f)
              \<and> cr_value r = None \<and> cr_client r = None \<and> length (errors r) = length (enabled_endpoints (cl_pk c) d))"
proof -
  from assms have ok: "require_acquirable c d = Inr ()"
    and loop: "read_loop mk call (cl_key c) [] (enabled_endpoints (cl_pk c) d) = Inr r"
    by (auto simp: cluster_wide_read_def result_simps)
  have failed: "filter (\<lambda>a. \<not> ea_ok a) (map failed_attempt xs) = map failed_attempt xs" for xs
    by (induction xs) (auto simp: failed_attempt_def)
  note first = read_loop_first_answer [OF loop]
  show ?thesis
  proof (cases "cr_complete r")
    case True
    with first obtain pre e post client v where f: "enabled_endpoints (cl_pk c) d = pre @ e # post \<and> mk e = Inr client
        \<and> call client = Inr v \<and> (\<forall>x\<in>set pre. \<exists>k f. mk x = Inr k \<and> call k = Inl f)
        \<and> cr_value r = Some v \<and> cr_client r = Some client \<and> cr_attempted r = map failed_attempt pre @ [answered_attempt e]"
      by auto
    then have "e \<in> set (enabled_endpoints (cl_pk c) d)" by simp
    then have "ep_cluster e = cl_pk c" "ep_enabled e" by (simp_all add: enabled_endpoints_set)
    with f ok True failed show ?thesis
      by (simp add: errors_def answered_attempt_def)
        (intro exI [of _ pre] exI [of _ e] exI [of _ post] exI [of _ client] exI [of _ v], auto)
  next
    case False
    with first ok failed show ?thesis by (simp add: errors_def)
  qed
qed

definition example_reader :: "string \<Rightarrow> (call_failure, nat) result" where
  "example_reader client = (if client = ''pve1'' then Inl (Answered ''500'') else Inr 7)"

theorem cluster_wide_read_first_answer_witness:
  "case cluster_wide_read (\<lambda>e. Inr (ep_name e)) example_reader (new_cluster 1 ''lab'' ''Lab'') example_two_endpoints of
     Inl e \<Rightarrow> False
   | Inr r \<Rightarrow> cr_complete r \<and> length (errors r) = 1
       \<and> require_acquirable (new_cluster 1 ''lab'' ''Lab'') example_two_endpoints = Inr ()"
proof -
  let ?run = "cluster_wide_read (\<lambda>e. Inr (ep_name e)) example_reader (new_cluster 1 ''lab'' ''Lab'') example_two_endpoints"
  have run: "case ?run of Inl e \<Rightarrow> False | Inr r \<Rightarrow> cr_complete r \<and> length (errors r) = 1" by code_simp
  show ?thesis
  proof (cases ?run)
    case (Inl e)
    with run show ?thesis by simp
  next
    case (Inr r)
    from cluster_wide_read_first_answer [OF this] run Inr show ?thesis by simp
  qed
qed

end
