(* ===== verification/Public_Errors.thy ===== *)
theory Public_Errors
  imports Prelude
begin

text \<open>
  \<^verbatim>\<open>core/services/public_errors.py\<close>: which text and which decision code of a failure may be stored or
  shown. An exception is what the boundary looks at: whether its class owns its text, and if so
  that text and its code. Logging is left out.
\<close>

definition ERROR_CODE_DOMAIN :: string where "ERROR_CODE_DOMAIN = ''domain_error''"
definition ERROR_CODE_POWERDOWN_FAILED :: string where "ERROR_CODE_POWERDOWN_FAILED = ''powerdown_failed''"
definition ERROR_CODE_PROVIDER :: string where "ERROR_CODE_PROVIDER = ''provider_error''"
definition ERROR_CODE_TASK_FAILED :: string where "ERROR_CODE_TASK_FAILED = ''task_failed''"
definition ERROR_CODE_TASK_TIMEOUT :: string where "ERROR_CODE_TASK_TIMEOUT = ''task_timeout''"
definition ERROR_CODE_UNEXPECTED :: string where "ERROR_CODE_UNEXPECTED = ''unexpected_error''"

definition SHUTDOWN_INCOMPLETE_CODES :: "string list" where
  "SHUTDOWN_INCOMPLETE_CODES = [ERROR_CODE_TASK_TIMEOUT, ERROR_CODE_POWERDOWN_FAILED]"

definition PROVIDER_FAILURE_MESSAGE :: string where
  "PROVIDER_FAILURE_MESSAGE = ''The Proxmox API request failed.''"

definition TASK_FAILED_MESSAGE :: string where
  "TASK_FAILED_MESSAGE = ''The Proxmox task did not complete successfully.''"

definition TASK_TIMEOUT_MESSAGE :: string where
  "TASK_TIMEOUT_MESSAGE = ''The Proxmox task did not finish before its timeout.''"

definition POWERDOWN_FAILED_MESSAGE :: string where
  "POWERDOWN_FAILED_MESSAGE = ''The guest did not shut down. It may have no ACPI handler or no running QEMU guest agent.''"

definition UNEXPECTED_FAILURE_MESSAGE :: string where
  "UNEXPECTED_FAILURE_MESSAGE = ''The operation failed unexpectedly.''"

datatype exc =
    PublicMessage string string
  | OtherException string

record public_failure =
  pf_message :: string
  pf_code :: string

text \<open>The exception's own text is logged; what leaves is the caller's.\<close>

definition public_exception_message :: "exc \<Rightarrow> string \<Rightarrow> string" where
  "public_exception_message e fallback = fallback"

definition public_failure_of :: "exc \<Rightarrow> string \<Rightarrow> string \<Rightarrow> public_failure" where
  "public_failure_of e fallback code =
     (case e of
        PublicMessage own error_code \<Rightarrow> \<lparr>pf_message = own, pf_code = (if code \<noteq> [] then code else error_code)\<rparr>
      | OtherException _ \<Rightarrow> \<lparr>pf_message = public_exception_message e fallback,
                           pf_code = (if code \<noteq> [] then code else ERROR_CODE_UNEXPECTED)\<rparr>)"

text \<open>\<open>sub in text\<close>.\<close>

fun contains :: "string \<Rightarrow> string \<Rightarrow> bool" where
  "contains sub [] = (sub = [])"
| "contains sub (c # cs) = (starts_with sub (c # cs) \<or> contains sub cs)"

definition proxmox_task_failure :: "string \<Rightarrow> string \<Rightarrow> public_failure" where
  "proxmox_task_failure exitstatus status =
     (let text = lower (strip (if exitstatus \<noteq> [] then exitstatus else status)) in
      if contains ''timeout'' text \<or> contains ''timed out'' text
      then \<lparr>pf_message = TASK_TIMEOUT_MESSAGE, pf_code = ERROR_CODE_TASK_TIMEOUT\<rparr>
      else if contains ''powerdown'' text
      then \<lparr>pf_message = POWERDOWN_FAILED_MESSAGE, pf_code = ERROR_CODE_POWERDOWN_FAILED\<rparr>
      else \<lparr>pf_message = TASK_FAILED_MESSAGE, pf_code = ERROR_CODE_TASK_FAILED\<rparr>)"

section \<open>Facts\<close>

lemma starts_with_iff: "starts_with p s \<longleftrightarrow> (\<exists>rest. s = p @ rest)"
  unfolding starts_with_def by (metis append_eq_conv_conj append_take_drop_id)

lemma contains_iff: "contains sub body \<longleftrightarrow> (\<exists>pre post. body = pre @ sub @ post)"
proof (induction body)
  case (Cons c cs)
  have "(\<exists>pre post. c # cs = pre @ sub @ post) \<longleftrightarrow> (\<exists>post. c # cs = sub @ post) \<or> (\<exists>pre post. cs = pre @ sub @ post)"
    by (metis append_Cons append_Nil list.inject neq_Nil_conv)
  with Cons show ?case by (simp add: starts_with_iff)
qed auto

text \<open>
  What the task reported never reaches the row: the message is one of three fixed texts, and the
  force-stop follow-up is offered exactly when the report speaks of a timeout or a powerdown.
\<close>

lemma task_failure_shutdown_codes:
  "pf_code (proxmox_task_failure x s) \<in> set SHUTDOWN_INCOMPLETE_CODES
     \<longleftrightarrow> (let text = lower (strip (if x \<noteq> [] then x else s)) in
          contains ''timeout'' text \<or> contains ''timed out'' text \<or> contains ''powerdown'' text)"
  by (auto simp: proxmox_task_failure_def SHUTDOWN_INCOMPLETE_CODES_def ERROR_CODE_TASK_TIMEOUT_def
      ERROR_CODE_POWERDOWN_FAILED_def ERROR_CODE_TASK_FAILED_def Let_def)

lemma task_failure_message_fixed:
  "pf_message (proxmox_task_failure x s) \<in> {TASK_TIMEOUT_MESSAGE, POWERDOWN_FAILED_MESSAGE, TASK_FAILED_MESSAGE}"
  by (simp add: proxmox_task_failure_def Let_def)

end
