(* ===== verification/Tags.thy ===== *)
theory Tags
  imports Models
begin

text \<open>
  \<^verbatim>\<open>core/services/tags.py\<close>: the tag list of a guest, the registered tags of a cluster and the colour map
  of its \<open>tag-style\<close> option. A dictionary is the list of its members in insertion order. The
  colour \<open>colorsys\<close> derives from the digest of a name is a parameter; Python's \<open>str\<close> of a container is one too.
\<close>

section \<open>Dictionaries in insertion order\<close>

fun dict_set :: "'k \<Rightarrow> 'v \<Rightarrow> ('k \<times> 'v) list \<Rightarrow> ('k \<times> 'v) list" where
  "dict_set k v [] = [(k, v)]"
| "dict_set k v ((k', v') # rest) = (if k' = k then (k, v) # rest else (k', v') # dict_set k v rest)"

lemma dict_set_map_of: "map_of (dict_set k v m) = (map_of m)(k \<mapsto> v)"
  by (induction m) (auto simp: fun_eq_iff)

lemma dict_set_keys: "set (map fst (dict_set k v m)) = insert k (set (map fst m))"
proof (induction m)
  case (Cons kv m)
  then show ?case by (cases kv) (simp add: insert_commute)
qed simp

lemma dict_set_distinct: "distinct (map fst m) \<Longrightarrow> distinct (map fst (dict_set k v m))"
proof (induction m)
  case (Cons kv m)
  then show ?case using dict_set_keys [of k v m] by (cases kv) auto
qed simp

lemma dict_set_new: "k \<notin> set (map fst m) \<Longrightarrow> dict_set k v m = m @ [(k, v)]"
  by (induction m) auto

section \<open>Tag lists\<close>

definition is_tag_separator :: "char \<Rightarrow> bool" where
  "is_tag_separator c = (c = CHR '';'' \<or> c = CHR '','' \<or> is_space c)"

text \<open>The non-empty parts of \<open>re.split(r"[;,\s]+", text)\<close>.\<close>

fun tag_parts :: "string \<Rightarrow> string \<Rightarrow> string list" where
  "tag_parts acc [] = (if acc = [] then [] else [acc])"
| "tag_parts acc (c # cs) =
     (if is_tag_separator c then (if acc = [] then tag_parts [] cs else acc # tag_parts [] cs) else tag_parts (acc @ [c]) cs)"

fun unique_tags :: "string list \<Rightarrow> string list \<Rightarrow> string list" where
  "unique_tags result [] = result"
| "unique_tags result (raw # rest) =
     (let tag = lower (strip raw) in
      unique_tags (if tag \<noteq> [] \<and> tag \<notin> set result then result @ [tag] else result) rest)"

text \<open>\<open>str(item)\<close> of a JSON value.\<close>

fun item_text :: "(json \<Rightarrow> string) \<Rightarrow> json \<Rightarrow> string" where
  "item_text str JNull = ''None''"
| "item_text str (JBool b) = (if b then ''True'' else ''False'')"
| "item_text str (JInt i) = show_int i"
| "item_text str (JFloat f) = f"
| "item_text str (JStr s) = s"
| "item_text str v = str v"

definition parse_tags :: "(json \<Rightarrow> string) \<Rightarrow> json \<Rightarrow> string list" where
  "parse_tags str value =
     (let v = (case value of JObj ms \<Rightarrow> (case map_of ms ''tags'' of None \<Rightarrow> JNull | Some t \<Rightarrow> t) | _ \<Rightarrow> value) in
      unique_tags []
        (case v of JList items \<Rightarrow> map (item_text str) items | _ \<Rightarrow> tag_parts [] (strip (text_or_empty str (Some v)))))"

definition join_tags :: "string list \<Rightarrow> string" where
  "join_tags tags = join '';'' (unique_tags [] tags)"

definition tag_start :: "char \<Rightarrow> bool" where
  "tag_start c = (let n = (of_char c :: nat) in 97 \<le> n \<and> n \<le> 122 \<or> 48 \<le> n \<and> n \<le> 57 \<or> c = CHR ''_'')"

definition tag_char :: "char \<Rightarrow> bool" where
  "tag_char c = (tag_start c \<or> c = CHR ''+'' \<or> c = CHR ''.'' \<or> c = CHR ''-'')"

definition TAG_RE :: "string \<Rightarrow> bool" where
  "TAG_RE s = (case s of [] \<Rightarrow> False | c # cs \<Rightarrow> tag_start c \<and> list_all tag_char cs)"

definition color_digit :: "char \<Rightarrow> bool" where
  "color_digit c = (let n = (of_char c :: nat) in 48 \<le> n \<and> n \<le> 57 \<or> 97 \<le> n \<and> n \<le> 102)"

definition HEX_RE :: "string \<Rightarrow> bool" where
  "HEX_RE s = (length s = 6 \<and> list_all color_digit s)"

definition TAG_NAME_ERROR :: string where
  "TAG_NAME_ERROR = ''Use lowercase letters, numbers, _, +, . or -; start with a letter, number or _.''"

definition TAG_COLOR_ERROR :: string where
  "TAG_COLOR_ERROR = ''Color must be six hexadecimal characters.''"

definition validate_tag :: "string \<Rightarrow> (string, string) result" where
  "validate_tag tag = (let t = lower (strip tag) in if t = [] \<or> \<not> TAG_RE t then Inl TAG_NAME_ERROR else Inr t)"

definition validate_color :: "string \<Rightarrow> (string, string) result" where
  "validate_color color =
     (let v = lower (strip color); value = (case v of c # cs \<Rightarrow> if c = CHR ''#'' then cs else v | [] \<Rightarrow> [])
      in if value \<noteq> [] \<and> \<not> HEX_RE value then Inl TAG_COLOR_ERROR else Inr value)"

section \<open>Registered tags\<close>

record registered_tag =
  rt_name :: string
  rt_background :: string
  rt_foreground :: string

type_synonym color_map = "(string \<times> string \<times> string) list"

definition option_text :: "(json \<Rightarrow> string) \<Rightarrow> json \<Rightarrow> string" where
  "option_text str v = (case v of JList items \<Rightarrow> join '';'' (map (item_text str) items) | _ \<Rightarrow> text_or_empty str (Some v))"

definition style_entry :: "string \<Rightarrow> (string \<times> string) list \<Rightarrow> (string \<times> string) list" where
  "style_entry part m =
     (case partition_on CHR ''='' part of (key, sep, raw) \<Rightarrow>
        if sep \<and> strip key \<noteq> [] then dict_set (strip key) (strip raw) m else m)"

definition parse_tag_style :: "(json \<Rightarrow> string) \<Rightarrow> json \<Rightarrow> (string \<times> string) list" where
  "parse_tag_style str v =
     (case v of
        JObj ms \<Rightarrow> fold (\<lambda>(k, raw) m. if raw \<noteq> JNull then dict_set k (item_text str raw) m else m) ms []
      | _ \<Rightarrow> fold style_entry (split_on CHR '','' (option_text str v)) [])"

definition serialize_tag_style :: "(string \<times> string) list \<Rightarrow> string" where
  "serialize_tag_style options = join '','' (map (\<lambda>(k, v). k @ ''='' @ v) (filter (\<lambda>(k, v). v \<noteq> []) options))"

definition color_entry :: "string \<Rightarrow> color_map \<Rightarrow> color_map" where
  "color_entry entry m =
     (case partition_on CHR '':'' entry of (tag0, sep, colors) \<Rightarrow>
        if \<not> sep then m
        else (case partition_on CHR '':'' colors of (background, _, foreground) \<Rightarrow>
          let tag = lower (strip tag0) in
          if tag \<noteq> [] \<and> HEX_RE (lower background)
          then dict_set tag (lower background, if HEX_RE (lower foreground) then lower foreground else []) m
          else m))"

definition parse_color_map :: "string \<Rightarrow> color_map" where
  "parse_color_map v = fold color_entry (split_on CHR '';'' v) []"

definition color_text :: "string \<times> string \<times> string \<Rightarrow> string" where
  "color_text e = fst e @ '':'' @ fst (snd e) @ (if snd (snd e) \<noteq> [] then '':'' @ snd (snd e) else [])"

definition serialize_color_map :: "color_map \<Rightarrow> string" where
  "serialize_color_map colors = join '';'' (map color_text (sort_key fst colors))"

definition parse_registered_tags :: "(json \<Rightarrow> string) \<Rightarrow> json_object \<Rightarrow> registered_tag list" where
  "parse_registered_tags str options =
     (let get = (\<lambda>k. case map_of options k of None \<Rightarrow> JNull | Some v \<Rightarrow> v);
          names = parse_tags str (JStr (option_text str (get ''registered-tags'')));
          style = parse_tag_style str (get ''tag-style'');
          colors = parse_color_map (case map_of style ''color-map'' of None \<Rightarrow> [] | Some v \<Rightarrow> v)
      in map (\<lambda>n. case map_of colors n of
             None \<Rightarrow> \<lparr>rt_name = n, rt_background = [], rt_foreground = []\<rparr>
           | Some (b, f) \<Rightarrow> \<lparr>rt_name = n, rt_background = b, rt_foreground = f\<rparr>) names)"

section \<open>Tag chips\<close>

text \<open>
  The luminance test in exact arithmetic: \<open>0.2126 r + 0.7152 g + 0.0722 b > 0.55\<close> for channels in
  255ths. (Rounding cannot change the verdict: two values of the left side that differ do so by at
  least \<open>2 / 2550000\<close>, and at the eighteen colours where both sides are equal the rounded sum is
  not above \<open>0.55\<close>.)
\<close>

definition color_digit_value :: "char \<Rightarrow> int" where
  "color_digit_value c = (let n = (of_char c :: int) in if n \<le> 57 then n - 48 else n - 87)"

definition hex_pair :: "string \<Rightarrow> nat \<Rightarrow> int" where
  "hex_pair s i = 16 * color_digit_value (s ! i) + color_digit_value (s ! (i + 1))"

definition readable_foreground :: "string \<Rightarrow> (string, string) result" where
  "readable_foreground background0 =
     bind_result (validate_color background0) (\<lambda>background.
       if background = [] then Inr []
       else Inr (if 2126 * hex_pair background 0 + 7152 * hex_pair background 2 + 722 * hex_pair background 4 > 1402500
                 then ''000000'' else ''ffffff''))"

definition fallback_color :: "(string \<Rightarrow> string) \<Rightarrow> string \<Rightarrow> (string, string \<times> string) result" where
  "fallback_color hue_background tag =
     bind_result (readable_foreground (hue_background tag)) (\<lambda>f. Inr (hue_background tag, f))"

definition tag_chip ::
  "(string \<Rightarrow> string) \<Rightarrow> string \<Rightarrow> registered_tag list \<Rightarrow> (string, string \<times> string \<times> string) result" where
  "tag_chip hue_background name registered =
     bind_result
       (case List.find (\<lambda>t. rt_name t = name) registered of
          Some t \<Rightarrow> if rt_background t \<noteq> [] then Inr (rt_background t, rt_foreground t)
                    else fallback_color hue_background name
        | None \<Rightarrow> fallback_color hue_background name)
       (\<lambda>(background, foreground).
          if foreground \<noteq> [] then Inr (name, background, foreground)
          else bind_result (readable_foreground background) (\<lambda>f. Inr (name, background, f)))"

section \<open>The tag table\<close>

record tag_summary =
  ts_name :: string
  ts_guests :: "guest list"
  ts_registered :: bool
  ts_background :: string
  ts_foreground :: string

definition ts_state :: "tag_summary \<Rightarrow> string" where
  "ts_state t =
     (if ts_registered t \<and> ts_guests t \<noteq> [] then ''Registered''
      else if ts_registered t then ''Registered, unused''
      else ''Ad-hoc'')"

definition new_summary :: "string \<Rightarrow> tag_summary" where
  "new_summary name = \<lparr>ts_name = name, ts_guests = [], ts_registered = False, ts_background = [], ts_foreground = []\<rparr>"

definition add_tagged_guest :: "guest \<Rightarrow> string \<Rightarrow> (string \<times> tag_summary) list \<Rightarrow> (string \<times> tag_summary) list" where
  "add_tagged_guest guest name m =
     (let summary = (case map_of m name of None \<Rightarrow> new_summary name | Some t \<Rightarrow> t)
      in dict_set name (summary\<lparr>ts_guests := ts_guests summary @ [guest]\<rparr>) m)"

definition inventory_rows ::
  "(json \<Rightarrow> string) \<Rightarrow> (string \<Rightarrow> string) \<Rightarrow> guest list \<Rightarrow> registered_tag list \<Rightarrow> (string, tag_summary list) result" where
  "inventory_rows str hue_background tagged registered =
     (let declared = fold (\<lambda>t. dict_set (rt_name t) ((new_summary (rt_name t))
            \<lparr>ts_registered := True, ts_background := rt_background t, ts_foreground := rt_foreground t\<rparr>)) registered [];
          summaries = fold (\<lambda>g m. fold (add_tagged_guest g) (parse_tags str (g_config g)) m) tagged declared
      in bind_result
           (map_result (\<lambda>t. bind_result (tag_chip hue_background (ts_name t) registered)
              (\<lambda>(_, background, foreground). Inr (t\<lparr>ts_background := background, ts_foreground := foreground\<rparr>)))
             (map snd summaries))
           (\<lambda>rows. Inr (sort_key ts_name rows)))"

section \<open>Facts\<close>

lemma unique_tags_distinct: "distinct result \<Longrightarrow> distinct (unique_tags result raws)"
  by (induction raws arbitrary: result) (auto simp: Let_def)

lemma unique_tags_canonical:
  "list_all (\<lambda>t. t \<noteq> [] \<and> lower t = t) result \<Longrightarrow> list_all (\<lambda>t. t \<noteq> [] \<and> lower t = t) (unique_tags result raws)"
  by (induction raws arbitrary: result) (auto simp: Let_def)

text \<open>Tags that are already canonical stay as they are.\<close>

lemma unique_tags_same:
  assumes "distinct (result @ ts)" "\<forall>t\<in>set ts. t \<noteq> [] \<and> lower (strip t) = t"
  shows "unique_tags result ts = result @ ts"
  using assms by (induction ts arbitrary: result) (auto simp: Let_def)

lemma tag_parts_word:
  "\<forall>c\<in>set word. \<not> is_tag_separator c \<Longrightarrow> tag_parts acc (word @ rest) = tag_parts (acc @ word) rest"
  by (induction word arbitrary: acc) auto

lemma tag_parts_join:
  assumes "\<forall>t\<in>set ts. t \<noteq> [] \<and> (\<forall>c\<in>set t. \<not> is_tag_separator c)"
  shows "tag_parts [] (join '';'' ts) = ts"
  using assms
proof (induction ts rule: induct_list012)
  case (2 x)
  then show ?case using tag_parts_word [of x "[]" "[]"] by simp
next
  case (3 x y zs)
  then have "tag_parts [] (x @ '';'' @ join '';'' (y # zs)) = tag_parts x ('';'' @ join '';'' (y # zs))"
    using tag_parts_word [of x "[]" "'';'' @ join '';'' (y # zs)"] by simp
  also have "\<dots> = x # tag_parts [] (join '';'' (y # zs))" using 3 by (simp add: is_tag_separator_def)
  finally show ?case using 3 by simp
qed simp

lemma separators_space: "\<not> is_tag_separator c \<Longrightarrow> \<not> is_space c"
  by (simp add: is_tag_separator_def)


section \<open>The colour map round trip\<close>

lemma hex_lower_char: "color_digit c \<Longrightarrow> lower_char c = c \<and> c \<noteq> CHR '':'' \<and> c \<noteq> CHR '';'' \<and> c \<noteq> CHR '',''"
  by (auto simp: color_digit_def lower_char_def Let_def)

lemma hex_lower:
  assumes "HEX_RE s"
  shows "lower s = s" "CHR '':'' \<notin> set s" "CHR '';'' \<notin> set s" "CHR '','' \<notin> set s"
  using assms hex_lower_char by (fastforce simp: HEX_RE_def lower_def list_all_iff intro: map_idI)+

lemma hex_nonempty: "HEX_RE s \<Longrightarrow> s \<noteq> []"
  by (auto simp: HEX_RE_def)

definition color_ok :: "string \<times> string \<times> string \<Rightarrow> bool" where
  "color_ok e =
     (case e of (tag, background, foreground) \<Rightarrow>
        tag \<noteq> [] \<and> lower (strip tag) = tag \<and> CHR '':'' \<notin> set tag \<and> CHR '';'' \<notin> set tag
        \<and> HEX_RE background \<and> (foreground = [] \<or> HEX_RE foreground))"

lemma not_hex_empty [simp]: "\<not> HEX_RE []"
  by (simp add: HEX_RE_def)

lemma color_entry_text:
  assumes "color_ok e"
  shows "color_entry (color_text e) m = dict_set (fst e) (snd e) m"
proof -
  obtain tag background foreground where e: "e = (tag, background, foreground)" by (cases e)
  note ok = assms [unfolded e color_ok_def prod.case]
  then have low: "lower background = background" "CHR '':'' \<notin> set background" using hex_lower by blast+
  show ?thesis
  proof (cases "foreground = []")
    case True
    then show ?thesis
      using ok low partition_on_append [of "CHR '':''" tag background] partition_on_no_sep [of "CHR '':''" background]
      by (simp add: e color_entry_def color_text_def lower_def)
  next
    case False
    then have "HEX_RE foreground" using ok by simp
    then show ?thesis
      using ok low False hex_lower(1) [of foreground] partition_on_append [of "CHR '':''" background foreground]
        partition_on_append [of "CHR '':''" tag "background @ CHR '':'' # foreground"]
      by (simp add: e color_entry_def color_text_def)
  qed
qed

lemma color_text_no_semicolon: "color_ok e \<Longrightarrow> CHR '';'' \<notin> set (color_text e)"
  by (auto simp: color_ok_def color_text_def dest: hex_lower(3))

lemma fold_dict_set_new:
  "distinct (map fst (m @ es)) \<Longrightarrow> fold (\<lambda>e. dict_set (fst e) (snd e)) es m = m @ es"
proof (induction es arbitrary: m)
  case (Cons e es)
  then have "dict_set (fst e) (snd e) m = m @ [e]" using dict_set_new [of "fst e" m "snd e"] by auto
  then show ?case using Cons.IH [of "m @ [e]"] Cons.prems by simp
qed simp

lemma fold_color_entries:
  "list_all color_ok es \<Longrightarrow> fold color_entry (map color_text es) m = fold (\<lambda>e. dict_set (fst e) (snd e)) es m"
  by (induction es arbitrary: m) (simp_all add: color_entry_text)

text \<open>
  C38: the colour map that is written is the colour map that is read back: for valid entries with
  distinct tags \<open>parse_color_map\<close> inverts \<open>serialize_color_map\<close>, up to the order, which becomes
  the alphabetical one. Nothing is lost between two edits of the registry.
\<close>

theorem color_map_roundtrip:
  assumes "list_all color_ok colors" "distinct (map fst colors)"
  shows "parse_color_map (serialize_color_map colors) = sort_key fst colors"
proof (cases "colors = []")
  case True
  then show ?thesis by (simp add: parse_color_map_def serialize_color_map_def color_entry_def partition_on_def)
next
  case False
  let ?es = "sort_key fst colors"
  have ok: "list_all color_ok ?es" using assms by (simp add: list_all_iff)
  then have "split_on CHR '';'' (serialize_color_map colors) = map color_text ?es"
    unfolding serialize_color_map_def using False color_text_no_semicolon
    by (intro split_on_join) (auto simp: list_all_iff)
  then show ?thesis
    unfolding parse_color_map_def using ok assms(2) fold_color_entries [of ?es "[]"] fold_dict_set_new [of "[]" ?es]
    by (simp add: distinct_map_sort_key)
qed

theorem color_map_roundtrip_witness:
  "parse_color_map (serialize_color_map [(''web'', ''00ff00'', []), (''db'', ''112233'', ''ffffff'')])
   = [(''db'', ''112233'', ''ffffff''), (''web'', ''00ff00'', [])]"
proof -
  have "list_all color_ok [(''web'', ''00ff00'', []), (''db'', ''112233'', ''ffffff'')]" by code_simp
  moreover have "sort_key fst [(''web'', ''00ff00'', []), (''db'', ''112233'', ''ffffff'')]
     = [(''db'', ''112233'', ''ffffff''), (''web'', ''00ff00'', [])]" by code_simp
  ultimately show ?thesis
    using color_map_roundtrip [of "[(''web'', ''00ff00'', []), (''db'', ''112233'', ''ffffff'')]"] by simp
qed


section \<open>The tag table lists every guest under each of its tags\<close>

definition summary_of :: "(string \<times> tag_summary) list \<Rightarrow> string \<Rightarrow> tag_summary" where
  "summary_of m n = (case map_of m n of None \<Rightarrow> new_summary n | Some t \<Rightarrow> t)"

lemma add_tagged_guest_summary:
  "summary_of (add_tagged_guest g name m) n =
     (if n = name then (summary_of m n)\<lparr>ts_guests := ts_guests (summary_of m n) @ [g]\<rparr> else summary_of m n)"
  by (simp add: summary_of_def add_tagged_guest_def dict_set_map_of Let_def)

lemma add_tagged_guest_keys:
  "set (map fst (add_tagged_guest g name m)) = insert name (set (map fst m))"
  "distinct (map fst m) \<Longrightarrow> distinct (map fst (add_tagged_guest g name m))"
  unfolding add_tagged_guest_def Let_def by (rule dict_set_keys, rule dict_set_distinct)

lemma add_guest_summary_of:
  "distinct names \<Longrightarrow> summary_of (fold (add_tagged_guest g) names m) n =
     (if n \<in> set names then (summary_of m n)\<lparr>ts_guests := ts_guests (summary_of m n) @ [g]\<rparr> else summary_of m n)"
  by (induction names arbitrary: m) (auto simp: add_tagged_guest_summary)

lemma add_guest_keys:
  "set (map fst (fold (add_tagged_guest g) names m)) = set names \<union> set (map fst m)"
  "distinct (map fst m) \<Longrightarrow> distinct (map fst (fold (add_tagged_guest g) names m))"
  by (induction names arbitrary: m) (simp_all add: add_tagged_guest_keys [simplified])

lemma parse_tags_distinct: "distinct (parse_tags str v)"
  unfolding parse_tags_def Let_def by (rule unique_tags_distinct) simp

definition add_guests :: "(json \<Rightarrow> string) \<Rightarrow> guest list \<Rightarrow> (string \<times> tag_summary) list \<Rightarrow> (string \<times> tag_summary) list" where
  "add_guests str gs m = fold (\<lambda>g m. fold (add_tagged_guest g) (parse_tags str (g_config g)) m) gs m"

lemma add_guests_summary:
  "summary_of (add_guests str gs m) n =
     (summary_of m n)\<lparr>ts_guests := ts_guests (summary_of m n) @ filter (\<lambda>g. n \<in> set (parse_tags str (g_config g))) gs\<rparr>"
  unfolding add_guests_def
  by (induction gs arbitrary: m) (simp_all add: add_guest_summary_of [OF parse_tags_distinct])

lemma add_guests_keys:
  "set (map fst (add_guests str gs m)) = (\<Union>g\<in>set gs. set (parse_tags str (g_config g))) \<union> set (map fst m)"
  "distinct (map fst m) \<Longrightarrow> distinct (map fst (add_guests str gs m))"
  unfolding add_guests_def by (induction gs arbitrary: m) (simp_all add: add_guest_keys [simplified] Un_assoc Un_left_commute)

definition declared_tags :: "registered_tag list \<Rightarrow> (string \<times> tag_summary) list \<Rightarrow> (string \<times> tag_summary) list" where
  "declared_tags registered m = fold (\<lambda>t. dict_set (rt_name t) ((new_summary (rt_name t))
     \<lparr>ts_registered := True, ts_background := rt_background t, ts_foreground := rt_foreground t\<rparr>)) registered m"

lemma declared_tags_keys:
  "set (map fst (declared_tags registered m)) = rt_name ` set registered \<union> set (map fst m)"
  "distinct (map fst m) \<Longrightarrow> distinct (map fst (declared_tags registered m))"
  unfolding declared_tags_def
  by (induction registered arbitrary: m) (simp_all add: dict_set_keys [simplified] dict_set_distinct)

lemma summary_of_dict_set: "summary_of (dict_set k t m) n = (if n = k then t else summary_of m n)"
  by (simp add: summary_of_def dict_set_map_of)

lemma declared_tags_summary:
  "ts_guests (summary_of (declared_tags registered m) n) =
     (if n \<in> rt_name ` set registered then [] else ts_guests (summary_of m n))"
  "ts_name (summary_of (declared_tags registered m) n) =
     (if n \<in> rt_name ` set registered then n else ts_name (summary_of m n))"
  "ts_registered (summary_of (declared_tags registered m) n) \<longleftrightarrow>
     n \<in> rt_name ` set registered \<or> ts_registered (summary_of m n)"
  unfolding declared_tags_def
  by (induction registered arbitrary: m) (simp_all add: summary_of_dict_set new_summary_def)

text \<open>The dictionary behind the table: its keys, and what it holds under each of them.\<close>

definition tag_table :: "(json \<Rightarrow> string) \<Rightarrow> guest list \<Rightarrow> registered_tag list \<Rightarrow> (string \<times> tag_summary) list" where
  "tag_table str gs registered = add_guests str gs (declared_tags registered [])"

lemma tag_table_keys:
  "set (map fst (tag_table str gs registered)) = (\<Union>g\<in>set gs. set (parse_tags str (g_config g))) \<union> rt_name ` set registered"
  "distinct (map fst (tag_table str gs registered))"
  unfolding tag_table_def by (simp_all add: add_guests_keys [simplified] declared_tags_keys [simplified])

lemma tag_table_entry:
  assumes "(n, t) \<in> set (tag_table str gs registered)"
  shows "ts_name t = n" "ts_guests t = filter (\<lambda>g. n \<in> set (parse_tags str (g_config g))) gs"
    "ts_registered t \<longleftrightarrow> n \<in> rt_name ` set registered"
proof -
  have "summary_of (tag_table str gs registered) n = t"
    using assms tag_table_keys(2) [of str gs registered] by (simp add: summary_of_def)
  moreover have "summary_of [] n = new_summary n" by (simp add: summary_of_def)
  ultimately show "ts_name t = n" "ts_guests t = filter (\<lambda>g. n \<in> set (parse_tags str (g_config g))) gs"
    "ts_registered t \<longleftrightarrow> n \<in> rt_name ` set registered"
    using declared_tags_summary [of registered "[]" n]
    by (auto simp: tag_table_def add_guests_summary new_summary_def)
qed

lemma inventory_rows_table_form:
  "inventory_rows str hue gs registered =
     bind_result
       (map_result (\<lambda>t. bind_result (tag_chip hue (ts_name t) registered)
          (\<lambda>(_, background, foreground). Inr (t\<lparr>ts_background := background, ts_foreground := foreground\<rparr>)))
         (map snd (tag_table str gs registered)))
       (\<lambda>rows. Inr (sort_key ts_name rows))"
  by (simp add: inventory_rows_def tag_table_def add_guests_def declared_tags_def)

lemma painted_rows:
  assumes "map_result (\<lambda>t. bind_result (chip t)
      (\<lambda>(_, background, foreground). Inr (t\<lparr>ts_background := background, ts_foreground := foreground\<rparr>))) ts = Inr rows"
  shows "map ts_name rows = map ts_name ts" "map ts_guests rows = map ts_guests ts"
    "map ts_registered rows = map ts_registered ts"
  using assms by (induction ts arbitrary: rows) (auto simp: result_simps split: prod.splits)

text \<open>
  C39: the tag table is complete and exact. Its rows are the registered tags and the tags some guest
  carries, each once and in alphabetical order; a row lists, in inventory order, exactly the guests
  whose configuration carries its tag, and it is marked registered exactly when the registry has it.
\<close>

theorem inventory_rows_exact:
  assumes "inventory_rows str hue gs registered = Inr rows"
  shows "sorted (map ts_name rows) \<and> distinct (map ts_name rows)
    \<and> set (map ts_name rows) = rt_name ` set registered \<union> (\<Union>g\<in>set gs. set (parse_tags str (g_config g)))
    \<and> (\<forall>t\<in>set rows. ts_guests t = filter (\<lambda>g. ts_name t \<in> set (parse_tags str (g_config g))) gs
           \<and> (ts_registered t \<longleftrightarrow> ts_name t \<in> rt_name ` set registered))"
proof -
  let ?ts = "map snd (tag_table str gs registered)"
  obtain painted where painted: "map_result (\<lambda>t. bind_result (tag_chip hue (ts_name t) registered)
      (\<lambda>(_, background, foreground). Inr (t\<lparr>ts_background := background, ts_foreground := foreground\<rparr>))) ?ts = Inr painted"
    and rows: "rows = sort_key ts_name painted"
    using assms by (auto simp: inventory_rows_table_form result_simps)
  note same = painted_rows [OF painted]
  have "map ts_name ?ts = map fst (tag_table str gs registered)"
    using tag_table_entry(1) by (fastforce simp: map_eq_conv)
  with same(1) have names: "map ts_name painted = map fst (tag_table str gs registered)" by simp
  have "sorted (map ts_name rows)" by (simp add: rows)
  moreover have "distinct (map ts_name rows)"
    unfolding rows using names tag_table_keys(2) [of str gs registered] by (metis distinct_map_sort_key)
  moreover have "set (map ts_name rows) = set (map ts_name painted)" by (simp add: rows)
  then have "set (map ts_name rows) = rt_name ` set registered \<union> (\<Union>g\<in>set gs. set (parse_tags str (g_config g)))"
    unfolding names tag_table_keys(1) by blast
  moreover have "\<forall>t\<in>set rows. ts_guests t = filter (\<lambda>g. ts_name t \<in> set (parse_tags str (g_config g))) gs
           \<and> (ts_registered t \<longleftrightarrow> ts_name t \<in> rt_name ` set registered)"
  proof
    fix t assume "t \<in> set rows"
    then obtain i where i: "i < length painted" "t = painted ! i" by (auto simp: rows in_set_conv_nth)
    have len: "length painted = length ?ts" using same(1) by (metis length_map)
    let ?u = "?ts ! i"
    have eq: "ts_name t = ts_name ?u" "ts_guests t = ts_guests ?u" "ts_registered t = ts_registered ?u"
      using i len same by (metis nth_map)+
    have "?u \<in> snd ` set (tag_table str gs registered)" using i len by simp
    then obtain n where "(n, ?u) \<in> set (tag_table str gs registered)" by fastforce
    with tag_table_entry [OF this] eq
    show "ts_guests t = filter (\<lambda>g. ts_name t \<in> set (parse_tags str (g_config g))) gs
           \<and> (ts_registered t \<longleftrightarrow> ts_name t \<in> rt_name ` set registered)" by simp
  qed
  ultimately show ?thesis by blast
qed


definition tagged_guest :: "nat \<Rightarrow> string \<Rightarrow> guest" where
  "tagged_guest vmid tags = (new_guest 1 ''vm'' vmid)\<lparr>g_config := JObj [(''tags'', JStr tags)]\<rparr>"

theorem inventory_rows_exact_witness:
  "case inventory_rows (\<lambda>_. []) (\<lambda>_. ''336699'') [tagged_guest 100 ''Web;db'', tagged_guest 101 ''db'']
          [\<lparr>rt_name = ''old'', rt_background = ''ff0000'', rt_foreground = []\<rparr>] of
     Inl _ \<Rightarrow> False
   | Inr rows \<Rightarrow> sorted (map ts_name rows) \<and> set (map ts_name rows) = {''old'', ''db'', ''web''}"
proof -
  let ?gs = "[tagged_guest 100 ''Web;db'', tagged_guest 101 ''db'']"
  let ?rs = "[\<lparr>rt_name = ''old'', rt_background = ''ff0000'', rt_foreground = []\<rparr>]"
  have "case inventory_rows (\<lambda>_. []) (\<lambda>_. ''336699'') ?gs ?rs of Inl _ \<Rightarrow> False | Inr _ \<Rightarrow> True" by code_simp
  then obtain rows where rows: "inventory_rows (\<lambda>_. []) (\<lambda>_. ''336699'') ?gs ?rs = Inr rows" by (auto split: sum.splits)
  have "map (\<lambda>g. parse_tags (\<lambda>_. []) (g_config g)) ?gs = [[''web'', ''db''], [''db'']]" by code_simp
  then have tags: "(\<Union>g\<in>set ?gs. set (parse_tags (\<lambda>_. []) (g_config g))) = {''web'', ''db''}" by auto
  have "sorted (map ts_name rows) \<and> set (map ts_name rows) = {''old'', ''db'', ''web''}"
    using inventory_rows_exact [OF rows] unfolding tags by auto
  then show ?thesis unfolding rows by simp
qed

end
