(* ===== verification/Classification.thy ===== *)
theory Classification
  imports Prelude
begin

text \<open>
  \<^verbatim>\<open>core/services/classification.py\<close>: what a path below a storage root holds, the volume identifier of a
  disk image, the volumes a guest configuration refers to, and the verdict on one scanned entry.
  A path is parsed as \<open>PurePosixPath\<close> does (empty and \<open>.\<close> components dropped, a leading slash kept
  as the root). Regular expressions on digits are read over the ten ASCII digits.
\<close>

section \<open>Paths\<close>

text \<open>\<open>PurePosixPath(s).parts\<close>: exactly two leading slashes are a root of their own.\<close>

definition path_root :: "string \<Rightarrow> string list" where
  "path_root s =
     (if starts_with ''///'' s then [''/''] else if starts_with ''//'' s then [''//'']
      else if starts_with ''/'' s then [''/''] else [])"

definition path_tail :: "string \<Rightarrow> string list" where
  "path_tail s = filter (\<lambda>p. p \<noteq> [] \<and> p \<noteq> ''.'') (split_on CHR ''/'' s)"

definition path_parts :: "string \<Rightarrow> string list" where
  "path_parts s = path_root s @ path_tail s"

definition path_name :: "string \<Rightarrow> string" where
  "path_name s = (if path_tail s = [] then [] else last (path_tail s))"

text \<open>\<open>path.suffix\<close>: from the last dot of the name, unless only dots stand before it.\<close>

definition name_suffix :: "string \<Rightarrow> string" where
  "name_suffix name =
     (let tail = takeWhile (\<lambda>c. c \<noteq> CHR ''.'') (rev name); front = drop (length tail + 1) (rev name)
      in if length tail < length name \<and> list_ex (\<lambda>c. c \<noteq> CHR ''.'') front then CHR ''.'' # rev tail else [])"

definition path_suffix :: "string \<Rightarrow> string" where
  "path_suffix s = name_suffix (path_name s)"

section \<open>Content categories\<close>

definition TRASH_DIRECTORY_NAMES :: "string list" where
  "TRASH_DIRECTORY_NAMES = [''.trash'', ''.pve-helper-trash'']"

definition is_trash_relative_path :: "string \<Rightarrow> bool" where
  "is_trash_relative_path relative_path =
     (case path_parts relative_path of [] \<Rightarrow> False | p # _ \<Rightarrow> p \<in> set TRASH_DIRECTORY_NAMES)"

definition DISK_IMAGE_EXTENSIONS :: "string list" where
  "DISK_IMAGE_EXTENSIONS = [''.qcow2'', ''.raw'', ''.vmdk'', ''.img'', ''.qed'', ''.vdi'', ''.vhd'', ''.vhdx'']"

definition categorize_parts :: "string list \<Rightarrow> string \<Rightarrow> string" where
  "categorize_parts parts suffix =
     (if parts = [] then ''unknown''
      else if hd parts \<in> set TRASH_DIRECTORY_NAMES then ''trash''
      else if starts_with ''.pve-helper'' (hd parts) then ''app_internal''
      else if parts = [''images''] then ''vm_images''
      else if length parts = 2 \<and> hd parts = ''images'' then ''vm_image_directory''
      else if 3 \<le> length parts \<and> hd parts = ''images'' \<and> starts_with ''base-'' (parts ! 2) then ''base_image''
      else if 3 \<le> length parts \<and> hd parts = ''images'' \<and> starts_with ''vm-'' (parts ! 2) then ''vm_disk''
      else if suffix = ''.ova'' \<or> suffix = ''.ovf'' then ''import_package''
      else if suffix = ''.mf'' then ''import_manifest''
      else if take 1 parts = [''dump''] then ''backup''
      else if parts = [''template''] then ''template_directory''
      else if take 2 parts = [''template'', ''iso'']
      then if suffix \<in> set DISK_IMAGE_EXTENSIONS \<and> suffix \<noteq> ''.img'' then ''import_disk'' else ''iso''
      else if take 2 parts = [''template'', ''cache''] then ''ct_template''
      else if take 1 parts = [''snippets''] then ''snippet''
      else if take 1 parts = [''private''] then ''ct_private''
      else if parts = [''import''] then ''import_directory''
      else if take 1 parts = [''import''] then ''import_content''
      else if suffix \<in> set DISK_IMAGE_EXTENSIONS then ''import_disk''
      else ''unknown'')"

definition categorize_proxmox_path :: "string \<Rightarrow> string" where
  "categorize_proxmox_path relative_path =
     categorize_parts (path_parts relative_path) (lower (path_suffix relative_path))"

record derived_volume =
  dv_storage_id :: string
  dv_relative_path :: string
  dv_volid :: string
  dv_content_category :: string

definition derive_volid :: "string \<Rightarrow> string \<Rightarrow> derived_volume option" where
  "derive_volid storage_id relative_path =
     (let category = categorize_proxmox_path relative_path in
      if category = ''vm_disk'' \<or> category = ''base_image''
      then Some \<lparr>dv_storage_id = storage_id, dv_relative_path = relative_path,
             dv_volid = storage_id @ '':'' @ (path_parts relative_path ! 1) @ ''/'' @ path_name relative_path,
             dv_content_category = category\<rparr>
      else None)"

definition extract_vmid_from_image_path :: "string \<Rightarrow> int option" where
  "extract_vmid_from_image_path relative_path =
     (let parts = path_parts relative_path in
      if length parts < 3 \<or> hd parts \<noteq> ''images'' then None else parse_int (parts ! 1))"

section \<open>The volumes of a configuration\<close>

definition DISK_KEY_PREFIXES :: "string list" where
  "DISK_KEY_PREFIXES = [''ide'', ''sata'', ''scsi'', ''virtio'', ''efidisk'', ''tpmstate'', ''unused'', ''rootfs'', ''mp'']"

text \<open>\<open>$\<close> also matches before one final newline.\<close>

definition at_end :: "string \<Rightarrow> bool" where
  "at_end s = (s = [] \<or> s = [CHR 0x0A])"

definition DISK_CONFIG_KEYS :: "string \<Rightarrow> bool" where
  "DISK_CONFIG_KEYS key =
     list_ex (\<lambda>p. starts_with p key \<and> at_end (dropWhile is_digit (drop (length p) key))) DISK_KEY_PREFIXES"

text \<open>\<open>base-\d+-disk-\d+\.[^/]+\<close> on one path component.\<close>

definition drop_digits :: "string \<Rightarrow> string option" where
  "drop_digits s = (case s of c # _ \<Rightarrow> if is_digit c then Some (dropWhile is_digit s) else None | [] \<Rightarrow> None)"

definition drop_prefix :: "string \<Rightarrow> string \<Rightarrow> string option" where
  "drop_prefix p s = (if starts_with p s then Some (drop (length p) s) else None)"

definition base_component :: "string \<Rightarrow> bool" where
  "base_component s =
     (case Option.bind (Option.bind (Option.bind (Option.bind (Option.bind (drop_prefix ''base-'' s)
        drop_digits) (drop_prefix ''-disk-'')) drop_digits) (drop_prefix ''.'')) (\<lambda>r. if r = [] then None else Some ()) of
        None \<Rightarrow> False | Some _ \<Rightarrow> True)"

text \<open>
  \<open>_LINKED_CLONE_VOLID_RE\<close>: the storage is what stands before the first colon. The base is greedy, so
  the last path component that can end it does; a newline can only stand in that component or
  at the very end.
\<close>

definition base_candidates :: "string \<Rightarrow> (string \<times> string \<times> string) list" where
  "base_candidates rest =
     (let cs = split_on CHR ''/'' rest in
      map (\<lambda>j. (join ''/'' (take j cs), cs ! j, join ''/'' (drop (j + 1) cs))) (rev [1..<length cs - 1]))"

definition chomp :: "string \<Rightarrow> string" where
  "chomp s = (if s \<noteq> [] \<and> last s = CHR 0x0A then butlast s else s)"

definition linked_clone_match :: "string \<Rightarrow> (string \<times> string \<times> string) option" where
  "linked_clone_match volid =
     (case partition_on CHR '':'' volid of (storage, found, rest) \<Rightarrow>
        if \<not> found \<or> storage = [] then None
        else (case List.find (\<lambda>(pre, seg, clone). base_component seg \<and> CHR 0x0A \<notin> set pre
                       \<and> chomp clone \<noteq> [] \<and> CHR 0x0A \<notin> set (chomp clone)) (base_candidates rest) of
                None \<Rightarrow> None
              | Some (pre, seg, clone) \<Rightarrow> Some (storage, pre @ ''/'' @ seg, chomp clone)))"

definition expand_linked_clone_volid :: "string \<Rightarrow> string list" where
  "expand_linked_clone_volid volid =
     (case linked_clone_match volid of
        None \<Rightarrow> [volid]
      | Some (storage, base, clone) \<Rightarrow> [storage @ '':'' @ base, storage @ '':'' @ clone])"

definition parse_config_value_volid :: "string \<Rightarrow> string" where
  "parse_config_value_volid value =
     (let first_value = strip (hd (split_max 1 CHR '','' value)) in
      if first_value = [] \<or> first_value = ''none'' then []
      else if starts_with ''http://'' first_value \<or> starts_with ''https://'' first_value then []
      else if CHR '':'' \<notin> set first_value then []
      else first_value)"

fun visit :: "string \<Rightarrow> json \<Rightarrow> string list" where
  "visit key (JObj ms) = concat (map (\<lambda>(k, v). visit k v) ms)"
| "visit key (JList vs) = concat (map (visit key) vs)"
| "visit key (JStr value) =
     (if \<not> DISK_CONFIG_KEYS key then []
      else let volid = parse_config_value_volid value in
        if volid \<noteq> [] then expand_linked_clone_volid volid else [])"
| "visit key _ = []"

definition extract_disk_references :: "json_object \<Rightarrow> string list" where
  "extract_disk_references config = sort (remdups (visit [] (JObj config)))"


section \<open>The verdict\<close>

definition CONTENT_EXTENSIONS :: "string \<Rightarrow> string list" where
  "CONTENT_EXTENSIONS category =
     (if category = ''iso'' then [''.iso'', ''.img'']
      else if category = ''ct_template''
      then [''.tar.gz'', ''.tar.xz'', ''.tar.zst'', ''.tar.bz2'', ''.tar.lzo'', ''.tgz'', ''.tar'']
      else [])"

definition CONTENT_LABELS :: "string \<Rightarrow> string" where
  "CONTENT_LABELS category =
     (if category = ''iso'' then ''ISO'' else if category = ''ct_template'' then ''container template'' else category)"

definition KNOWN_DIRECTORY_CATEGORIES :: "string list" where
  "KNOWN_DIRECTORY_CATEGORIES =
     [''vm_images'', ''vm_image_directory'', ''backup'', ''iso'', ''ct_template'', ''ct_private'', ''snippet'',
      ''template_directory'', ''import_directory'']"

definition KNOWN_CONTENT_CATEGORIES :: "string list" where
  "KNOWN_CONTENT_CATEGORIES = [''backup'', ''iso'', ''ct_template'', ''ct_private'', ''snippet'', ''import_content'']"

definition import_label :: "string \<Rightarrow> string" where
  "import_label category =
     (if category = ''import_package'' then ''OVA/OVF package''
      else if category = ''import_manifest'' then ''OVF manifest'' else ''importable disk image'')"

definition ends_with :: "string \<Rightarrow> string \<Rightarrow> bool" where
  "ends_with suffix s = starts_with (rev suffix) (rev s)"

record classification_result =
  cs_classification :: string
  cs_reason :: string
  cs_matched_object :: json_object
  cs_evidence :: json_object

record classifier_context =
  cx_referenced_volids :: "string list"
  cx_template_vmids :: "int list"
  cx_gate_ok :: bool
  cx_missing_consumers :: "string list"

definition verdict :: "string \<Rightarrow> string \<Rightarrow> json_object \<Rightarrow> json_object \<Rightarrow> classification_result" where
  "verdict c reason matched evidence =
     \<lparr>cs_classification = c, cs_reason = reason, cs_matched_object = matched, cs_evidence = evidence\<rparr>"

definition misplaced_reason :: "string \<Rightarrow> string" where
  "misplaced_reason label =
     ''File is in the '' @ label @ '' directory but is not a recognised '' @ label @ '' file ''
     @ [CHR 0xE2, CHR 0x80, CHR 0x94] @ '' it is probably misplaced.''"

definition classify_base_image :: "classifier_context \<Rightarrow> string \<Rightarrow> json_object \<Rightarrow> classification_result" where
  "classify_base_image cx relative_path evidence0 =
     (let vmid = extract_vmid_from_image_path relative_path;
          evidence = evidence0 @ [(''vmid'', case vmid of None \<Rightarrow> JNull | Some i \<Rightarrow> JInt i)]
      in case vmid of
           Some i \<Rightarrow>
             if i \<in> set (cx_template_vmids cx)
             then verdict ''referenced'' ''Base image belongs to an inventoried Proxmox template.''
                    [(''vmid'', JInt i), (''object_type'', JStr ''template'')] evidence
             else verdict ''unknown''
                    ''Base images are never marked orphan in V1; backing-chain analysis is deferred.'' [] evidence
         | None \<Rightarrow> verdict ''unknown''
                    ''Base images are never marked orphan in V1; backing-chain analysis is deferred.'' [] evidence)"

definition classify_file :: "classifier_context \<Rightarrow> string \<Rightarrow> string \<Rightarrow> json_object \<Rightarrow> classification_result" where
  "classify_file cx relative_path category evidence =
     (if category = ''vm_disk'' then
        if \<not> cx_gate_ok cx
        then verdict ''classification_blocked''
               ''Not all expected storage consumers were inventoried in this scan-run.'' [] evidence
        else verdict ''likely_orphan'' ''VM disk file has no exact volid reference in the same scan-run.'' [] evidence
      else if category \<in> {''import_package'', ''import_manifest'', ''import_disk''}
      then verdict ''import_source'' (''Recognized '' @ import_label category @ '' available for VM import.'') [] evidence
      else if category \<in> set KNOWN_CONTENT_CATEGORIES then
        if CONTENT_EXTENSIONS category \<noteq> []
           \<and> \<not> list_ex (\<lambda>ext. ends_with ext (lower (path_name relative_path))) (CONTENT_EXTENSIONS category)
        then verdict ''unknown'' (misplaced_reason (CONTENT_LABELS category)) [] evidence
        else verdict ''proxmox_content'' ''File belongs to a recognized Proxmox content type.'' [] evidence
      else if lower (path_suffix relative_path) \<in> set DISK_IMAGE_EXTENSIONS
      then verdict ''import_source'' ''Recognized importable disk image available for VM import.'' [] evidence
      else verdict ''unknown''
             ''File type is not used by Proxmox and probably does not belong in this storage.'' [] evidence)"

definition classify_entry ::
    "classifier_context \<Rightarrow> string \<Rightarrow> string \<Rightarrow> string \<Rightarrow> string \<Rightarrow> classification_result" where
  "classify_entry cx relative_path entry_type category derived_volid =
     (let evidence = [(''derived_volid'', JStr derived_volid), (''content_category'', JStr category),
                      (''gate_ok'', JBool (cx_gate_ok cx)),
                      (''missing_consumers'', JList (map JStr (cx_missing_consumers cx)))];
          is_trash = (category = ''trash'' \<or> is_trash_relative_path relative_path)
      in if \<not> is_trash \<and> (category = ''app_internal'' \<or> starts_with ''.pve-helper'' relative_path)
         then verdict ''infrastructure'' ''App-managed internal directory (upload staging / working files).'' [] evidence
         else if is_trash then
           if entry_type \<noteq> ''file'' then verdict ''infrastructure'' ''Trash directory structure.'' [] evidence
           else verdict ''trash'' ''File is already under the storage trash path.'' [] evidence
         else if derived_volid \<noteq> [] \<and> derived_volid \<in> set (cx_referenced_volids cx)
         then verdict ''referenced'' ''Exact Proxmox volid is referenced by current VM/CT configuration.''
                [(''volid'', JStr derived_volid)] evidence
         else if category = ''base_image'' then classify_base_image cx relative_path evidence
         else if entry_type \<noteq> ''file'' then
           if category \<in> set KNOWN_DIRECTORY_CATEGORIES
           then verdict ''infrastructure'' ''Standard Proxmox storage directory structure.'' [] evidence
           else verdict ''unknown'' ''Directory with unrecognized content category.'' [] evidence
         else classify_file cx relative_path category evidence)"

section \<open>Scanned entries\<close>

text \<open>
  The fields of \<open>StorageEntry\<close> that \<open>StorageScanner\<close> derives from the path (\<^verbatim>\<open>core/services/storage.py\<close>)
  and the verdict on it.
\<close>

definition entry_category :: "string \<Rightarrow> string \<Rightarrow> string" where
  "entry_category storage_id relative =
     (case derive_volid storage_id relative of Some v \<Rightarrow> dv_content_category v | None \<Rightarrow> categorize_proxmox_path relative)"

definition entry_volid :: "string \<Rightarrow> string \<Rightarrow> string" where
  "entry_volid storage_id relative = (case derive_volid storage_id relative of Some v \<Rightarrow> dv_volid v | None \<Rightarrow> [])"

definition classify_scanned :: "classifier_context \<Rightarrow> string \<Rightarrow> string \<Rightarrow> string \<Rightarrow> classification_result" where
  "classify_scanned cx storage_id relative entry_type =
     classify_entry cx relative entry_type (entry_category storage_id relative) (entry_volid storage_id relative)"


section \<open>Facts about paths\<close>

lemma split_on_starts:
  assumes "sep \<notin> set p"
  shows "\<exists>q ps. split_on sep (p @ r) = (p @ q) # ps"
  using assms
proof (induction p)
  case Nil
  then show ?case by (cases "split_on sep r") simp_all
qed auto

lemma starts_with_append [simp]: "starts_with p (p @ r)"
  by (simp add: starts_with_def)

lemma starts_withE:
  assumes "starts_with p s"
  obtains r where "s = p @ r"
  using assms append_take_drop_id [of "length p" s] unfolding starts_with_def by metis

lemma path_root_relative: "hd s \<noteq> CHR ''/'' \<Longrightarrow> path_root s = []"
  by (cases s) (auto simp: path_root_def starts_with_def)

text \<open>A path that starts with the application's prefix has a first component that does.\<close>

lemma app_prefix_component:
  assumes "starts_with ''.pve-helper'' s"
  shows "path_parts s \<noteq> []" "starts_with ''.pve-helper'' (hd (path_parts s))"
proof -
  obtain r where s: "s = ''.pve-helper'' @ r" using assms by (rule starts_withE)
  obtain q ps where split: "split_on CHR ''/'' (''.pve-helper'' @ r) = (''.pve-helper'' @ q) # ps"
    using split_on_starts [of "CHR ''/''" "''.pve-helper''" r] by auto
  have parts: "path_parts s = path_tail s" using path_root_relative [of s] by (simp add: path_parts_def s)
  have "path_tail s = (''.pve-helper'' @ q) # filter (\<lambda>p. p \<noteq> [] \<and> p \<noteq> ''.'') ps"
    unfolding path_tail_def s split by simp
  with parts show "path_parts s \<noteq> []" "starts_with ''.pve-helper'' (hd (path_parts s))"
    by (simp_all add: starts_with_def)
qed

lemma category_vm_disk:
  assumes "categorize_proxmox_path s = ''vm_disk''"
  shows "\<not> is_trash_relative_path s" "\<not> starts_with ''.pve-helper'' s" "hd (path_parts s) = ''images''"
    "3 \<le> length (path_parts s)"
proof -
  note parts = assms [unfolded categorize_proxmox_path_def categorize_parts_def]
  from parts show images: "hd (path_parts s) = ''images''" "3 \<le> length (path_parts s)" by (auto split: if_splits)
  then show "\<not> is_trash_relative_path s"
    by (auto simp: is_trash_relative_path_def TRASH_DIRECTORY_NAMES_def split: list.splits)
  show "\<not> starts_with ''.pve-helper'' s"
    using app_prefix_component(2) [of s] images by (auto simp: starts_with_def)
qed

lemma entry_category_path: "entry_category storage_id s = categorize_proxmox_path s"
  by (simp add: entry_category_def derive_volid_def Let_def)

lemma entry_volid_vm_disk: "categorize_proxmox_path s = ''vm_disk'' \<Longrightarrow> entry_volid storage_id s \<noteq> []"
  by (simp add: entry_volid_def derive_volid_def)

lemma verdict_classification [simp]: "cs_classification (verdict c reason matched evidence) = c"
  by (simp add: verdict_def)

lemma classify_file_orphan:
  "cs_classification (classify_file cx s category evidence) = ''likely_orphan'' \<longleftrightarrow> category = ''vm_disk'' \<and> cx_gate_ok cx"
  by (simp add: classify_file_def)

lemma classify_base_not_orphan: "cs_classification (classify_base_image cx s evidence) \<noteq> ''likely_orphan''"
  by (simp add: classify_base_image_def Let_def split: option.split)

lemma scanned_orphan_iff:
  "cs_classification (classify_scanned cx storage_id relative entry_type) = ''likely_orphan'' \<longleftrightarrow>
     entry_type = ''file'' \<and> categorize_proxmox_path relative = ''vm_disk'' \<and> cx_gate_ok cx
     \<and> entry_volid storage_id relative \<notin> set (cx_referenced_volids cx)"
proof (cases "categorize_proxmox_path relative = ''vm_disk''")
  case True
  show ?thesis
    unfolding classify_scanned_def entry_category_path True classify_entry_def
    by (simp add: category_vm_disk [OF True] entry_volid_vm_disk [OF True] classify_file_orphan Let_def)
next
  case False
  then show ?thesis
    unfolding classify_scanned_def entry_category_path classify_entry_def
    by (simp add: classify_file_orphan classify_base_not_orphan Let_def)
qed



section \<open>A configured disk is never an orphan\<close>

text \<open>The path of a volume below the storage root, and the volume derived back from it.\<close>

definition plain_component :: "string \<Rightarrow> bool" where
  "plain_component s = (s \<noteq> [] \<and> s \<noteq> ''.'' \<and> CHR ''/'' \<notin> set s)"

definition image_path :: "string \<Rightarrow> string \<Rightarrow> string" where
  "image_path owner name = ''images/'' @ owner @ ''/'' @ name"

lemma image_path_tail:
  assumes "plain_component owner" "plain_component name"
  shows "path_tail (image_path owner name) = [''images'', owner, name]"
proof -
  have "split_on CHR ''/'' (join ''/'' [''images'', owner, name]) = [''images'', owner, name]"
    using assms by (intro split_on_join) (auto simp: plain_component_def)
  then show ?thesis using assms by (simp add: path_tail_def image_path_def plain_component_def)
qed

lemma image_path_parts:
  assumes "plain_component owner" "plain_component name"
  shows "path_parts (image_path owner name) = [''images'', owner, name]"
    "path_name (image_path owner name) = name"
  using path_root_relative [of "image_path owner name"] image_path_tail [OF assms]
  by (simp_all add: path_parts_def path_name_def image_path_def)

lemma disk_name_plain: "starts_with ''vm-'' name \<or> starts_with ''base-'' name \<Longrightarrow> CHR ''/'' \<notin> set name \<Longrightarrow> plain_component name"
  by (auto simp: plain_component_def starts_with_def)

lemma image_path_volid:
  assumes "plain_component owner" "CHR ''/'' \<notin> set name" "starts_with ''vm-'' name \<or> starts_with ''base-'' name"
  shows "entry_volid sid (image_path owner name) = sid @ '':'' @ owner @ ''/'' @ name"
    "categorize_proxmox_path (image_path owner name) \<in> {''vm_disk'', ''base_image''}"
proof -
  note parts = image_path_parts [OF assms(1) disk_name_plain [OF assms(3,2)]]
  show category: "categorize_proxmox_path (image_path owner name) \<in> {''vm_disk'', ''base_image''}"
    using assms(3) by (auto simp: categorize_proxmox_path_def categorize_parts_def parts TRASH_DIRECTORY_NAMES_def starts_with_def)
  then show "entry_volid sid (image_path owner name) = sid @ '':'' @ owner @ ''/'' @ name"
    by (auto simp: entry_volid_def derive_volid_def parts Let_def)
qed

lemma referenced_image_verdict:
  assumes "plain_component owner" "CHR ''/'' \<notin> set name" "starts_with ''vm-'' name \<or> starts_with ''base-'' name"
    "sid @ '':'' @ owner @ ''/'' @ name \<in> set (cx_referenced_volids cx)"
  shows "cs_classification (classify_scanned cx sid (image_path owner name) entry_type) = ''referenced''"
proof -
  note parts = image_path_parts [OF assms(1) disk_name_plain [OF assms(3,2)]]
  have "\<not> is_trash_relative_path (image_path owner name)"
    by (simp add: is_trash_relative_path_def parts TRASH_DIRECTORY_NAMES_def)
  moreover have "\<not> starts_with ''.pve-helper'' (image_path owner name)"
    by (simp add: image_path_def starts_with_def)
  ultimately show ?thesis
    using image_path_volid(1) [OF assms(1-3), of sid] image_path_volid(2) [OF assms(1-3)] assms(4)
    by (auto simp: classify_scanned_def entry_category_path classify_entry_def Let_def)
qed

lemma configured_volumes:
  assumes "(key, JStr value) \<in> set config" "DISK_CONFIG_KEYS key" "parse_config_value_volid value = volid" "volid \<noteq> []"
  shows "set (expand_linked_clone_volid volid) \<subseteq> set (extract_disk_references config)"
  using assms by (force simp: extract_disk_references_def Let_def)

lemma linked_clone_expansion:
  assumes "sid \<noteq> []" "CHR '':'' \<notin> set sid" "base_component base_name" "\<not> base_component clone_owner"
    "\<forall>s\<in>{base_owner, base_name, clone_owner, clone_name}. CHR ''/'' \<notin> set s \<and> CHR 0x0A \<notin> set s" "clone_owner \<noteq> []"
  shows "expand_linked_clone_volid (sid @ '':'' @ base_owner @ ''/'' @ base_name @ ''/'' @ clone_owner @ ''/'' @ clone_name)
    = [sid @ '':'' @ base_owner @ ''/'' @ base_name, sid @ '':'' @ clone_owner @ ''/'' @ clone_name]"
proof -
  let ?rest = "join ''/'' [base_owner, base_name, clone_owner, clone_name]"
  have split: "split_on CHR ''/'' ?rest = [base_owner, base_name, clone_owner, clone_name]"
    using assms(5) by (intro split_on_join) auto
  have candidates: "base_candidates ?rest =
      [(base_owner @ ''/'' @ base_name, clone_owner, clone_name), (base_owner, base_name, clone_owner @ ''/'' @ clone_name)]"
    unfolding base_candidates_def split by (simp add: upt_rec)
  have clone: "chomp (clone_owner @ ''/'' @ clone_name) = clone_owner @ ''/'' @ clone_name"
    using assms(5,6) by (auto simp: chomp_def last_append dest: last_in_set split: if_splits)
  have "linked_clone_match (sid @ '':'' @ ?rest) = Some (sid, base_owner @ ''/'' @ base_name, clone_owner @ ''/'' @ clone_name)"
    using assms partition_on_append [of "CHR '':''" sid ?rest] candidates clone
    by (simp add: linked_clone_match_def)
  then show ?thesis by (simp add: expand_linked_clone_volid_def)
qed



end
