(* ===== verification/Proxmox_Client.thy ===== *)
theory Proxmox_Client
  imports Cluster_Resolver Public_Errors Tags Classification
begin

text \<open>
  \<^verbatim>\<open>core/services/proxmox.py\<close>: one request and the classification of its failure, the calls built on
  it, the wait for a task, and the authoritative guest inventory. The HTTP exchange is a parameter:
  what the transport reports for a method, a path and a body, on a provider state \<open>'w\<close> that it may
  change. Caches and the display-only reads are left out.
\<close>

section \<open>Requests\<close>

text \<open>
  What an exchange ends with: a status error (code, decoded body if any, reason phrase), a failure
  of the transport (exception class, whether a certificate was rejected, whether its class proves
  that nothing was sent), or a body (\<^term>\<open>None\<close> when it is not JSON).
\<close>

datatype http_outcome =
    HttpStatusError nat "json option" string
  | HttpTransportError string bool bool
  | HttpBody "json option"

datatype api_error =
    ApiError string "nat option"
  | InvalidResponse string
  | TransportError string bool
  | TlsTrustError string bool
  | TaskTimeout string

record 'w http =
  ht_exchange :: "string \<Rightarrow> string \<Rightarrow> json_object \<Rightarrow> 'w \<Rightarrow> http_outcome \<times> 'w"
  ht_trust_mode :: string
  ht_str :: "json \<Rightarrow> string"

definition proxmox_error_detail :: "(json \<Rightarrow> string) \<Rightarrow> json option \<Rightarrow> string \<Rightarrow> string" where
  "proxmox_error_detail str payload reason_phrase =
     (let body = (case payload of Some (JObj ms) \<Rightarrow> ms | _ \<Rightarrow> []);
          parts = (case map_of body ''message'' of None \<Rightarrow> [] | Some m \<Rightarrow> if truthy m then [strip (item_text str m)] else [])
                  @ (case map_of body ''errors'' of Some (JObj es) \<Rightarrow> map (\<lambda>(k, v). k @ '': '' @ item_text str v) es | _ \<Rightarrow> []);
          detail = strip (join '' '' (filter (\<lambda>p. p \<noteq> []) parts))
      in if detail \<noteq> [] then detail else strip reason_phrase)"

definition tls_trust_message :: "string \<Rightarrow> string" where
  "tls_trust_message mode =
     ''The endpoint's TLS certificate was rejected before any request was sent: ''
     @ (if mode = ''public'' then ''this connection trusts the public CA store only''
        else if mode = ''ca_pem'' then ''this connection trusts its configured internal CA bundle only''
        else if mode = ''public_plus_ca''
        then ''this connection trusts the public CA store and this cluster's own CA, and this chain is neither''
        else ''this connection's trust profile does not accept it'')
     @ ''. Install a certificate the profile accepts on this node, or change the connection's trust profile to the CA that issued the certificate it presents.''"

definition classify :: "'w http \<Rightarrow> string \<Rightarrow> http_outcome \<Rightarrow> (api_error, json) result" where
  "classify h path oc =
     (case oc of
        HttpStatusError code payload reason_phrase \<Rightarrow>
          let detail = proxmox_error_detail (ht_str h) payload reason_phrase in
          Inl (ApiError (show_nat code @ (if detail \<noteq> [] then '': '' @ detail else '' from '' @ path)) (Some code))
      | HttpTransportError name tls never_sent \<Rightarrow>
          if tls then Inl (TlsTrustError (tls_trust_message (ht_trust_mode h)) False)
          else Inl (TransportError (name @ '' from '' @ path) (\<not> never_sent))
      | HttpBody None \<Rightarrow> Inl (InvalidResponse (''Invalid JSON response from '' @ path))
      | HttpBody (Some payload) \<Rightarrow>
          (case payload of
             JObj ms \<Rightarrow> (case map_of ms ''data'' of
                 None \<Rightarrow> Inl (InvalidResponse (''Unexpected response schema from '' @ path)) | Some v \<Rightarrow> Inr v)
           | _ \<Rightarrow> Inl (InvalidResponse (''Unexpected response schema from '' @ path))))"

definition http_request :: "'w http \<Rightarrow> string \<Rightarrow> string \<Rightarrow> json_object \<Rightarrow> 'w \<Rightarrow> (api_error, json) result \<times> 'w" where
  "http_request h meth path body w = (let (oc, w') = ht_exchange h meth path body w in (classify h path oc, w'))"

definition http_get :: "'w http \<Rightarrow> string \<Rightarrow> 'w \<Rightarrow> (api_error, json) result \<times> 'w" where
  "http_get h path = http_request h ''GET'' path []"

definition http_post :: "'w http \<Rightarrow> string \<Rightarrow> json_object \<Rightarrow> 'w \<Rightarrow> (api_error, json) result \<times> 'w" where
  "http_post h path body = http_request h ''POST'' path body"

definition http_put :: "'w http \<Rightarrow> string \<Rightarrow> json_object \<Rightarrow> 'w \<Rightarrow> (api_error, json) result \<times> 'w" where
  "http_put h path body = http_request h ''PUT'' path body"

definition http_delete :: "'w http \<Rightarrow> string \<Rightarrow> 'w \<Rightarrow> (api_error, json) result \<times> 'w" where
  "http_delete h path = http_request h ''DELETE'' path []"

text \<open>What the resolver sees of a failure: transport errors say whether the request was sent.\<close>

fun failure_of :: "api_error \<Rightarrow> call_failure" where
  "failure_of (TransportError m sent) = Transport sent m"
| "failure_of (TlsTrustError m sent) = Transport sent m"
| "failure_of (ApiError m _) = Answered m"
| "failure_of (InvalidResponse m) = Answered m"
| "failure_of (TaskTimeout m) = Answered m"

section \<open>Calls\<close>

text \<open>A call that uses the answer, keeping the provider state.\<close>

definition on_answer :: "('e, 'a) result \<times> 'w \<Rightarrow> ('a \<Rightarrow> ('e, 'b) result) \<Rightarrow> ('e, 'b) result \<times> 'w" where
  "on_answer m k = (bind_result (fst m) k, snd m)"

definition guest_kind :: "string \<Rightarrow> (api_error, string) result" where
  "guest_kind object_type =
     (if object_type = ''vm'' then Inr ''qemu'' else if object_type = ''ct'' then Inr ''lxc''
      else Inl (ApiError (''Unsupported guest type: '' @ object_type) None))"

definition guest_path :: "string \<Rightarrow> string \<Rightarrow> nat \<Rightarrow> string \<Rightarrow> string" where
  "guest_path node kind vmid tail = ''nodes/'' @ quote node @ ''/'' @ kind @ ''/'' @ show_nat vmid @ ''/'' @ tail"

definition expect_object :: "string \<Rightarrow> json \<Rightarrow> (api_error, json_object) result" where
  "expect_object msg v = (case v of JObj ms \<Rightarrow> Inr ms | _ \<Rightarrow> Inl (ApiError msg None))"

definition guest_read ::
    "'w http \<Rightarrow> string \<Rightarrow> string \<Rightarrow> string \<Rightarrow> string \<Rightarrow> nat \<Rightarrow> 'w \<Rightarrow> (api_error, json_object) result \<times> 'w" where
  "guest_read h what tail node object_type vmid w =
     (case guest_kind object_type of
        Inl e \<Rightarrow> (Inl e, w)
      | Inr kind \<Rightarrow> on_answer (http_get h (guest_path node kind vmid tail) w)
          (expect_object (''Unexpected guest '' @ what @ '' response for '' @ object_type @ '' '' @ show_nat vmid)))"

definition guest_current :: "'w http \<Rightarrow> string \<Rightarrow> string \<Rightarrow> nat \<Rightarrow> 'w \<Rightarrow> (api_error, json_object) result \<times> 'w" where
  "guest_current h = guest_read h ''status'' ''status/current''"

definition guest_config :: "'w http \<Rightarrow> string \<Rightarrow> string \<Rightarrow> nat \<Rightarrow> 'w \<Rightarrow> (api_error, json_object) result \<times> 'w" where
  "guest_config h = guest_read h ''config'' ''config''"

definition POWER_ACTIONS :: "string list" where
  "POWER_ACTIONS = [''start'', ''shutdown'', ''stop'', ''reboot'', ''reset'']"

definition power_action ::
    "'w http \<Rightarrow> string \<Rightarrow> string \<Rightarrow> nat \<Rightarrow> string \<Rightarrow> json_object \<Rightarrow> 'w \<Rightarrow> (api_error, string) result \<times> 'w" where
  "power_action h node object_type vmid action parameters w =
     (case guest_kind object_type of
        Inl e \<Rightarrow> (Inl e, w)
      | Inr kind \<Rightarrow>
          if action \<notin> set POWER_ACTIONS then (Inl (ApiError (''Unsupported power action: '' @ action) None), w)
          else on_answer (http_post h (guest_path node kind vmid (''status/'' @ action)) parameters w) (\<lambda>v.
                 case v of
                   JStr upid \<Rightarrow> if upid \<noteq> [] then Inr upid
                     else Inl (ApiError (''Unexpected task response for '' @ object_type @ '' '' @ show_nat vmid @ '' '' @ action) None)
                 | _ \<Rightarrow> Inl (ApiError (''Unexpected task response for '' @ object_type @ '' '' @ show_nat vmid @ '' '' @ action) None)))"

definition task_status :: "'w http \<Rightarrow> string \<Rightarrow> string \<Rightarrow> 'w \<Rightarrow> (api_error, json_object) result \<times> 'w" where
  "task_status h node upid w =
     on_answer (http_get h (''nodes/'' @ quote node @ ''/tasks/'' @ quote upid @ ''/status'') w)
       (expect_object (''Unexpected task status response for '' @ upid))"

definition stop_task :: "'w http \<Rightarrow> string \<Rightarrow> string \<Rightarrow> 'w \<Rightarrow> (api_error, json) result \<times> 'w" where
  "stop_task h node upid = http_delete h (''nodes/'' @ quote node @ ''/tasks/'' @ quote upid)"

text \<open>
  \<open>node_names\<close> swallows every provider failure. An element that is not an object raises
  \<open>AttributeError\<close>, which is the \<^term>\<open>None\<close> here.
\<close>

definition fallback_names :: "string \<Rightarrow> string list" where
  "fallback_names fallback = (if fallback \<noteq> [] then [fallback] else [])"

fun node_entry :: "(json \<Rightarrow> string) \<Rightarrow> json \<Rightarrow> string list option" where
  "node_entry str (JObj ms) = Some (case map_of ms ''node'' of Some v \<Rightarrow> if truthy v then [item_text str v] else [] | None \<Rightarrow> [])"
| "node_entry str _ = None"

definition node_names :: "'w http \<Rightarrow> string \<Rightarrow> 'w \<Rightarrow> string list option \<times> 'w" where
  "node_names h fallback w =
     (let (r, w') = http_get h ''nodes'' w in
      (case r of
         Inr (JList nodes) \<Rightarrow>
           (case those (map (node_entry (ht_str h)) nodes) of
              None \<Rightarrow> None
            | Some names \<Rightarrow> Some (if concat names \<noteq> [] then concat names else fallback_names fallback))
       | _ \<Rightarrow> Some (fallback_names fallback), w'))"

definition discover_node_name :: "'w http \<Rightarrow> string \<Rightarrow> 'w \<Rightarrow> string option \<times> 'w" where
  "discover_node_name h fallback w =
     (let (r, w') = node_names h fallback w in
      (map_option (\<lambda>names. case names of
           [] \<Rightarrow> fallback
         | [n] \<Rightarrow> if fallback = n then fallback else n
         | _ \<Rightarrow> fallback) r, w'))"

definition comma_joined :: "string list \<Rightarrow> json" where
  "comma_joined xs = JStr (join '','' xs)"

definition set_guest_config ::
    "'w http \<Rightarrow> string \<Rightarrow> string \<Rightarrow> nat \<Rightarrow> json_object \<Rightarrow> string list \<Rightarrow> string \<Rightarrow> 'w \<Rightarrow> (api_error, json) result \<times> 'w" where
  "set_guest_config h node object_type vmid updates deletions digest w =
     (case guest_kind object_type of
        Inl e \<Rightarrow> (Inl e, w)
      | Inr kind \<Rightarrow>
          let body = json_update (json_update updates (if deletions \<noteq> [] then [(''delete'', comma_joined deletions)] else []))
                       (if digest \<noteq> [] then [(''digest'', JStr digest)] else [])
          in if body = [] then (Inr JNull, w) else http_put h (guest_path node kind vmid ''config'') body w)"

definition cluster_options :: "'w http \<Rightarrow> 'w \<Rightarrow> (api_error, json_object) result \<times> 'w" where
  "cluster_options h w =
     on_answer (http_get h ''cluster/options'' w) (expect_object ''Proxmox returned an invalid cluster options response.'')"

definition set_cluster_options :: "'w http \<Rightarrow> json_object \<Rightarrow> string list \<Rightarrow> 'w \<Rightarrow> (api_error, json) result \<times> 'w" where
  "set_cluster_options h updates deletions w =
     (let body = json_update updates (if deletions \<noteq> [] then [(''delete'', comma_joined deletions)] else [])
      in if body = [] then (Inr JNull, w) else http_put h ''cluster/options'' body w)"

text \<open>The elements that are not blank, each at its first place.\<close>

definition distinct_content :: "string list \<Rightarrow> string list" where
  "distinct_content content =
     map (nth content) (filter (\<lambda>i. content ! i \<noteq> [] \<and> content ! i \<notin> set (take i content)) [0..<length content])"

definition set_storage_content :: "bool \<Rightarrow> 'w http \<Rightarrow> string \<Rightarrow> string list \<Rightarrow> 'w \<Rightarrow> (api_error, json) result \<times> 'w" where
  "set_storage_content write_enabled h storage_id content w =
     (if \<not> write_enabled then (Inl (ApiError ''Storage content writes are disabled.'' None), w)
      else let normalized = join '','' (distinct_content content) in
        if normalized = [] then (Inl (ApiError ''Storage content cannot be empty.'' None), w)
        else http_put h (''storage/'' @ quote storage_id) [(''content'', JStr normalized)] w)"

section \<open>Waiting for a task\<close>

record task_result =
  tk_status :: string
  tk_exitstatus :: string
  tk_raw :: json_object

definition task_success :: "task_result \<Rightarrow> bool" where
  "task_success t = (tk_status t = ''stopped'' \<and> tk_exitstatus t = ''OK'')"

text \<open>
  The clock and the sleep are parameters, as in the code; time is in microseconds. \<open>poll\<close> and
  \<open>timeout\<close> are the arguments after their defaults.
\<close>

record 'w waiting =
  wt_status :: "'w \<Rightarrow> (api_error, json_object) result \<times> 'w"
  wt_monotonic :: "'w \<Rightarrow> int \<times> 'w"
  wt_sleep :: "int \<Rightarrow> 'w \<Rightarrow> 'w"
  wt_str :: "json \<Rightarrow> string"

definition tenth :: int where "tenth = 100000"

definition task_result_of :: "(json \<Rightarrow> string) \<Rightarrow> json_object \<Rightarrow> task_result" where
  "task_result_of str raw =
     \<lparr>tk_status = text_or_empty str (map_of raw ''status''), tk_exitstatus = text_or_empty str (map_of raw ''exitstatus''),
      tk_raw = raw\<rparr>"

definition task_over :: "task_result \<Rightarrow> bool" where
  "task_over t = (tk_status t = ''stopped'' \<or> tk_exitstatus t \<noteq> [])"

partial_function (option) wait_loop ::
    "'w waiting \<Rightarrow> string \<Rightarrow> int \<Rightarrow> int \<Rightarrow> 'w \<Rightarrow> ((api_error, task_result) result \<times> 'w) option" where
  [code]: "wait_loop wt upid poll deadline w =
     (case wt_status wt w of
        (Inl e, w1) \<Rightarrow> Some (Inl e, w1)
      | (Inr raw, w1) \<Rightarrow>
          (if task_over (task_result_of (wt_str wt) raw) then Some (Inr (task_result_of (wt_str wt) raw), w1)
           else (case wt_monotonic wt w1 of
             (now, w2) \<Rightarrow>
               (if deadline \<le> now then Some (Inl (TaskTimeout (''Timed out waiting for Proxmox task '' @ upid)), w2)
                else wait_loop wt upid poll deadline (wt_sleep wt (min poll (max (deadline - now) tenth)) w2)))))"

definition wait_for_task ::
    "'w waiting \<Rightarrow> string \<Rightarrow> int \<Rightarrow> int \<Rightarrow> 'w \<Rightarrow> ((api_error, task_result) result \<times> 'w) option" where
  "wait_for_task wt upid timeout poll_interval w =
     (let (start, w1) = wt_monotonic wt w
      in wait_loop wt upid (max poll_interval tenth) (start + max timeout 0) w1)"

text \<open>
  What the loop relies on: a clock that shows the time of the state and never goes back, calls that
  take no negative time, and a sleep that lasts at least as long as asked.
\<close>

definition clock_ok :: "'w waiting \<Rightarrow> ('w \<Rightarrow> int) \<Rightarrow> bool" where
  "clock_ok wt at =
     ((\<forall>w. fst (wt_monotonic wt w) = at w) \<and> (\<forall>w. at w \<le> at (snd (wt_monotonic wt w)))
      \<and> (\<forall>w. at w \<le> at (snd (wt_status wt w))) \<and> (\<forall>s w. 0 \<le> s \<longrightarrow> at w + s \<le> at (wt_sleep wt s w)))"

lemma clock_okD:
  assumes "clock_ok wt at"
  shows "fst (wt_monotonic wt w) = at w" "at w \<le> at (snd (wt_monotonic wt w))" "at w \<le> at (snd (wt_status wt w))"
    "0 \<le> s \<Longrightarrow> at w + s \<le> at (wt_sleep wt s w)"
  using assms by (auto simp: clock_ok_def)

text \<open>One turn of the loop, when it goes on, moves the clock by at least a tenth of a second.\<close>

lemma wait_loop_turn:
  assumes "clock_ok wt at" "tenth \<le> poll"
  obtains (ends) r where "wait_loop wt upid poll deadline w = Some r"
      "case fst r of Inr t \<Rightarrow> task_over t | Inl (TaskTimeout _) \<Rightarrow> True | Inl e \<Rightarrow> fst (wt_status wt w) = Inl e"
      "\<And>m. fst r = Inl (TaskTimeout m) \<Longrightarrow> (fst (wt_status wt w) = Inl (TaskTimeout m)) \<or> deadline \<le> at (snd r)"
  | (goes_on) w' where "wait_loop wt upid poll deadline w = wait_loop wt upid poll deadline w'"
      "at w < deadline" "at w + tenth \<le> at w'"
proof -
  obtain st w1 where st: "wt_status wt w = (st, w1)" by fastforce
  obtain now w2 where now: "wt_monotonic wt w1 = (now, w2)" by fastforce
  have clock: "at w \<le> at w1" "now = at w1" "at w1 \<le> at w2"
    using clock_okD(1,2) [OF assms(1), of w1] clock_okD(3) [OF assms(1), of w] st now by simp_all
  show ?thesis
  proof (cases st)
    case (Inl e)
    then show ?thesis by (intro ends [of "(Inl e, w1)"]) (simp_all add: st wait_loop.simps [of wt upid poll deadline w] split: api_error.split)
  next
    case (Inr raw)
    let ?t = "task_result_of (wt_str wt) raw" and ?s = "min poll (max (deadline - now) tenth)"
    consider "task_over ?t" | "\<not> task_over ?t" "deadline \<le> now" | "\<not> task_over ?t" "\<not> deadline \<le> now" by blast
    then show ?thesis
    proof cases
      case 1
      then show ?thesis by (intro ends [of "(Inr ?t, w1)"]) (simp_all add: st Inr wait_loop.simps [of wt upid poll deadline w])
    next
      case 2
      then show ?thesis
        using clock by (intro ends [of "(Inl (TaskTimeout (''Timed out waiting for Proxmox task '' @ upid)), w2)"])
          (simp_all add: st Inr now wait_loop.simps [of wt upid poll deadline w])
    next
      case 3
      have "tenth \<le> ?s" using assms(2) by simp
      moreover have "0 \<le> ?s" using \<open>tenth \<le> ?s\<close> by (simp add: tenth_def)
      ultimately have "at w + tenth \<le> at (wt_sleep wt ?s w2)"
        using clock clock_okD(4) [OF assms(1), of ?s w2] by linarith
      with 3 show ?thesis
        using clock by (intro goes_on [of "wt_sleep wt ?s w2"])
          (simp_all add: st Inr now wait_loop.simps [of wt upid poll deadline w])
    qed
  qed
qed

lemma wait_loop_returns:
  assumes "clock_ok wt at" "tenth \<le> poll"
  shows "\<exists>r. wait_loop wt upid poll deadline w = Some r \<and> (\<forall>t. fst r = Inr t \<longrightarrow> task_over t)
    \<and> (\<forall>m. fst r = Inl (TaskTimeout m) \<longrightarrow> (\<exists>w'. fst (wt_status wt w') = Inl (TaskTimeout m)) \<or> deadline \<le> at (snd r))"
proof (induction "nat (deadline - at w)" arbitrary: w rule: less_induct)
  case less
  from assms show ?case
  proof (cases rule: wait_loop_turn [where upid = upid and deadline = deadline and w = w])
    case (ends r)
    then show ?thesis by (intro exI [of _ r]) auto
  next
    case (goes_on w')
    have "nat (deadline - at w') < nat (deadline - at w)"
      using goes_on(2,3) by (simp add: tenth_def)
    from less [OF this] goes_on(1) show ?thesis by simp
  qed
qed


text \<open>A provider whose task ends at the third reading; the state is the clock and the readings so far.\<close>

definition example_waiting :: "(int \<times> nat) waiting" where
  "example_waiting = \<lparr>wt_status = (\<lambda>(t, n). (Inr (if n < 2 then [(''status'', JStr ''running'')]
       else [(''status'', JStr ''stopped''), (''exitstatus'', JStr ''OK'')]), (t + 1000, n + 1))),
     wt_monotonic = (\<lambda>(t, n). (t, (t, n))), wt_sleep = (\<lambda>s (t, n). (t + s, n)), wt_str = (\<lambda>_. [])\<rparr>"

lemma example_clock_ok: "clock_ok example_waiting fst"
  by (simp add: clock_ok_def example_waiting_def)


lemma example_wait: "map_option (\<lambda>r. case fst r of Inl e \<Rightarrow> False | Inr t \<Rightarrow> task_success t)
    (wait_for_task example_waiting ''UPID:1'' 5000000 1000000 (0, 0)) = Some True"
  by (simp add: wait_for_task_def wait_loop.simps example_waiting_def task_over_def task_result_of_def task_success_def
      text_or_empty_def tenth_def)

section \<open>Requests that were never sent\<close>

text \<open>
  What the resolver needs of a client: a failure reported as unsent left the provider as it was.
  It holds when the transport's classes of unsent failures (a refused or timed-out connect, an
  exhausted pool, a rejected certificate) tell the truth.
\<close>

definition honest_transport :: "'w http \<Rightarrow> bool" where
  "honest_transport h =
     (\<forall>meth path body w name tls never_sent w'.
        ht_exchange h meth path body w = (HttpTransportError name tls never_sent, w') \<longrightarrow> tls \<or> never_sent \<longrightarrow> w' = w)"

lemma request_unsent:
  assumes "honest_transport h" "http_request h meth path body w = (Inl e, w')" "unsent (failure_of e)"
  shows "w' = w"
proof -
  obtain oc w1 where ex: "ht_exchange h meth path body w = (oc, w1)" by fastforce
  with assms(2) have "classify h path oc = Inl e" "w1 = w'" by (simp_all add: http_request_def)
  with assms(1,3) ex show ?thesis
    by (cases oc) (auto simp: classify_def unsent_def honest_transport_def Let_def split: if_splits option.splits json.splits)
qed

lemma power_action_unsent:
  assumes "honest_transport h" "power_action h node ty vmid action params w = (Inl e, w')" "unsent (failure_of e)"
  shows "w' = w"
proof (cases "\<exists>kind. guest_kind ty = Inr kind \<and> action \<in> set POWER_ACTIONS")
  case False
  with assms(2) show ?thesis by (auto simp: power_action_def split: sum.splits if_splits)
next
  case True
  then obtain kind where kind: "guest_kind ty = Inr kind" "action \<in> set POWER_ACTIONS" by blast
  let ?post = "http_request h ''POST'' (guest_path node kind vmid (''status/'' @ action)) params w"
  obtain r w1 where post: "?post = (r, w1)" by fastforce
  with assms(2) kind have w1: "w1 = w'" by (simp add: power_action_def on_answer_def http_post_def)
  show ?thesis
  proof (cases r)
    case (Inl e')
    with assms(2) kind post have "e' = e" by (simp add: power_action_def on_answer_def http_post_def)
    with request_unsent [OF assms(1) _ assms(3)] post Inl w1 show ?thesis by blast
  next
    case (Inr v)
    with assms(2) kind post have "\<exists>m. e = ApiError m None"
      by (cases v) (auto simp: power_action_def on_answer_def http_post_def split: if_splits)
    with assms(3) show ?thesis by (auto simp: unsent_def)
  qed
qed

text \<open>So a power action satisfies what \<open>cluster_write\<close> asks of its call.\<close>

definition power_call ::
    "('c \<Rightarrow> 'w http) \<Rightarrow> string \<Rightarrow> string \<Rightarrow> nat \<Rightarrow> string \<Rightarrow> json_object \<Rightarrow> 'c \<Rightarrow> 'w \<Rightarrow> (call_failure, string) result \<times> 'w" where
  "power_call h node ty vmid action params client w =
     (let (r, w') = power_action (h client) node ty vmid action params w in (map_error failure_of r, w'))"

lemma power_call_pure: "(\<And>client. honest_transport (h client)) \<Longrightarrow> unsent_is_pure (power_call h node ty vmid action params)"
  unfolding unsent_is_pure_def power_call_def
  by (auto simp: case_prod_beta map_error_Inl_iff) (metis power_action_unsent prod.collapse)

section \<open>The authoritative guest inventory\<close>

text \<open>Conversions of Python: \<open>str\<close> of a container, \<open>int\<close> and \<open>float\<close> of a JSON value.\<close>

record python =
  py_str :: "json \<Rightarrow> string"
  py_int :: "json \<Rightarrow> (int_failure, int) result"
  py_float :: "json \<Rightarrow> string option"

record guest_summary =
  sg_node :: string
  sg_object_type :: string
  sg_vmid :: int
  sg_name :: string
  sg_status :: string
  sg_cpu :: string
  sg_mem :: int
  sg_maxmem :: int
  sg_disk :: int
  sg_maxdisk :: int
  sg_uptime :: int
  sg_lock :: string
  sg_is_template :: bool
  sg_tags :: "string list"
  sg_pool :: string
  sg_hastate :: string

text \<open>\<open>dict.get\<close>: a missing member reads as \<open>None\<close>.\<close>

definition get_or_null :: "json_object \<Rightarrow> string \<Rightarrow> json" where
  "get_or_null ms k = (case map_of ms k of None \<Rightarrow> JNull | Some v \<Rightarrow> v)"

definition int_or_zero :: "python \<Rightarrow> json \<Rightarrow> (string, int) result" where
  "int_or_zero py v = (case py_int py v of Inr i \<Rightarrow> Inr i | Inl NotAnInt \<Rightarrow> Inr 0 | Inl IntOverflow \<Rightarrow> Inl ''OverflowError'')"

definition float_or_zero :: "python \<Rightarrow> json \<Rightarrow> string" where
  "float_or_zero py v = (case py_float py v of Some f \<Rightarrow> f | None \<Rightarrow> ''0.0'')"

text \<open>\<open>a or b or ""\<close> as text.\<close>

fun first_text :: "(json \<Rightarrow> string) \<Rightarrow> json option list \<Rightarrow> string" where
  "first_text str [] = []"
| "first_text str (v # vs) = (if (case v of Some j \<Rightarrow> truthy j | None \<Rightarrow> False) then text_or_empty str v else first_text str vs)"

definition resource_type :: "python \<Rightarrow> json_object \<Rightarrow> string option" where
  "resource_type py ms =
     (let raw = text_or_empty (py_str py) (map_of ms ''type'') in
      if raw = ''qemu'' then Some ''vm'' else if raw = ''lxc'' then Some ''ct'' else None)"

type_synonym guest_key = "string \<times> string \<times> int"

definition summary_key :: "guest_summary \<Rightarrow> guest_key" where
  "summary_key g = (sg_node g, sg_object_type g, sg_vmid g)"

definition guest_summary_of :: "python \<Rightarrow> json_object \<Rightarrow> string \<Rightarrow> int \<Rightarrow> (string, guest_summary) result" where
  "guest_summary_of py ms object_type vmid =
     (let text = (\<lambda>k. text_or_empty (py_str py) (map_of ms k)); num = (\<lambda>k. int_or_zero py (get_or_null ms k)) in
      bind_result (num ''mem'') (\<lambda>mem. bind_result (num ''maxmem'') (\<lambda>maxmem. bind_result (num ''disk'') (\<lambda>disk.
      bind_result (num ''maxdisk'') (\<lambda>maxdisk. bind_result (num ''uptime'') (\<lambda>uptime. bind_result (num ''template'') (\<lambda>template.
        Inr \<lparr>sg_node = text ''node'', sg_object_type = object_type, sg_vmid = vmid,
             sg_name = first_text (py_str py) [map_of ms ''name'', map_of ms ''hostname''], sg_status = text ''status'',
             sg_cpu = float_or_zero py (get_or_null ms ''cpu''), sg_mem = mem, sg_maxmem = maxmem, sg_disk = disk,
             sg_maxdisk = maxdisk, sg_uptime = uptime, sg_lock = text ''lock'', sg_is_template = (template = 1),
             sg_tags = tag_parts [] (strip (text ''tags'')), sg_pool = text ''pool'', sg_hastate = text ''hastate''\<rparr>)))))))"

text \<open>
  \<open>_add_guest_summary\<close> on the answer of \<open>cluster/resources\<close>: the first summary of a key stays. The
  summary is built before the key is looked up, so a value that cannot be converted raises either way.
\<close>

definition add_guest_summary :: "python \<Rightarrow> json \<Rightarrow> guest_summary list \<Rightarrow> (string, guest_summary list) result" where
  "add_guest_summary py item known =
     (case item of
        JObj ms \<Rightarrow>
          (case (resource_type py ms, map_of ms ''vmid'') of
             (Some object_type, Some v) \<Rightarrow>
               if v = JNull then Inr known
               else (case py_int py v of
                  Inl NotAnInt \<Rightarrow> Inr known
                | Inl IntOverflow \<Rightarrow> Inl ''OverflowError''
                | Inr vmid \<Rightarrow>
                    bind_result (guest_summary_of py ms object_type vmid) (\<lambda>g.
                      Inr (if summary_key g \<in> set (map summary_key known) then known else known @ [g])))
           | _ \<Rightarrow> Inr known)
      | _ \<Rightarrow> Inr known)"

definition sort_guests :: "guest_summary list \<Rightarrow> guest_summary list" where
  "sort_guests gs = sort_key sg_object_type (sort_key sg_vmid (sort_key sg_node gs))"

record verified_inventory =
  vi_guests :: "guest_summary list"
  vi_attempted_endpoints :: "string list"
  vi_successful_endpoints :: "string list"
  vi_errors :: "string list"
  vi_cluster_key :: string

definition vi_complete :: "verified_inventory \<Rightarrow> bool" where
  "vi_complete v = (vi_successful_endpoints v \<noteq> [])"

text \<open>The read of one member: only a list is an answer.\<close>

definition read_resources :: "(api_error, json) result \<Rightarrow> (call_failure, json list) result" where
  "read_resources r =
     (case r of
        Inl e \<Rightarrow> Inl (failure_of e)
      | Inr (JList items) \<Rightarrow> Inr items
      | Inr _ \<Rightarrow> Inl (Answered ''cluster guest inventory returned an invalid response.''))"

definition fetch_verified_guest_inventory ::
    "python \<Rightarrow> (endpoint \<Rightarrow> (string, 'c) result) \<Rightarrow> ('c \<Rightarrow> (api_error, json) result) \<Rightarrow> cluster \<Rightarrow> db
      \<Rightarrow> (resolution_error + string, verified_inventory) result" where
  "fetch_verified_guest_inventory py mk resources c d =
     (case cluster_wide_read mk (\<lambda>client. read_resources (resources client)) c d of
        Inl e \<Rightarrow> Inl (Inl e)
      | Inr res \<Rightarrow>
          bind_result (map_error Inr (fold_result (add_guest_summary py) (case cr_value res of Some items \<Rightarrow> items | None \<Rightarrow> []) [])) (\<lambda>gs.
            Inr \<lparr>vi_guests = sort_guests gs, vi_attempted_endpoints = map ea_endpoint_name (cr_attempted res),
                 vi_successful_endpoints = (if cr_complete res then [cr_answering_endpoint res] else []),
                 vi_errors = map (\<lambda>a. ea_endpoint_name a @ '': '' @ ea_error a) (filter (\<lambda>a. \<not> ea_ok a) (cr_attempted res))
                   @ (if cr_attempted res = [] then [''Cluster '' @ CHR 0x27 # cr_cluster_key res @ CHR 0x27 # '' has no enabled Proxmox endpoint.''] else []),
                 vi_cluster_key = cr_cluster_key res\<rparr>))"

lemma read_loop_key: "read_loop mk call k as es = Inr r \<Longrightarrow> cr_cluster_key r = k"
proof (induction es arbitrary: as)
  case (Cons e es)
  then obtain client where mk: "mk e = Inr client" by (auto simp: client_of_def result_simps)
  with Cons show ?case by (cases "call client") (auto simp: client_of_def)
qed auto

lemma add_guest_summary_distinct:
  assumes "add_guest_summary py item known = Inr known'" "distinct (map summary_key known)"
  shows "distinct (map summary_key known')" "set known \<subseteq> set known'"
  using assms by (auto simp: add_guest_summary_def result_simps split: json.splits option.splits if_splits sum.splits int_failure.splits)

lemma fold_summaries_distinct:
  "fold_result (add_guest_summary py) items known = Inr gs \<Longrightarrow> distinct (map summary_key known) \<Longrightarrow> distinct (map summary_key gs)"
  by (induction items arbitrary: known) (auto simp: result_simps dest: add_guest_summary_distinct(1))

text \<open>An inventory is complete exactly when one member answered, and then no key occurs twice.\<close>

lemma fetched_inventory:
  assumes "fetch_verified_guest_inventory py mk resources c d = Inr v"
  shows "distinct (map summary_key (vi_guests v))" "vi_cluster_key v = cl_key c"
    "\<not> vi_complete v \<Longrightarrow> vi_guests v = []"
proof -
  from assms obtain res gs where read: "cluster_wide_read mk (\<lambda>client. read_resources (resources client)) c d = Inr res"
    and gs: "fold_result (add_guest_summary py) (case cr_value res of Some items \<Rightarrow> items | None \<Rightarrow> []) [] = Inr gs"
    and v: "vi_guests v = sort_guests gs" "vi_cluster_key v = cr_cluster_key res" "vi_complete v = cr_complete res"
    by (auto simp: fetch_verified_guest_inventory_def result_simps vi_complete_def split: sum.splits)
  from fold_summaries_distinct [OF gs] show "distinct (map summary_key (vi_guests v))"
    by (simp add: v sort_guests_def distinct_map_sort_key)
  from read obtain as where loop: "read_loop mk (\<lambda>client. read_resources (resources client)) (cl_key c) as (enabled_endpoints (cl_pk c) d) = Inr res"
    by (auto simp: cluster_wide_read_def result_simps)
  from read_loop_key [OF loop] v(2) show "vi_cluster_key v = cl_key c" by simp
  assume "\<not> vi_complete v"
  with v(3) read_loop_first_answer [OF loop] have "cr_value res = None" by simp
  with gs v(1) show "vi_guests v = []" by (simp add: sort_guests_def)
qed


section \<open>The inventory of one node\<close>

record proxmox_object =
  po_node :: string
  po_object_type :: string
  po_vmid :: int
  po_name :: string
  po_status :: string
  po_config :: json_object
  po_disk_references :: "string list"

record inventory_result =
  ir_node :: string
  ir_objects :: "proxmox_object list"
  ir_errors :: "json list"

definition ir_ok :: "inventory_result \<Rightarrow> bool" where
  "ir_ok r = (ir_errors r = [])"

text \<open>\<open>quote(node)\<close> with the default safe character.\<close>

definition quote_path :: "string \<Rightarrow> string" where
  "quote_path s = concat (map (\<lambda>c. if c = CHR ''/'' then [c] else quote_char c) s)"

definition collected_error :: "string \<Rightarrow> string \<Rightarrow> (string \<times> json) list \<Rightarrow> json" where
  "collected_error action path extra =
     JObj ([(''action'', JStr action), (''path'', JStr path)] @ extra @ [(''error'', JStr ''Proxmox did not return this resource.'')])"

definition get_list :: "'w http \<Rightarrow> string \<Rightarrow> string \<Rightarrow> 'w \<Rightarrow> (json list \<times> json list) \<times> 'w" where
  "get_list h path action w =
     (case http_get h path w of
        (Inl _, w') \<Rightarrow> (([], [collected_error action path []]), w')
      | (Inr (JList items), w') \<Rightarrow> ((items, []), w')
      | (Inr _, w') \<Rightarrow> (([], []), w'))"

definition get_config :: "'w http \<Rightarrow> string \<Rightarrow> string \<Rightarrow> int \<Rightarrow> 'w \<Rightarrow> (json, json_object) result \<times> 'w" where
  "get_config h path action vmid w =
     (case http_get h path w of
        (Inl _, w') \<Rightarrow> (Inl (collected_error action path [(''vmid'', JInt vmid)]), w')
      | (Inr (JObj ms), w') \<Rightarrow> (Inr ms, w')
      | (Inr _, w') \<Rightarrow> (Inr [], w'))"

definition object_of :: "python \<Rightarrow> string \<Rightarrow> string \<Rightarrow> json_object \<Rightarrow> int \<Rightarrow> json_object \<Rightarrow> proxmox_object" where
  "object_of py node kind ms vmid config =
     \<lparr>po_node = node, po_object_type = (if kind = ''qemu'' then ''vm'' else ''ct''), po_vmid = vmid,
      po_name = first_text (py_str py) [map_of ms ''name'', map_of config (if kind = ''qemu'' then ''name'' else ''hostname'')],
      po_status = text_or_empty (py_str py) (map_of ms ''status''), po_config = config,
      po_disk_references = extract_disk_references config\<rparr>"

text \<open>The loop over the listed guests of one kind; an item that is not an object raises.\<close>

fun read_guests ::
    "python \<Rightarrow> 'w http \<Rightarrow> string \<Rightarrow> string \<Rightarrow> json list \<Rightarrow> proxmox_object list \<times> json list \<Rightarrow> 'w
      \<Rightarrow> (string, proxmox_object list \<times> json list) result \<times> 'w" where
  "read_guests py h node kind [] acc w = (Inr acc, w)"
| "read_guests py h node kind (JObj ms # items) (objects, errs) w =
     (case py_int py (get_or_null ms ''vmid'') of
        Inl IntOverflow \<Rightarrow> (Inl ''OverflowError'', w)
      | Inl NotAnInt \<Rightarrow> read_guests py h node kind items (objects, errs) w
      | Inr vmid \<Rightarrow>
          (case get_config h (''nodes/'' @ quote_path node @ ''/'' @ kind @ ''/'' @ show_int vmid @ ''/config'')
                  (kind @ ''.config'') vmid w of
             (Inl e, w') \<Rightarrow> read_guests py h node kind items (objects, errs @ [e]) w'
           | (Inr config, w') \<Rightarrow> read_guests py h node kind items (objects @ [object_of py node kind ms vmid config], errs) w'))"
| "read_guests py h node kind (_ # items) acc w = (Inl ''AttributeError'', w)"

definition read_kind ::
    "python \<Rightarrow> 'w http \<Rightarrow> string \<Rightarrow> string \<Rightarrow> proxmox_object list \<times> json list \<Rightarrow> 'w
      \<Rightarrow> (string, proxmox_object list \<times> json list) result \<times> 'w" where
  "read_kind py h node kind acc w =
     (let ((items, errs), w1) = get_list h (''nodes/'' @ quote_path node @ ''/'' @ kind) (kind @ ''.list'') w
      in read_guests py h node kind items (fst acc, snd acc @ errs) w1)"

definition node_inventory :: "python \<Rightarrow> 'w http \<Rightarrow> string \<Rightarrow> 'w \<Rightarrow> (string, inventory_result) result \<times> 'w" where
  "node_inventory py h node w =
     (case read_kind py h node ''qemu'' ([], []) w of
        (Inl e, w1) \<Rightarrow> (Inl e, w1)
      | (Inr acc, w1) \<Rightarrow>
          (case read_kind py h node ''lxc'' acc w1 of
             (Inl e, w2) \<Rightarrow> (Inl e, w2)
           | (Inr (objects, errs), w2) \<Rightarrow> (Inr \<lparr>ir_node = node, ir_objects = objects, ir_errors = errs\<rparr>, w2)))"

text \<open>What reading the guests of one kind adds: objects of the listed guests, errors for the others.\<close>

definition lists_guest :: "python \<Rightarrow> int \<Rightarrow> json \<Rightarrow> bool" where
  "lists_guest py vmid item = (case item of JObj ms \<Rightarrow> py_int py (get_or_null ms ''vmid'') = Inr vmid | _ \<Rightarrow> False)"

definition guest_read_ok :: "string \<Rightarrow> string \<Rightarrow> proxmox_object \<Rightarrow> bool" where
  "guest_read_ok node kind ob =
     (po_node ob = node \<and> po_object_type ob = (if kind = ''qemu'' then ''vm'' else ''ct'')
      \<and> po_disk_references ob = extract_disk_references (po_config ob))"

lemma read_guests_progress:
  assumes "read_guests py h node kind items acc w = (Inr acc', w')"
  shows "(\<exists>more. snd acc' = snd acc @ more) \<and> set (fst acc) \<subseteq> set (fst acc')
    \<and> (\<forall>ob\<in>set (fst acc'). ob \<in> set (fst acc) \<or> guest_read_ok node kind ob)
    \<and> (snd acc' = snd acc \<longrightarrow> (\<forall>vmid. list_ex (lists_guest py vmid) items \<longrightarrow>
          (\<exists>ob\<in>set (fst acc'). po_vmid ob = vmid \<and> guest_read_ok node kind ob)))"
  using assms
proof (induction py h node kind items acc w rule: read_guests.induct)
  case (2 py h node kind ms items objects errs w)
  show ?case
  proof (cases "py_int py (get_or_null ms ''vmid'')")
    case (Inl f)
    with 2 show ?thesis by (cases f) (auto simp: lists_guest_def)
  next
    case (Inr vmid)
    obtain r w1 where get: "(r, w1) = get_config h (''nodes/'' @ quote_path node @ ''/'' @ kind @ ''/'' @ show_int vmid @ ''/config'')
        (kind @ ''.config'') vmid w" by (metis surj_pair)
    show ?thesis
    proof (cases r)
      case (Inl e)
      from 2(2) [OF Inr get Inl] 2(4) Inr get [symmetric] Inl show ?thesis by fastforce
    next
      case cfg: (Inr config)
      let ?ob = "object_of py node kind ms vmid config"
      have ob: "po_vmid ?ob = vmid" "guest_read_ok node kind ?ob" by (simp_all add: object_of_def guest_read_ok_def)
      have rest: "read_guests py h node kind items (objects @ [?ob], errs) w1 = (Inr acc', w')"
        using 2(4) Inr get [symmetric] cfg by simp
      from 2(3) [OF Inr get cfg rest] ob Inr show ?thesis by (auto simp: lists_guest_def)
    qed
  qed
qed auto

lemma read_kind_progress:
  assumes "read_kind py h node kind acc w = (Inr acc', w')"
  shows "(\<exists>more. snd acc' = snd acc @ more) \<and> set (fst acc) \<subseteq> set (fst acc')
    \<and> (\<forall>ob\<in>set (fst acc'). ob \<in> set (fst acc) \<or> guest_read_ok node kind ob)
    \<and> (snd acc' = snd acc \<longrightarrow> (\<exists>items w1. get_list h (''nodes/'' @ quote_path node @ ''/'' @ kind) (kind @ ''.list'') w = ((items, []), w1)
          \<and> (\<forall>vmid. list_ex (lists_guest py vmid) items \<longrightarrow> (\<exists>ob\<in>set (fst acc'). po_vmid ob = vmid \<and> guest_read_ok node kind ob))))"
proof -
  obtain items errs w1 where list: "get_list h (''nodes/'' @ quote_path node @ ''/'' @ kind) (kind @ ''.list'') w = ((items, errs), w1)"
    by (metis surj_pair)
  from assms list have "read_guests py h node kind items (fst acc, snd acc @ errs) w1 = (Inr acc', w')"
    by (simp add: read_kind_def)
  from read_guests_progress [OF this] list show ?thesis by (auto simp: append_assoc)
qed



definition example_node :: "unit http" where
  "example_node =
     \<lparr>ht_exchange = (\<lambda>meth path body w. (HttpBody (Some (JObj [(''data'',
        if path = ''nodes/a/qemu'' then JList [JObj [(''vmid'', JInt 100)]]
        else if path = ''nodes/a/lxc'' then JList []
        else JObj [(''scsi0'', JStr ''nfs:100/vm-100-disk-0.qcow2'')])])), w)),
      ht_trust_mode = [], ht_str = (\<lambda>_. [])\<rparr>"

definition example_python :: python where
  "example_python = \<lparr>py_str = (\<lambda>_. []), py_int = (\<lambda>v. case v of JInt i \<Rightarrow> Inr i | _ \<Rightarrow> Inl NotAnInt), py_float = (\<lambda>_. None)\<rparr>"


text \<open>
  A body whose \<open>data\<close> is not a list is not an error here: a node that answers \<open>null\<close> is read
  successfully and has no guests.
\<close>

definition null_node :: "unit http" where
  "null_node = \<lparr>ht_exchange = (\<lambda>meth path body w. (HttpBody (Some (JObj [(''data'', JNull)])), w)), ht_trust_mode = [], ht_str = (\<lambda>_. [])\<rparr>"

theorem malformed_list_reads_as_empty_node:
  "case node_inventory example_python null_node ''a'' () of (Inl _, _) \<Rightarrow> False | (Inr r, _) \<Rightarrow> ir_ok r \<and> ir_objects r = []"
  by code_simp

end
