(* ===== verification/Scheduled_Recurrence.thy ===== *)
theory Scheduled_Recurrence
  imports Models
begin

text \<open>
  \<^verbatim>\<open>core/services/scheduled_recurrence.py\<close>: when a schedule runs next. The stored recurrence is a JSON
  object written by several generations of forms; each rule builder validates it and hands a rule
  to \<open>dateutil\<close>. The calendar (\<open>rrule(...).after(...)\<close>) and the time zone database are parameters.
  Both work on wall-clock times: \<open>dateutil\<close> compares datetimes that carry the same zone, and
  such a comparison ignores the offset.
\<close>

section \<open>Parameters\<close>

datatype frequency = DAILY | WEEKLY | MONTHLY

record rule =
  rl_freq :: frequency
  rl_dtstart :: int
  rl_bymonth :: "int list option"
  rl_byweekday :: "(nat \<times> int option) list option"
  rl_bymonthday :: "int list option"
  rl_byhour :: int
  rl_byminute :: int

text \<open>
  A zone: the wall clock at an instant, the weekday a wall clock shows, and the instant of a wall
  clock (the earlier one when a wall clock occurs twice).
\<close>

record zone =
  zn_wall :: "time \<Rightarrow> int"
  zn_weekday :: "int \<Rightarrow> nat"
  zn_instant :: "int \<Rightarrow> time"

record calendar =
  ca_zone :: "string \<Rightarrow> zone option"
  ca_after :: "rule \<Rightarrow> int \<Rightarrow> int option"

datatype recurrence_error =
    UnsupportedKind string
  | UnknownTimezone string
  | TimeFormat
  | TimeNotNumeric
  | TimeOutOfRange
  | UnknownWeekday json
  | WeekdayOutOfRange
  | UnknownOrdinal json
  | OrdinalOutOfRange
  | DayOfMonthInvalid
  | UnknownMonth json
  | MonthOutOfRange
  | RecurrenceCrash string

text \<open>The text of the exception; the parameter is Python's \<open>str\<close> of a JSON value.\<close>

fun recurrence_message :: "(json \<Rightarrow> string) \<Rightarrow> recurrence_error \<Rightarrow> string" where
  "recurrence_message str (UnsupportedKind kind) = ''Unsupported recurrence kind: '' @ kind"
| "recurrence_message str (UnknownTimezone value) = ''Unknown timezone: '' @ value"
| "recurrence_message str TimeFormat = ''Recurrence time must use HH:MM format.''"
| "recurrence_message str TimeNotNumeric = ''Recurrence time must contain numeric hour and minute.''"
| "recurrence_message str TimeOutOfRange = ''Recurrence time must be between 00:00 and 23:59.''"
| "recurrence_message str (UnknownWeekday v) = ''Unknown weekday: '' @ str v"
| "recurrence_message str WeekdayOutOfRange = ''Weekday must be 0-6, where Monday is 0.''"
| "recurrence_message str (UnknownOrdinal v) = ''Unknown monthly ordinal: '' @ str v"
| "recurrence_message str OrdinalOutOfRange = ''Monthly ordinal must be 1-5 or last.''"
| "recurrence_message str DayOfMonthInvalid = ''Monthly day recurrence requires day_of_month 1-31.''"
| "recurrence_message str (UnknownMonth v) = ''Unknown month: '' @ str v"
| "recurrence_message str MonthOutOfRange = ''Month must be between 1 and 12.''"
| "recurrence_message str (RecurrenceCrash name) = name"

section \<open>Reading values\<close>

text \<open>
  \<open>int(value)\<close> of a JSON value: a string is parsed, a float is truncated, and a value of another
  type is \<open>TypeError\<close>. The second case of the error is \<open>OverflowError\<close>, which no reader catches.
  A float that prints with a positive exponent has magnitude at least \<open>10 ^ 16\<close>; the readers only
  compare it with bounds far below, so \<open>10 ^ 16\<close> stands for it.
\<close>

definition int_of_float :: "string \<Rightarrow> (int_failure, int) result" where
  "int_of_float f =
     (if f \<in> {''inf'', ''-inf''} then Inl IntOverflow
      else if f = ''nan'' then Inl NotAnInt
      else (case partition_on CHR ''e'' f of
          (mantissa, scientific, exponent) \<Rightarrow>
            if \<not> scientific then
              (case parse_int (fst (partition_on CHR ''.'' f)) of None \<Rightarrow> Inl NotAnInt | Some i \<Rightarrow> Inr i)
            else if starts_with ''-'' exponent then Inr 0
            else (if starts_with ''-'' f then Inr (- (10 ^ 16)) else Inr (10 ^ 16))))"

fun int_of_json :: "json \<Rightarrow> (int_failure, int) result" where
  "int_of_json (JInt i) = Inr i"
| "int_of_json (JBool b) = Inr (if b then 1 else 0)"
| "int_of_json (JFloat f) = int_of_float f"
| "int_of_json (JStr s) = (case parse_int s of None \<Rightarrow> Inl NotAnInt | Some i \<Rightarrow> Inr i)"
| "int_of_json _ = Inl NotAnInt"

definition read_int :: "recurrence_error \<Rightarrow> json \<Rightarrow> (recurrence_error, int) result" where
  "read_int e v = map_error (\<lambda>f. case f of NotAnInt \<Rightarrow> e | IntOverflow \<Rightarrow> RecurrenceCrash ''OverflowError'') (int_of_json v)"

definition list_values :: "json \<Rightarrow> json list" where
  "list_values v =
     (case v of
        JNull \<Rightarrow> []
      | JList xs \<Rightarrow> xs
      | JStr s \<Rightarrow> if CHR '','' \<in> set s
                  then map JStr (filter (\<lambda>p. p \<noteq> []) (map strip (split_on CHR '','' s))) else [v]
      | _ \<Rightarrow> [v])"

definition lookup_or :: "json_object \<Rightarrow> string \<Rightarrow> json \<Rightarrow> json" where
  "lookup_or r k other = (case map_of r k of None \<Rightarrow> other | Some v \<Rightarrow> v)"

definition range_checked :: "recurrence_error \<Rightarrow> int \<Rightarrow> int \<Rightarrow> int \<Rightarrow> (recurrence_error, int) result" where
  "range_checked e lo hi i = (if i < lo \<or> hi < i then Inl e else Inr i)"

definition month_number :: "json \<Rightarrow> (recurrence_error, int) result" where
  "month_number v = bind_result (read_int (UnknownMonth v) v) (range_checked MonthOutOfRange 1 12)"

definition month_numbers :: "json_object \<Rightarrow> (recurrence_error, int list option) result" where
  "month_numbers r =
     (let raw = lookup_or r ''months'' JNull in
      if raw \<in> {JNull, JStr [], JList []} then Inr None
      else bind_result (map_result month_number (list_values raw)) (\<lambda>ms. Inr (Some ms)))"

definition time_texts :: "json_object \<Rightarrow> (recurrence_error, json \<times> json) result" where
  "time_texts r =
     (case lookup_or r ''time'' JNull of
        JStr s \<Rightarrow>
          if s \<noteq> [] then
            (case split_on CHR '':'' s of
               h # m # _ \<Rightarrow> Inr (JStr h, JStr m)
             | _ \<Rightarrow> Inl TimeFormat)
          else Inr (lookup_or r ''hour'' (JInt 0), lookup_or r ''minute'' (JInt 0))
      | _ \<Rightarrow> Inr (lookup_or r ''hour'' (JInt 0), lookup_or r ''minute'' (JInt 0)))"

definition time_parts :: "json_object \<Rightarrow> (recurrence_error, int \<times> int) result" where
  "time_parts r =
     bind_result (time_texts r) (\<lambda>(h, m).
     bind_result (read_int TimeNotNumeric h) (\<lambda>hour.
     bind_result (read_int TimeNotNumeric m) (\<lambda>minute.
       if hour < 0 \<or> 23 < hour \<or> minute < 0 \<or> 59 < minute then Inl TimeOutOfRange else Inr (hour, minute))))"

definition WEEKDAY_NAMES :: "(string \<times> nat) list" where
  "WEEKDAY_NAMES = [(''monday'', 0), (''mon'', 0), (''tuesday'', 1), (''tue'', 1), (''wednesday'', 2), (''wed'', 2),
     (''thursday'', 3), (''thu'', 3), (''friday'', 4), (''fri'', 4), (''saturday'', 5), (''sat'', 5), (''sunday'', 6), (''sun'', 6)]"

definition ORDINALS :: "(string \<times> int) list" where
  "ORDINALS = [(''first'', 1), (''second'', 2), (''third'', 3), (''fourth'', 4), (''fifth'', 5), (''last'', -1)]"

definition weekday_number :: "json \<Rightarrow> (recurrence_error, nat) result" where
  "weekday_number v =
     (case (case v of JStr s \<Rightarrow> map_of WEEKDAY_NAMES (lower (strip s)) | _ \<Rightarrow> None) of
        Some n \<Rightarrow> Inr n
      | None \<Rightarrow>
          bind_result (read_int (UnknownWeekday v) (case v of JStr s \<Rightarrow> JStr (lower (strip s)) | _ \<Rightarrow> v)) (\<lambda>i.
          bind_result (range_checked WeekdayOutOfRange 0 6 i) (\<lambda>i. Inr (nat i))))"

definition ordinal_number :: "json \<Rightarrow> (recurrence_error, int) result" where
  "ordinal_number v =
     (case (case v of JStr s \<Rightarrow> map_of ORDINALS (lower (strip s)) | _ \<Rightarrow> None) of
        Some n \<Rightarrow> Inr n
      | None \<Rightarrow>
          bind_result (read_int (UnknownOrdinal v) (case v of JStr s \<Rightarrow> JStr (lower (strip s)) | _ \<Rightarrow> v)) (\<lambda>i.
            if i \<in> {-1, 1, 2, 3, 4, 5} then Inr i else Inl OrdinalOutOfRange))"

section \<open>Rules\<close>

definition daily_rule :: "json_object \<Rightarrow> int \<Rightarrow> (recurrence_error, rule) result" where
  "daily_rule r dtstart =
     bind_result (time_parts r) (\<lambda>(hour, minute).
     bind_result (month_numbers r) (\<lambda>months.
       Inr \<lparr>rl_freq = DAILY, rl_dtstart = dtstart, rl_bymonth = months, rl_byweekday = None, rl_bymonthday = None,
            rl_byhour = hour, rl_byminute = minute\<rparr>))"

definition weekly_days :: "json_object \<Rightarrow> nat \<Rightarrow> json list" where
  "weekly_days r today =
     (case lookup_or r ''weekdays'' (lookup_or r ''weekday'' JNull) of
        JNull \<Rightarrow> [JInt (int today)] | JList xs \<Rightarrow> xs | v \<Rightarrow> [v])"

definition weekly_rule :: "json_object \<Rightarrow> int \<Rightarrow> nat \<Rightarrow> (recurrence_error, rule) result" where
  "weekly_rule r dtstart today =
     bind_result (time_parts r) (\<lambda>(hour, minute).
     bind_result (map_result weekday_number (weekly_days r today)) (\<lambda>days.
     bind_result (month_numbers r) (\<lambda>months.
       Inr \<lparr>rl_freq = WEEKLY, rl_dtstart = dtstart, rl_bymonth = months, rl_byweekday = Some (map (\<lambda>d. (d, None)) days),
            rl_bymonthday = None, rl_byhour = hour, rl_byminute = minute\<rparr>)))"

definition ordinal_weekday :: "json \<times> json \<Rightarrow> (recurrence_error, nat \<times> int option) result" where
  "ordinal_weekday p =
     (case p of (ordinal, weekday) \<Rightarrow>
       bind_result (weekday_number weekday) (\<lambda>d.
       bind_result (ordinal_number ordinal) (\<lambda>o1. Inr (d, Some o1))))"

definition monthly_ordinal_rule :: "json_object \<Rightarrow> int \<Rightarrow> (recurrence_error, rule) result" where
  "monthly_ordinal_rule r dtstart =
     bind_result (time_parts r) (\<lambda>(hour, minute).
       let ordinals = list_values (lookup_or r ''ordinals'' (lookup_or r ''ordinal'' (lookup_or r ''week'' (JStr ''first''))));
           weekdays = list_values (lookup_or r ''weekdays'' (lookup_or r ''weekday'' (JStr ''monday'')))
       in bind_result (map_result ordinal_weekday (List.product ordinals weekdays)) (\<lambda>days.
          bind_result (month_numbers r) (\<lambda>months.
            Inr \<lparr>rl_freq = MONTHLY, rl_dtstart = dtstart, rl_bymonth = months, rl_byweekday = Some days,
                 rl_bymonthday = None, rl_byhour = hour, rl_byminute = minute\<rparr>)))"

definition day_number :: "json \<Rightarrow> (recurrence_error, int) result" where
  "day_number v = bind_result (read_int DayOfMonthInvalid v) (range_checked DayOfMonthInvalid 1 31)"

definition monthly_day_rule :: "json_object \<Rightarrow> int \<Rightarrow> (recurrence_error, rule) result" where
  "monthly_day_rule r dtstart =
     bind_result (time_parts r) (\<lambda>(hour, minute).
     bind_result (map_result day_number
        (list_values (lookup_or r ''days_of_month'' (lookup_or r ''day'' (lookup_or r ''day_of_month'' JNull))))) (\<lambda>days.
     bind_result (month_numbers r) (\<lambda>months.
       Inr \<lparr>rl_freq = MONTHLY, rl_dtstart = dtstart, rl_bymonth = months, rl_byweekday = None,
            rl_bymonthday = Some days, rl_byhour = hour, rl_byminute = minute\<rparr>)))"

definition schedule_timezone :: "calendar \<Rightarrow> string \<Rightarrow> (recurrence_error, zone) result" where
  "schedule_timezone ca value =
     (case ca_zone ca (if value = [] then ''UTC'' else value) of
        None \<Rightarrow> Inl (UnknownTimezone value) | Some z \<Rightarrow> Inr z)"

definition rule_of :: "string \<Rightarrow> json_object \<Rightarrow> int \<Rightarrow> nat \<Rightarrow> (recurrence_error, rule) result" where
  "rule_of kind r dtstart today =
     (if kind = ''daily'' then daily_rule r dtstart
      else if kind = ''weekly'' then weekly_rule r dtstart today
      else if kind = ''monthly_ordinal'' then monthly_ordinal_rule r dtstart
      else if kind = ''monthly_day'' then monthly_day_rule r dtstart
      else Inl (UnsupportedKind kind))"

definition next_run_after :: "calendar \<Rightarrow> scheduled_action \<Rightarrow> time \<Rightarrow> (recurrence_error, time option) result" where
  "next_run_after ca a after =
     (if sa_schedule_type a = ''once''
      then Inr (case sa_run_at a of Some t \<Rightarrow> Some t | None \<Rightarrow> sa_next_run_at a)
      else if sa_schedule_type a \<noteq> ''recurring'' then Inr None
      else
        bind_result (schedule_timezone ca (sa_timezone a)) (\<lambda>z.
          let local = zn_wall z after in
          bind_result (rule_of (sa_recurrence_kind a) (members (sa_recurrence a)) local (zn_weekday z local)) (\<lambda>rule.
            Inr (map_option (zn_instant z) (ca_after ca rule local)))))"

section \<open>Facts\<close>

definition rule_ok :: "rule \<Rightarrow> bool" where
  "rule_ok r =
     (0 \<le> rl_byhour r \<and> rl_byhour r \<le> 23 \<and> 0 \<le> rl_byminute r \<and> rl_byminute r \<le> 59
      \<and> list_all (\<lambda>m. 1 \<le> m \<and> m \<le> 12) (case rl_bymonth r of None \<Rightarrow> [] | Some ms \<Rightarrow> ms)
      \<and> list_all (\<lambda>(d, n). d < 7 \<and> (case n of None \<Rightarrow> True | Some k \<Rightarrow> k \<in> {-1, 1, 2, 3, 4, 5}))
          (case rl_byweekday r of None \<Rightarrow> [] | Some ds \<Rightarrow> ds)
      \<and> list_all (\<lambda>d. 1 \<le> d \<and> d \<le> 31) (case rl_bymonthday r of None \<Rightarrow> [] | Some ds \<Rightarrow> ds))"

lemma map_result_all:
  assumes "map_result f xs = Inr ys" and "\<And>x y. f x = Inr y \<Longrightarrow> P y"
  shows "list_all P ys"
proof -
  from assms(1) have "list_all2 (\<lambda>x y. f x = Inr y) xs ys" by (simp add: map_result_Inr_iff)
  then show ?thesis by (induction rule: list_all2_induct) (auto intro: assms(2))
qed

lemma range_checked_Inr: "range_checked e lo hi i = Inr j \<longleftrightarrow> j = i \<and> lo \<le> i \<and> i \<le> hi"
  by (auto simp: range_checked_def)

lemma time_parts_ok: "time_parts r = Inr (h, m) \<Longrightarrow> 0 \<le> h \<and> h \<le> 23 \<and> 0 \<le> m \<and> m \<le> 59"
  by (auto simp: time_parts_def result_simps split: if_splits)

lemma month_number_ok: "month_number v = Inr m \<Longrightarrow> 1 \<le> m \<and> m \<le> 12"
  by (auto simp: month_number_def result_simps range_checked_Inr)

lemma month_numbers_ok:
  "month_numbers r = Inr ms \<Longrightarrow> list_all (\<lambda>m. 1 \<le> m \<and> m \<le> 12) (case ms of None \<Rightarrow> [] | Some xs \<Rightarrow> xs)"
  using map_result_all [OF _ month_number_ok]
  by (auto simp: month_numbers_def Let_def bind_result_Inr_iff split: if_splits)

lemma weekday_names_ok: "map_of WEEKDAY_NAMES s = Some n \<Longrightarrow> n < 7"
  by (auto simp: WEEKDAY_NAMES_def split: if_splits)

lemma weekday_number_ok: "weekday_number v = Inr d \<Longrightarrow> d < 7"
  using weekday_names_ok
  by (auto simp: weekday_number_def result_simps range_checked_Inr split: option.splits json.splits)

lemma ordinal_names_ok: "map_of ORDINALS s = Some n \<Longrightarrow> n \<in> {-1, 1, 2, 3, 4, 5}"
  by (auto simp: ORDINALS_def split: if_splits)

lemma ordinal_number_ok: "ordinal_number v = Inr k \<Longrightarrow> k \<in> {-1, 1, 2, 3, 4, 5}"
  using ordinal_names_ok
  by (cases v) (auto simp: ordinal_number_def result_simps split: option.splits if_splits)

section \<open>Properties\<close>

text \<open>
  C40: Whatever the stored recurrence holds, a rule that reaches the calendar is well formed:
  hours 0--23, minutes 0--59, months 1--12, weekdays 0--6 with an ordinal 1--5 or last, and days
  of the month 1--31. Everything else is an error, not a rule.
\<close>

theorem recurrence_rules_are_bounded:
  assumes "rule_of kind r dtstart today = Inr rule"
  shows "rule_ok rule \<and> rl_dtstart rule = dtstart"
proof -
  from assms consider (daily) "daily_rule r dtstart = Inr rule" | (weekly) "weekly_rule r dtstart today = Inr rule"
    | (ordinal) "monthly_ordinal_rule r dtstart = Inr rule" | (day) "monthly_day_rule r dtstart = Inr rule"
    by (auto simp: rule_of_def split: if_splits)
  then show ?thesis
  proof cases
    case daily
    then show ?thesis
      by (auto simp: daily_rule_def result_simps rule_ok_def dest: time_parts_ok month_numbers_ok)
  next
    case weekly
    then obtain hour minute days months where t: "time_parts r = Inr (hour, minute)"
      and days: "map_result weekday_number (weekly_days r today) = Inr days" and m: "month_numbers r = Inr months"
      and rule: "rule = \<lparr>rl_freq = WEEKLY, rl_dtstart = dtstart, rl_bymonth = months,
         rl_byweekday = Some (map (\<lambda>d. (d, None)) days), rl_bymonthday = None, rl_byhour = hour, rl_byminute = minute\<rparr>"
      by (auto simp: weekly_rule_def result_simps)
    from map_result_all [OF days weekday_number_ok] have "list_all (\<lambda>d. d < 7) days" .
    then show ?thesis using time_parts_ok [OF t] month_numbers_ok [OF m] by (simp add: rule rule_ok_def list_all_iff)
  next
    case ordinal
    then obtain hour minute pairs days months where t: "time_parts r = Inr (hour, minute)"
      and days: "map_result ordinal_weekday pairs = Inr days" and m: "month_numbers r = Inr months"
      and rule: "rule = \<lparr>rl_freq = MONTHLY, rl_dtstart = dtstart, rl_bymonth = months,
         rl_byweekday = Some days, rl_bymonthday = None, rl_byhour = hour, rl_byminute = minute\<rparr>"
      by (auto simp: monthly_ordinal_rule_def result_simps Let_def)
    have "list_all (\<lambda>(d, n). d < 7 \<and> (case n of None \<Rightarrow> True | Some k \<Rightarrow> k \<in> {-1, 1, 2, 3, 4, 5})) days"
      by (rule map_result_all [OF days])
         (auto simp: ordinal_weekday_def result_simps dest: weekday_number_ok ordinal_number_ok split: prod.splits)
    then show ?thesis using time_parts_ok [OF t] month_numbers_ok [OF m] by (simp add: rule rule_ok_def)
  next
    case day
    then obtain hour minute vs days months where t: "time_parts r = Inr (hour, minute)"
      and days: "map_result day_number vs = Inr days" and m: "month_numbers r = Inr months"
      and rule: "rule = \<lparr>rl_freq = MONTHLY, rl_dtstart = dtstart, rl_bymonth = months,
         rl_byweekday = None, rl_bymonthday = Some days, rl_byhour = hour, rl_byminute = minute\<rparr>"
      by (auto simp: monthly_day_rule_def result_simps)
    have "list_all (\<lambda>d. 1 \<le> d \<and> d \<le> 31) days"
      by (rule map_result_all [OF days]) (auto simp: day_number_def result_simps range_checked_Inr)
    then show ?thesis using time_parts_ok [OF t] month_numbers_ok [OF m] by (simp add: rule rule_ok_def)
  qed
qed

theorem recurrence_rules_are_bounded_witness:
  "case rule_of ''monthly_ordinal'' [(''time'', JStr ''06:30''), (''ordinal'', JStr ''Last''), (''weekday'', JStr '' Fri'')] 0 2 of
     Inl e \<Rightarrow> False | Inr rule \<Rightarrow> rule_ok rule \<and> rl_byweekday rule = Some [(4, Some (-1))]"
proof -
  let ?r = "[(''time'', JStr ''06:30''), (''ordinal'', JStr ''Last''), (''weekday'', JStr '' Fri'')]"
  obtain rule where run: "rule_of ''monthly_ordinal'' ?r 0 2 = Inr rule" and days: "rl_byweekday rule = Some [(4, Some (-1))]"
  proof -
    have "case rule_of ''monthly_ordinal'' ?r 0 2 of Inl e \<Rightarrow> False | Inr rule \<Rightarrow> rl_byweekday rule = Some [(4, Some (-1))]" by code_simp
    then show thesis using that by (auto split: sum.splits)
  qed
  from recurrence_rules_are_bounded [OF run] days run show ?thesis by simp
qed

text \<open>
  The calendar gives a wall clock after the one it is asked for, and a zone without repeated hours
  keeps the order of the wall clock.
\<close>

definition calendar_ok :: "calendar \<Rightarrow> bool" where
  "calendar_ok ca = (\<forall>r w w'. ca_after ca r w = Some w' \<longrightarrow> w < w')"

definition zone_monotone :: "zone \<Rightarrow> bool" where
  "zone_monotone z = (\<forall>t w. zn_wall z t < w \<longrightarrow> t < zn_instant z w)"

lemma next_run_strictly_later:
  assumes "calendar_ok ca" and "\<forall>s z. ca_zone ca s = Some z \<longrightarrow> zone_monotone z"
    and "sa_schedule_type a = ''recurring''" and "next_run_after ca a after = Inr (Some t)"
  shows "after < t"
proof -
  from assms(3,4) obtain z rule w where z: "ca_zone ca (if sa_timezone a = [] then ''UTC'' else sa_timezone a) = Some z"
    and w: "ca_after ca rule (zn_wall z after) = Some w" and t: "t = zn_instant z w"
    by (auto simp: next_run_after_def schedule_timezone_def result_simps Let_def split: option.splits)
  from assms(1) w have "zn_wall z after < w" by (auto simp: calendar_ok_def)
  with assms(2) z t show ?thesis by (auto simp: zone_monotone_def)
qed

text \<open>
  Where wall clocks repeat, the next run can be an instant that is already past: a zone that
  goes back one hour, asked during the second pass through that hour, answers with the first
  pass. The function promises the next run after \<open>after\<close>.
\<close>

definition fold_zone :: zone where
  "fold_zone = \<lparr>zn_wall = \<lambda>t. if t < 3600000000 then t else t - 3600000000, zn_weekday = \<lambda>w. 0,
     zn_instant = \<lambda>w. if w < 3600000000 then w else w + 3600000000\<rparr>"

definition fold_calendar :: calendar where
  "fold_calendar = \<lparr>ca_zone = \<lambda>s. Some fold_zone,
     ca_after = \<lambda>r w. Some (let day = 86400000000; at = (rl_byhour r * 60 + rl_byminute r) mod 1440 * 60000000; d = w div day
       in if w < d * day + at then d * day + at else (d + 1) * day + at)\<rparr>"

definition fold_action :: scheduled_action where
  "fold_action = \<lparr>sa_pk = 1, sa_name = [], sa_enabled = True, sa_action_type = ''start'', sa_action_timeout_seconds = 1800, sa_cluster = 1,
     sa_target_type = ''vm'', sa_target_vmid = 100, sa_target_node = [], sa_target_name_snapshot = [], sa_parameters = JObj [], sa_schedule_type = ''recurring'',
     sa_run_at = None, sa_recurrence = JObj [(''time'', JStr ''00:45'')], sa_recurrence_kind = ''daily'', sa_timezone = ''Europe/Stockholm'',
     sa_catch_up_policy = ''skip_missed'', sa_max_lateness_minutes = 0, sa_end_condition = ''none'', sa_run_until = None,
     sa_max_scheduled_runs = None, sa_scheduled_run_count = 0, sa_last_run_at = None, sa_next_run_at = None, sa_last_status = [],
     sa_deleted_at = None\<rparr>"

theorem next_run_can_be_past:
  "calendar_ok fold_calendar \<and> next_run_after fold_calendar fold_action 5400000000 = Inr (Some 2700000000)"
proof
  show "calendar_ok fold_calendar"
  proof (unfold calendar_ok_def, intro allI impI)
    fix r w w'
    assume after: "ca_after fold_calendar r w = Some w'"
    have "w < (w div 86400000000 + 1) * 86400000000"
      using div_mult_mod_eq [of w 86400000000] pos_mod_bound [of 86400000000 w] by simp
    moreover have "0 \<le> (rl_byhour r * 60 + rl_byminute r) mod 1440 * 60000000" by simp
    ultimately show "w < w'" using after by (auto simp: fold_calendar_def Let_def split: if_splits)
  qed
next
  show "next_run_after fold_calendar fold_action 5400000000 = Inr (Some 2700000000)" by code_simp
qed

end
