(* ===== verification/Scheduled_Actions.thy ===== *)
theory Scheduled_Actions
  imports Proxmox_Client Scheduled_Recurrence Scheduled_Retirement Enrollment Console_Sessions
begin

text \<open>
  \<^verbatim>\<open>core/services/scheduled_actions.py\<close> and \<^verbatim>\<open>core/services/scheduled_action_settings.py\<close>: the dispatcher that
  claims due schedules, the manual trigger, the reaper and the retention of runs, and the worker
  that executes one run. An operation returns its value or the exception it raises, together with
  the database it leaves: what was committed before an exception stays.

  Parameters: the clock (one value per call), the calendar, the task queue, the row locks other
  transactions hold, the user rows and Python's \<open>str\<close> of a JSON container.
\<close>

section \<open>Settings\<close>

definition MIN_RUN_HISTORY_RETENTION_DAYS :: int where "MIN_RUN_HISTORY_RETENTION_DAYS = 1"
definition MAX_RUN_HISTORY_RETENTION_DAYS :: int where "MAX_RUN_HISTORY_RETENTION_DAYS = 999"
definition DEFAULT_RUN_HISTORY_RETENTION_DAYS :: int where "DEFAULT_RUN_HISTORY_RETENTION_DAYS = 90"

text \<open>The singleton row is \<^term>\<open>None\<close> until it is first read.\<close>

definition settings_record :: "int option \<Rightarrow> int \<times> int option" where
  "settings_record st =
     (case st of None \<Rightarrow> (DEFAULT_RUN_HISTORY_RETENTION_DAYS, Some DEFAULT_RUN_HISTORY_RETENTION_DAYS) | Some days \<Rightarrow> (days, st))"

definition run_history_retention_days :: "int option \<Rightarrow> int \<times> int option" where
  "run_history_retention_days st = settings_record st"

definition update_run_history_retention :: "int \<Rightarrow> int option \<Rightarrow> (string, int option) result" where
  "update_run_history_retention days st =
     (if \<not> (MIN_RUN_HISTORY_RETENTION_DAYS \<le> days \<and> days \<le> MAX_RUN_HISTORY_RETENTION_DAYS)
      then Inl ''Run history retention must be between 1 and 999 days.''
      else let (old, st1) = settings_record st in Inr (if old \<noteq> days then Some days else st1))"

section \<open>Environment and errors\<close>

record schedule_env =
  sv_now :: time
  sv_calendar :: calendar
  sv_timeout_seconds :: nat
  sv_user :: "nat \<Rightarrow> actor"
  sv_enqueue :: "nat \<Rightarrow> (string, string) result"
  sv_locked :: "nat \<Rightarrow> bool"
  sv_str :: "json \<Rightarrow> string"

datatype schedule_error =
    AuditRefused audit_error
  | BadTarget ref_error
  | RowMissing nat
  | QueueRefused string
  | DuplicateOccurrence nat string
  | RecurrenceFailed string
  | EnqueueFailed string
  | ExecutionFailed string

type_synonym 'a outcome = "(schedule_error, 'a) result \<times> db"

definition and_then :: "'a outcome \<Rightarrow> ('a \<Rightarrow> db \<Rightarrow> 'b outcome) \<Rightarrow> 'b outcome" where
  "and_then m k = (case m of (Inl e, d) \<Rightarrow> (Inl e, d) | (Inr a, d) \<Rightarrow> k a d)"

definition second :: time where "second = 1000000"

definition DISPATCH_GRACE :: time where "DISPATCH_GRACE = 120 * second"
definition STALE_RUN_GRACE :: time where "STALE_RUN_GRACE = 5 * 60 * second"

section \<open>Audit\<close>

definition audit_details :: "scheduled_run \<Rightarrow> scheduled_action \<Rightarrow> json_object" where
  "audit_details run a =
     [(''scheduled_action_id'', JInt (int (sa_pk a))), (''scheduled_action_name'', JStr (sa_name a)),
      (''run_id'', JInt (int (ru_pk run))), (''target_type'', JStr (sa_target_type a)),
      (''target_vmid'', JInt (int (sa_target_vmid a))), (''target_node'', JStr (sa_target_node a)),
      (''action_type'', JStr (sa_action_type a)), (''end_condition'', JStr (sa_end_condition a)),
      (''run_until'', case sa_run_until a of None \<Rightarrow> JStr [] | Some t \<Rightarrow> JTime t),
      (''max_scheduled_runs'', case sa_max_scheduled_runs a of None \<Rightarrow> JNull | Some n \<Rightarrow> JInt (int n)),
      (''scheduled_run_count'', JInt (int (sa_scheduled_run_count a))),
      (''planned_for'', JTime (ru_planned_for run)), (''proxmox_task_upid'', JStr (ru_proxmox_task_upid run))]"

definition audit_run ::
    "schedule_env \<Rightarrow> scheduled_run \<Rightarrow> scheduled_action \<Rightarrow> string \<Rightarrow> string \<Rightarrow> json_object \<Rightarrow> db \<Rightarrow> unit outcome" where
  "audit_run env run a action event_outcome details d =
     (case get_cluster (sa_cluster a) d of
        None \<Rightarrow> (Inl (RowMissing (sa_cluster a)), d)
      | Some c \<Rightarrow>
          (case make_guest_ref (cl_key c) (sa_target_type a) (int (sa_target_vmid a)) (sa_target_node a) of
             Inl e \<Rightarrow> (Inl (BadTarget e), d)
           | Inr ref \<Rightarrow>
               let user = map_option (sv_user env) (ru_triggered_by run) in
               (case record_audit_event (sv_now env)
                  ((audit_call action)\<lparr>aa_user := user,
                     aa_username := (case user of None \<Rightarrow> ''system'' | Some u \<Rightarrow> ac_username u),
                     aa_object_type := ''scheduled_action'', aa_object_id := show_nat (sa_pk a),
                     aa_outcome := event_outcome, aa_cluster := Some c, aa_guest_ref := Some ref,
                     aa_details := json_update (audit_details run a) details\<rparr>) d of
                  Inl e \<Rightarrow> (Inl (AuditRefused e), d)
                | Inr (_, d') \<Rightarrow> (Inr (), d'))))"

section \<open>Closing a run\<close>

definition close_run :: "time \<Rightarrow> string \<Rightarrow> string \<Rightarrow> string \<Rightarrow> json_object \<Rightarrow> scheduled_run \<Rightarrow> scheduled_run" where
  "close_run now status run_outcome error res r =
     r\<lparr>ru_status := status, ru_outcome := run_outcome, ru_error := error, ru_result := JObj res, ru_finished_at := Some now\<rparr>"

definition finish_audit_action :: "string \<Rightarrow> string" where
  "finish_audit_action status =
     (case map_of
        [(''completed'', ''scheduled_action.run_completed''), (''failed'', ''scheduled_action.run_failed''),
         (''skipped'', ''scheduled_action.run_skipped''), (''timeout'', ''scheduled_action.run_failed''),
         (''stale'', ''scheduled_action.run_failed''), (''cancelled'', ''scheduled_action.run_cancelled'')] status of
        None \<Rightarrow> ''scheduled_action.run_completed'' | Some a \<Rightarrow> a)"

record finish_args =
  fa_status :: string
  fa_outcome :: string
  fa_action_status :: string
  fa_error :: string
  fa_code :: string
  fa_result :: json_object

definition with_failure :: "public_failure \<Rightarrow> finish_args \<Rightarrow> finish_args" where
  "with_failure f a = a\<lparr>fa_error := pf_message f, fa_code := pf_code f\<rparr>"

definition finish_rows :: "time \<Rightarrow> scheduled_run \<Rightarrow> finish_args \<Rightarrow> db \<Rightarrow> db" where
  "finish_rows now run f d =
     d\<lparr>scheduled_runs := update_where (\<lambda>r. ru_pk r = ru_pk run)
          (close_run now (fa_status f) (fa_outcome f) (fa_error f) (fa_result f)) (scheduled_runs d),
       scheduled_actions := update_where (\<lambda>a. sa_pk a = ru_scheduled_action run)
          (\<lambda>a. a\<lparr>sa_last_status := fa_action_status f, sa_last_run_at := Some now\<rparr>) (scheduled_actions d)\<rparr>"

definition finish_run :: "schedule_env \<Rightarrow> scheduled_run \<Rightarrow> scheduled_action \<Rightarrow> finish_args \<Rightarrow> db \<Rightarrow> unit outcome" where
  "finish_run env run a f d =
     audit_run env run a (finish_audit_action (fa_status f))
       (if fa_outcome f = ''success'' \<or> fa_outcome f = ''success_noop'' then ''success'' else fa_outcome f)
       [(''status'', JStr (fa_status f)), (''outcome'', JStr (fa_outcome f)), (''error'', JStr (fa_error f)),
        (''error_code'', JStr (fa_code f)), (''result'', JObj (fa_result f))]
       (finish_rows (sv_now env) run f d)"

section \<open>Reaping and retention\<close>

definition action_of :: "db \<Rightarrow> scheduled_run \<Rightarrow> scheduled_action option" where
  "action_of d r = first_where (\<lambda>a. sa_pk a = ru_scheduled_action r) (scheduled_actions d)"

definition in_flight :: "scheduled_run \<Rightarrow> bool" where
  "in_flight r = (ru_status r \<in> set IN_FLIGHT_RUN_STATUSES)"

text \<open>\<open>select_related("scheduled_action")\<close>: each run with its action as it was read.\<close>

definition with_action :: "db \<Rightarrow> scheduled_run list \<Rightarrow> (scheduled_run \<times> scheduled_action) list" where
  "with_action d rs = List.map_filter (\<lambda>r. map_option (\<lambda>a. (r, a)) (action_of d r)) rs"

definition stale_after :: "schedule_env \<Rightarrow> scheduled_run \<times> scheduled_action \<Rightarrow> time" where
  "stale_after env ra =
     (case ru_started_at (fst ra) of Some t \<Rightarrow> t | None \<Rightarrow> ru_created_at (fst ra))
       + int (max (sa_action_timeout_seconds (snd ra)) (sv_timeout_seconds env)) * second + STALE_RUN_GRACE"

definition stale_args :: finish_args where
  "stale_args = \<lparr>fa_status = ''stale'', fa_outcome = ''stale'', fa_action_status = ''failed'',
     fa_error = ''Scheduled action run was marked stale after worker timeout.'', fa_code = [], fa_result = []\<rparr>"

fun reap_loop :: "schedule_env \<Rightarrow> (scheduled_run \<times> scheduled_action) list \<Rightarrow> nat \<Rightarrow> db \<Rightarrow> nat outcome" where
  "reap_loop env [] n d = (Inr n, d)"
| "reap_loop env ((r, a) # rest) n d = and_then (finish_run env r a stale_args d) (\<lambda>_. reap_loop env rest (n + 1))"

definition reap_stale_scheduled_action_runs :: "schedule_env \<Rightarrow> time option \<Rightarrow> db \<Rightarrow> nat outcome" where
  "reap_stale_scheduled_action_runs env at d =
     (let now = (case at of Some t \<Rightarrow> t | None \<Rightarrow> sv_now env);
          rows = with_action d (sort_key ru_created_at (filter in_flight (scheduled_runs d)))
      in reap_loop env (filter (\<lambda>ra. \<not> stale_after env ra > now) rows) 0 d)"

definition expired_run :: "time \<Rightarrow> scheduled_run \<Rightarrow> bool" where
  "expired_run cutoff r = (\<not> in_flight r \<and> (case ru_finished_at r of None \<Rightarrow> False | Some t \<Rightarrow> t < cutoff))"

definition prune_scheduled_action_runs :: "schedule_env \<Rightarrow> int \<Rightarrow> time option \<Rightarrow> db \<Rightarrow> nat outcome" where
  "prune_scheduled_action_runs env days at d =
     (let cutoff = (case at of Some t \<Rightarrow> t | None \<Rightarrow> sv_now env) - days * 86400 * second;
          purged = count_where (expired_run cutoff) (scheduled_runs d);
          d1 = d\<lparr>scheduled_runs := delete_where (expired_run cutoff) (scheduled_runs d)\<rparr>
      in if purged = 0 then (Inr 0, d1)
         else (case record_audit_event (sv_now env)
                 ((audit_call ''scheduled_action.run_retention.purge'')\<lparr>aa_username := ''system'',
                    aa_object_type := ''scheduled_action_run'', aa_outcome := ''success'',
                    aa_details := [(''retention_days'', JInt days), (''purged'', JInt (int purged))]\<rparr>) d1 of
                 Inl e \<Rightarrow> (Inl (AuditRefused e), d1)
               | Inr (_, d2) \<Rightarrow> (Inr purged, d2)))"

section \<open>Claiming\<close>

definition scheduled_action_run_limit_reached :: "scheduled_action \<Rightarrow> bool" where
  "scheduled_action_run_limit_reached a =
     (sa_end_condition a = ''run_count''
      \<and> (case sa_max_scheduled_runs a of None \<Rightarrow> False | Some n \<Rightarrow> n \<le> sa_scheduled_run_count a))"

definition scheduled_action_next_run_allowed :: "scheduled_action \<Rightarrow> time option \<Rightarrow> bool" where
  "scheduled_action_next_run_allowed a next_run =
     (case next_run of
        None \<Rightarrow> False
      | Some t \<Rightarrow>
          if scheduled_action_run_limit_reached a then False
          else if sa_end_condition a = ''run_until''
          then (case sa_run_until a of None \<Rightarrow> False | Some u \<Rightarrow> t \<le> u)
          else True)"

definition has_in_flight_run :: "scheduled_action \<Rightarrow> db \<Rightarrow> bool" where
  "has_in_flight_run a d = exists_where (\<lambda>r. ru_scheduled_action r = sa_pk a \<and> in_flight r) (scheduled_runs d)"

definition is_missed :: "scheduled_action \<Rightarrow> time \<Rightarrow> time \<Rightarrow> bool" where
  "is_missed a planned_for now =
     (if now \<le> planned_for then False
      else (if sa_catch_up_policy a = ''run_once_late''
            then max (int (sa_max_lateness_minutes a) * 60 * second) DISPATCH_GRACE
            else DISPATCH_GRACE) < now - planned_for)"

definition occurrence_key :: "time \<Rightarrow> string" where
  "occurrence_key planned_for = isoformat_utc ''Z'' planned_for"

text \<open>\<open>key[:160]\<close> counts characters.\<close>

definition manual_occurrence_key :: "scheduled_action \<Rightarrow> time \<Rightarrow> actor option \<Rightarrow> string" where
  "manual_occurrence_key a planned_for triggered_by =
     take_chars 160
       (''manual:'' @ show_nat (sa_pk a) @ '':'' @ occurrence_key planned_for @ '':''
        @ (case triggered_by of Some u \<Rightarrow> if ac_is_authenticated u then ac_username u else ''system'' | None \<Rightarrow> ''system''))"

text \<open>
  The action with its next occurrence, and the error text. A failure of the recurrence that is not
  a \<open>RecurrenceError\<close> is not caught.
\<close>

definition advance_action_after_claim ::
    "schedule_env \<Rightarrow> scheduled_action \<Rightarrow> time \<Rightarrow> string \<Rightarrow> (schedule_error, scheduled_action \<times> string) result" where
  "advance_action_after_claim env a now status =
     (if sa_schedule_type a = ''recurring''
      then (case next_run_after (sv_calendar env) a now of
              Inl (RecurrenceCrash name) \<Rightarrow> Inl (RecurrenceFailed name)
            | Inl e \<Rightarrow>
                Inr (a\<lparr>sa_next_run_at := None, sa_enabled := False, sa_last_run_at := Some now, sa_last_status := ''failed''\<rparr>,
                     pf_message (public_failure_of (PublicMessage (recurrence_message (sv_str env) e) ERROR_CODE_DOMAIN)
                       UNEXPECTED_FAILURE_MESSAGE []))
            | Inr next_run \<Rightarrow>
                let allowed = scheduled_action_next_run_allowed a next_run in
                Inr (a\<lparr>sa_next_run_at := (if allowed then next_run else None), sa_enabled := allowed,
                       sa_last_run_at := Some now, sa_last_status := status\<rparr>, []))
      else Inr (a\<lparr>sa_enabled := False, sa_next_run_at := None, sa_last_run_at := Some now, sa_last_status := status\<rparr>, []))"

text \<open>\<open>action.save(update_fields=["enabled", "next_run_at", "last_run_at", "last_status", ...])\<close>.\<close>

definition save_claim :: "scheduled_action \<Rightarrow> db \<Rightarrow> db" where
  "save_claim a d =
     d\<lparr>scheduled_actions := update_where (\<lambda>row. sa_pk row = sa_pk a)
         (\<lambda>row. row\<lparr>sa_enabled := sa_enabled a, sa_next_run_at := sa_next_run_at a,
                    sa_last_run_at := sa_last_run_at a, sa_last_status := sa_last_status a\<rparr>) (scheduled_actions d)\<rparr>"

text \<open>\<open>ScheduledActionRun(...)\<close> with the defaults of its fields.\<close>

definition new_run :: "schedule_env \<Rightarrow> scheduled_action \<Rightarrow> time \<Rightarrow> string \<Rightarrow> scheduled_run" where
  "new_run env a planned_for key =
     \<lparr>ru_pk = 0, ru_scheduled_action = sa_pk a, ru_planned_for = planned_for, ru_occurrence_key = key,
      ru_started_at = None, ru_finished_at = None, ru_status = ''queued'', ru_outcome = [], ru_proxmox_task_upid = [],
      ru_proxmox_task_node = [], ru_preflight_snapshot = JObj [], ru_result = JObj [], ru_error = [],
      ru_triggered_by = None, ru_created_at = sv_now env\<rparr>"

definition occurrence_taken :: "nat \<Rightarrow> string \<Rightarrow> db \<Rightarrow> bool" where
  "occurrence_taken action key d =
     exists_where (\<lambda>r. ru_scheduled_action r = action \<and> ru_occurrence_key r = key) (scheduled_runs d)"

text \<open>\<open>objects.create\<close> under the constraint \<open>uniq_schedaction_occurrence\<close>.\<close>

definition create_run :: "scheduled_run \<Rightarrow> db \<Rightarrow> (schedule_error, scheduled_run \<times> db) result" where
  "create_run run d =
     (if occurrence_taken (ru_scheduled_action run) (ru_occurrence_key run) d
      then Inl (DuplicateOccurrence (ru_scheduled_action run) (ru_occurrence_key run))
      else let row = run\<lparr>ru_pk := next_pk ru_pk (scheduled_runs d)\<rparr>
           in Inr (row, d\<lparr>scheduled_runs := scheduled_runs d @ [row]\<rparr>))"

record claims =
  cm_db :: db
  cm_queued :: "(scheduled_run \<times> scheduled_action) list"
  cm_missed :: "(scheduled_run \<times> scheduled_action) list"
  cm_skipped :: nat

definition claim_action :: "schedule_env \<Rightarrow> time \<Rightarrow> scheduled_action \<Rightarrow> claims \<Rightarrow> (schedule_error, claims) result" where
  "claim_action env now a st =
     (case sa_next_run_at a of
        None \<Rightarrow> Inr (st\<lparr>cm_skipped := cm_skipped st + 1\<rparr>)
      | Some planned_for \<Rightarrow>
          if has_in_flight_run a (cm_db st) then Inr (st\<lparr>cm_skipped := cm_skipped st + 1\<rparr>)
          else if occurrence_taken (sa_pk a) (occurrence_key planned_for) (cm_db st)
          then bind_result (advance_action_after_claim env a now ''skipped'') (\<lambda>(a', _).
                 Inr (st\<lparr>cm_db := save_claim a' (cm_db st), cm_skipped := cm_skipped st + 1\<rparr>))
          else if is_missed a planned_for now
          then bind_result (advance_action_after_claim env a now ''missed'') (\<lambda>(a', error).
                 bind_result (create_run ((new_run env a planned_for (occurrence_key planned_for))\<lparr>
                     ru_status := ''missed'', ru_outcome := ''missed'', ru_finished_at := Some now,
                     ru_error := (if error \<noteq> [] then error else ''Scheduled run was outside its allowed dispatch window.'')\<rparr>)
                   (save_claim a' (cm_db st))) (\<lambda>(run, d).
                 Inr (st\<lparr>cm_db := d, cm_missed := cm_missed st @ [(run, a')]\<rparr>)))
          else bind_result (advance_action_after_claim env a now ''queued'') (\<lambda>(a', error).
                 bind_result (create_run ((new_run env a planned_for (occurrence_key planned_for))\<lparr>ru_error := error\<rparr>)
                   (save_claim a' (cm_db st))) (\<lambda>(run, d).
                 Inr (st\<lparr>cm_db := d, cm_queued := cm_queued st @ [(run, a')]\<rparr>))))"

definition due :: "time \<Rightarrow> scheduled_action \<Rightarrow> bool" where
  "due now a = (sa_enabled a \<and> sa_deleted_at a = None \<and> (case sa_next_run_at a of None \<Rightarrow> False | Some t \<Rightarrow> t \<le> now))"

definition due_actions :: "schedule_env \<Rightarrow> nat \<Rightarrow> time \<Rightarrow> db \<Rightarrow> scheduled_action list" where
  "due_actions env limit now d =
     take limit (sort_key (\<lambda>a. case sa_next_run_at a of Some t \<Rightarrow> t | None \<Rightarrow> 0)
       (sort_key sa_pk (filter (\<lambda>a. due now a \<and> \<not> sv_locked env (sa_pk a)) (scheduled_actions d))))"

text \<open>The transaction: every claim, or the exception and no claim.\<close>

definition claim_due_actions :: "schedule_env \<Rightarrow> nat \<Rightarrow> time \<Rightarrow> db \<Rightarrow> (schedule_error, claims) result" where
  "claim_due_actions env limit now d =
     fold_result (claim_action env now) (due_actions env limit now d)
       \<lparr>cm_db = d, cm_queued = [], cm_missed = [], cm_skipped = 0\<rparr>"

text \<open>After the commit: each queued run is handed to the queue and recorded, in order.\<close>

fun enqueue_runs ::
    "schedule_env \<Rightarrow> (string \<times> json) list \<Rightarrow> (scheduled_run \<times> scheduled_action) list \<Rightarrow> nat list \<Rightarrow> db \<Rightarrow> nat list \<times> unit outcome" where
  "enqueue_runs env extra [] queue d = (queue, Inr (), d)"
| "enqueue_runs env extra ((r, a) # rest) queue d =
     (case sv_enqueue env (ru_pk r) of
        Inl e \<Rightarrow> (queue, Inl (EnqueueFailed e), d)
      | Inr task_id \<Rightarrow>
          (case audit_run env r a ''scheduled_action.run_queued'' ''success'' ((''task_id'', JStr task_id) # extra) d of
             (Inl e, d') \<Rightarrow> (queue @ [ru_pk r], Inl e, d')
           | (Inr _, d') \<Rightarrow> enqueue_runs env extra rest (queue @ [ru_pk r]) d'))"

fun audit_missed :: "schedule_env \<Rightarrow> (scheduled_run \<times> scheduled_action) list \<Rightarrow> db \<Rightarrow> unit outcome" where
  "audit_missed env [] d = (Inr (), d)"
| "audit_missed env ((r, a) # rest) d =
     and_then (audit_run env r a ''scheduled_action.run_missed'' ''missed'' [(''reason'', JStr (ru_error r))] d)
       (\<lambda>_. audit_missed env rest)"

record dispatch_result =
  dr_queued :: nat
  dr_missed :: nat
  dr_skipped :: nat

record dispatched =
  dp_settings :: "int option"
  dp_queue :: "nat list"
  dp_outcome :: "dispatch_result outcome"

definition announce_claims :: "schedule_env \<Rightarrow> int option \<Rightarrow> claims \<Rightarrow> dispatched" where
  "announce_claims env st cm =
     (let (queue, sent) = enqueue_runs env [] (cm_queued cm) [] (cm_db cm) in
      \<lparr>dp_settings = st, dp_queue = queue,
       dp_outcome = and_then sent (\<lambda>_ d. and_then (audit_missed env (cm_missed cm) d) (\<lambda>_ d'.
         (Inr \<lparr>dr_queued = length (cm_queued cm), dr_missed = length (cm_missed cm), dr_skipped = cm_skipped cm\<rparr>, d')))\<rparr>)"

definition dispatch_due_scheduled_actions :: "schedule_env \<Rightarrow> nat \<Rightarrow> time option \<Rightarrow> int option \<Rightarrow> db \<Rightarrow> dispatched" where
  "dispatch_due_scheduled_actions env limit at st d =
     (case reap_stale_scheduled_action_runs env at d of
        (Inl e, d1) \<Rightarrow> \<lparr>dp_settings = st, dp_queue = [], dp_outcome = (Inl e, d1)\<rparr>
      | (Inr _, d1) \<Rightarrow>
          let (days, st1) = run_history_retention_days st in
          (case prune_scheduled_action_runs env days at d1 of
             (Inl e, d2) \<Rightarrow> \<lparr>dp_settings = st1, dp_queue = [], dp_outcome = (Inl e, d2)\<rparr>
           | (Inr _, d2) \<Rightarrow>
               (case claim_due_actions env limit (case at of Some t \<Rightarrow> t | None \<Rightarrow> sv_now env) d2 of
                  Inl e \<Rightarrow> \<lparr>dp_settings = st1, dp_queue = [], dp_outcome = (Inl e, d2)\<rparr>
                | Inr cm \<Rightarrow> announce_claims env st1 cm)))"

section \<open>Running a schedule by hand\<close>

definition claim_manual_run ::
    "schedule_env \<Rightarrow> nat \<Rightarrow> actor option \<Rightarrow> time \<Rightarrow> db \<Rightarrow> (schedule_error, (scheduled_run \<times> scheduled_action) \<times> db) result" where
  "claim_manual_run env pk triggered_by now d =
     (case first_where (\<lambda>a. sa_pk a = pk) (scheduled_actions d) of
        None \<Rightarrow> Inl (RowMissing pk)
      | Some a \<Rightarrow>
          if sa_deleted_at a \<noteq> None then Inl (QueueRefused ''This scheduled action has been deleted.'')
          else if has_in_flight_run a d then Inl (QueueRefused ''This scheduled action already has a run in progress.'')
          else bind_result
            (create_run ((new_run env a now (manual_occurrence_key a now triggered_by))\<lparr>
               ru_triggered_by := (case triggered_by of Some u \<Rightarrow> if ac_is_authenticated u then Some (ac_pk u) else None | None \<Rightarrow> None)\<rparr>) d)
            (\<lambda>(run, d1).
               let a' = a\<lparr>sa_last_status := ''queued'', sa_last_run_at := Some now\<rparr> in
               Inr ((run, a'), d1\<lparr>scheduled_actions := update_where (\<lambda>row. sa_pk row = pk)
                 (\<lambda>row. row\<lparr>sa_last_status := ''queued'', sa_last_run_at := Some now\<rparr>) (scheduled_actions d1)\<rparr>)))"

definition queue_manual_scheduled_action_run ::
    "schedule_env \<Rightarrow> nat \<Rightarrow> actor option \<Rightarrow> time option \<Rightarrow> db \<Rightarrow> nat list \<times> scheduled_run outcome" where
  "queue_manual_scheduled_action_run env pk triggered_by at d =
     (case claim_manual_run env pk triggered_by (case at of Some t \<Rightarrow> t | None \<Rightarrow> sv_now env) d of
        Inl e \<Rightarrow> ([], Inl e, d)
      | Inr ((run, a), d1) \<Rightarrow>
          (case enqueue_runs env [(''source'', JStr ''manual'')] [(run, a)] [] d1 of
             (queue, sent) \<Rightarrow> (queue, and_then sent (\<lambda>_ d2. (Inr run, d2)))))"

section \<open>Executing a run\<close>

text \<open>
  The provider client (\<^verbatim>\<open>core/services/proxmox.py\<close>) and the projection refresh are parameters, as is what
  other processes commit while a provider call is under way (\<open>xe_meanwhile_*\<close>): a run takes
  minutes, and the dispatcher, the reaper and cluster retirement go on meanwhile.
\<close>

datatype provider_failure =
    ApiFailure
  | TaskTimeoutFailure
  | Crash string

record 'c exec_env =
  xe_make_client :: "endpoint \<Rightarrow> (string, 'c) result"
  xe_client_factory :: "(endpoint \<Rightarrow> 'c) option"
  xe_node_names :: "'c \<Rightarrow> string \<Rightarrow> (provider_failure, string list) result"
  xe_guest_current :: "'c \<Rightarrow> string \<Rightarrow> string \<Rightarrow> nat \<Rightarrow> (provider_failure, json_object) result"
  xe_guest_config :: "'c \<Rightarrow> string \<Rightarrow> string \<Rightarrow> nat \<Rightarrow> (provider_failure, json_object) result"
  xe_power_action :: "'c \<Rightarrow> string \<Rightarrow> string \<Rightarrow> nat \<Rightarrow> string \<Rightarrow> json \<Rightarrow> (provider_failure, string) result"
  xe_wait_for_task :: "'c \<Rightarrow> string \<Rightarrow> string \<Rightarrow> nat \<Rightarrow> (provider_failure, task_result) result"
  xe_refresh_guest :: "'c \<Rightarrow> string \<Rightarrow> string \<Rightarrow> nat \<Rightarrow> cluster \<Rightarrow> db \<Rightarrow> (string, string) result \<times> db"
  xe_meanwhile_lookup :: "db \<Rightarrow> db"
  xe_meanwhile_power :: "db \<Rightarrow> db"
  xe_meanwhile_wait :: "db \<Rightarrow> db"

datatype exec_failure =
    ExecutionError string json_object
  | ProviderFailed
  | TaskTimedOut
  | UnexpectedException string

fun exec_failure_of :: "provider_failure \<Rightarrow> exec_failure" where
  "exec_failure_of ApiFailure = ProviderFailed"
| "exec_failure_of TaskTimeoutFailure = TaskTimedOut"
| "exec_failure_of (Crash name) = UnexpectedException name"

record 'c guest_target =
  gt_endpoint :: endpoint
  gt_client :: 'c
  gt_node :: string
  gt_current :: json_object
  gt_config :: json_object

subsection \<open>Starting\<close>

definition update_run :: "nat \<Rightarrow> (scheduled_run \<Rightarrow> scheduled_run) \<Rightarrow> db \<Rightarrow> db" where
  "update_run pk f d = d\<lparr>scheduled_runs := update_where (\<lambda>r. ru_pk r = pk) f (scheduled_runs d)\<rparr>"

definition update_action :: "nat \<Rightarrow> (scheduled_action \<Rightarrow> scheduled_action) \<Rightarrow> db \<Rightarrow> db" where
  "update_action pk f d = d\<lparr>scheduled_actions := update_where (\<lambda>a. sa_pk a = pk) f (scheduled_actions d)\<rparr>"

definition automated_run :: "scheduled_run \<Rightarrow> bool" where
  "automated_run r = (\<not> starts_with ''manual:'' (ru_occurrence_key r))"

definition limit_cancelled :: "time \<Rightarrow> scheduled_run \<Rightarrow> scheduled_run" where
  "limit_cancelled now r =
     r\<lparr>ru_status := ''cancelled'', ru_outcome := ''cancelled'', ru_finished_at := Some now,
       ru_error := ''The scheduled run limit was already reached.''\<rparr>"

definition disabled :: "scheduled_action \<Rightarrow> scheduled_action" where
  "disabled a = a\<lparr>sa_enabled := False, sa_next_run_at := None\<rparr>"

definition counted :: "scheduled_action \<Rightarrow> scheduled_action" where
  "counted a =
     (let a' = a\<lparr>sa_scheduled_run_count := sa_scheduled_run_count a + 1\<rparr>
      in if scheduled_action_run_limit_reached a' then disabled a' else a')"

text \<open>\<open>run.save\<close> and \<open>action.save\<close> write the fields of the rows just read under their locks.\<close>

definition start_run :: "schedule_env \<Rightarrow> nat \<Rightarrow> db \<Rightarrow> (scheduled_run \<times> scheduled_action) option outcome" where
  "start_run env run_id d =
     (case first_where (\<lambda>r. ru_pk r = run_id) (scheduled_runs d) of
        None \<Rightarrow> (Inr None, d)
      | Some run \<Rightarrow>
          if ru_status run \<noteq> ''queued'' then (Inr None, d)
          else (case action_of d run of
            None \<Rightarrow> (Inl (RowMissing (ru_scheduled_action run)), d)
          | Some a \<Rightarrow>
              if automated_run run \<and> scheduled_action_run_limit_reached a
              then (Inr None, update_action (sa_pk a) disabled (update_run run_id (limit_cancelled (sv_now env)) d))
              else
                let begin_run = (\<lambda>r. r\<lparr>ru_status := ''preflight'', ru_started_at := Some (sv_now env)\<rparr>);
                    a' = (if automated_run run then counted a else a);
                    d1 = update_run run_id begin_run d;
                    d2 = (if automated_run run then update_action (sa_pk a) counted d1 else d1)
                in and_then (audit_run env (begin_run run) a' ''scheduled_action.run_started'' ''success'' [] d2)
                     (\<lambda>_ d3. (Inr (Some (begin_run run, a')), d3))))"

subsection \<open>Finding the guest\<close>

definition lookup_error :: "string \<Rightarrow> string option \<Rightarrow> json" where
  "lookup_error endpoint_name node =
     JObj ([(''endpoint'', JStr endpoint_name)] @ (case node of None \<Rightarrow> [] | Some n \<Rightarrow> [(''node'', JStr n)])
       @ [(''error'', JStr PROVIDER_FAILURE_MESSAGE)])"

text \<open>The two reads of one node. Only a provider error moves on to the next node.\<close>

definition read_guest ::
    "'c exec_env \<Rightarrow> 'c \<Rightarrow> string \<Rightarrow> scheduled_action \<Rightarrow> (provider_failure, json_object \<times> json_object) result" where
  "read_guest xe client node a =
     bind_result (xe_guest_current xe client node (sa_target_type a) (sa_target_vmid a)) (\<lambda>current.
       bind_result (xe_guest_config xe client node (sa_target_type a) (sa_target_vmid a)) (\<lambda>config.
         Inr (current, config)))"

fun find_on_nodes ::
    "'c exec_env \<Rightarrow> scheduled_action \<Rightarrow> endpoint \<Rightarrow> 'c \<Rightarrow> string list \<Rightarrow> json list
      \<Rightarrow> (string, json list + 'c guest_target) result" where
  "find_on_nodes xe a e client [] errs = Inr (Inl errs)"
| "find_on_nodes xe a e client (node # nodes) errs =
     (case read_guest xe client node a of
        Inl (Crash name) \<Rightarrow> Inl name
      | Inl _ \<Rightarrow> find_on_nodes xe a e client nodes (errs @ [lookup_error (ep_name e) (Some node)])
      | Inr (current, config) \<Rightarrow>
          Inr (Inr \<lparr>gt_endpoint = e, gt_client = client, gt_node = node, gt_current = current, gt_config = config\<rparr>))"

text \<open>\<open>zip(endpoints, clients, strict=True)\<close>: a difference in length is raised when it is reached.\<close>

fun find_on_endpoints ::
    "'c exec_env \<Rightarrow> scheduled_action \<Rightarrow> cluster \<Rightarrow> db \<Rightarrow> endpoint list \<Rightarrow> 'c list \<Rightarrow> json list
      \<Rightarrow> (string, json list + 'c guest_target) result" where
  "find_on_endpoints xe a c d [] [] errs = Inr (Inl errs)"
| "find_on_endpoints xe a c d (e # es) (client # clients) errs =
     (case xe_node_names xe client (ep_name e) of
        Inl (Crash name) \<Rightarrow> Inl name
      | Inl _ \<Rightarrow> find_on_endpoints xe a c d es clients (errs @ [lookup_error (ep_name e) None])
      | Inr live \<Rightarrow>
          (case find_on_nodes xe a e client (published_node_names c live d) errs of
             Inl name \<Rightarrow> Inl name
           | Inr (Inr target) \<Rightarrow> Inr (Inr target)
           | Inr (Inl errs') \<Rightarrow> find_on_endpoints xe a c d es clients errs'))"
| "find_on_endpoints xe a c d _ _ errs = Inl ''ValueError''"

definition lookup_endpoints :: "cluster \<Rightarrow> db \<Rightarrow> endpoint list" where
  "lookup_endpoints c d = sort_key ep_name (filter (\<lambda>e. ep_cluster e = cl_pk c \<and> ep_enabled e) (endpoints d))"

definition lookup_clients :: "'c exec_env \<Rightarrow> cluster \<Rightarrow> db \<Rightarrow> (string, 'c list) result" where
  "lookup_clients xe c d =
     (case xe_client_factory xe of
        Some factory \<Rightarrow> Inr (map factory (lookup_endpoints c d))
      | None \<Rightarrow> map_error (\<lambda>_. ''ClusterResolutionError'') (cluster_clients (xe_make_client xe) c d))"

definition find_guest :: "'c exec_env \<Rightarrow> scheduled_action \<Rightarrow> cluster \<Rightarrow> db \<Rightarrow> (exec_failure, 'c guest_target) result" where
  "find_guest xe a c d =
     (case lookup_clients xe c d of
        Inl name \<Rightarrow> Inl (UnexpectedException name)
      | Inr clients \<Rightarrow>
          (case find_on_endpoints xe a c d (lookup_endpoints c d) clients [] of
             Inl name \<Rightarrow> Inl (UnexpectedException name)
           | Inr (Inr target) \<Rightarrow> Inr target
           | Inr (Inl errs) \<Rightarrow>
               Inl (ExecutionError
                 (''Could not find '' @ sa_target_type a @ '' '' @ show_nat (sa_target_vmid a) @ '' in cluster ''
                  @ CHR 0x27 # cl_key c @ CHR 0x27 # ''.'')
                 [(''lookup_errors'', JList errs), (''endpoint_count'', JInt (int (length (lookup_endpoints c d)))),
                  (''cluster_key'', JStr (cl_key c))])))"

subsection \<open>Preflight\<close>

text \<open>\<open>a or b or ""\<close> over members of the provider's answers.\<close>

fun first_truthy :: "json option list \<Rightarrow> json" where
  "first_truthy [] = JStr []"
| "first_truthy (v # vs) = (case v of Some j \<Rightarrow> if truthy j then j else first_truthy vs | None \<Rightarrow> first_truthy vs)"

definition preflight_snapshot ::
    "schedule_env \<Rightarrow> scheduled_action \<Rightarrow> cluster \<Rightarrow> 'c guest_target \<Rightarrow> (ref_error, json_object) result" where
  "preflight_snapshot env a c t =
     bind_result (make_guest_ref (cl_key c) (sa_target_type a) (int (sa_target_vmid a)) (sa_target_node a)) (\<lambda>ref.
       Inr [(''guest_ref'', JStr (serialize_guest_ref True ref)), (''cluster_key'', JStr (cl_key c)),
            (''endpoint'', JStr (ep_name (gt_endpoint t))), (''node'', JStr (gt_node t)),
            (''target_type'', JStr (sa_target_type a)), (''target_vmid'', JInt (int (sa_target_vmid a))),
            (''target_name'', first_truthy [map_of (gt_current t) ''name'', map_of (gt_config t) ''name'', map_of (gt_config t) ''hostname'']),
            (''action'', JStr (sa_action_type a)),
            (''status'', JStr (text_or_empty (sv_str env) (map_of (gt_current t) ''status''))),
            (''lock'', JStr (text_or_empty (sv_str env) (Some (first_truthy [map_of (gt_config t) ''lock'', map_of (gt_current t) ''lock'']))))])"

definition no_op_outcome :: "schedule_env \<Rightarrow> scheduled_action \<Rightarrow> json_object \<Rightarrow> string" where
  "no_op_outcome env a preflight =
     (let status = text_or_empty (sv_str env) (map_of preflight ''status'') in
      if sa_action_type a = ''start'' \<and> status = ''running'' then ''Guest is already running.''
      else if (sa_action_type a = ''shutdown'' \<or> sa_action_type a = ''stop'') \<and> status = ''stopped'' then ''Guest is already stopped.''
      else [])"

definition skip_reason :: "schedule_env \<Rightarrow> scheduled_action \<Rightarrow> json_object \<Rightarrow> string" where
  "skip_reason env a preflight =
     (let lock = text_or_empty (sv_str env) (map_of preflight ''lock'');
          status = text_or_empty (sv_str env) (map_of preflight ''status'')
      in if lock \<noteq> [] then ''Guest is locked by Proxmox operation: '' @ lock @ ''.''
         else if sa_action_type a = ''reboot'' \<and> status = ''stopped'' then ''Cannot reboot a stopped guest.''
         else [])"

definition with_preflight :: "schedule_env \<Rightarrow> json_object \<Rightarrow> scheduled_run \<Rightarrow> scheduled_run" where
  "with_preflight env preflight r =
     r\<lparr>ru_preflight_snapshot := JObj preflight, ru_proxmox_task_node := text_or_empty (sv_str env) (map_of preflight ''node'')\<rparr>"

text \<open>The row and the run object in hand both change.\<close>

definition store_preflight :: "schedule_env \<Rightarrow> json_object \<Rightarrow> scheduled_run \<Rightarrow> db \<Rightarrow> scheduled_run \<times> db" where
  "store_preflight env preflight run d =
     (if preflight = [] then (run, d)
      else (with_preflight env preflight run, update_run (ru_pk run) (with_preflight env preflight) d))"

definition submitted :: "string \<Rightarrow> string \<Rightarrow> scheduled_run \<Rightarrow> scheduled_run" where
  "submitted node upid r = r\<lparr>ru_status := ''polling'', ru_proxmox_task_node := node, ru_proxmox_task_upid := upid\<rparr>"

definition mark_submitted :: "string \<Rightarrow> string \<Rightarrow> scheduled_run \<Rightarrow> db \<Rightarrow> scheduled_run \<times> db" where
  "mark_submitted node upid run d = (submitted node upid run, update_run (ru_pk run) (submitted node upid) d)"

definition run_was_cancelled :: "scheduled_run \<Rightarrow> db \<Rightarrow> bool" where
  "run_was_cancelled run d = exists_where (\<lambda>r. ru_pk r = ru_pk run \<and> ru_status r = ''cancelled'') (scheduled_runs d)"

subsection \<open>The worker\<close>

definition noop_args :: "string \<Rightarrow> finish_args" where
  "noop_args msg = \<lparr>fa_status = ''completed'', fa_outcome = ''success_noop'', fa_action_status = ''completed'',
     fa_error = [], fa_code = [], fa_result = [(''message'', JStr msg)]\<rparr>"

definition skipped_args :: "string \<Rightarrow> finish_args" where
  "skipped_args msg = \<lparr>fa_status = ''skipped'', fa_outcome = ''skipped'', fa_action_status = ''skipped'',
     fa_error = msg, fa_code = [], fa_result = []\<rparr>"

definition failed_args :: "json_object \<Rightarrow> public_failure \<Rightarrow> finish_args" where
  "failed_args res f = with_failure f \<lparr>fa_status = ''failed'', fa_outcome = ''failure'', fa_action_status = ''failed'',
     fa_error = [], fa_code = [], fa_result = res\<rparr>"

definition timeout_args :: "public_failure \<Rightarrow> finish_args" where
  "timeout_args f = with_failure f \<lparr>fa_status = ''timeout'', fa_outcome = ''timeout'', fa_action_status = ''timeout'',
     fa_error = [], fa_code = [], fa_result = []\<rparr>"

definition completed_args :: "json_object \<Rightarrow> finish_args" where
  "completed_args res = \<lparr>fa_status = ''completed'', fa_outcome = ''success'', fa_action_status = ''completed'',
     fa_error = [], fa_code = [], fa_result = res\<rparr>"

text \<open>
  The body of the \<open>try\<close>: the exception it ends with, \<^term>\<open>None\<close> when it closed the run, or the task
  it waited for; with the run object as it then is. A failure inside \<open>_finish_run\<close> is an exception
  like any other.
\<close>

type_synonym 'c attempt_end = "(exec_failure, ('c guest_target \<times> task_result) option) result"

definition closed_in_try :: "unit outcome \<Rightarrow> scheduled_run \<Rightarrow> 'c attempt_end \<times> scheduled_run \<times> db" where
  "closed_in_try m run =
     (case m of (Inl _, d) \<Rightarrow> (Inl (UnexpectedException ''audit''), run, d) | (Inr _, d) \<Rightarrow> (Inr None, run, d))"

definition submit_and_wait ::
    "'c exec_env \<Rightarrow> scheduled_run \<Rightarrow> scheduled_action \<Rightarrow> 'c guest_target \<Rightarrow> db \<Rightarrow> 'c attempt_end \<times> scheduled_run \<times> db" where
  "submit_and_wait xe run a t d =
     (let d1 = xe_meanwhile_power xe d in
      case xe_power_action xe (gt_client t) (gt_node t) (sa_target_type a) (sa_target_vmid a) (sa_action_type a) (sa_parameters a) of
        Inl f \<Rightarrow> (Inl (exec_failure_of f), run, d1)
      | Inr upid \<Rightarrow>
          let (run', d2) = mark_submitted (gt_node t) upid run d1;
              d3 = xe_meanwhile_wait xe d2
          in (case xe_wait_for_task xe (gt_client t) (gt_node t) upid (sa_action_timeout_seconds a) of
                Inl f \<Rightarrow> (Inl (exec_failure_of f), run', d3)
              | Inr res \<Rightarrow> (Inr (Some (t, res)), run', d3)))"

definition attempt_run ::
    "schedule_env \<Rightarrow> 'c exec_env \<Rightarrow> scheduled_run \<Rightarrow> scheduled_action \<Rightarrow> cluster \<Rightarrow> db \<Rightarrow> 'c attempt_end \<times> scheduled_run \<times> db" where
  "attempt_run env xe run a c d =
     (let d1 = xe_meanwhile_lookup xe d in
      case find_guest xe a c d of
        Inl f \<Rightarrow> (Inl f, run, d1)
      | Inr t \<Rightarrow>
          (case preflight_snapshot env a c t of
             Inl _ \<Rightarrow> (Inl (UnexpectedException ''RefError''), run, d1)
           | Inr preflight \<Rightarrow>
               let (run', d2) = store_preflight env preflight run d1 in
               if no_op_outcome env a preflight \<noteq> []
               then closed_in_try (finish_run env run' a (noop_args (no_op_outcome env a preflight)) d2) run'
               else if skip_reason env a preflight \<noteq> []
               then closed_in_try (finish_run env run' a (skipped_args (skip_reason env a preflight)) d2) run'
               else submit_and_wait xe run' a t d2))"

text \<open>The handlers of the \<open>try\<close>. Only an exception that is not the provider's is raised again.\<close>

definition handle_failure :: "schedule_env \<Rightarrow> exec_failure \<Rightarrow> scheduled_run \<Rightarrow> scheduled_action \<Rightarrow> db \<Rightarrow> unit outcome" where
  "handle_failure env f run a d =
     (case f of
        TaskTimedOut \<Rightarrow>
          finish_run env run a (timeout_args (public_failure_of (OtherException ''ProxmoxTaskTimeout'') TASK_TIMEOUT_MESSAGE ERROR_CODE_TASK_TIMEOUT)) d
      | ExecutionError msg preflight \<Rightarrow>
          let (run', d1) = store_preflight env preflight run d in
          finish_run env run' a (failed_args [] (public_failure_of (PublicMessage msg ERROR_CODE_DOMAIN) UNEXPECTED_FAILURE_MESSAGE [])) d1
      | ProviderFailed \<Rightarrow>
          finish_run env run a (failed_args [] (public_failure_of (OtherException ''ProxmoxAPIError'') PROVIDER_FAILURE_MESSAGE ERROR_CODE_PROVIDER)) d
      | UnexpectedException name \<Rightarrow>
          and_then (finish_run env run a (failed_args [] (public_failure_of (OtherException name) UNEXPECTED_FAILURE_MESSAGE ERROR_CODE_UNEXPECTED)) d)
            (\<lambda>_ d1. (Inl (ExecutionFailed name), d1)))"

definition projection_details :: "json_object \<Rightarrow> (string, string) result \<Rightarrow> json_object" where
  "projection_details raw projection =
     (''proxmox_task'', JObj raw) #
     (case projection of
        Inl _ \<Rightarrow> [(''projection_refresh_error'', JStr ''The action succeeded, but refreshing this guest's projection failed.'')]
      | Inr error \<Rightarrow> if error \<noteq> [] then [(''projection_refresh_error'', JStr error)] else [])"

text \<open>After the task: nothing is written to a run that was cancelled meanwhile.\<close>

definition conclude_run ::
    "schedule_env \<Rightarrow> 'c exec_env \<Rightarrow> scheduled_run \<Rightarrow> scheduled_action \<Rightarrow> cluster \<Rightarrow> 'c guest_target \<Rightarrow> task_result \<Rightarrow> db \<Rightarrow> unit outcome" where
  "conclude_run env xe run a c t res d =
     (if run_was_cancelled run d then (Inr (), d)
      else if task_success res
      then let (projection, d1) = xe_refresh_guest xe (gt_client t) (gt_node t) (sa_target_type a) (sa_target_vmid a) c d in
           finish_run env run a (completed_args (projection_details (tk_raw res) projection)) d1
      else finish_run env run a
             (failed_args [(''proxmox_task'', JObj (tk_raw res))] (proxmox_task_failure (tk_exitstatus res) (tk_status res))) d)"

definition execute_scheduled_action_run :: "schedule_env \<Rightarrow> 'c exec_env \<Rightarrow> nat \<Rightarrow> db \<Rightarrow> unit outcome" where
  "execute_scheduled_action_run env xe run_id d =
     and_then (start_run env run_id d) (\<lambda>started d1.
       case started of
         None \<Rightarrow> (Inr (), d1)
       | Some (run, a) \<Rightarrow>
           (case get_cluster (sa_cluster a) d1 of
              None \<Rightarrow> (Inl (RowMissing (sa_cluster a)), d1)
            | Some c \<Rightarrow>
                (case attempt_run env xe run a c d1 of
                   (Inl f, run', d2) \<Rightarrow> handle_failure env f run' a d2
                 | (Inr None, run', d2) \<Rightarrow> (Inr (), d2)
                 | (Inr (Some (t, res)), run', d2) \<Rightarrow> conclude_run env xe run' a c t res d2)))"

section \<open>Frames\<close>

lemma and_then_simps [simp]:
  "and_then (Inl e, d) k = (Inl e, d)"
  "and_then (Inr a, d) k = k a d"
  by (simp_all add: and_then_def)

lemma snd_and_then: "snd (and_then m k) = (case fst m of Inl e \<Rightarrow> snd m | Inr a \<Rightarrow> snd (k a (snd m)))"
  by (cases m) (auto simp: and_then_def split: sum.splits)

text \<open>Recording an event writes events and footprints only.\<close>

lemma audit_run_frame: "\<exists>es cs. snd (audit_run env run a action oc details d) = d\<lparr>audit_events := es, clusters := cs\<rparr>"
proof -
  have same: "\<exists>es cs. d = d\<lparr>audit_events := es, clusters := cs\<rparr>"
    by (intro exI [of _ "audit_events d"] exI [of _ "clusters d"]) simp
  then show ?thesis
    by (auto simp: audit_run_def Let_def split: option.splits sum.splits dest!: record_audit_event_frame)
qed

lemma audit_run_rows [simp]:
  "scheduled_runs (snd (audit_run env run a action oc details d)) = scheduled_runs d"
  "scheduled_actions (snd (audit_run env run a action oc details d)) = scheduled_actions d"
  using audit_run_frame [of env run a action oc details d] by auto

lemma finish_run_rows [simp]:
  "scheduled_runs (snd (finish_run env run a f d)) =
     update_where (\<lambda>r. ru_pk r = ru_pk run)
       (close_run (sv_now env) (fa_status f) (fa_outcome f) (fa_error f) (fa_result f)) (scheduled_runs d)"
  "scheduled_actions (snd (finish_run env run a f d)) =
     update_where (\<lambda>a. sa_pk a = ru_scheduled_action run)
       (\<lambda>a. a\<lparr>sa_last_status := fa_action_status f, sa_last_run_at := Some (sv_now env)\<rparr>) (scheduled_actions d)"
  by (simp_all add: finish_run_def finish_rows_def)

lemma update_run_rows [simp]:
  "scheduled_runs (update_run pk f d) = update_where (\<lambda>r. ru_pk r = pk) f (scheduled_runs d)"
  "scheduled_actions (update_run pk f d) = scheduled_actions d"
  by (simp_all add: update_run_def)

lemma update_action_rows [simp]:
  "scheduled_runs (update_action pk g d) = scheduled_runs d"
  "scheduled_actions (update_action pk g d) = update_where (\<lambda>a. sa_pk a = pk) g (scheduled_actions d)"
  by (simp_all add: update_action_def)

lemma save_claim_rows [simp]:
  "scheduled_runs (save_claim a d) = scheduled_runs d"
  "scheduled_actions (save_claim a d) = update_where (\<lambda>row. sa_pk row = sa_pk a)
     (\<lambda>row. row\<lparr>sa_enabled := sa_enabled a, sa_next_run_at := sa_next_run_at a,
        sa_last_run_at := sa_last_run_at a, sa_last_status := sa_last_status a\<rparr>) (scheduled_actions d)"
  by (simp_all add: save_claim_def)

section \<open>The invariant of schedules and runs\<close>

definition run_id :: "scheduled_run \<Rightarrow> nat \<times> nat \<times> string" where
  "run_id r = (ru_pk r, ru_scheduled_action r, ru_occurrence_key r)"

definition occurrence :: "scheduled_run \<Rightarrow> nat \<times> string" where
  "occurrence r = (ru_scheduled_action r, ru_occurrence_key r)"

definition within_limit :: "scheduled_action \<Rightarrow> bool" where
  "within_limit a =
     (sa_end_condition a = ''run_count'' \<longrightarrow> (case sa_max_scheduled_runs a of None \<Rightarrow> True | Some n \<Rightarrow> sa_scheduled_run_count a \<le> n))"

text \<open>
  Keys are unique, no occurrence of a schedule has two runs, and no schedule with a run limit has
  counted past it.
\<close>

definition schedule_inv :: "db \<Rightarrow> bool" where
  "schedule_inv d =
     (distinct (map ru_pk (scheduled_runs d)) \<and> distinct (map occurrence (scheduled_runs d))
      \<and> distinct (map sa_pk (scheduled_actions d)) \<and> list_all within_limit (scheduled_actions d))"

text \<open>
  The schedules of the installation, the cluster each belongs to, and when it was deleted. No
  operation moves a schedule to another cluster or brings a deleted one back.
\<close>

definition owners :: "db \<Rightarrow> (nat \<times> nat \<times> time option) list" where
  "owners d = map (\<lambda>a. (sa_pk a, sa_cluster a, sa_deleted_at a)) (scheduled_actions d)"

definition owner_le :: "nat \<times> nat \<times> time option \<Rightarrow> nat \<times> nat \<times> time option \<Rightarrow> bool" where
  "owner_le o1 o2 = (fst o2 = fst o1 \<and> fst (snd o2) = fst (snd o1) \<and> (snd (snd o1) \<noteq> None \<longrightarrow> snd (snd o2) = snd (snd o1)))"

definition owners_kept :: "db \<Rightarrow> db \<Rightarrow> bool" where
  "owners_kept d d' = list_all2 owner_le (owners d) (owners d')"

lemma owners_kept_eq: "owners d' = owners d \<Longrightarrow> owners_kept d d'"
  by (simp add: owners_kept_def owner_le_def list_all2_refl)

lemma owners_kept_trans: "owners_kept d1 d2 \<Longrightarrow> owners_kept d2 d3 \<Longrightarrow> owners_kept d1 d3"
  unfolding owners_kept_def by (erule (1) list_all2_trans [rotated]) (auto simp: owner_le_def)

lemma owners_kept_ids: "owners_kept d d' \<Longrightarrow> map (\<lambda>ow. (fst ow, fst (snd ow))) (owners d') = map (\<lambda>ow. (fst ow, fst (snd ow))) (owners d)"
  unfolding owners_kept_def by (induction rule: list_all2_induct) (auto simp: owner_le_def)

lemma own_run_owners: "own_run pk d r \<longleftrightarrow> (ru_scheduled_action r, pk) \<in> set (map (\<lambda>ow. (fst ow, fst (snd ow))) (owners d))"
  by (force simp: own_run_def owners_def exists_where_iff)

text \<open>
  The contract every operation on schedules keeps: the invariant, and which schedule belongs to
  which cluster.
\<close>

locale schedule_writer =
  fixes apply_write :: "'i \<Rightarrow> db \<Rightarrow> db"
  assumes keeps_inv: "schedule_inv d \<Longrightarrow> schedule_inv (apply_write i d)"
    and keeps_owners: "owners_kept d (apply_write i d)"
begin

lemma fold_keeps:
  "schedule_inv d \<Longrightarrow> schedule_inv (fold apply_write is d) \<and> owners_kept d (fold apply_write is d)"
proof (induction "is" arbitrary: d)
  case (Cons i "is")
  from Cons.IH [OF keeps_inv [OF Cons.prems]] show ?case by (auto intro: owners_kept_trans [OF keeps_owners])
qed (simp add: owners_kept_eq)

lemma keeps_own_run: "own_run pk (apply_write i d) r \<longleftrightarrow> own_run pk d r"
  unfolding own_run_owners owners_kept_ids [OF keeps_owners] ..

end

lemma schedule_inv_rows:
  assumes "schedule_inv d" and "map run_id (scheduled_runs d') = map run_id (scheduled_runs d)"
    and "map sa_pk (scheduled_actions d') = map sa_pk (scheduled_actions d)"
    and "list_all within_limit (scheduled_actions d) \<Longrightarrow> list_all within_limit (scheduled_actions d')"
  shows "schedule_inv d'"
proof -
  have "map ru_pk rs = map fst (map run_id rs)" "map occurrence rs = map snd (map run_id rs)" for rs
    by (simp_all add: run_id_def occurrence_def)
  then have "map ru_pk (scheduled_runs d') = map ru_pk (scheduled_runs d)"
    "map occurrence (scheduled_runs d') = map occurrence (scheduled_runs d)"
    using assms(2) by presburger+
  with assms show ?thesis by (simp add: schedule_inv_def)
qed

lemma list_all_update_where:
  assumes "\<And>r. P r \<Longrightarrow> Q r \<Longrightarrow> Q (f r)" and "list_all Q rows"
  shows "list_all Q (update_where P f rows)"
  using assms by (induction rows) auto

lemma update_where_within:
  assumes "\<And>a. sa_end_condition (g a) = sa_end_condition a" "\<And>a. sa_max_scheduled_runs (g a) = sa_max_scheduled_runs a"
    "\<And>a. sa_scheduled_run_count (g a) = sa_scheduled_run_count a"
  shows "list_all within_limit rows \<Longrightarrow> list_all within_limit (update_where P g rows)"
  by (rule list_all_update_where) (simp_all add: within_limit_def assms split: option.splits)

lemma finish_run_keeps:
  "schedule_inv d \<Longrightarrow> schedule_inv (snd (finish_run env run a f d))"
  "owners (snd (finish_run env run a f d)) = owners d"
  by (erule schedule_inv_rows)
    (simp_all add: map_update_where run_id_def close_run_def update_where_within owners_def)

lemma reap_loop_keeps:
  "schedule_inv d \<Longrightarrow> schedule_inv (snd (reap_loop env ras n d))"
  "owners (snd (reap_loop env ras n d)) = owners d"
  by (induction ras arbitrary: n d) (auto simp: snd_and_then finish_run_keeps split: sum.splits)

lemma reap_keeps:
  "schedule_inv d \<Longrightarrow> schedule_inv (snd (reap_stale_scheduled_action_runs env at d))"
  "owners (snd (reap_stale_scheduled_action_runs env at d)) = owners d"
  by (simp_all add: reap_stale_scheduled_action_runs_def Let_def reap_loop_keeps)

lemma prune_rows:
  "scheduled_runs (snd (prune_scheduled_action_runs env days at d)) =
     delete_where (expired_run ((case at of Some t \<Rightarrow> t | None \<Rightarrow> sv_now env) - days * 86400 * second)) (scheduled_runs d)"
  "scheduled_actions (snd (prune_scheduled_action_runs env days at d)) = scheduled_actions d"
  by (auto simp: prune_scheduled_action_runs_def Let_def split: sum.splits dest!: record_audit_event_frame)

lemma distinct_map_delete_where: "distinct (map f rows) \<Longrightarrow> distinct (map f (delete_where P rows))"
  unfolding delete_where_def by (rule distinct_map_filter)

lemma prune_keeps:
  "schedule_inv d \<Longrightarrow> schedule_inv (snd (prune_scheduled_action_runs env days at d))"
  "owners (snd (prune_scheduled_action_runs env days at d)) = owners d"
  by (simp_all add: schedule_inv_def owners_def prune_rows distinct_map_delete_where)

lemma update_run_keeps:
  assumes "\<And>r. run_id (f r) = run_id r"
  shows "schedule_inv d \<Longrightarrow> schedule_inv (update_run pk f d)" "owners (update_run pk f d) = owners d"
  by (erule schedule_inv_rows) (simp_all add: map_update_where assms owners_def)

lemma store_preflight_keeps:
  "schedule_inv d \<Longrightarrow> schedule_inv (snd (store_preflight env preflight run d))"
  "owners (snd (store_preflight env preflight run d)) = owners d"
  by (simp_all add: store_preflight_def update_run_keeps with_preflight_def run_id_def)

lemma mark_submitted_keeps:
  "schedule_inv d \<Longrightarrow> schedule_inv (snd (mark_submitted node upid run d))"
  "owners (snd (mark_submitted node upid run d)) = owners d"
  by (simp_all add: mark_submitted_def update_run_keeps submitted_def run_id_def)

text \<open>Counting a run never passes the limit when the limit was not reached before.\<close>

lemma counted_within:
  "\<not> scheduled_action_run_limit_reached a \<Longrightarrow> within_limit (counted a)"
  by (auto simp: counted_def scheduled_action_run_limit_reached_def within_limit_def disabled_def Let_def split: option.splits)

lemma counted_id [simp]:
  "sa_pk (counted a) = sa_pk a" "sa_cluster (counted a) = sa_cluster a" "sa_deleted_at (counted a) = sa_deleted_at a"
  "sa_scheduled_run_count (counted a) = sa_scheduled_run_count a + 1"
  by (simp_all add: counted_def disabled_def Let_def)

lemma disabled_id [simp]:
  "sa_pk (disabled a) = sa_pk a" "sa_cluster (disabled a) = sa_cluster a" "sa_deleted_at (disabled a) = sa_deleted_at a"
  by (simp_all add: disabled_def)

lemma action_of_unique:
  assumes "schedule_inv d" "action_of d run = Some a" "b \<in> set (scheduled_actions d)" "sa_pk b = sa_pk a"
  shows "b = a"
  using assms by (auto simp: action_of_def schedule_inv_def distinct_map dest!: first_where_Some_iff dest: inj_onD)

lemma start_run_cases:
  obtains (ignored) "\<forall>run. first_where (\<lambda>r. ru_pk r = pk) (scheduled_runs d) = Some run \<longrightarrow> ru_status run \<noteq> ''queued''"
      "start_run env pk d = (Inr None, d)"
  | (missing) err where "start_run env pk d = (Inl err, d)"
  | (over_limit) run a where "first_where (\<lambda>r. ru_pk r = pk) (scheduled_runs d) = Some run" "ru_status run = ''queued''"
      "action_of d run = Some a" "automated_run run" "scheduled_action_run_limit_reached a"
      "start_run env pk d = (Inr None, update_action (sa_pk a) disabled (update_run pk (limit_cancelled (sv_now env)) d))"
  | (started) run a r' a' d2 where "first_where (\<lambda>r. ru_pk r = pk) (scheduled_runs d) = Some run" "ru_status run = ''queued''"
      "action_of d run = Some a" "automated_run run \<Longrightarrow> \<not> scheduled_action_run_limit_reached a"
      "r' = run\<lparr>ru_status := ''preflight'', ru_started_at := Some (sv_now env)\<rparr>"
      "a' = (if automated_run run then counted a else a)"
      "d2 = (let d1 = update_run pk (\<lambda>r. r\<lparr>ru_status := ''preflight'', ru_started_at := Some (sv_now env)\<rparr>) d
             in if automated_run run then update_action (sa_pk a) counted d1 else d1)"
      "start_run env pk d = and_then (audit_run env r' a' ''scheduled_action.run_started'' ''success'' [] d2)
         (\<lambda>_ d3. (Inr (Some (r', a')), d3))"
proof (cases "first_where (\<lambda>r. ru_pk r = pk) (scheduled_runs d)")
  case None
  then show ?thesis by (intro ignored) (simp_all add: start_run_def)
next
  case (Some run)
  show ?thesis
  proof (cases "ru_status run = ''queued''")
    case False
    with Some show ?thesis by (intro ignored) (simp_all add: start_run_def)
  next
    case queued: True
    show ?thesis
    proof (cases "action_of d run")
      case None
      with Some queued show ?thesis by (intro missing) (simp add: start_run_def)
    next
      case a: (Some a)
      show ?thesis
      proof (cases "automated_run run \<and> scheduled_action_run_limit_reached a")
        case True
        with Some queued a show ?thesis by (intro over_limit [of run a]) (simp_all add: start_run_def)
      next
        case False
        with Some queued a show ?thesis by (intro started [OF Some queued a _ refl refl refl]) (auto simp: start_run_def Let_def)
      qed
    qed
  qed
qed

lemma start_run_keeps:
  assumes "schedule_inv d"
  shows "schedule_inv (snd (start_run env pk d))"
proof (cases rule: start_run_cases [where env = env and pk = pk and d = d])
  case (over_limit run a)
  have "schedule_inv (update_action (sa_pk a) disabled (update_run pk (limit_cancelled (sv_now env)) d))"
    using assms by (rule schedule_inv_rows)
      (simp_all add: map_update_where run_id_def limit_cancelled_def update_where_within disabled_def)
  with over_limit show ?thesis by simp
next
  case (started run a r' a' d2)
  have "list_all within_limit (update_where (\<lambda>b. sa_pk b = sa_pk a) counted (scheduled_actions d))"
    if "automated_run run"
  proof -
    have "within_limit (if sa_pk b = sa_pk a then counted b else b)" if "b \<in> set (scheduled_actions d)" for b
      using assms that action_of_unique [OF assms started(3) that] started(4) [OF \<open>automated_run run\<close>]
      by (auto simp: counted_within schedule_inv_def list_all_iff)
    then show ?thesis unfolding update_where_def list_all_iff by (metis (no_types, lifting) imageE list.set_map)
  qed
  then have "schedule_inv d2"
    using assms by (intro schedule_inv_rows [OF assms]) (simp_all add: started(7) map_update_where run_id_def Let_def)
  with started(8) show ?thesis
    by (auto simp: snd_and_then schedule_inv_def split: sum.splits)
qed (use assms in simp_all)

lemma start_run_owners: "owners (snd (start_run env pk d)) = owners d"
  by (cases rule: start_run_cases [where env = env and pk = pk and d = d])
    (simp_all add: owners_def map_update_where snd_and_then Let_def split: sum.splits)

subsection \<open>Claims\<close>

lemma create_run_keeps:
  assumes "schedule_inv d" "create_run run d = Inr (row, d')"
  shows "schedule_inv d'"
proof -
  have "next_pk ru_pk (scheduled_runs d) \<notin> ru_pk ` set (scheduled_runs d)"
    using next_pk_fresh [of _ "scheduled_runs d" ru_pk] by fastforce
  moreover from assms(2) have "occurrence run \<notin> occurrence ` set (scheduled_runs d)"
    by (fastforce simp: create_run_def occurrence_taken_def exists_where_iff occurrence_def split: if_splits)
  ultimately show ?thesis
    using assms by (auto simp: create_run_def schedule_inv_def occurrence_def Let_def split: if_splits)
qed

lemma create_run_rows:
  assumes "create_run run d = Inr (row, d')"
  shows "row = run\<lparr>ru_pk := next_pk ru_pk (scheduled_runs d)\<rparr>" "d' = d\<lparr>scheduled_runs := scheduled_runs d @ [row]\<rparr>"
  using assms by (auto simp: create_run_def Let_def split: if_splits)

lemma advance_id:
  assumes "advance_action_after_claim env a now status = Inr (a', error)"
  shows "sa_pk a' = sa_pk a" "sa_cluster a' = sa_cluster a" "sa_deleted_at a' = sa_deleted_at a"
    "sa_enabled a' \<longleftrightarrow> sa_next_run_at a' \<noteq> None"
  using assms by (auto simp: advance_action_after_claim_def scheduled_action_next_run_allowed_def Let_def
      split: if_splits sum.splits recurrence_error.splits option.splits)

lemma save_claim_keeps:
  "schedule_inv d \<Longrightarrow> schedule_inv (save_claim a d)"
  "owners (save_claim a d) = owners d"
  by (erule schedule_inv_rows) (simp_all add: map_update_where update_where_within owners_def)

text \<open>What one turn of the loop did with an action.\<close>

lemma claim_action_cases:
  assumes "claim_action env now a st = Inr st'"
  obtains (in_progress) "sa_next_run_at a = None \<or> has_in_flight_run a (cm_db st)" "st' = st\<lparr>cm_skipped := cm_skipped st + 1\<rparr>"
  | (taken) planned a' error where "sa_next_run_at a = Some planned" "\<not> has_in_flight_run a (cm_db st)"
      "occurrence_taken (sa_pk a) (occurrence_key planned) (cm_db st)"
      "advance_action_after_claim env a now ''skipped'' = Inr (a', error)"
      "st' = st\<lparr>cm_db := save_claim a' (cm_db st), cm_skipped := cm_skipped st + 1\<rparr>"
  | (missed) planned a' error run row where "sa_next_run_at a = Some planned" "\<not> has_in_flight_run a (cm_db st)" "is_missed a planned now"
      "advance_action_after_claim env a now ''missed'' = Inr (a', error)"
      "ru_scheduled_action run = sa_pk a" "ru_occurrence_key run = occurrence_key planned" "\<not> in_flight run" "ru_status run = ''missed''"
      "create_run run (save_claim a' (cm_db st)) = Inr (row, cm_db st')"
      "cm_queued st' = cm_queued st" "cm_missed st' = cm_missed st @ [(row, a')]" "cm_skipped st' = cm_skipped st"
  | (queued) planned a' error run row where "sa_next_run_at a = Some planned" "\<not> has_in_flight_run a (cm_db st)" "\<not> is_missed a planned now"
      "advance_action_after_claim env a now ''queued'' = Inr (a', error)"
      "ru_scheduled_action run = sa_pk a" "ru_occurrence_key run = occurrence_key planned" "ru_status run = ''queued''"
      "create_run run (save_claim a' (cm_db st)) = Inr (row, cm_db st')"
      "cm_queued st' = cm_queued st @ [(row, a')]" "cm_missed st' = cm_missed st" "cm_skipped st' = cm_skipped st"
proof (cases "sa_next_run_at a = None \<or> has_in_flight_run a (cm_db st)")
  case True
  with assms show ?thesis by (intro in_progress) (auto simp: claim_action_def split: option.splits if_splits)
next
  case False
  then obtain planned where p: "sa_next_run_at a = Some planned" and free: "\<not> has_in_flight_run a (cm_db st)" by auto
  let ?run = "new_run env a planned (occurrence_key planned)"
  show ?thesis
  proof (cases "occurrence_taken (sa_pk a) (occurrence_key planned) (cm_db st)")
    case True
    with assms p free show ?thesis by (auto simp: claim_action_def result_simps intro: taken)
  next
    case fresh: False
    show ?thesis
    proof (cases "is_missed a planned now")
      case True
      with assms p free fresh obtain a' error row d where
        adv: "advance_action_after_claim env a now ''missed'' = Inr (a', error)" and
        row: "create_run (?run\<lparr>ru_status := ''missed'', ru_outcome := ''missed'', ru_finished_at := Some now,
             ru_error := (if error \<noteq> [] then error else ''Scheduled run was outside its allowed dispatch window.'')\<rparr>)
             (save_claim a' (cm_db st)) = Inr (row, d)"
          "st' = st\<lparr>cm_db := d, cm_missed := cm_missed st @ [(row, a')]\<rparr>"
        by (auto simp: claim_action_def result_simps)
      then show ?thesis
        by (intro missed [OF p free True adv]) (auto simp: new_run_def in_flight_def run_status_defs)
    next
      case False
      with assms p free fresh obtain a' error row d where
        adv: "advance_action_after_claim env a now ''queued'' = Inr (a', error)" and
        row: "create_run (?run\<lparr>ru_error := error\<rparr>) (save_claim a' (cm_db st)) = Inr (row, d)"
          "st' = st\<lparr>cm_db := d, cm_queued := cm_queued st @ [(row, a')]\<rparr>"
        by (auto simp: claim_action_def result_simps)
      then show ?thesis by (intro queued [OF p free False adv]) (auto simp: new_run_def)
    qed
  qed
qed

lemma claim_action_keeps:
  assumes "claim_action env now a st = Inr st'"
  shows "schedule_inv (cm_db st) \<Longrightarrow> schedule_inv (cm_db st')" "owners (cm_db st') = owners (cm_db st)"
proof -
  have created: "owners d' = owners d" if "create_run run d = Inr (row, d')" for run row d d'
    using create_run_rows [OF that] by (simp add: owners_def)
  from assms show "schedule_inv (cm_db st')" if "schedule_inv (cm_db st)"
    by (cases rule: claim_action_cases) (auto simp: that save_claim_keeps dest: create_run_keeps [OF save_claim_keeps(1) [OF that]])
  from assms show "owners (cm_db st') = owners (cm_db st)"
    by (cases rule: claim_action_cases) (auto simp: save_claim_keeps dest!: created)
qed

text \<open>An invariant of one turn is an invariant of the loop.\<close>

lemma fold_result_invariant:
  assumes "fold_result f xs s = Inr s'" and "I s" and "\<And>x s s'. x \<in> set xs \<Longrightarrow> I s \<Longrightarrow> f x s = Inr s' \<Longrightarrow> I s'"
  shows "I s'"
  using assms by (induction xs arbitrary: s) (auto simp: result_simps)

lemma claims_keep:
  assumes "claim_due_actions env limit now d = Inr cm"
  shows "schedule_inv d \<Longrightarrow> schedule_inv (cm_db cm)" "owners (cm_db cm) = owners d"
proof -
  note loop = assms [unfolded claim_due_actions_def]
  show "schedule_inv (cm_db cm)" if "schedule_inv d"
    using loop by (rule fold_result_invariant [where I = "\<lambda>st. schedule_inv (cm_db st)"])
      (auto simp: that dest: claim_action_keeps)
  show "owners (cm_db cm) = owners d"
    using loop by (rule fold_result_invariant [where I = "\<lambda>st. owners (cm_db st) = owners d"])
      (auto dest: claim_action_keeps)
qed

lemma enqueue_runs_rows:
  "enqueue_runs env extra ras queue d = (queue', oc, d') \<Longrightarrow>
     scheduled_runs d' = scheduled_runs d \<and> scheduled_actions d' = scheduled_actions d"
proof (induction ras arbitrary: queue d)
  case (Cons ra ras)
  obtain r a where ra: "ra = (r, a)" by fastforce
  show ?case
  proof (cases "sv_enqueue env (ru_pk r)")
    case (Inl e)
    with Cons.prems ra show ?thesis by simp
  next
    case (Inr task_id)
    obtain res d1 where ev: "audit_run env r a ''scheduled_action.run_queued'' ''success'' ((''task_id'', JStr task_id) # extra) d = (res, d1)"
      by fastforce
    then have same: "scheduled_runs d1 = scheduled_runs d" "scheduled_actions d1 = scheduled_actions d"
      using audit_run_rows [of env r a _ _ _ d] by (metis snd_conv)+
    show ?thesis
    proof (cases res)
      case (Inl e)
      with Cons.prems ra Inr ev same show ?thesis by simp
    next
      case (Inr u)
      with Cons.prems ra \<open>sv_enqueue env (ru_pk r) = Inr task_id\<close> ev
      have "enqueue_runs env extra ras (queue @ [ru_pk r]) d1 = (queue', oc, d')" by simp
      from Cons.IH [OF this] same show ?thesis by simp
    qed
  qed
qed simp

lemma audit_missed_rows:
  "scheduled_runs (snd (audit_missed env ras d)) = scheduled_runs d"
  "scheduled_actions (snd (audit_missed env ras d)) = scheduled_actions d"
  by (induction ras arbitrary: d) (auto simp: snd_and_then split: sum.splits)

lemma announce_rows:
  "scheduled_runs (snd (dp_outcome (announce_claims env st cm))) = scheduled_runs (cm_db cm)"
  "scheduled_actions (snd (dp_outcome (announce_claims env st cm))) = scheduled_actions (cm_db cm)"
proof -
  obtain queue oc d where e: "enqueue_runs env [] (cm_queued cm) [] (cm_db cm) = (queue, oc, d)" by (cases "enqueue_runs env [] (cm_queued cm) [] (cm_db cm)") auto
  from enqueue_runs_rows [OF e]
  show "scheduled_runs (snd (dp_outcome (announce_claims env st cm))) = scheduled_runs (cm_db cm)"
    "scheduled_actions (snd (dp_outcome (announce_claims env st cm))) = scheduled_actions (cm_db cm)"
    by (simp_all add: announce_claims_def e snd_and_then audit_missed_rows split: sum.splits)
qed

lemma schedule_inv_same_rows:
  assumes "scheduled_runs d' = scheduled_runs d" "scheduled_actions d' = scheduled_actions d"
  shows "schedule_inv d' \<longleftrightarrow> schedule_inv d" "owners d' = owners d"
  by (simp_all add: schedule_inv_def owners_def assms)

text \<open>Where a dispatch ends: after the reaper, after the pruning, or after the claims.\<close>

lemma dispatch_cases:
  obtains (reaped) "snd (dp_outcome (dispatch_due_scheduled_actions env limit at st d)) = snd (reap_stale_scheduled_action_runs env at d)"
      "dp_queue (dispatch_due_scheduled_actions env limit at st d) = []"
  | (pruned) days where "snd (dp_outcome (dispatch_due_scheduled_actions env limit at st d)) =
      snd (prune_scheduled_action_runs env days at (snd (reap_stale_scheduled_action_runs env at d)))"
      "dp_queue (dispatch_due_scheduled_actions env limit at st d) = []"
  | (claimed) days st1 cm where "claim_due_actions env limit (case at of Some t \<Rightarrow> t | None \<Rightarrow> sv_now env)
        (snd (prune_scheduled_action_runs env days at (snd (reap_stale_scheduled_action_runs env at d)))) = Inr cm"
      "dispatch_due_scheduled_actions env limit at st d = announce_claims env st1 cm"
proof -
  obtain r1 d1 where reap: "reap_stale_scheduled_action_runs env at d = (r1, d1)" by fastforce
  obtain days st1 where days: "run_history_retention_days st = (days, st1)" by fastforce
  obtain r2 d2 where prune: "prune_scheduled_action_runs env days at d1 = (r2, d2)" by fastforce
  show ?thesis
  proof (cases r1)
    case (Inl e)
    with reap show ?thesis by (intro reaped) (simp_all add: dispatch_due_scheduled_actions_def)
  next
    case r1: (Inr n)
    show ?thesis
    proof (cases "\<exists>e. r2 = Inl e \<or> claim_due_actions env limit (case at of Some t \<Rightarrow> t | None \<Rightarrow> sv_now env) d2 = Inl e")
      case True
      with reap days prune r1 show ?thesis
        by (intro pruned [of days]) (auto simp: dispatch_due_scheduled_actions_def split: sum.splits)
    next
      case False
      then obtain m cm where "r2 = Inr m" "claim_due_actions env limit (case at of Some t \<Rightarrow> t | None \<Rightarrow> sv_now env) d2 = Inr cm"
        by (metis sum.exhaust)
      with reap days prune r1 show ?thesis
        by (intro claimed [of days cm st1]) (simp_all add: dispatch_due_scheduled_actions_def)
    qed
  qed
qed

lemma dispatch_keeps:
  "schedule_inv d \<Longrightarrow> schedule_inv (snd (dp_outcome (dispatch_due_scheduled_actions env limit at st d)))"
  "owners (snd (dp_outcome (dispatch_due_scheduled_actions env limit at st d))) = owners d"
proof -
  show "schedule_inv (snd (dp_outcome (dispatch_due_scheduled_actions env limit at st d)))" if "schedule_inv d"
  proof (cases rule: dispatch_cases [of env limit at st d])
    case (claimed days st1 cm)
    from claims_keep(1) [OF claimed(1)] that claimed(2) show ?thesis
      by (simp add: reap_keeps prune_keeps schedule_inv_same_rows(1) [OF announce_rows])
  qed (simp_all add: that reap_keeps prune_keeps)
  show "owners (snd (dp_outcome (dispatch_due_scheduled_actions env limit at st d))) = owners d"
  proof (cases rule: dispatch_cases [of env limit at st d])
    case (claimed days st1 cm)
    from claims_keep(2) [OF claimed(1)] claimed(2) show ?thesis
      by (simp add: reap_keeps prune_keeps schedule_inv_same_rows(2) [OF announce_rows])
  qed (simp_all add: reap_keeps prune_keeps)
qed

lemma claim_manual_cases:
  assumes "claim_manual_run env pk u now d = Inr ((run, a'), d')"
  obtains a run0 d1 where "a \<in> set (scheduled_actions d)" "sa_pk a = pk" "sa_deleted_at a = None" "\<not> has_in_flight_run a d"
    "create_run run0 d = Inr (run, d1)" "ru_scheduled_action run0 = pk" "ru_status run0 = ''queued''"
    "ru_occurrence_key run0 = manual_occurrence_key a now u" "sa_cluster a' = sa_cluster a"
    "d' = d1\<lparr>scheduled_actions := update_where (\<lambda>row. sa_pk row = pk)
                 (\<lambda>row. row\<lparr>sa_last_status := ''queued'', sa_last_run_at := Some now\<rparr>) (scheduled_actions d1)\<rparr>"
proof -
  from assms obtain a where find: "first_where (\<lambda>a. sa_pk a = pk) (scheduled_actions d) = Some a"
    by (auto simp: claim_manual_run_def split: option.splits)
  from first_where_Some_iff [OF this] have a: "a \<in> set (scheduled_actions d)" "sa_pk a = pk" by auto
  from assms find show ?thesis
    by (auto simp: claim_manual_run_def result_simps Let_def new_run_def a(2) split: if_splits intro!: that [OF a])
qed

lemma claim_manual_keeps:
  assumes "claim_manual_run env pk u now d = Inr ((run, a'), d')"
  shows "schedule_inv d \<Longrightarrow> schedule_inv d'" "owners d' = owners d"
proof -
  from assms obtain run0 d1 where row: "create_run run0 d = Inr (run, d1)"
    and d': "d' = d1\<lparr>scheduled_actions := update_where (\<lambda>row. sa_pk row = pk)
                 (\<lambda>row. row\<lparr>sa_last_status := ''queued'', sa_last_run_at := Some now\<rparr>) (scheduled_actions d1)\<rparr>"
    by (rule claim_manual_cases)
  show "schedule_inv d'" if "schedule_inv d"
    using create_run_keeps [OF that row] by (rule schedule_inv_rows) (simp_all add: d' map_update_where update_where_within)
  show "owners d' = owners d"
    by (simp add: d' owners_def map_update_where create_run_rows(2) [OF row])
qed

lemma queue_manual_keeps:
  "schedule_inv d \<Longrightarrow> schedule_inv (snd (snd (queue_manual_scheduled_action_run env pk u at d)))"
  "owners (snd (snd (queue_manual_scheduled_action_run env pk u at d))) = owners d"
proof -
  let ?now = "case at of Some t \<Rightarrow> t | None \<Rightarrow> sv_now env"
  have "(schedule_inv d \<longrightarrow> schedule_inv (snd (snd (queue_manual_scheduled_action_run env pk u at d))))
    \<and> owners (snd (snd (queue_manual_scheduled_action_run env pk u at d))) = owners d"
  proof (cases "claim_manual_run env pk u ?now d")
    case (Inl e)
    then show ?thesis by (simp add: queue_manual_scheduled_action_run_def)
  next
    case (Inr x)
    obtain run a d1 where x: "x = ((run, a), d1)" by (metis prod.collapse)
    obtain queue oc d2 where e: "enqueue_runs env [(''source'', JStr ''manual'')] [(run, a)] [] d1 = (queue, oc, d2)"
      by (metis prod.collapse)
    have "snd (snd (queue_manual_scheduled_action_run env pk u at d)) = d2"
      unfolding queue_manual_scheduled_action_run_def Inr x by (simp add: e snd_and_then split: sum.splits del: enqueue_runs.simps)
    with enqueue_runs_rows [OF e] claim_manual_keeps [OF Inr [unfolded x]] show ?thesis
      by (simp add: schedule_inv_def owners_def)
  qed
  then show "schedule_inv d \<Longrightarrow> schedule_inv (snd (snd (queue_manual_scheduled_action_run env pk u at d)))"
    "owners (snd (snd (queue_manual_scheduled_action_run env pk u at d))) = owners d" by auto
qed

subsection \<open>The writers\<close>

interpretation dispatcher: schedule_writer "\<lambda>(env, limit, at, st) d. snd (dp_outcome (dispatch_due_scheduled_actions env limit at st d))"
  by unfold_locales (auto simp: dispatch_keeps owners_kept_eq)

interpretation manual_trigger: schedule_writer "\<lambda>(env, pk, u, at) d. snd (snd (queue_manual_scheduled_action_run env pk u at d))"
  by unfold_locales (auto simp: queue_manual_keeps owners_kept_eq)

interpretation starter: schedule_writer "\<lambda>(env, pk) d. snd (start_run env pk d)"
  by unfold_locales (auto simp: start_run_keeps start_run_owners owners_kept_eq)

interpretation preflight_writer: schedule_writer "\<lambda>(env, preflight, run) d. snd (store_preflight env preflight run d)"
  by unfold_locales (auto simp: store_preflight_keeps owners_kept_eq)

interpretation submitter: schedule_writer "\<lambda>(node, upid, run) d. snd (mark_submitted node upid run d)"
  by unfold_locales (auto simp: mark_submitted_keeps owners_kept_eq)

interpretation finisher: schedule_writer "\<lambda>(env, run, a, f) d. snd (finish_run env run a f d)"
  by unfold_locales (auto simp: finish_run_keeps owners_kept_eq)

lemma retirement_rows:
  assumes "finalize_cluster_retirement_scheduled_actions pk mode now d = Inr (res, d')"
  shows "map run_id (scheduled_runs d') = map run_id (scheduled_runs d)" "owners_kept d d'"
    "list_all within_limit (scheduled_actions d) \<Longrightarrow> list_all within_limit (scheduled_actions d')"
proof -
  have acts: "scheduled_actions d' = update_where (schedule_active pk) (retired_schedule now) (scheduled_actions d)"
    using finalize_schedules_result(2) [OF assms] by simp
  have "list_all2 owner_le (map (\<lambda>a. (sa_pk a, sa_cluster a, sa_deleted_at a)) rows)
      (map (\<lambda>a. (sa_pk a, sa_cluster a, sa_deleted_at a)) (update_where (schedule_active pk) (retired_schedule now) rows))" for rows
    by (induction rows) (auto simp: owner_le_def schedule_active_def retired_schedule_def)
  then show "owners_kept d d'" unfolding owners_kept_def owners_def acts .
  show "list_all within_limit (scheduled_actions d')" if "list_all within_limit (scheduled_actions d)"
    unfolding acts by (rule update_where_within [OF _ _ _ that]) (simp_all add: retired_schedule_def)
  show "map run_id (scheduled_runs d') = map run_id (scheduled_runs d)"
    using finalize_schedules_result(2) [OF assms] by (simp add: map_update_where run_id_def retired_run_def cancelled_run_def)
qed

definition retire_schedules :: "nat \<times> retirement_mode \<times> time \<Rightarrow> db \<Rightarrow> db" where
  "retire_schedules i d =
     (case finalize_cluster_retirement_scheduled_actions (fst i) (fst (snd i)) (snd (snd i)) d of Inl _ \<Rightarrow> d | Inr (_, d') \<Rightarrow> d')"

lemma retirement_keeps:
  assumes "schedule_inv d" "finalize_cluster_retirement_scheduled_actions pk mode now d = Inr (res, d')"
  shows "schedule_inv d'"
proof -
  have pks: "map sa_pk (scheduled_actions x) = map fst (map (\<lambda>ow. (fst ow, fst (snd ow))) (owners x))" for x by (simp add: owners_def)
  have "map sa_pk (scheduled_actions d') = map sa_pk (scheduled_actions d)"
    unfolding pks owners_kept_ids [OF retirement_rows(2) [OF assms(2)]] ..
  from schedule_inv_rows [OF assms(1) retirement_rows(1) [OF assms(2)] this] retirement_rows(3) [OF assms(2)]
  show ?thesis by blast
qed

interpretation retirement: schedule_writer retire_schedules
  by unfold_locales
    (auto simp: retire_schedules_def owners_kept_eq dest: retirement_rows(2) retirement_keeps split: sum.splits)

section \<open>Interleavings\<close>

text \<open>
  The commits of the processes that share the schedule tables: the dispatcher (every minute), the
  manual trigger, the commits of the workers, cluster retirement, and any commit elsewhere.
\<close>

inductive schedule_step :: "db \<Rightarrow> db \<Rightarrow> bool" where
  dispatch: "schedule_step d (snd (dp_outcome (dispatch_due_scheduled_actions env limit at st d)))"
| trigger: "schedule_step d (snd (snd (queue_manual_scheduled_action_run env pk u at d)))"
| start: "schedule_step d (snd (start_run env pk d))"
| preflight: "schedule_step d (snd (store_preflight env pf run d))"
| submit: "schedule_step d (snd (mark_submitted node upid run d))"
| finish: "schedule_step d (snd (finish_run env run a f d))"
| retire: "schedule_step d (retire_schedules i d)"
| elsewhere: "scheduled_runs d' = scheduled_runs d \<Longrightarrow> scheduled_actions d' = scheduled_actions d \<Longrightarrow> schedule_step d d'"

abbreviation schedule_steps :: "db \<Rightarrow> db \<Rightarrow> bool" where
  "schedule_steps \<equiv> schedule_step\<^sup>*\<^sup>*"

lemma step_keeps_inv: "schedule_step d d' \<Longrightarrow> schedule_inv d \<Longrightarrow> schedule_inv d'"
proof (induction rule: schedule_step.induct)
  case (retire d i)
  then show ?case by (rule retirement.keeps_inv)
next
  case (elsewhere d' d)
  then show ?case by (simp add: schedule_inv_def)
qed (simp_all add: dispatch_keeps queue_manual_keeps start_run_keeps store_preflight_keeps mark_submitted_keeps finish_run_keeps)

lemma step_keeps_owners: "schedule_step d d' \<Longrightarrow> owners_kept d d'"
proof (induction rule: schedule_step.induct)
  case (retire d i)
  then show ?case by (rule retirement.keeps_owners)
next
  case (elsewhere d' d)
  then show ?case by (simp add: owners_def owners_kept_eq)
qed (simp_all add: dispatch_keeps queue_manual_keeps start_run_owners store_preflight_keeps mark_submitted_keeps
    finish_run_keeps owners_kept_eq)

lemma steps_keep_owners: "schedule_steps d d' \<Longrightarrow> owners_kept d d'"
  by (induction rule: rtranclp_induct) (auto simp: owners_kept_eq intro: owners_kept_trans step_keeps_owners)

lemma steps_keep: "schedule_steps d d' \<Longrightarrow> schedule_inv d \<Longrightarrow> schedule_inv d' \<and> owners_kept d d'"
  by (induction rule: rtranclp_induct) (auto simp: owners_kept_eq intro: owners_kept_trans step_keeps_owners step_keeps_inv)

text \<open>Every schedule of the cluster is deleted: no later commit brings one back.\<close>

definition buried :: "nat \<Rightarrow> db \<Rightarrow> bool" where
  "buried pk d = list_all (\<lambda>a. sa_cluster a = pk \<longrightarrow> sa_deleted_at a \<noteq> None) (scheduled_actions d)"

lemma buried_stays: "schedule_steps d d' \<Longrightarrow> buried pk d \<Longrightarrow> buried pk d'"
proof -
  have owners: "buried pk x \<longleftrightarrow> list_all (\<lambda>ow. fst (snd ow) = pk \<longrightarrow> snd (snd ow) \<noteq> None) (owners x)" for x
    by (simp add: buried_def owners_def list.pred_map comp_def)
  have "list_all2 owner_le os os' \<Longrightarrow> list_all (\<lambda>ow. fst (snd ow) = pk \<longrightarrow> snd (snd ow) \<noteq> None) os
      \<Longrightarrow> list_all (\<lambda>ow. fst (snd ow) = pk \<longrightarrow> snd (snd ow) \<noteq> None) os'" for os os'
    by (induction rule: list_all2_induct) (auto simp: owner_le_def)
  then show "schedule_steps d d' \<Longrightarrow> buried pk d \<Longrightarrow> buried pk d'"
    using steps_keep_owners unfolding owners owners_kept_def by blast
qed

text \<open>A worker is a sequence of such commits when what happens between its calls is.\<close>

definition interleaved :: "'c exec_env \<Rightarrow> bool" where
  "interleaved xe =
     ((\<forall>d. schedule_steps d (xe_meanwhile_lookup xe d)) \<and> (\<forall>d. schedule_steps d (xe_meanwhile_power xe d))
      \<and> (\<forall>d. schedule_steps d (xe_meanwhile_wait xe d))
      \<and> (\<forall>k n t v c d. schedule_steps d (snd (xe_refresh_guest xe k n t v c d))))"

lemma steps_then: "schedule_steps d d1 \<Longrightarrow> schedule_step d1 d2 \<Longrightarrow> schedule_steps d d2"
  by (rule rtranclp.rtrancl_into_rtrancl)

lemma finish_steps: "schedule_steps d d1 \<Longrightarrow> schedule_steps d (snd (finish_run env run a f d1))"
  by (erule steps_then) (rule schedule_step.finish)

lemma submit_steps:
  assumes "interleaved xe"
  shows "schedule_steps d (snd (snd (submit_and_wait xe run a t d)))"
proof -
  have p: "schedule_steps d (xe_meanwhile_power xe d)" using assms by (simp add: interleaved_def)
  have "schedule_steps d (xe_meanwhile_wait xe (snd (mark_submitted (gt_node t) upid run (xe_meanwhile_power xe d))))" for upid
    by (rule rtranclp_trans [OF steps_then [OF p schedule_step.submit [where node = "gt_node t" and upid = upid and run = run]]]) (use assms in \<open>simp add: interleaved_def\<close>)
  with p show ?thesis
    by (auto simp: submit_and_wait_def Let_def mark_submitted_def split: sum.splits)
qed

lemma closed_snd: "snd (snd (closed_in_try m run)) = snd m"
  by (auto simp: closed_in_try_def split: prod.splits sum.splits)

lemma attempt_steps:
  assumes "interleaved xe"
  shows "schedule_steps d (snd (snd (attempt_run env xe run a c d)))"
proof -
  have l: "schedule_steps d (xe_meanwhile_lookup xe d)" using assms by (simp add: interleaved_def)
  have stored: "schedule_steps d (snd (store_preflight env pf run (xe_meanwhile_lookup xe d)))" for pf
    by (rule steps_then [OF l schedule_step.preflight])
  show ?thesis
    using l finish_steps [OF stored] rtranclp_trans [OF stored submit_steps [OF assms]]
    by (auto simp: attempt_run_def Let_def case_prod_beta closed_snd split: sum.splits)
qed

lemma handle_steps: "schedule_steps d d1 \<Longrightarrow> schedule_steps d (snd (handle_failure env f run a d1))"
  by (cases f) (auto simp: handle_failure_def snd_and_then case_prod_beta Let_def
      intro: finish_steps steps_then schedule_step.preflight split: sum.splits)

lemma conclude_steps:
  assumes "interleaved xe" "schedule_steps d d1"
  shows "schedule_steps d (snd (conclude_run env xe run a c t res d1))"
proof -
  have "schedule_steps d (snd (xe_refresh_guest xe k n ty v c d1))" for k n ty v
    using assms(2) by (rule rtranclp_trans) (use assms(1) in \<open>simp add: interleaved_def\<close>)
  with assms(2) show ?thesis by (auto simp: conclude_run_def case_prod_beta Let_def intro: finish_steps)
qed

lemma execute_steps:
  assumes "interleaved xe"
  shows "schedule_steps d (snd (execute_scheduled_action_run env xe pk d))"
proof -
  obtain res d1 where start: "start_run env pk d = (res, d1)" by fastforce
  with schedule_step.start [of d env pk] have s: "schedule_steps d d1" by (simp add: r_into_rtranclp)
  show ?thesis
  proof (cases "\<exists>run a c. res = Inr (Some (run, a)) \<and> get_cluster (sa_cluster a) d1 = Some c")
    case False
    with start s show ?thesis
      by (auto simp: execute_scheduled_action_run_def snd_and_then split: sum.splits option.splits)
  next
    case True
    then obtain run a c where res: "res = Inr (Some (run, a))" "get_cluster (sa_cluster a) d1 = Some c" by blast
    obtain r run' d2 where att: "attempt_run env xe run a c d1 = (r, run', d2)" by (metis prod.collapse)
    with attempt_steps [OF assms, of d1 env run a c] s have d2: "schedule_steps d d2" by simp
    from handle_steps [OF d2] conclude_steps [OF assms d2] d2 show ?thesis
      by (auto simp: execute_scheduled_action_run_def start res att split: sum.splits option.splits)
  qed
qed

subsection \<open>One run at a time\<close>

definition flights :: "nat \<Rightarrow> db \<Rightarrow> scheduled_run list" where
  "flights action d = filter (\<lambda>r. ru_scheduled_action r = action \<and> in_flight r) (scheduled_runs d)"

definition single_flight :: "db \<Rightarrow> bool" where
  "single_flight d = (\<forall>action. length (flights action d) \<le> 1)"

lemma no_flights: "\<not> has_in_flight_run a d \<longleftrightarrow> flights (sa_pk a) d = []"
  by (auto simp: has_in_flight_run_def flights_def exists_where_iff filter_empty_conv)

lemma length_filter_update_le:
  assumes "\<And>r. P r \<Longrightarrow> Q (f r) \<Longrightarrow> Q r"
  shows "length (filter Q (update_where P f rows)) \<le> length (filter Q rows)"
  using assms by (induction rows) (auto intro: le_SucI)

lemma length_filter_delete_le: "length (filter Q (delete_where P rows)) \<le> length (filter Q rows)"
  by (induction rows) (auto intro: le_SucI)

lemma flights_le_single:
  "(\<And>action. length (flights action d') \<le> length (flights action d)) \<Longrightarrow> single_flight d \<Longrightarrow> single_flight d'"
  unfolding single_flight_def by (meson order_trans)

lemma finish_run_flights:
  assumes "fa_status f \<notin> set IN_FLIGHT_RUN_STATUSES"
  shows "length (flights action (snd (finish_run env run a f d))) \<le> length (flights action d)"
  unfolding flights_def finish_run_rows
  by (rule length_filter_update_le) (use assms in \<open>simp add: close_run_def in_flight_def\<close>)

lemma reap_loop_flights: "length (flights action (snd (reap_loop env ras n d))) \<le> length (flights action d)"
proof (induction ras arbitrary: n d)
  case (Cons ra ras)
  obtain r a where ra: "ra = (r, a)" by fastforce
  have "length (flights action (snd (finish_run env r a stale_args d))) \<le> length (flights action d)"
    by (rule finish_run_flights) (simp add: stale_args_def run_status_defs)
  with Cons.IH [of "n + 1" "snd (finish_run env r a stale_args d)"] show ?case
    by (auto simp: ra snd_and_then split: sum.splits)
qed simp

lemma reap_flights: "length (flights action (snd (reap_stale_scheduled_action_runs env at d))) \<le> length (flights action d)"
  by (simp add: reap_stale_scheduled_action_runs_def Let_def reap_loop_flights)

lemma prune_flights: "length (flights action (snd (prune_scheduled_action_runs env days at d))) \<le> length (flights action d)"
  by (simp add: flights_def prune_rows length_filter_delete_le)

lemma create_run_flights:
  assumes "create_run run d = Inr (row, d')"
  shows "flights action d' = flights action d @ (if ru_scheduled_action run = action \<and> in_flight run then [row] else [])"
  using create_run_rows [OF assms] by (simp add: flights_def in_flight_def)

lemma create_keeps_single:
  assumes "create_run run d = Inr (row, d')" "in_flight run \<Longrightarrow> flights (ru_scheduled_action run) d = []" "single_flight d"
  shows "single_flight d'"
  unfolding single_flight_def
proof
  fix action
  from assms(2,3) show "length (flights action d') \<le> 1"
    by (cases "ru_scheduled_action run = action \<and> in_flight run") (auto simp: create_run_flights [OF assms(1)] single_flight_def)
qed

lemma save_claim_flights [simp]: "flights action (save_claim a d) = flights action d"
  by (simp add: flights_def)

lemma claim_keeps_single:
  assumes "claim_action env now a st = Inr st'" and "single_flight (cm_db st)"
  shows "single_flight (cm_db st')"
  using assms(1)
proof (cases rule: claim_action_cases)
  case (missed planned a' error run row)
  then show ?thesis using assms(2) by (intro create_keeps_single [OF missed(9)]) (simp_all add: single_flight_def)
next
  case (queued planned a' error run row)
  then show ?thesis
    using assms(2) by (intro create_keeps_single [OF queued(8)]) (simp_all add: no_flights single_flight_def)
qed (use assms(2) in \<open>simp_all add: single_flight_def\<close>)

lemma single_flight_same_runs: "scheduled_runs d' = scheduled_runs d \<Longrightarrow> single_flight d' = single_flight d"
  by (simp add: single_flight_def flights_def)

lemma dispatch_keeps_single:
  assumes "single_flight d"
  shows "single_flight (snd (dp_outcome (dispatch_due_scheduled_actions env limit at st d)))"
proof -
  have reaped: "single_flight (snd (reap_stale_scheduled_action_runs env at d))"
    by (rule flights_le_single [OF reap_flights assms])
  have pruned: "single_flight (snd (prune_scheduled_action_runs env days at (snd (reap_stale_scheduled_action_runs env at d))))" for days
    by (rule flights_le_single [OF prune_flights reaped])
  show ?thesis
  proof (cases rule: dispatch_cases [of env limit at st d])
    case (claimed days st1 cm)
    from claimed(1) have "single_flight (cm_db cm)"
      unfolding claim_due_actions_def
      by (rule fold_result_invariant [where I = "\<lambda>st. single_flight (cm_db st)"]) (auto simp: pruned dest: claim_keeps_single)
    with claimed(2) show ?thesis by (simp add: single_flight_same_runs [OF announce_rows(1)])
  qed (simp_all add: reaped pruned)
qed

lemma manual_keeps_single:
  assumes "single_flight d"
  shows "single_flight (snd (snd (queue_manual_scheduled_action_run env pk u at d)))"
proof (cases "claim_manual_run env pk u (case at of Some t \<Rightarrow> t | None \<Rightarrow> sv_now env) d")
  case (Inl e)
  with assms show ?thesis by (simp add: queue_manual_scheduled_action_run_def)
next
  case (Inr x)
  obtain run a d1 where x: "x = ((run, a), d1)" by (metis prod.collapse)
  obtain queue oc d2 where e: "enqueue_runs env [(''source'', JStr ''manual'')] [(run, a)] [] d1 = (queue, oc, d2)"
    by (metis prod.collapse)
  have end_db: "snd (snd (queue_manual_scheduled_action_run env pk u at d)) = d2"
    unfolding queue_manual_scheduled_action_run_def Inr x by (simp add: e snd_and_then split: sum.splits del: enqueue_runs.simps)
  from Inr x obtain a0 run0 d0 where "sa_pk a0 = pk" "\<not> has_in_flight_run a0 d" and row: "create_run run0 d = Inr (run, d0)"
    and "ru_scheduled_action run0 = pk" and "scheduled_runs d1 = scheduled_runs d0"
    by (auto elim: claim_manual_cases)
  then have "single_flight d1"
    using create_keeps_single [OF row] assms single_flight_same_runs no_flights by metis
  then show ?thesis unfolding end_db using enqueue_runs_rows [OF e] single_flight_same_runs by metis
qed

end
