(* ===== verification/Schedule_Correctness.thy ===== *)
theory Schedule_Correctness
  imports Scheduled_Actions
begin

text \<open>
  What the dispatcher and the worker of \<^verbatim>\<open>core/services/scheduled_actions.py\<close> guarantee together: a due
  occurrence is accounted for and not due again, and an execution never leaves its run in flight.
  The last section holds the two behaviours of the worker that the other processes do not expect.
\<close>

section \<open>A claimed occurrence is accounted for\<close>

lemma fold_result_append: "fold_result f (xs @ ys) s = bind_result (fold_result f xs s) (fold_result f ys)"
proof (induction xs arbitrary: s)
  case (Cons x xs)
  then show ?case by (cases "f x s") auto
qed simp

lemma due_actions_distinct:
  assumes "schedule_inv d"
  shows "distinct (map sa_pk (due_actions env limit now d))"
proof -
  let ?rows = "sort_key (\<lambda>a. case sa_next_run_at a of Some t \<Rightarrow> t | None \<Rightarrow> 0)
    (sort_key sa_pk (filter (\<lambda>a. due now a \<and> \<not> sv_locked env (sa_pk a)) (scheduled_actions d)))"
  have "distinct (map sa_pk ?rows)"
    using assms by (intro distinct_map_sort_key distinct_map_filter) (simp add: schedule_inv_def)
  then have "distinct (take limit (map sa_pk ?rows))" by (rule distinct_take)
  then show ?thesis by (simp only: due_actions_def take_map)
qed

text \<open>The next occurrence lies strictly ahead, or there is none.\<close>

lemma advance_not_due:
  assumes "calendar_ok (sv_calendar env)" "\<forall>s z. ca_zone (sv_calendar env) s = Some z \<longrightarrow> zone_monotone z"
    and "advance_action_after_claim env a now status = Inr (a', error)" "sa_enabled a'" "sa_next_run_at a' = Some t"
  shows "now < t"
proof -
  from assms(3,4,5) have "sa_schedule_type a = ''recurring''" "next_run_after (sv_calendar env) a now = Inr (Some t)"
    by (auto simp: advance_action_after_claim_def Let_def split: if_splits sum.splits recurrence_error.splits)
  with next_run_strictly_later [OF assms(1,2)] show ?thesis by blast
qed

definition accounted :: "time \<Rightarrow> scheduled_action \<Rightarrow> time \<Rightarrow> db \<Rightarrow> bool" where
  "accounted now a planned d =
     (occurrence_taken (sa_pk a) (occurrence_key planned) d
      \<and> list_all (\<lambda>b. sa_pk b = sa_pk a \<longrightarrow> \<not> due now b) (scheduled_actions d))"

lemma save_claim_not_due:
  assumes "calendar_ok (sv_calendar env)" "\<forall>s z. ca_zone (sv_calendar env) s = Some z \<longrightarrow> zone_monotone z"
    and "advance_action_after_claim env a now status = Inr (a', error)"
  shows "list_all (\<lambda>b. sa_pk b = sa_pk a \<longrightarrow> \<not> due now b) (scheduled_actions (save_claim a' d))"
proof -
  note ahead = advance_not_due [OF assms] and pk = advance_id(1) [OF assms(3)]
  have "\<not> due now (b\<lparr>sa_enabled := sa_enabled a', sa_next_run_at := sa_next_run_at a',
      sa_last_run_at := sa_last_run_at a', sa_last_status := sa_last_status a'\<rparr>)" for b :: scheduled_action
    using ahead by (auto simp: due_def split: option.splits)
  then show ?thesis by (auto simp: list_all_iff update_where_def pk)
qed

lemma create_run_taken:
  assumes "create_run run d = Inr (row, d')"
  shows "occurrence_taken p k d' \<longleftrightarrow> occurrence_taken p k d \<or> ru_scheduled_action run = p \<and> ru_occurrence_key run = k"
    "scheduled_actions d' = scheduled_actions d"
  using create_run_rows [OF assms] by (auto simp: occurrence_taken_def exists_where_iff)

lemma save_claim_taken [simp]: "occurrence_taken p k (save_claim a d) = occurrence_taken p k d"
  by (simp add: occurrence_taken_def)

lemma claim_accounts:
  assumes "calendar_ok (sv_calendar env)" "\<forall>s z. ca_zone (sv_calendar env) s = Some z \<longrightarrow> zone_monotone z"
    and "claim_action env now a st = Inr st'" "sa_next_run_at a = Some planned" "\<not> has_in_flight_run a (cm_db st)"
  shows "accounted now a planned (cm_db st')"
  using assms(3)
proof (cases rule: claim_action_cases)
  case in_progress
  with assms(4,5) show ?thesis by simp
next
  case (taken p a' error)
  from save_claim_not_due [OF assms(1,2) taken(4), of "cm_db st"] taken assms(4) show ?thesis by (simp add: accounted_def)
next
  case (missed p a' error run row)
  from save_claim_not_due [OF assms(1,2) missed(4), of "cm_db st"] missed assms(4) create_run_taken [OF missed(9)]
  show ?thesis by (simp add: accounted_def)
next
  case (queued p a' error run row)
  from save_claim_not_due [OF assms(1,2) queued(4), of "cm_db st"] queued assms(4) create_run_taken [OF queued(8)]
  show ?thesis by (simp add: accounted_def)
qed

lemma claim_other_keeps:
  assumes "claim_action env now x st = Inr st'" "sa_pk x \<noteq> sa_pk a"
  shows "has_in_flight_run a (cm_db st') = has_in_flight_run a (cm_db st)"
    and "accounted now a planned (cm_db st) \<Longrightarrow> accounted now a planned (cm_db st')"
proof -
  have free: "has_in_flight_run a (save_claim y d) = has_in_flight_run a d" for y d by (simp add: has_in_flight_run_def)
  have free_create: "has_in_flight_run a d' = has_in_flight_run a d" if "create_run run d = Inr (row, d')" "ru_scheduled_action run = sa_pk x" for run row d d'
    using that assms(2) create_run_rows [OF that(1)] by (auto simp: has_in_flight_run_def exists_where_iff)
  have rows: "list_all (\<lambda>b. sa_pk b = sa_pk a \<longrightarrow> \<not> due now b) (scheduled_actions (save_claim y d))"
    if "sa_pk y = sa_pk x" "list_all (\<lambda>b. sa_pk b = sa_pk a \<longrightarrow> \<not> due now b) (scheduled_actions d)" for y d
    using that assms(2) by (auto simp: list_all_iff update_where_def)
  from assms(1) show "has_in_flight_run a (cm_db st') = has_in_flight_run a (cm_db st)"
    by (cases rule: claim_action_cases) (simp_all add: free free_create)
  assume acc: "accounted now a planned (cm_db st)"
  from assms(1) show "accounted now a planned (cm_db st')"
  proof (cases rule: claim_action_cases)
    case (missed p a' error run row)
    with acc rows [OF advance_id(1) [OF missed(4)]] create_run_taken [OF missed(9)] show ?thesis by (simp add: accounted_def)
  next
    case (queued p a' error run row)
    with acc rows [OF advance_id(1) [OF queued(4)]] create_run_taken [OF queued(8)] show ?thesis by (simp add: accounted_def)
  qed (use acc rows advance_id(1) in \<open>auto simp: accounted_def\<close>)
qed


section \<open>An execution closes its run\<close>

lemma get_cluster_pks: "get_cluster pk d = None \<longleftrightarrow> pk \<notin> set (map cl_pk (clusters d))"
  by (auto simp: get_cluster_def first_where_None_iff exists_where_iff)

lemma audit_run_cluster:
  assumes "audit_run env run a action oc details d = (Inr u, d')"
  shows "get_cluster (sa_cluster a) d' \<noteq> None"
proof -
  from assms obtain c where c: "get_cluster (sa_cluster a) d = Some c" by (auto simp: audit_run_def split: option.splits)
  from assms have "map cl_pk (clusters d') = map cl_pk (clusters d)"
    by (auto simp: audit_run_def Let_def split: option.splits sum.splits dest!: record_audit_event_pks)
  with c get_cluster_pks show ?thesis by (metis option.discI)
qed

definition closed :: "nat \<Rightarrow> db \<Rightarrow> bool" where
  "closed pk d = list_all (\<lambda>r. ru_pk r = pk \<longrightarrow> ru_status r \<in> set TERMINAL_RUN_STATUSES) (scheduled_runs d)"

lemma list_all_updated: "(\<And>r. Q (f r)) \<Longrightarrow> list_all (\<lambda>r. P r \<longrightarrow> Q r) (update_where P f rows)"
  by (induction rows) auto

lemma finish_run_closes:
  assumes "fa_status f \<in> set TERMINAL_RUN_STATUSES" "ru_pk run = pk"
  shows "closed pk (snd (finish_run env run a f d))"
  using assms by (auto simp: closed_def list_all_iff update_where_def close_run_def)

lemma args_terminal [simp]:
  "fa_status (noop_args m) \<in> set TERMINAL_RUN_STATUSES" "fa_status (skipped_args m) \<in> set TERMINAL_RUN_STATUSES"
  "fa_status (failed_args r p) \<in> set TERMINAL_RUN_STATUSES" "fa_status (timeout_args p) \<in> set TERMINAL_RUN_STATUSES"
  "fa_status (completed_args r) \<in> set TERMINAL_RUN_STATUSES"
  by (simp_all add: noop_args_def skipped_args_def failed_args_def timeout_args_def completed_args_def with_failure_def run_status_defs)

lemma store_preflight_pk [simp]: "ru_pk (fst (store_preflight env pf run d)) = ru_pk run"
  by (simp add: store_preflight_def with_preflight_def)

lemma handle_failure_closes: "closed (ru_pk run) (snd (handle_failure env f run a d))"
proof (cases f)
  case (ExecutionError msg preflight)
  have "closed (ru_pk (fst (store_preflight env preflight run d))) (snd (finish_run env (fst (store_preflight env preflight run d)) a
      (failed_args [] p) d1))" for p d1
    by (rule finish_run_closes) simp_all
  then show ?thesis by (simp add: ExecutionError handle_failure_def case_prod_beta)
qed (auto simp: handle_failure_def snd_and_then finish_run_closes split: sum.splits)

lemma cancelled_closed:
  assumes "schedule_inv d" "run_was_cancelled run d"
  shows "closed (ru_pk run) d"
proof -
  from assms(2) obtain r where r: "r \<in> set (scheduled_runs d)" "ru_pk r = ru_pk run" "ru_status r = ''cancelled''"
    by (auto simp: run_was_cancelled_def exists_where_iff)
  have "x = r" if "x \<in> set (scheduled_runs d)" "ru_pk x = ru_pk run" for x
    using assms(1) r(1,2) that by (auto simp: schedule_inv_def distinct_map intro: inj_onD [of ru_pk])
  moreover have "ru_status r \<in> set TERMINAL_RUN_STATUSES" using r(3) by (simp add: run_status_defs)
  ultimately show ?thesis unfolding closed_def list_all_iff by blast
qed

lemma conclude_run_closes: "schedule_inv d \<Longrightarrow> closed (ru_pk run) (snd (conclude_run env xe run a c t res d))"
  by (auto simp: conclude_run_def case_prod_beta Let_def finish_run_closes cancelled_closed)

lemma attempt_run_pk: "attempt_run env xe run a c d = (r, run', d') \<Longrightarrow> ru_pk run' = ru_pk run"
proof -
  have submit: "ru_pk (fst (snd (submit_and_wait xe x a t d))) = ru_pk x" for x t d
    by (auto simp: submit_and_wait_def mark_submitted_def submitted_def Let_def split: sum.splits)
  have in_try: "fst (snd (closed_in_try m x)) = x" for m :: "unit outcome" and x
    by (auto simp: closed_in_try_def split: prod.splits sum.splits)
  have "ru_pk (fst (snd (attempt_run env xe run a c d))) = ru_pk run"
    by (auto simp: attempt_run_def Let_def case_prod_beta submit in_try split: sum.splits)
  then show "attempt_run env xe run a c d = (r, run', d') \<Longrightarrow> ru_pk run' = ru_pk run" by simp
qed

lemma attempt_run_closes:
  assumes "attempt_run env xe run a c d = (Inr None, run', d')"
  shows "closed (ru_pk run) d'"
proof -
  have in_try: "closed (ru_pk x) d'" if "closed_in_try m x = ((Inr None :: 'a attempt_end), run', d')" "closed (ru_pk x) (snd m)" for m x
    using that by (auto simp: closed_in_try_def split: prod.splits sum.splits)
  have submit: "submit_and_wait xe x a t d1 \<noteq> (Inr None, run', d')" for x t d1
    by (auto simp: submit_and_wait_def mark_submitted_def Let_def split: sum.splits)
  from assms show ?thesis
    using store_preflight_pk submit
    by (auto simp: attempt_run_def Let_def case_prod_beta finish_run_closes split: sum.splits if_splits dest!: in_try)
qed

text \<open>
  C8: A run that was started is never left in flight by its worker. Whatever the provider answers
  or raises at each call, and whatever the dispatcher, the reaper, retirement and other workers
  commit between those calls, the run is in a terminal status when the execution of a queued run
  returns or raises, provided its start could be recorded.
\<close>

theorem executed_run_is_closed:
  assumes "interleaved xe" "schedule_inv d"
    and "first_where (\<lambda>r. ru_pk r = pk) (scheduled_runs d) = Some run" "ru_status run = ''queued''"
    and "fst (start_run env pk d) = Inr started"
  shows "closed pk (snd (execute_scheduled_action_run env xe pk d))"
proof (cases rule: start_run_cases [where env = env and pk = pk and d = d])
  case ignored
  with assms(3,4) show ?thesis by simp
next
  case (missing err)
  with assms(5) show ?thesis by simp
next
  case (over_limit run' a)
  have "ru_status (limit_cancelled (sv_now env) r) \<in> set TERMINAL_RUN_STATUSES" for r
    by (simp add: run_status_defs limit_cancelled_def)
  then have "closed pk (update_action (sa_pk a) disabled (update_run pk (limit_cancelled (sv_now env)) d))"
    unfolding closed_def update_action_rows update_run_rows by (rule list_all_updated)
  then show ?thesis by (simp add: execute_scheduled_action_run_def over_limit(6))
next
  case (started run' a r' a' d2)
  from first_where_Some_iff [OF started(1)] have pk: "ru_pk r' = pk" using started(5) by simp
  from assms(5) started(8) obtain u d3 where
    audit: "audit_run env r' a' ''scheduled_action.run_started'' ''success'' [] d2 = (Inr u, d3)"
    by (auto simp: and_then_def split: prod.splits sum.splits)
  from audit_run_cluster [OF audit] obtain c where c: "get_cluster (sa_cluster a') d3 = Some c" by auto
  obtain res r'' d4 where att: "attempt_run env xe r' a' c d3 = (res, r'', d4)" by (metis prod.collapse)
  have start: "start_run env pk d = (Inr (Some (r', a')), d3)" using started(8) audit by simp
  with start_run_keeps [OF assms(2), of env pk] have "schedule_inv d3" by simp
  with attempt_steps [OF assms(1), of d3 env r' a' c] steps_keep att have inv: "schedule_inv d4" by fastforce
  from attempt_run_pk [OF att] pk have pk': "ru_pk r'' = pk" by simp
  have "closed pk d4" if "res = Inr None" using attempt_run_closes att pk that by blast
  then show ?thesis
    using pk' handle_failure_closes [of r''] conclude_run_closes [OF inv, of r'']
    by (auto simp: execute_scheduled_action_run_def start c att split: sum.splits option.splits)
qed

section \<open>Examples\<close>

definition utc :: zone where
  "utc = \<lparr>zn_wall = id, zn_weekday = (\<lambda>_. 0), zn_instant = id\<rparr>"

definition daily_calendar :: calendar where
  "daily_calendar = \<lparr>ca_zone = (\<lambda>_. Some utc), ca_after = (\<lambda>r w. Some (w + 86400 * second))\<rparr>"

lemma daily_calendar_ok:
  "calendar_ok daily_calendar" "\<forall>s z. ca_zone daily_calendar s = Some z \<longrightarrow> zone_monotone z"
  by (simp_all add: calendar_ok_def daily_calendar_def zone_monotone_def utc_def second_def)

definition example_env :: schedule_env where
  "example_env = \<lparr>sv_now = 60 * second, sv_calendar = daily_calendar, sv_timeout_seconds = 1800,
     sv_user = (\<lambda>pk. \<lparr>ac_pk = pk, ac_is_authenticated = True, ac_username = ''op''\<rparr>),
     sv_enqueue = (\<lambda>_. Inr ''task''), sv_locked = (\<lambda>_. False), sv_str = (\<lambda>_. [])\<rparr>"

definition example_schedule :: scheduled_action where
  "example_schedule = fold_action\<lparr>sa_timezone := [], sa_next_run_at := Some 0, sa_end_condition := ''run_count'',
     sa_max_scheduled_runs := Some 2\<rparr>"

definition example_schedules :: db where
  "example_schedules = example_two_endpoints\<lparr>scheduled_actions := [example_schedule]\<rparr>"

lemma example_schedules_inv: "schedule_inv example_schedules" "single_flight example_schedules"
  by (simp_all add: example_schedules_def example_two_endpoints_def example_cluster_db_def empty_db_def schedule_inv_def
      example_schedule_def fold_action_def within_limit_def single_flight_def flights_def)

text \<open>The dispatcher queues the schedule's occurrence, and the worker completes it.\<close>

definition example_dispatched :: db where
  "example_dispatched = snd (dp_outcome (dispatch_due_scheduled_actions example_env 100 None None example_schedules))"

lemma example_dispatch:
  "dp_queue (dispatch_due_scheduled_actions example_env 100 None None example_schedules) = [1]
   \<and> map ru_status (scheduled_runs example_dispatched) = [''queued'']"
  by code_simp

definition example_exec :: "string exec_env" where
  "example_exec = \<lparr>xe_make_client = (\<lambda>e. Inr (ep_name e)), xe_client_factory = None,
     xe_node_names = (\<lambda>client fallback. Inr [client]),
     xe_guest_current = (\<lambda>client node ty vmid. Inr [(''status'', JStr ''stopped'')]),
     xe_guest_config = (\<lambda>client node ty vmid. Inr []),
     xe_power_action = (\<lambda>client node ty vmid action params. Inr ''UPID:1''),
     xe_wait_for_task = (\<lambda>client node upid t. Inr \<lparr>tk_status = ''stopped'', tk_exitstatus = ''OK'', tk_raw = []\<rparr>),
     xe_refresh_guest = (\<lambda>client node ty vmid c d. (Inr [], d)),
     xe_meanwhile_lookup = id, xe_meanwhile_power = id, xe_meanwhile_wait = id\<rparr>"

lemma example_exec_interleaved: "interleaved example_exec"
  by (simp add: interleaved_def example_exec_def)

lemma example_start: "case fst (start_run example_env 1 example_dispatched) of Inl e \<Rightarrow> False | Inr s \<Rightarrow> s \<noteq> None"
  by code_simp

lemma example_execution_completes:
  "map ru_status (scheduled_runs (snd (execute_scheduled_action_run example_env example_exec 1 example_dispatched))) = [''completed'']"
  by code_simp

section \<open>Interleavings\<close>

text \<open>
  C7: However the dispatcher, the manual trigger, the workers and cluster retirement interleave
  their commits, no occurrence of a schedule ever has two runs, keys stay unique, no schedule that
  ends after a number of runs counts past that number, no schedule changes its cluster, and no
  deleted schedule comes back.
\<close>

theorem schedule_interleavings_keep_invariant:
  assumes "schedule_steps d d'" and "schedule_inv d"
  shows "schedule_inv d' \<and> owners_kept d d'"
  using steps_keep assms by blast

theorem schedule_interleavings_keep_invariant_witness:
  "schedule_inv example_dispatched \<and> owners_kept example_schedules example_dispatched"
proof -
  have "schedule_steps example_schedules example_dispatched"
    unfolding example_dispatched_def by (rule r_into_rtranclp) (rule schedule_step.dispatch)
  from schedule_interleavings_keep_invariant [OF this example_schedules_inv(1)] show ?thesis .
qed



text \<open>
  A schedule runs one at a time. Neither the dispatcher (which reaps, prunes, claims and
  announces) nor the manual trigger ever creates a run for a schedule that has one in flight: from
  a database with at most one in-flight run per schedule they leave at most one.
\<close>

theorem dispatch_one_run_at_a_time:
  assumes "single_flight d"
  shows "single_flight (snd (dp_outcome (dispatch_due_scheduled_actions env limit at st d)))
    \<and> single_flight (snd (snd (queue_manual_scheduled_action_run env pk u at d)))"
  using assms by (simp add: dispatch_keeps_single manual_keeps_single)

theorem dispatch_one_run_at_a_time_witness:
  "single_flight example_dispatched"
  using dispatch_one_run_at_a_time [OF example_schedules_inv(2)] unfolding example_dispatched_def by blast

lemma example_due:
  "case claim_due_actions example_env 100 (60 * second) example_schedules of Inl e \<Rightarrow> False | Inr cm \<Rightarrow> True"
  "due_actions example_env 100 (60 * second) example_schedules = [example_schedule]"
  "\<not> has_in_flight_run example_schedule example_schedules"
  by code_simp+


theorem executed_run_is_closed_witness:
  "closed 1 (snd (execute_scheduled_action_run example_env example_exec 1 example_dispatched))"
proof -
  have inv: "schedule_inv example_dispatched"
    unfolding example_dispatched_def by (rule dispatch_keeps(1) [OF example_schedules_inv(1)])
  have "case first_where (\<lambda>r. ru_pk r = 1) (scheduled_runs example_dispatched) of
      None \<Rightarrow> False | Some r \<Rightarrow> ru_status r = ''queued''" by code_simp
  then obtain run where run: "first_where (\<lambda>r. ru_pk r = 1) (scheduled_runs example_dispatched) = Some run" "ru_status run = ''queued''"
    by (auto split: option.splits)
  obtain s where "fst (start_run example_env 1 example_dispatched) = Inr s"
    using example_start by (auto split: sum.splits)
  from executed_run_is_closed [OF example_exec_interleaved inv run this] show ?thesis .
qed

section \<open>What the worker overwrites and misnames\<close>

text \<open>
  Forced retirement cancels a run that is about to be submitted; the worker's \<open>_mark_submitted\<close> and
  \<open>_finish_run\<close> write its row without looking. The cancellation is checked only after the task, when
  the row says \<open>polling\<close> again: the run of a retired cluster ends as completed, and while it waits it
  is in flight again, which retirement's postcondition excludes.
\<close>

definition retiring_exec :: "string exec_env" where
  "retiring_exec = example_exec\<lparr>xe_meanwhile_power := retire_schedules (1, FORCED, 0)\<rparr>"

lemma retiring_exec_interleaved: "interleaved retiring_exec"
  using schedule_step.retire by (auto simp: interleaved_def retiring_exec_def example_exec_def)

theorem cancelled_run_is_resurrected:
  "map ru_status (scheduled_runs (retire_schedules (1, FORCED, 0) (snd (start_run example_env 1 example_dispatched)))) = [''cancelled'']
   \<and> map ru_status (scheduled_runs (snd (execute_scheduled_action_run example_env retiring_exec 1 example_dispatched))) = [''completed'']"
proof
  show "map ru_status (scheduled_runs (retire_schedules (1, FORCED, 0) (snd (start_run example_env 1 example_dispatched)))) = [''cancelled'']"
    by code_simp
  show "map ru_status (scheduled_runs (snd (execute_scheduled_action_run example_env retiring_exec 1 example_dispatched))) = [''completed'']"
    by code_simp
qed

text \<open>
  The lookup pairs the endpoints in name order with clients in health order. When the first endpoint
  by name is unhealthy, the endpoint recorded with the target is not the one its client talks to.
\<close>

definition unhealthy_first :: db where
  "unhealthy_first = example_schedules\<lparr>endpoints := map (\<lambda>e. if ep_name e = ''pve1'' then e\<lparr>ep_last_health_status := ''failed''\<rparr> else e)
     (endpoints example_schedules)\<rparr>"

theorem lookup_misnames_endpoint:
  "case find_guest example_exec example_schedule (new_cluster 1 ''lab'' ''Lab'') unhealthy_first of
     Inl f \<Rightarrow> False
   | Inr t \<Rightarrow> gt_client t = ''pve2'' \<and> ep_name (gt_endpoint t) = ''pve1''"
  by code_simp

end
