(* ===== verification/Guest_Inventory.thy ===== *)
theory Guest_Inventory
  imports Enrollment Cluster_Footprint Proxmox_Client
begin

text \<open>
  The current guest projection of \<^verbatim>\<open>core/services/current_guest_inventory.py\<close>: the two reconciliations
  (a scan of the installation, a verified live inventory of one cluster), the targeted writes
  after an operation, and the stored clone lineage. The result of an atomic function is \<open>Inl\<close>
  when it raises, and then nothing is written; a negative vmid is refused by its column. A set of
  clusters is walked in the order of the attempted endpoints.
\<close>

section \<open>Rows\<close>

definition GUEST_TYPES :: "string list" where
  "GUEST_TYPES = [''vm'', ''ct'']"

type_synonym identity = "string \<times> int"

definition identity_of :: "guest \<Rightarrow> identity" where
  "identity_of g = (g_object_type g, int (g_vmid g))"

definition current_inventory_state :: "nat option \<Rightarrow> db \<Rightarrow> guest_inventory_state option" where
  "current_inventory_state cluster d =
     (case cluster of None \<Rightarrow> None | Some pk \<Rightarrow> first_where (\<lambda>s. gs_cluster s = pk) (guest_states d))"

definition current_guest_queryset :: "db \<Rightarrow> guest list" where
  "current_guest_queryset d = filter (\<lambda>g. g_object_type g \<in> set GUEST_TYPES) (guests d)"

definition published_guest_queryset :: "db \<Rightarrow> guest list" where
  "published_guest_queryset d = filter g_published (guests d)"

definition safety_guest_queryset :: "db \<Rightarrow> guest list" where
  "safety_guest_queryset d = guests d"

definition delete_missing :: "(guest \<Rightarrow> bool) \<Rightarrow> identity list \<Rightarrow> guest list \<Rightarrow> guest list" where
  "delete_missing queryset observed rows =
     (if observed \<noteq> [] then delete_where (\<lambda>g. queryset g \<and> \<not> identity_of g \<in> set observed) rows
      else delete_where queryset rows)"

definition retire_absent_on_covered_nodes :: "nat \<Rightarrow> identity list \<Rightarrow> string list \<Rightarrow> bool \<Rightarrow> guest list \<Rightarrow> guest list" where
  "retire_absent_on_covered_nodes pk observed covered_nodes whole rows =
     delete_missing (\<lambda>g. g_cluster g = pk \<and> (g_node g \<in> set covered_nodes \<or> whole \<and> g_node g = [])) observed rows"

text \<open>\<open>update_or_create\<close> and \<open>get_or_create\<close> by identity.\<close>

definition upsert_guest :: "nat \<Rightarrow> string \<Rightarrow> int \<Rightarrow> (guest \<Rightarrow> guest) \<Rightarrow> db \<Rightarrow> (string, db) result" where
  "upsert_guest pk object_type vmid f d =
     (if vmid < 0 then Inl ''IntegrityError''
      else Inr (d\<lparr>guests := upsert_where (\<lambda>g. g_cluster g = pk \<and> identity_of g = (object_type, vmid))
             ((new_guest pk object_type (nat vmid))\<lparr>g_pk := next_pk g_pk (guests d)\<rparr>) f (guests d)\<rparr>))"

definition find_guest_row :: "nat \<Rightarrow> string \<Rightarrow> int \<Rightarrow> db \<Rightarrow> guest option" where
  "find_guest_row pk object_type vmid d =
     first_where (\<lambda>g. g_cluster g = pk \<and> identity_of g = (object_type, vmid)) (guests d)"

record state_update =
  su_refreshed_at :: time
  su_complete :: bool
  su_attempted :: "string list"
  su_succeeded :: "string list"
  su_covered_nodes :: "string list"
  su_errors :: json
  su_source_scan :: "nat option"
  su_unreachable :: bool

definition save_state :: "state_update \<Rightarrow> guest_inventory_state \<Rightarrow> guest_inventory_state" where
  "save_state u s =
     (let s1 = (if su_unreachable u then s
                else s\<lparr>gs_refreshed_at := Some (su_refreshed_at u),
                       gs_last_complete_at := (if su_complete u then Some (su_refreshed_at u) else gs_last_complete_at s),
                       gs_source_scan := su_source_scan u\<rparr>)
      in s1\<lparr>gs_complete := su_complete u, gs_unreachable := su_unreachable u, gs_endpoints_attempted := su_attempted u,
            gs_endpoints_succeeded := su_succeeded u, gs_covered_nodes := sort (su_covered_nodes u), gs_errors := su_errors u\<rparr>)"

definition upsert_state :: "nat \<Rightarrow> (guest_inventory_state \<Rightarrow> guest_inventory_state) \<Rightarrow> db \<Rightarrow> db" where
  "upsert_state pk f d =
     d\<lparr>guest_states := upsert_where (\<lambda>s. gs_cluster s = pk)
        ((new_guest_state pk)\<lparr>gs_pk := next_pk gs_pk (guest_states d)\<rparr>) f (guest_states d)\<rparr>"

definition update_state :: "cluster \<Rightarrow> state_update \<Rightarrow> time \<Rightarrow> db \<Rightarrow> db" where
  "update_state c u now d =
     snd (stamp_operational_footprint (Some c) (cl_pk c) ''guest_projection'' now (upsert_state (cl_pk c) (save_state u) d))"

section \<open>Reconciliation after a scan\<close>

record scan_guest =
  sn_node :: string
  sn_object_type :: string
  sn_vmid :: "int option"
  sn_name :: string
  sn_status :: string
  sn_config :: json_object
  sn_disk_references :: "string list"

type_synonym guest_observation = "endpoint \<times> scan_guest"

definition observed_vmid :: "guest_observation \<Rightarrow> int" where
  "observed_vmid ob = (case sn_vmid (snd ob) of Some i \<Rightarrow> i | None \<Rightarrow> 0)"

definition observed_identity :: "guest_observation \<Rightarrow> identity" where
  "observed_identity ob = (sn_object_type (snd ob), observed_vmid ob)"

definition scan_guest_row :: "publication_scope \<Rightarrow> nat \<Rightarrow> time \<Rightarrow> guest_observation \<Rightarrow> guest \<Rightarrow> guest" where
  "scan_guest_row scope scan now ob row =
     (let g = snd ob in
      row\<lparr>g_published := publishes scope (sn_node g), g_based_on_enrollment_generation := ps_generation scope,
          g_source_endpoint := Some (ep_pk (fst ob)), g_source_scan := Some scan, g_node := sn_node g, g_name := sn_name g,
          g_status := sn_status g, g_runtime_observed_at := Some now, g_config := JObj (sn_config g),
          g_config_complete := True, g_config_observed_at := Some now, g_disk_references := sn_disk_references g,
          g_observed_at := now\<rparr>)"

record scan_input =
  si_scan :: nat
  si_observations :: "guest_observation list"
  si_attempted_endpoints :: "endpoint list"
  si_successful_endpoints :: "endpoint list"
  si_attempted_nodes :: "nat \<Rightarrow> string list"
  si_covered_nodes :: "nat \<Rightarrow> string list"
  si_errors :: json

definition usable_observations :: "scan_input \<Rightarrow> guest_observation list" where
  "usable_observations i =
     filter (\<lambda>ob. sn_object_type (snd ob) \<in> set GUEST_TYPES \<and> sn_vmid (snd ob) \<noteq> None) (si_observations i)"

definition cluster_observations :: "nat \<Rightarrow> scan_input \<Rightarrow> guest_observation list" where
  "cluster_observations pk i = filter (\<lambda>ob. ep_cluster (fst ob) = pk) (usable_observations i)"

definition scan_complete :: "nat \<Rightarrow> scan_input \<Rightarrow> bool" where
  "scan_complete pk i = (si_attempted_nodes i pk \<noteq> [] \<and> set (si_attempted_nodes i pk) = set (si_covered_nodes i pk))"

definition write_observation ::
    "publication_scope \<Rightarrow> nat \<Rightarrow> nat \<Rightarrow> time \<Rightarrow> guest_observation \<Rightarrow> db \<Rightarrow> (string, db) result" where
  "write_observation scope pk scan now ob d =
     upsert_guest pk (sn_object_type (snd ob)) (observed_vmid ob) (scan_guest_row scope scan now ob) d"

definition scan_state_update :: "nat \<Rightarrow> scan_input \<Rightarrow> time \<Rightarrow> state_update" where
  "scan_state_update pk i now =
     \<lparr>su_refreshed_at = now, su_complete = scan_complete pk i,
      su_attempted = map ep_name (filter (\<lambda>e. ep_cluster e = pk) (si_attempted_endpoints i)),
      su_succeeded = map ep_name (filter (\<lambda>e. ep_cluster e = pk) (si_successful_endpoints i)),
      su_covered_nodes = remdups (si_covered_nodes i pk), su_errors = si_errors i, su_source_scan = Some (si_scan i),
      su_unreachable = (si_attempted_nodes i pk \<noteq> [] \<and> si_covered_nodes i pk = [])\<rparr>"

definition reconcile_scan_cluster :: "scan_input \<Rightarrow> time \<Rightarrow> time \<Rightarrow> nat \<Rightarrow> db \<Rightarrow> (string, db) result" where
  "reconcile_scan_cluster i observed_at clock pk d =
     (case get_cluster pk d of
        None \<Rightarrow> Inl ''DoesNotExist''
      | Some c \<Rightarrow>
          let obs = cluster_observations pk i;
              d1 = d\<lparr>guests := retire_absent_on_covered_nodes pk (map observed_identity obs) (si_covered_nodes i pk)
                      (scan_complete pk i) (guests d)\<rparr>;
              scope = publication_scope_of c d1
          in bind_result (fold_result (write_observation scope pk (si_scan i) observed_at) obs d1) (\<lambda>d2.
               Inr (update_state c (scan_state_update pk i observed_at) clock d2)))"

definition reconcile_scan_guest_inventory :: "scan_input \<Rightarrow> time \<Rightarrow> time \<Rightarrow> db \<Rightarrow> (string, guest_inventory_state option \<times> db) result" where
  "reconcile_scan_guest_inventory i observed_at clock d =
     (let cluster_ids = remdups (map ep_cluster (si_attempted_endpoints i)) in
      bind_result (fold_result (reconcile_scan_cluster i observed_at clock) cluster_ids d) (\<lambda>d'.
        Inr (case cluster_ids of [] \<Rightarrow> None | pk # _ \<Rightarrow> current_inventory_state (Some pk) d', d')))"


section \<open>Reconciliation of a live inventory\<close>

definition endpoint_for_live_guest :: "python \<Rightarrow> guest_summary \<Rightarrow> endpoint list \<Rightarrow> endpoint option" where
  "endpoint_for_live_guest py g es =
     (case filter (\<lambda>e. ep_name e = sg_node g
              \<or> text_or_empty (py_str py) (map_of (members (ep_details e)) ''node'') = sg_node g) es of
        [e] \<Rightarrow> Some e | _ \<Rightarrow> None)"

definition pop_key :: "string \<Rightarrow> json_object \<Rightarrow> json_object" where
  "pop_key k ms = filter (\<lambda>m. fst m \<noteq> k) ms"

definition stored_config :: "guest option \<Rightarrow> json_object" where
  "stored_config existing = (case existing of None \<Rightarrow> [] | Some g \<Rightarrow> members (g_config g))"

definition live_config :: "guest option \<Rightarrow> guest_summary \<Rightarrow> json_object" where
  "live_config existing g =
     (let config = stored_config existing;
          tagged = (if sg_tags g \<noteq> [] then dict_set ''tags'' (JStr (join_tags (sg_tags g))) config else pop_key ''tags'' config)
      in if sg_object_type g = ''vm'' then
           (if sg_is_template g then dict_set ''template'' (JStr ''1'') tagged else pop_key ''template'' tagged)
         else tagged)"

definition name_key :: "string \<Rightarrow> string" where
  "name_key object_type = (if object_type = ''vm'' then ''name'' else ''hostname'')"

definition resolved_name :: "python \<Rightarrow> guest option \<Rightarrow> guest_summary \<Rightarrow> string" where
  "resolved_name py existing g =
     first_text (py_str py) [Some (JStr (sg_name g)), map_of (live_config existing g) (name_key (sg_object_type g)),
       map_option (\<lambda>x. JStr (g_name x)) existing]"

text \<open>\<open>a or (existing.column if existing else None)\<close>.\<close>

definition kept :: "(guest \<Rightarrow> 'a option) \<Rightarrow> guest option \<Rightarrow> 'a option" where
  "kept f existing = (case existing of None \<Rightarrow> None | Some g \<Rightarrow> f g)"

definition live_guest_row ::
    "python \<Rightarrow> publication_scope \<Rightarrow> endpoint list \<Rightarrow> guest option \<Rightarrow> time \<Rightarrow> guest_summary \<Rightarrow> guest \<Rightarrow> guest" where
  "live_guest_row py scope es existing now g row =
     row\<lparr>g_published := publishes scope (sg_node g), g_based_on_enrollment_generation := ps_generation scope,
         g_source_endpoint := (case endpoint_for_live_guest py g es of Some e \<Rightarrow> Some (ep_pk e)
                               | None \<Rightarrow> kept g_source_endpoint existing),
         g_source_scan := kept g_source_scan existing, g_node := sg_node g, g_name := resolved_name py existing g,
         g_status := sg_status g, g_cpu_usage := sg_cpu g, g_memory_used_bytes := sg_mem g,
         g_memory_max_bytes := sg_maxmem g, g_disk_used_bytes := sg_disk g, g_disk_max_bytes := sg_maxdisk g,
         g_uptime_seconds := sg_uptime g, g_runtime_lock := sg_lock g, g_pool := sg_pool g, g_ha_state := sg_hastate g,
         g_runtime_observed_at := Some now, g_config := JObj (live_config existing g),
         g_config_complete := (case existing of None \<Rightarrow> False | Some x \<Rightarrow> g_config_complete x),
         g_config_observed_at := kept g_config_observed_at existing,
         g_disk_references := (case existing of None \<Rightarrow> [] | Some x \<Rightarrow> g_disk_references x), g_observed_at := now\<rparr>"

definition write_live_guest ::
    "python \<Rightarrow> publication_scope \<Rightarrow> endpoint list \<Rightarrow> nat \<Rightarrow> time \<Rightarrow> guest_summary \<Rightarrow> db \<Rightarrow> (string, db) result" where
  "write_live_guest py scope es pk now g d =
     (let existing = find_guest_row pk (sg_object_type g) (sg_vmid g) d
      in upsert_guest pk (sg_object_type g) (sg_vmid g) (live_guest_row py scope es existing now g) d)"

definition summary_identity :: "guest_summary \<Rightarrow> identity" where
  "summary_identity g = (sg_object_type g, sg_vmid g)"

definition live_state_update :: "verified_inventory \<Rightarrow> guest_inventory_state option \<Rightarrow> time \<Rightarrow> state_update" where
  "live_state_update v prior now =
     \<lparr>su_refreshed_at = now, su_complete = vi_complete v, su_attempted = vi_attempted_endpoints v,
      su_succeeded = vi_successful_endpoints v,
      su_covered_nodes = (case prior of None \<Rightarrow> [] | Some s \<Rightarrow> gs_covered_nodes s),
      su_errors = (if vi_errors v \<noteq> [] then JObj [(''live_inventory'', JList (map JStr (vi_errors v)))] else JObj []),
      su_source_scan = (case prior of None \<Rightarrow> None | Some s \<Rightarrow> gs_source_scan s),
      su_unreachable = (vi_attempted_endpoints v \<noteq> [] \<and> vi_successful_endpoints v = [])\<rparr>"

definition reconcile_live_guest_inventory :: "python \<Rightarrow> verified_inventory \<Rightarrow> time \<Rightarrow> time \<Rightarrow> db \<Rightarrow> (string, db) result" where
  "reconcile_live_guest_inventory py v observed_at clock d =
     (case (if vi_cluster_key v = [] then None else first_where (\<lambda>c. cl_key c = vi_cluster_key v) (clusters d)) of
        None \<Rightarrow> Inl ''Verified guest inventory must carry a valid cluster key.''
      | Some c \<Rightarrow>
          let pk = cl_pk c;
              es = filter (\<lambda>e. ep_cluster e = pk \<and> ep_enabled e) (endpoints d);
              d1 = (if vi_complete v
                    then d\<lparr>guests := delete_missing (\<lambda>g. g_cluster g = pk) (map summary_identity (vi_guests v)) (guests d)\<rparr>
                    else d);
              scope = publication_scope_of c d1
          in bind_result (fold_result (write_live_guest py scope es pk observed_at) (vi_guests v) d1) (\<lambda>d2.
               Inr (update_state c (live_state_update v (current_inventory_state (Some pk) d2) observed_at) clock d2)))"

section \<open>Targeted writes\<close>

definition target_cluster :: "nat option \<Rightarrow> endpoint option \<Rightarrow> (string, nat) result" where
  "target_cluster cluster ep =
     (case (cluster, ep) of
        (Some pk, _) \<Rightarrow> Inr pk
      | (None, Some e) \<Rightarrow> Inr (ep_cluster e)
      | (None, None) \<Rightarrow> Inl ''Current guest writes require an explicit cluster or cluster-bound endpoint.'')"

text \<open>
  \<open>get_or_create\<close> gives a new row the passed node and an incomplete, empty configuration; the
  assignments after it are saved on either row.
\<close>

definition update_current_guest_config ::
    "nat option \<Rightarrow> string \<Rightarrow> int \<Rightarrow> string \<Rightarrow> json_object \<Rightarrow> string list \<Rightarrow> time \<Rightarrow> db \<Rightarrow> (string, db) result" where
  "update_current_guest_config cluster object_type vmid node updates delete now d =
     bind_result (target_cluster cluster None) (\<lambda>pk.
       let created = (find_guest_row pk object_type vmid d = None) in
       upsert_guest pk object_type vmid (\<lambda>row0.
         let row = (if created then row0\<lparr>g_node := node, g_config := JObj [], g_config_complete := False\<rparr> else row0);
             config = fold pop_key delete (fold (\<lambda>(k, v). dict_set k v) updates (members (g_config row)))
         in row\<lparr>g_config := JObj config, g_node := (if node \<noteq> [] then node else g_node row), g_observed_at := now,
                g_config_observed_at := Some now\<rparr>) d)"

record guest_fields =
  gf_node :: string
  gf_name :: string
  gf_status :: string
  gf_config :: json_object
  gf_cpu_usage :: string
  gf_memory_used_bytes :: int
  gf_memory_max_bytes :: int
  gf_disk_used_bytes :: int
  gf_disk_max_bytes :: int
  gf_uptime_seconds :: int
  gf_runtime_lock :: string

definition store_fields :: "guest_fields \<Rightarrow> time \<Rightarrow> guest \<Rightarrow> guest" where
  "store_fields f now row =
     row\<lparr>g_node := gf_node f, g_name := gf_name f, g_status := gf_status f, g_cpu_usage := gf_cpu_usage f,
         g_memory_used_bytes := gf_memory_used_bytes f, g_memory_max_bytes := gf_memory_max_bytes f,
         g_disk_used_bytes := gf_disk_used_bytes f, g_disk_max_bytes := gf_disk_max_bytes f,
         g_uptime_seconds := gf_uptime_seconds f, g_runtime_lock := gf_runtime_lock f, g_config := JObj (gf_config f),
         g_disk_references := extract_disk_references (gf_config f), g_observed_at := now, g_runtime_observed_at := Some now\<rparr>"

definition upsert_current_guest :: "nat option \<Rightarrow> string \<Rightarrow> int \<Rightarrow> guest_fields \<Rightarrow> time \<Rightarrow> db \<Rightarrow> (string, db) result" where
  "upsert_current_guest cluster object_type vmid f now d =
     bind_result (target_cluster cluster None) (\<lambda>pk.
       upsert_guest pk object_type vmid
         (\<lambda>row. (store_fields f now row)\<lparr>g_config_complete := True, g_config_observed_at := Some now\<rparr>) d)"

definition delete_current_guest :: "nat option \<Rightarrow> string \<Rightarrow> int \<Rightarrow> db \<Rightarrow> (string, db) result" where
  "delete_current_guest cluster object_type vmid d =
     bind_result (target_cluster cluster None) (\<lambda>pk.
       Inr (d\<lparr>guests := delete_where (\<lambda>g. g_cluster g = pk \<and> identity_of g = (object_type, vmid)) (guests d)\<rparr>))"


section \<open>Refresh after an operation\<close>

record targeted_refresh =
  tg_found :: bool
  tg_absent :: bool
  tg_node :: string
  tg_error :: string

definition refresh_failed :: "string \<Rightarrow> string \<Rightarrow> targeted_refresh" where
  "refresh_failed node msg = \<lparr>tg_found = False, tg_absent = False, tg_node = node, tg_error = msg\<rparr>"

definition REFRESH_READ_ERROR :: string where
  "REFRESH_READ_ERROR = ''Proxmox did not answer the follow-up status read.''"

definition refresh_error :: "api_error \<Rightarrow> string" where
  "refresh_error e =
     public_exception_message (OtherException (case e of ApiError m _ \<Rightarrow> m | InvalidResponse m \<Rightarrow> m
        | TransportError m _ \<Rightarrow> m | TlsTrustError m _ \<Rightarrow> m | TaskTimeout m \<Rightarrow> m)) REFRESH_READ_ERROR"

record 'w refresh_target =
  rf_http :: "'w http"
  rf_endpoint_url :: string
  rf_node :: string
  rf_object_type :: string
  rf_vmid :: nat
  rf_cluster :: "nat option"
  rf_allow_relocation :: bool
  rf_delete_if_authoritatively_absent :: bool

datatype located =
    Located string json_object
  | NotLocated targeted_refresh bool
  | Unlocated string

text \<open>
  Where the guest is now and its status: the direct read, and when it fails and a relocation is
  allowed the cluster's resource list. \<open>NotLocated r True\<close> is an authoritative absence whose row is
  to be deleted; \<open>Unlocated\<close> carries the error of the direct read.
\<close>

definition resource_matches :: "python \<Rightarrow> string \<Rightarrow> nat \<Rightarrow> json list \<Rightarrow> json_object list" where
  "resource_matches py object_type vmid items =
     filter (\<lambda>ms. text_or_empty (py_str py) (map_of ms ''type'') = (if object_type = ''vm'' then ''qemu'' else ''lxc'')
                \<and> text_or_empty (py_str py) (map_of ms ''vmid'') = show_nat vmid)
       (map members (filter is_object items))"

definition relocate :: "python \<Rightarrow> 'w refresh_target \<Rightarrow> 'w \<Rightarrow> located \<times> 'w" where
  "relocate py t w =
     (case http_get (rf_http t) ''cluster/resources?type=vm'' w of
        (Inl e, w1) \<Rightarrow> (NotLocated (refresh_failed [] (refresh_error e)) False, w1)
      | (Inr (JList items), w1) \<Rightarrow>
          (case resource_matches py (rf_object_type t) (rf_vmid t) items of
             [] \<Rightarrow> (NotLocated \<lparr>tg_found = False, tg_absent = True, tg_node = [], tg_error = []\<rparr>
                     (rf_delete_if_authoritatively_absent t), w1)
           | [ms] \<Rightarrow>
               let node = text_or_empty (py_str py) (map_of ms ''node'') in
               if node = [] then (NotLocated (refresh_failed [] ''Proxmox did not return the guest node.'') False, w1)
               else (case guest_current (rf_http t) node (rf_object_type t) (rf_vmid t) w1 of
                  (Inl e, w2) \<Rightarrow> (NotLocated (refresh_failed node (refresh_error e)) False, w2)
                | (Inr current, w2) \<Rightarrow> (Located node current, w2))
           | _ \<Rightarrow> (NotLocated (refresh_failed [] ''Guest identity was ambiguous after the operation.'') False, w1))
      | (Inr _, w1) \<Rightarrow> (NotLocated (refresh_failed [] ''Proxmox returned an invalid guest inventory.'') False, w1))"

definition locate :: "python \<Rightarrow> 'w refresh_target \<Rightarrow> 'w \<Rightarrow> located \<times> 'w" where
  "locate py t w =
     (case (if rf_node t = [] then (Inl [], w)
            else let (r, w1) = guest_current (rf_http t) (rf_node t) (rf_object_type t) (rf_vmid t) w
                 in (map_error refresh_error r, w1)) of
        (Inr current, w1) \<Rightarrow> (Located (rf_node t) current, w1)
      | (Inl direct_error, w1) \<Rightarrow> if rf_allow_relocation t then relocate py t w1 else (Unlocated direct_error, w1))"

definition refreshed_fields ::
    "python \<Rightarrow> string \<Rightarrow> string \<Rightarrow> json_object \<Rightarrow> json_object \<Rightarrow> (string, guest_fields) result" where
  "refreshed_fields py object_type node current config =
     (let text = (\<lambda>ms k. text_or_empty (py_str py) (map_of ms k)); num = (\<lambda>k. int_or_zero py (get_or_null current k)) in
      bind_result (num ''mem'') (\<lambda>mem. bind_result (num ''maxmem'') (\<lambda>maxmem. bind_result (num ''disk'') (\<lambda>disk.
      bind_result (num ''maxdisk'') (\<lambda>maxdisk. bind_result (num ''uptime'') (\<lambda>uptime.
        Inr \<lparr>gf_node = node,
             gf_name = first_text (py_str py) [map_of config (name_key object_type), map_of current ''name'', map_of current ''hostname''],
             gf_status = text current ''status'', gf_config = config,
             gf_cpu_usage = float_or_zero py (get_or_null current ''cpu''), gf_memory_used_bytes = mem, gf_memory_max_bytes = maxmem,
             gf_disk_used_bytes = disk, gf_disk_max_bytes = maxdisk, gf_uptime_seconds = uptime,
             gf_runtime_lock = first_text (py_str py) [map_of current ''lock'', map_of config ''lock'']\<rparr>))))))"

definition store_refreshed ::
    "python \<Rightarrow> 'w refresh_target \<Rightarrow> string \<Rightarrow> json_object \<Rightarrow> time \<Rightarrow> time \<Rightarrow> db \<Rightarrow> 'w \<Rightarrow> (string, targeted_refresh \<times> db) result \<times> 'w" where
  "store_refreshed py t node current config_at now d w =
     (let ep = first_where (\<lambda>e. ep_url e = rf_endpoint_url t) (endpoints d) in
      case target_cluster (rf_cluster t) ep of
        Inl e \<Rightarrow> (Inl e, w)
      | Inr pk \<Rightarrow>
          let existing = find_guest_row pk (rf_object_type t) (int (rf_vmid t)) d;
              (read, w1) = guest_config (rf_http t) node (rf_object_type t) (rf_vmid t) w;
              (config, config_complete, config_observed_at) = (case read of
                 Inr ms \<Rightarrow> (ms, True, Some config_at)
               | Inl _ \<Rightarrow> (stored_config existing, case existing of None \<Rightarrow> False | Some g \<Rightarrow> g_config_complete g,
                           kept g_config_observed_at existing))
          in (bind_result (refreshed_fields py (rf_object_type t) node current config) (\<lambda>f.
                bind_result (upsert_guest pk (rf_object_type t) (int (rf_vmid t)) (\<lambda>row.
                  (store_fields f now row)\<lparr>g_source_endpoint := (case ep of Some e \<Rightarrow> Some (ep_pk e) | None \<Rightarrow> kept g_source_endpoint existing),
                     g_source_scan := kept g_source_scan existing, g_config_complete := config_complete,
                     g_config_observed_at := config_observed_at\<rparr>) d) (\<lambda>d'.
                  Inr (\<lparr>tg_found = True, tg_absent = False, tg_node = node, tg_error = []\<rparr>, d'))), w1))"

definition refresh_current_guest_from_client ::
    "python \<Rightarrow> 'w refresh_target \<Rightarrow> time \<Rightarrow> time \<Rightarrow> db \<Rightarrow> 'w \<Rightarrow> (string, targeted_refresh \<times> db) result \<times> 'w" where
  "refresh_current_guest_from_client py t config_at now d w =
     (case locate py t w of
        (Unlocated direct_error, w1) \<Rightarrow>
          (Inr (refresh_failed (rf_node t) (if direct_error \<noteq> [] then direct_error else ''Guest status unavailable.''), d), w1)
      | (NotLocated r delete, w1) \<Rightarrow>
          if \<not> delete then (Inr (r, d), w1)
          else (bind_result (target_cluster (rf_cluster t) (first_where (\<lambda>e. ep_url e = rf_endpoint_url t) (endpoints d))) (\<lambda>pk.
                  bind_result (delete_current_guest (Some pk) (rf_object_type t) (int (rf_vmid t)) d) (\<lambda>d'. Inr (r, d'))), w1)
      | (Located node current, w1) \<Rightarrow> store_refreshed py t node current config_at now d w1)"

section \<open>Clone lineage\<close>

definition store_guest_lineage :: "nat option \<Rightarrow> (int \<times> int) list \<Rightarrow> db \<Rightarrow> db" where
  "store_guest_lineage cluster lineage d =
     (case cluster of
        None \<Rightarrow> d
      | Some pk \<Rightarrow> upsert_state pk (\<lambda>s. s\<lparr>gs_linked_clone_lineage :=
          JObj (fold (\<lambda>(child, parent). dict_set (show_int child) (JInt parent)) lineage [])\<rparr>) d)"

definition stored_guest_lineage :: "python \<Rightarrow> nat option \<Rightarrow> db \<Rightarrow> (string, (int \<times> int) list) result" where
  "stored_guest_lineage py cluster d =
     (case current_inventory_state cluster d of
        None \<Rightarrow> Inr []
      | Some s \<Rightarrow>
          (case gs_linked_clone_lineage s of
             JObj ms \<Rightarrow> fold_result (\<lambda>(child, parent) acc.
               (case (parse_int child, py_int py parent) of
                  (Some c, Inr p) \<Rightarrow> Inr (dict_set c p acc)
                | (Some _, Inl IntOverflow) \<Rightarrow> Inl ''OverflowError''
                | _ \<Rightarrow> Inr acc)) ms []
           | _ \<Rightarrow> Inr []))"


section \<open>What writing a list of observed guests does\<close>

definition owned :: "nat \<Rightarrow> identity \<Rightarrow> guest \<Rightarrow> bool" where
  "owned pk k g = (g_cluster g = pk \<and> identity_of g = k)"

definition scope_stamped :: "publication_scope \<Rightarrow> guest \<Rightarrow> bool" where
  "scope_stamped scope g = (g_published g = publishes scope (g_node g) \<and> g_based_on_enrollment_generation g = ps_generation scope)"

definition identities :: "nat \<Rightarrow> db \<Rightarrow> identity set" where
  "identities pk d = identity_of ` {g \<in> set (guests d). g_cluster g = pk}"

text \<open>
  The contract of a row write: one row, found or created by cluster and identity, is saved and
  carries the stamp of the publication scope of the pass.
\<close>

locale guest_writer =
  fixes pk :: nat and scope :: publication_scope and key :: "'a \<Rightarrow> identity"
    and write_row :: "'a \<Rightarrow> db \<Rightarrow> (string, db) result"
  assumes write_row: "write_row x d = Inr d' \<Longrightarrow>
    \<exists>fresh f. d' = d\<lparr>guests := upsert_where (owned pk (key x)) fresh f (guests d)\<rparr> \<and> owned pk (key x) fresh
      \<and> (\<forall>g. owned pk (key x) g \<longrightarrow> owned pk (key x) (f g) \<and> scope_stamped scope (f g))"
begin

definition touched :: "'a list \<Rightarrow> guest \<Rightarrow> bool" where
  "touched xs g = (g_cluster g = pk \<and> identity_of g \<in> key ` set xs)"

lemma write_one:
  assumes "write_row x d = Inr d'"
  shows "filter (\<lambda>g. \<not> owned pk (key x) g) (guests d') = filter (\<lambda>g. \<not> owned pk (key x) g) (guests d)"
    and "\<And>g. g \<in> set (guests d') \<Longrightarrow> owned pk (key x) g \<Longrightarrow> scope_stamped scope g"
    and "\<exists>g\<in>set (guests d'). owned pk (key x) g"
    and "\<exists>rows. d' = d\<lparr>guests := rows\<rparr>"
proof -
  obtain fresh f where d': "d' = d\<lparr>guests := upsert_where (owned pk (key x)) fresh f (guests d)\<rparr>"
    and fresh: "owned pk (key x) fresh"
    and f: "\<And>g. owned pk (key x) g \<Longrightarrow> owned pk (key x) (f g) \<and> scope_stamped scope (f g)"
    using write_row [OF assms] by blast
  show "filter (\<lambda>g. \<not> owned pk (key x) g) (guests d') = filter (\<lambda>g. \<not> owned pk (key x) g) (guests d)"
    unfolding d' using f fresh by (simp add: filter_upsert_frame)
  show "scope_stamped scope g" if "g \<in> set (guests d')" "owned pk (key x) g" for g
  proof -
    have "g \<in> set (upsert_where (owned pk (key x)) fresh f (guests d))" using that(1) by (simp add: d')
    then show ?thesis by (cases rule: in_upsert_whereE) (use that f fresh in auto)
  qed
  show "\<exists>g\<in>set (guests d'). owned pk (key x) g"
    unfolding d' set_upsert_where using f fresh by (auto simp: set_upsert_where exists_where_iff)
  show "\<exists>rows. d' = d\<lparr>guests := rows\<rparr>" using d' by blast
qed

lemma write_all:
  assumes "fold_result write_row xs d = Inr d'"
  shows "filter (\<lambda>g. \<not> touched xs g) (guests d') = filter (\<lambda>g. \<not> touched xs g) (guests d)"
    and "\<forall>g\<in>set (guests d'). touched xs g \<longrightarrow> scope_stamped scope g"
    and "key ` set xs \<subseteq> identities pk d'"
    and "\<exists>rows. d' = d\<lparr>guests := rows\<rparr>"
  using assms
proof (induction xs arbitrary: d)
  case Nil
  case 1 then show ?case by simp
  case 2 then show ?case by (simp add: touched_def)
  case 3 then show ?case by simp
  case 4 then show ?case by (intro exI [of _ "guests d"]) simp
next
  case (Cons x xs)
  {
    fix d assume "fold_result write_row (x # xs) d = Inr d'"
    then obtain d1 where d1: "write_row x d = Inr d1" and rest: "fold_result write_row xs d1 = Inr d'"
      by (auto simp: result_simps)
    note one = write_one [OF d1] and IH = Cons.IH [OF rest]
    have split: "\<not> touched (x # xs) g \<longleftrightarrow> \<not> owned pk (key x) g \<and> \<not> touched xs g" for g
      by (auto simp: touched_def owned_def)
    have frame: "filter (\<lambda>g. \<not> touched (x # xs) g) (guests d') = filter (\<lambda>g. \<not> touched (x # xs) g) (guests d)"
    proof -
      have "filter (\<lambda>g. \<not> touched (x # xs) g) (guests d') = filter (\<lambda>g. \<not> owned pk (key x) g) (filter (\<lambda>g. \<not> touched xs g) (guests d'))"
        by (simp add: split conj_commute)
      also have "\<dots> = filter (\<lambda>g. \<not> touched xs g) (filter (\<lambda>g. \<not> owned pk (key x) g) (guests d1))"
        unfolding IH(1) by (simp add: conj_commute)
      also have "\<dots> = filter (\<lambda>g. \<not> touched (x # xs) g) (guests d)"
        unfolding one(1) by (simp add: split conj_commute)
      finally show ?thesis .
    qed
    have kept: "g \<in> set (guests d1)" if "g \<in> set (guests d')" "\<not> touched xs g" for g
      using that arg_cong [OF IH(1), of set] by auto
    have present: "g \<in> set (guests d')" if "g \<in> set (guests d1)" "\<not> touched xs g" for g
      using that arg_cong [OF IH(1), of set] by auto
    have "scope_stamped scope g" if "g \<in> set (guests d')" "touched (x # xs) g" for g
    proof (cases "touched xs g")
      case True
      with IH(2) that(1) show ?thesis by blast
    next
      case False
      then have "owned pk (key x) g" using that(2) by (auto simp: touched_def owned_def)
      with kept [OF that(1) False] one(2) show ?thesis by blast
    qed
    moreover have "key x \<in> identities pk d'"
    proof (cases "key x \<in> key ` set xs")
      case True
      with IH(3) show ?thesis by blast
    next
      case False
      obtain g where g: "g \<in> set (guests d1)" "owned pk (key x) g" using one(3) by blast
      with False have "\<not> touched xs g" by (simp add: touched_def owned_def)
      with g present [OF g(1)] show ?thesis by (force simp: identities_def owned_def)
    qed
    moreover have "\<exists>rows. d' = d\<lparr>guests := rows\<rparr>" using one(4) IH(4) by auto
    ultimately have "filter (\<lambda>g. \<not> touched (x # xs) g) (guests d') = filter (\<lambda>g. \<not> touched (x # xs) g) (guests d)"
      "\<forall>g\<in>set (guests d'). touched (x # xs) g \<longrightarrow> scope_stamped scope g" "key ` set (x # xs) \<subseteq> identities pk d'"
      "\<exists>rows. d' = d\<lparr>guests := rows\<rparr>"
      using frame IH(3) by auto
  }
  note all = this
  case 1 from all(1) [OF this] show ?case .
  case 2 from all(2) [OF this] show ?case .
  case 3 from all(3) [OF this] show ?case .
  case 4 from all(4) [OF this] show ?case .
qed

lemma write_all_identities:
  assumes "fold_result write_row xs d = Inr d'"
  shows "identities pk d' = identities pk d \<union> key ` set xs"
proof -
  note frame = arg_cong [OF write_all(1) [OF assms], of set]
  have "k \<in> identities pk d' \<longleftrightarrow> k \<in> identities pk d" if "k \<notin> key ` set xs" for k
    using frame that by (fastforce simp: identities_def touched_def image_iff set_eq_iff)
  moreover have "key ` set xs \<subseteq> identities pk d'" by (rule write_all(3) [OF assms])
  ultimately show ?thesis by blast
qed

lemma write_all_elsewhere:
  assumes "fold_result write_row xs d = Inr d'" "pk' \<noteq> pk"
  shows "filter (\<lambda>g. g_cluster g = pk') (guests d') = filter (\<lambda>g. g_cluster g = pk') (guests d)"
proof -
  have sub: "filter (\<lambda>g. g_cluster g = pk') rows = filter (\<lambda>g. g_cluster g = pk') (filter (\<lambda>g. \<not> touched xs g) rows)" for rows
    using assms(2) by (induction rows) (auto simp: touched_def)
  show ?thesis unfolding sub [of "guests d'"] sub [of "guests d"] write_all(1) [OF assms(1)] ..
qed

end

lemma upsert_guest_owned:
  assumes "upsert_guest pk ty vmid f d = Inr d'"
  shows "\<exists>fresh. d' = d\<lparr>guests := upsert_where (owned pk (ty, vmid)) fresh f (guests d)\<rparr> \<and> owned pk (ty, vmid) fresh"
  using assms
  by (auto simp: upsert_guest_def owned_def [abs_def] identity_of_def new_guest_def split: if_splits)

lemma upsert_guest_contract:
  assumes "upsert_guest pk ty vmid f d = Inr d'"
    and "\<And>g. g_cluster (f g) = g_cluster g \<and> identity_of (f g) = identity_of g \<and> scope_stamped scope (f g)"
  shows "\<exists>fresh f. d' = d\<lparr>guests := upsert_where (owned pk (ty, vmid)) fresh f (guests d)\<rparr> \<and> owned pk (ty, vmid) fresh
    \<and> (\<forall>g. owned pk (ty, vmid) g \<longrightarrow> owned pk (ty, vmid) (f g) \<and> scope_stamped scope (f g))"
proof -
  have "owned pk (ty, vmid) g \<longrightarrow> owned pk (ty, vmid) (f g) \<and> scope_stamped scope (f g)" for g
    using assms(2) by (simp add: owned_def)
  with upsert_guest_owned [OF assms(1)] show ?thesis by blast
qed

interpretation scan_writer: guest_writer pk scope observed_identity "write_observation scope pk scan now"
  for pk scope scan now
  unfolding observed_identity_def write_observation_def
  by unfold_locales
    (erule upsert_guest_contract, simp add: scan_guest_row_def scope_stamped_def identity_of_def Let_def)

interpretation live_writer: guest_writer pk scope summary_identity "write_live_guest py scope es pk now"
  for pk scope py es now
  unfolding summary_identity_def write_live_guest_def Let_def
  by unfold_locales
    (erule upsert_guest_contract, simp add: live_guest_row_def scope_stamped_def identity_of_def)


section \<open>Absence needs coverage\<close>

lemma set_delete_missing:
  "set (delete_missing Q observed rows) = {g \<in> set rows. \<not> (Q g \<and> identity_of g \<notin> set observed)}"
  by (auto simp: delete_missing_def set_delete_where)

lemma delete_missing_frame:
  "(\<And>g. Q g \<Longrightarrow> \<not> P g) \<Longrightarrow> filter P (delete_missing Q observed rows) = filter P rows"
  unfolding delete_missing_def by (auto intro!: filter_delete_where_frame)

lemma update_state_frame [simp]:
  "guests (update_state c u now d) = guests d" "enrollments (update_state c u now d) = enrollments d"
  using stamp_changes_clusters_only [of "Some c" "cl_pk c" "''guest_projection''" now "upsert_state (cl_pk c) (save_state u) d"]
  by (auto simp: update_state_def upsert_state_def)

lemma update_state_identities [simp]: "identities pk (update_state c u now d) = identities pk d"
  by (simp add: identities_def)

lemma identities_frame:
  "filter (\<lambda>g. g_cluster g = pk) (guests d') = filter (\<lambda>g. g_cluster g = pk) (guests d) \<Longrightarrow> identities pk d' = identities pk d"
  unfolding identities_def by (metis set_filter)

lemma scan_cluster_steps:
  assumes "reconcile_scan_cluster i at clock pk d = Inr d'"
  obtains c d1 d2 where "get_cluster pk d = Some c"
    and "d1 = d\<lparr>guests := retire_absent_on_covered_nodes pk (map observed_identity (cluster_observations pk i))
                (si_covered_nodes i pk) (scan_complete pk i) (guests d)\<rparr>"
    and "fold_result (write_observation (publication_scope_of c d1) pk (si_scan i) at) (cluster_observations pk i) d1 = Inr d2"
    and "d' = update_state c (scan_state_update pk i at) clock d2"
  using assms by (auto simp: reconcile_scan_cluster_def Let_def result_simps split: option.splits)

lemma scan_cluster_elsewhere:
  assumes "reconcile_scan_cluster i at clock pk d = Inr d'" "pk' \<noteq> pk"
  shows "filter (\<lambda>g. g_cluster g = pk') (guests d') = filter (\<lambda>g. g_cluster g = pk') (guests d)"
  using assms(1)
proof (cases rule: scan_cluster_steps)
  case (1 c d1 d2)
  have "filter (\<lambda>g. g_cluster g = pk') (guests d1) = filter (\<lambda>g. g_cluster g = pk') (guests d)"
    using assms(2) unfolding 1(2) retire_absent_on_covered_nodes_def by (auto intro!: delete_missing_frame)
  with scan_writer.write_all_elsewhere [OF 1(3) assms(2)] 1(4) show ?thesis by simp
qed

lemma scan_cluster_absence:
  assumes "reconcile_scan_cluster i at clock pk d = Inr d'" "g \<in> set (guests d)" "g_cluster g = pk"
    "identity_of g \<notin> identities pk d'"
  shows "(g_node g \<in> set (si_covered_nodes i pk) \<or> scan_complete pk i \<and> g_node g = [])
    \<and> identity_of g \<notin> observed_identity ` set (cluster_observations pk i)"
  using assms(1)
proof (cases rule: scan_cluster_steps)
  case (1 c d1 d2)
  have "identities pk d' = identities pk d1 \<union> observed_identity ` set (cluster_observations pk i)"
    using scan_writer.write_all_identities [OF 1(3)] 1(4) by simp
  with assms(4) have "identity_of g \<notin> identities pk d1"
    and unseen: "identity_of g \<notin> observed_identity ` set (cluster_observations pk i)" by simp_all
  then have "g \<notin> set (guests d1)" using assms(3) by (auto simp: identities_def)
  with unseen assms(2) show ?thesis
    by (auto simp: 1(2) retire_absent_on_covered_nodes_def set_delete_missing)
qed

lemma scan_fold_elsewhere:
  "fold_result (reconcile_scan_cluster i at clock) pks d = Inr d' \<Longrightarrow> pk \<notin> set pks \<Longrightarrow>
   filter (\<lambda>g. g_cluster g = pk) (guests d') = filter (\<lambda>g. g_cluster g = pk) (guests d)"
proof (induction pks arbitrary: d)
  case (Cons p pks)
  then obtain d1 where "reconcile_scan_cluster i at clock p d = Inr d1" "fold_result (reconcile_scan_cluster i at clock) pks d1 = Inr d'"
    by (auto simp: result_simps)
  with Cons.IH Cons.prems(2) scan_cluster_elsewhere [of i at clock p d d1 pk] show ?case by simp
qed simp

lemma scan_fold_absence:
  assumes "fold_result (reconcile_scan_cluster i at clock) pks d = Inr d'" "distinct pks"
    "g \<in> set (guests d)" "identity_of g \<notin> identities (g_cluster g) d'"
  shows "g_cluster g \<in> set pks \<and> (g_node g \<in> set (si_covered_nodes i (g_cluster g)) \<or> scan_complete (g_cluster g) i \<and> g_node g = [])
    \<and> identity_of g \<notin> observed_identity ` set (cluster_observations (g_cluster g) i)"
  using assms
proof (induction pks arbitrary: d)
  case Nil
  then show ?case by (auto simp: identities_def)
next
  case (Cons p pks)
  then obtain d1 where d1: "reconcile_scan_cluster i at clock p d = Inr d1"
    and rest: "fold_result (reconcile_scan_cluster i at clock) pks d1 = Inr d'" by (auto simp: result_simps)
  show ?case
  proof (cases "g_cluster g = p")
    case True
    with Cons.prems(2) have "identities p d' = identities p d1"
      by (intro identities_frame scan_fold_elsewhere [OF rest]) simp
    with scan_cluster_absence [OF d1 Cons.prems(3) True] Cons.prems(4) True show ?thesis by simp
  next
    case False
    have "g \<in> set (guests d1)"
      using arg_cong [OF scan_cluster_elsewhere [OF d1 False], of set] Cons.prems(3) by auto
    with Cons.IH [OF rest] Cons.prems show ?thesis by simp
  qed
qed

text \<open>
  C14: a scan never invents an absence. A guest whose row is gone after a scan belonged to a cluster
  the scan attempted, sat on a node whose inventory was read in that scan (or on no node, and then
  every attempted node of the cluster was read), and was not among the guests observed there.
\<close>

theorem scan_absence_needs_coverage:
  assumes "reconcile_scan_guest_inventory i at clock d = Inr (st, d')" "g \<in> set (guests d)"
    and "identity_of g \<notin> identities (g_cluster g) d'"
  shows "g_cluster g \<in> ep_cluster ` set (si_attempted_endpoints i)
    \<and> (g_node g \<in> set (si_covered_nodes i (g_cluster g)) \<or> scan_complete (g_cluster g) i \<and> g_node g = [])
    \<and> identity_of g \<notin> observed_identity ` set (cluster_observations (g_cluster g) i)"
proof -
  have "fold_result (reconcile_scan_cluster i at clock) (remdups (map ep_cluster (si_attempted_endpoints i))) d = Inr d'"
    using assms(1) by (auto simp: reconcile_scan_guest_inventory_def Let_def result_simps)
  from scan_fold_absence [OF this _ assms(2,3)] show ?thesis by simp
qed


section \<open>The live reconciliation\<close>

lemma live_steps:
  assumes "reconcile_live_guest_inventory py v at clock d = Inr d'"
  obtains c d1 d2 where "first_where (\<lambda>c. cl_key c = vi_cluster_key v) (clusters d) = Some c"
    and "d1 = (if vi_complete v
               then d\<lparr>guests := delete_missing (\<lambda>g. g_cluster g = cl_pk c) (map summary_identity (vi_guests v)) (guests d)\<rparr>
               else d)"
    and "fold_result (write_live_guest py (publication_scope_of c d1)
           (filter (\<lambda>e. ep_cluster e = cl_pk c \<and> ep_enabled e) (endpoints d)) (cl_pk c) at) (vi_guests v) d1 = Inr d2"
    and "d' = update_state c (live_state_update v (current_inventory_state (Some (cl_pk c)) d2) at) clock d2"
  using assms
  by (auto simp: reconcile_live_guest_inventory_def Let_def result_simps split: option.splits if_splits)

lemma live_scope: "publication_scope_of c (d\<lparr>guests := rows\<rparr>) = publication_scope_of c d"
  by (rule publication_scope_frame) simp


lemma update_state_row:
  "current_inventory_state (Some (cl_pk c)) (update_state c u now d) =
     Some (save_state u (case current_inventory_state (Some (cl_pk c)) d of
        None \<Rightarrow> (new_guest_state (cl_pk c))\<lparr>gs_pk := next_pk gs_pk (guest_states d)\<rparr> | Some s \<Rightarrow> s))"
proof -
  have "gs_cluster (save_state u s) = gs_cluster s" for s by (simp add: save_state_def Let_def)
  moreover have "guest_states (update_state c u now d) = guest_states (upsert_state (cl_pk c) (save_state u) d)"
    using stamp_changes_clusters_only [of "Some c" "cl_pk c" "''guest_projection''" now "upsert_state (cl_pk c) (save_state u) d"]
    by (auto simp: update_state_def)
  ultimately show ?thesis
    by (simp add: current_inventory_state_def upsert_state_def first_where_upsert new_guest_state_def split: option.split)
qed

text \<open>
  C16: silence is not absence. When no member of a cluster answered the inventory read, the live
  reconciliation leaves every guest row as it was and records the pass as incomplete; if members
  were attempted the state is marked unreachable and its freshness does not advance.
\<close>

theorem silent_cluster_keeps_guests:
  assumes "fetch_verified_guest_inventory py mk resources c d = Inr v" "\<not> vi_complete v"
    and "reconcile_live_guest_inventory py v at clock d = Inr d'"
    and "first_where (\<lambda>c. cl_key c = vi_cluster_key v) (clusters d) = Some c"
  shows "guests d' = guests d \<and> (\<exists>s. current_inventory_state (Some (cl_pk c)) d' = Some s \<and> \<not> gs_complete s
      \<and> gs_unreachable s = (vi_attempted_endpoints v \<noteq> [])
      \<and> (\<forall>old. vi_attempted_endpoints v \<noteq> [] \<and> current_inventory_state (Some (cl_pk c)) d = Some old
          \<longrightarrow> gs_refreshed_at s = gs_refreshed_at old \<and> gs_last_complete_at s = gs_last_complete_at old))"
  using assms(3)
proof (cases rule: live_steps)
  case (1 c' d1 d2)
  have c': "c' = c" using 1(1) assms(4) by simp
  have empty: "vi_guests v = []" by (rule fetched_inventory(3) [OF assms(1,2)])
  with 1(2,3) assms(2) have d2: "d2 = d" by simp
  have d': "d' = update_state c (live_state_update v (current_inventory_state (Some (cl_pk c)) d) at) clock d"
    using 1(4) by (simp add: c' d2)
  show ?thesis
    unfolding d' update_state_row using assms(2)
    by (auto simp: save_state_def live_state_update_def vi_complete_def Let_def)
qed


section \<open>An installation to evaluate on\<close>

definition demo_enrollment :: "string \<Rightarrow> string \<Rightarrow> node_enrollment" where
  "demo_enrollment node mode =
     \<lparr>en_cluster = 1, en_node_name = node, en_node_ref_snapshot = [], en_mode = mode, en_enrolled_at = 0, en_enrolled_by = None,
      en_mode_changed_at = None, en_mode_changed_by = None, en_mode_change_reason = [], en_onboarded_via_endpoint = None\<rparr>"

definition demo_endpoint :: endpoint where
  "demo_endpoint = \<lparr>ep_pk = 5, ep_name = ''a'', ep_cluster = 1, ep_normalized_url = ''https://a'', ep_enabled = True,
     ep_last_health_status = [], ep_updated_at = 0, ep_url = ''https://a'', ep_details = JObj []\<rparr>"

definition demo_guest :: "nat \<Rightarrow> string \<Rightarrow> guest" where
  "demo_guest vmid node = (new_guest 1 ''vm'' vmid)\<lparr>g_pk := vmid, g_node := node\<rparr>"

definition demo_cluster :: cluster where
  "demo_cluster = (new_cluster 1 ''pve'' ''PVE'')\<lparr>cl_enrollment_contract_version := 1\<rparr>"

definition demo_db :: db where
  "demo_db = empty_db\<lparr>clusters := [demo_cluster],
     endpoints := [demo_endpoint], enrollments := [demo_enrollment ''a'' ''managed'', demo_enrollment ''b'' ''hidden''],
     guests := [demo_guest 100 ''a'', demo_guest 200 ''b'']\<rparr>"

definition demo_py :: python where
  "demo_py = \<lparr>py_str = (\<lambda>_. []), py_int = (\<lambda>v. case v of JInt i \<Rightarrow> Inr i | _ \<Rightarrow> Inl NotAnInt), py_float = (\<lambda>_. None)\<rparr>"

definition demo_summary :: "int \<Rightarrow> string \<Rightarrow> guest_summary" where
  "demo_summary vmid node =
     \<lparr>sg_node = node, sg_object_type = ''vm'', sg_vmid = vmid, sg_name = ''g'', sg_status = ''running'', sg_cpu = ''0.0'',
      sg_mem = 0, sg_maxmem = 0, sg_disk = 0, sg_maxdisk = 0, sg_uptime = 0, sg_lock = [], sg_is_template = False,
      sg_tags = [], sg_pool = [], sg_hastate = []\<rparr>"

definition demo_scan :: scan_input where
  "demo_scan = \<lparr>si_scan = 9, si_observations = [], si_attempted_endpoints = [demo_endpoint],
     si_successful_endpoints = [demo_endpoint], si_attempted_nodes = (\<lambda>_. [''a'', ''b'']), si_covered_nodes = (\<lambda>_. [''a'']),
     si_errors = JObj []\<rparr>"

lemma identities_list: "identities pk d = set (map identity_of (filter (\<lambda>g. g_cluster g = pk) (guests d)))"
  by (auto simp: identities_def)

text \<open>Node \<open>a\<close> was read and its guest is gone; node \<open>b\<close> was not, and its guest stays.\<close>

theorem scan_absence_needs_coverage_witness:
  "case reconcile_scan_guest_inventory demo_scan 7 8 demo_db of
     Inl _ \<Rightarrow> False
   | Inr (st, d') \<Rightarrow> (''vm'', 100) \<notin> identities 1 d' \<and> (''vm'', 200) \<in> identities 1 d'
       \<and> g_node (demo_guest 100 ''a'') \<in> set (si_covered_nodes demo_scan 1)"
proof -
  have eval: "case reconcile_scan_guest_inventory demo_scan 7 8 demo_db of
     Inl _ \<Rightarrow> False | Inr (st, d') \<Rightarrow> map g_vmid (guests d') = [200] \<and> guests d' = [demo_guest 200 ''b'']" by code_simp
  then obtain st d' where run: "reconcile_scan_guest_inventory demo_scan 7 8 demo_db = Inr (st, d')"
    and rows: "guests d' = [demo_guest 200 ''b'']" by (auto split: sum.splits prod.splits)
  have ids: "identities 1 d' = {(''vm'', 200)}"
    by (simp add: identities_list rows demo_guest_def new_guest_def identity_of_def)
  have row: "demo_guest 100 ''a'' \<in> set (guests demo_db)" by (simp add: demo_db_def)
  have gone: "identity_of (demo_guest 100 ''a'') \<notin> identities (g_cluster (demo_guest 100 ''a'')) d'"
    by (simp add: identities_list rows demo_guest_def new_guest_def identity_of_def)
  from scan_absence_needs_coverage [OF run row gone]
  have "g_node (demo_guest 100 ''a'') \<in> set (si_covered_nodes demo_scan 1)"
    by (auto simp: demo_guest_def new_guest_def demo_scan_def)
  with ids show ?thesis by (simp add: run)
qed

definition demo_inventory :: verified_inventory where
  "demo_inventory = \<lparr>vi_guests = [demo_summary 100 ''a'', demo_summary 300 ''b''], vi_attempted_endpoints = [''a''],
     vi_successful_endpoints = [''a''], vi_errors = [], vi_cluster_key = ''pve''\<rparr>"



text \<open>The cluster's only member refuses the connection.\<close>

theorem silent_cluster_keeps_guests_witness:
  "case fetch_verified_guest_inventory demo_py (\<lambda>_. Inr ()) (\<lambda>_. Inl (TransportError ''refused'' False))
          demo_cluster demo_db of
     Inl _ \<Rightarrow> False
   | Inr v \<Rightarrow> (case reconcile_live_guest_inventory demo_py v 7 8 demo_db of
       Inl _ \<Rightarrow> False
     | Inr d' \<Rightarrow> guests d' = guests demo_db
         \<and> (\<exists>s. current_inventory_state (Some 1) d' = Some s \<and> gs_unreachable s = (vi_attempted_endpoints v \<noteq> [])))"
proof -
  let ?fetch = "fetch_verified_guest_inventory demo_py (\<lambda>_. Inr ()) (\<lambda>_. Inl (TransportError ''refused'' False)) demo_cluster demo_db"
  have eval: "case ?fetch of Inl _ \<Rightarrow> False
    | Inr v \<Rightarrow> \<not> vi_complete v \<and> vi_cluster_key v = ''pve''
        \<and> (case reconcile_live_guest_inventory demo_py v 7 8 demo_db of Inl _ \<Rightarrow> False | Inr _ \<Rightarrow> True)" by code_simp
  then obtain v d' where v: "?fetch = Inr v" "\<not> vi_complete v" "vi_cluster_key v = ''pve''"
    and run: "reconcile_live_guest_inventory demo_py v 7 8 demo_db = Inr d'" by (auto split: sum.splits)
  have "first_where (\<lambda>c. cl_key c = vi_cluster_key v) (clusters demo_db) = Some demo_cluster"
    by (simp add: v(3) demo_db_def demo_cluster_def new_cluster_def)
  moreover have "cl_pk demo_cluster = 1" by (simp add: demo_cluster_def new_cluster_def)
  ultimately have "guests d' = guests demo_db
      \<and> (\<exists>s. current_inventory_state (Some 1) d' = Some s \<and> gs_unreachable s = (vi_attempted_endpoints v \<noteq> []))"
    using silent_cluster_keeps_guests [OF v(1,2) run] by metis
  then show ?thesis by (simp add: v(1) run)
qed

section \<open>Targeted writes and publication\<close>

text \<open>
  A targeted write does not stamp the row it creates: the guest of a node that is enrolled as hidden
  is published until the next reconciliation of its cluster.
\<close>

definition demo_fields :: guest_fields where
  "demo_fields = \<lparr>gf_node = ''b'', gf_name = ''clone'', gf_status = ''stopped'', gf_config = [], gf_cpu_usage = ''0'',
     gf_memory_used_bytes = 0, gf_memory_max_bytes = 0, gf_disk_used_bytes = 0, gf_disk_max_bytes = 0,
     gf_uptime_seconds = 0, gf_runtime_lock = []\<rparr>"

theorem targeted_write_publishes_hidden_guest:
  "case upsert_current_guest (Some 1) ''vm'' 300 demo_fields 7 demo_db of
     Inl _ \<Rightarrow> False
   | Inr d' \<Rightarrow> map (\<lambda>g. (g_vmid g, g_node g)) (filter (\<lambda>g. g_vmid g = 300) (published_guest_queryset d')) = [(300, ''b'')]
       \<and> (case get_cluster 1 d' of None \<Rightarrow> False | Some c \<Rightarrow> \<not> publishes (publication_scope_of c d') ''b'')"
  by code_simp

text \<open>
  A pass over a cluster without enabled endpoints reads nothing, yet its state is saved as
  refreshed now and not as unreachable.
\<close>

theorem pass_without_endpoints_advances_freshness:
  "case fetch_verified_guest_inventory demo_py (\<lambda>_. Inr ()) (\<lambda>_. Inl (TransportError ''refused'' False))
          demo_cluster (demo_db\<lparr>endpoints := []\<rparr>) of
     Inl _ \<Rightarrow> False
   | Inr v \<Rightarrow> (case reconcile_live_guest_inventory demo_py v 7 8 (demo_db\<lparr>endpoints := []\<rparr>) of
       Inl _ \<Rightarrow> False
     | Inr d' \<Rightarrow> (case current_inventory_state (Some 1) d' of
         None \<Rightarrow> False | Some s \<Rightarrow> gs_refreshed_at s = Some 7 \<and> \<not> gs_unreachable s \<and> \<not> gs_complete s))"
  by code_simp

end
