(* ===== verification/Scan_Inventory.thy ===== *)
theory Scan_Inventory
  imports Guest_Inventory
begin

text \<open>
  The inventory half of a scan (\<open>_run_scan\<close> of \<^verbatim>\<open>core/tasks.py\<close>): reading every endpoint's node, filling
  the gaps of a cluster through one reachable member, reconciling the guest projection, recording
  the coverage per cluster and deciding the storage gate; and the verdict on a scanned entry
  (\<open>ScanEntryClassifier\<close> of \<^verbatim>\<open>core/services/entry_classification.py\<close>).

  Parameters: the client of an endpoint, the clusters whose identity check failed, and what the
  storage catalog says of a path. The historical inventory rows of the scan are not kept.
\<close>

section \<open>Evidence\<close>

record 'w scan_evidence =
  ev_endpoint_attempts :: "string list"
  ev_endpoint_successes :: "string list"
  ev_endpoint_errors :: "(string \<times> json) list"
  ev_observations :: "guest_observation list"
  ev_successful :: "endpoint list"
  ev_referenced :: "string list"
  ev_templates :: "int list"
  ev_attempts :: "(nat \<times> string) list"
  ev_coverage :: "(nat \<times> string) list"
  ev_cluster_errors :: "(nat \<times> string \<times> json) list"
  ev_members :: "(nat \<times> endpoint \<times> 'w http) list"

definition no_evidence :: "'w scan_evidence" where
  "no_evidence = \<lparr>ev_endpoint_attempts = [], ev_endpoint_successes = [], ev_endpoint_errors = [], ev_observations = [],
     ev_successful = [], ev_referenced = [], ev_templates = [], ev_attempts = [], ev_coverage = [], ev_cluster_errors = [],
     ev_members = []\<rparr>"

definition nodes_of :: "nat \<Rightarrow> (nat \<times> string) list \<Rightarrow> string list" where
  "nodes_of pk pairs = remdups (map snd (filter (\<lambda>p. fst p = pk) pairs))"

text \<open>\<open>dict.setdefault\<close>, and a dictionary of dictionaries assigned at both keys.\<close>

definition set_default :: "'k \<Rightarrow> 'v \<Rightarrow> ('k \<times> 'v) list \<Rightarrow> ('k \<times> 'v) list" where
  "set_default k v m = (if k \<in> set (map fst m) then m else m @ [(k, v)])"

definition set_cluster_error :: "nat \<Rightarrow> string \<Rightarrow> json \<Rightarrow> (nat \<times> string \<times> json) list \<Rightarrow> (nat \<times> string \<times> json) list" where
  "set_cluster_error pk node v m = filter (\<lambda>(p, n, _). \<not> (p = pk \<and> n = node)) m @ [(pk, node, v)]"

definition is_template :: "(json \<Rightarrow> string) \<Rightarrow> json_object \<Rightarrow> bool" where
  "is_template str config =
     (let v = get_or_null config ''template'' in v = JBool True \<or> item_text str v = ''1'')"

definition scan_guest_of :: "proxmox_object \<Rightarrow> scan_guest" where
  "scan_guest_of ob =
     \<lparr>sn_node = po_node ob, sn_object_type = po_object_type ob, sn_vmid = Some (po_vmid ob), sn_name = po_name ob,
      sn_status = po_status ob, sn_config = po_config ob, sn_disk_references = po_disk_references ob\<rparr>"

definition ingest_object :: "python \<Rightarrow> endpoint \<Rightarrow> proxmox_object \<Rightarrow> 'w scan_evidence \<Rightarrow> 'w scan_evidence" where
  "ingest_object py e ob ev =
     ev\<lparr>ev_referenced := ev_referenced ev @ po_disk_references ob,
        ev_templates := (if po_object_type ob = ''vm'' \<and> is_template (py_str py) (po_config ob)
                         then ev_templates ev @ [po_vmid ob] else ev_templates ev),
        ev_observations := (if po_object_type ob \<in> {''vm'', ''ct''} then ev_observations ev @ [(e, scan_guest_of ob)]
                            else ev_observations ev)\<rparr>"

definition ingest_scan_objects :: "python \<Rightarrow> endpoint \<Rightarrow> inventory_result \<Rightarrow> 'w scan_evidence \<Rightarrow> 'w scan_evidence" where
  "ingest_scan_objects py e r ev = fold (ingest_object py e) (ir_objects r) ev"

section \<open>Reading the nodes\<close>

text \<open>A loop whose body may raise and may change the provider.\<close>

fun fold_io :: "('a \<Rightarrow> 's \<Rightarrow> 'w \<Rightarrow> ('e, 's) result \<times> 'w) \<Rightarrow> 'a list \<Rightarrow> 's \<Rightarrow> 'w \<Rightarrow> ('e, 's) result \<times> 'w" where
  "fold_io f [] s w = (Inr s, w)"
| "fold_io f (x # xs) s w = (case f x s w of (Inl e, w') \<Rightarrow> (Inl e, w') | (Inr s', w') \<Rightarrow> fold_io f xs s' w')"

definition scan_endpoints :: "db \<Rightarrow> endpoint list" where
  "scan_endpoints d =
     sort_key ep_name (filter (\<lambda>e. ep_enabled e
       \<and> \<not> exists_where (\<lambda>c. cl_pk c = ep_cluster e \<and> \<not> cl_enabled c) (clusters d)
       \<and> \<not> exists_where (\<lambda>s. ms_cluster s = ep_cluster e \<and> ms_transition_pending s) (membership_states d)) (endpoints d))"

definition save_endpoint :: "endpoint \<Rightarrow> string \<Rightarrow> json \<Rightarrow> db \<Rightarrow> db" where
  "save_endpoint e status details d =
     d\<lparr>endpoints := update_where (\<lambda>x. ep_pk x = ep_pk e) (\<lambda>x. x\<lparr>ep_last_health_status := status, ep_details := details\<rparr>) (endpoints d)\<rparr>"

definition scan_endpoint ::
    "python \<Rightarrow> (endpoint \<Rightarrow> (string, 'w http) result) \<Rightarrow> nat list \<Rightarrow> endpoint \<Rightarrow> 'w scan_evidence \<times> db \<Rightarrow> 'w
      \<Rightarrow> (string, 'w scan_evidence \<times> db) result \<times> 'w" where
  "scan_endpoint py mk quarantined e s w =
     (case mk e of
        Inl err \<Rightarrow> (Inl err, w)
      | Inr h \<Rightarrow>
          (case discover_node_name h (ep_name e) w of
             (None, w1) \<Rightarrow> (Inl ''AttributeError'', w1)
           | (Some node, w1) \<Rightarrow>
               let (ev0, d) = s; pk = ep_cluster e;
                   ev = ev0\<lparr>ev_endpoint_attempts := ev_endpoint_attempts ev0 @ [node], ev_attempts := ev_attempts ev0 @ [(pk, node)]\<rparr>
               in if pk \<in> set quarantined
                  then (Inr (ev\<lparr>ev_cluster_errors := set_cluster_error pk node (JList [JStr ''cluster identity quarantined'']) (ev_cluster_errors ev)\<rparr>,
                          save_endpoint e ''quarantined'' (JObj [(''node'', JStr node), (''quarantined'', JBool True)]) d), w1)
                  else (case node_inventory py h node w1 of
                     (Inl err, w2) \<Rightarrow> (Inl err, w2)
                   | (Inr r, w2) \<Rightarrow>
                       if ir_ok r
                       then (Inr (ingest_scan_objects py e r
                               (ev\<lparr>ev_endpoint_successes := ev_endpoint_successes ev @ [node], ev_successful := ev_successful ev @ [e],
                                   ev_coverage := ev_coverage ev @ [(pk, node)], ev_members := set_default pk (e, h) (ev_members ev)\<rparr>),
                              save_endpoint e ''ok'' (JObj [(''node'', JStr node)]) d), w2)
                       else (Inr (ingest_scan_objects py e r
                               (ev\<lparr>ev_endpoint_errors := dict_set node (JList (ir_errors r)) (ev_endpoint_errors ev),
                                   ev_cluster_errors := set_cluster_error pk node (JList (ir_errors r)) (ev_cluster_errors ev)\<rparr>),
                              save_endpoint e ''error'' (JObj [(''node'', JStr node), (''errors'', JList (ir_errors r))]) d), w2))))"

definition fill_node ::
    "python \<Rightarrow> nat \<Rightarrow> endpoint \<Rightarrow> 'w http \<Rightarrow> string \<Rightarrow> 'w scan_evidence \<Rightarrow> 'w \<Rightarrow> (string, 'w scan_evidence) result \<times> 'w" where
  "fill_node py pk e h node ev w =
     (if (pk, node) \<in> set (ev_coverage ev) then (Inr ev, w)
      else (case node_inventory py h node w of
         (Inl err, w1) \<Rightarrow> (Inl err, w1)
       | (Inr r, w1) \<Rightarrow>
           let ev1 = ev\<lparr>ev_endpoint_attempts := ev_endpoint_attempts ev @ [node], ev_attempts := ev_attempts ev @ [(pk, node)]\<rparr> in
           if ir_ok r
           then (Inr (ingest_scan_objects py e r
                   (ev1\<lparr>ev_endpoint_successes := ev_endpoint_successes ev1 @ [node], ev_coverage := ev_coverage ev1 @ [(pk, node)]\<rparr>)), w1)
           else (Inr (ev1\<lparr>ev_endpoint_errors := dict_set node (JList (ir_errors r)) (ev_endpoint_errors ev1),
                          ev_cluster_errors := set_cluster_error pk node (JList (ir_errors r)) (ev_cluster_errors ev1)\<rparr>), w1)))"

definition fill_gaps ::
    "python \<Rightarrow> nat \<times> endpoint \<times> 'w http \<Rightarrow> 'w scan_evidence \<Rightarrow> 'w \<Rightarrow> (string, 'w scan_evidence) result \<times> 'w" where
  "fill_gaps py member ev w =
     (case member of (pk, e, h) \<Rightarrow>
        (case node_names h [] w of
           (None, w1) \<Rightarrow> (Inl ''AttributeError'', w1)
         | (Some nodes, w1) \<Rightarrow> fold_io (fill_node py pk e h) nodes ev w1))"

definition gather_evidence ::
    "python \<Rightarrow> (endpoint \<Rightarrow> (string, 'w http) result) \<Rightarrow> nat list \<Rightarrow> endpoint list \<Rightarrow> db \<Rightarrow> 'w
      \<Rightarrow> (string, 'w scan_evidence \<times> db) result \<times> 'w" where
  "gather_evidence py mk quarantined es d w =
     (case fold_io (scan_endpoint py mk quarantined) es (no_evidence, d) w of
        (Inl err, w1) \<Rightarrow> (Inl err, w1)
      | (Inr (ev, d1), w1) \<Rightarrow>
          (case fold_io (fill_gaps py) (ev_members ev) ev w1 of
             (Inl err, w2) \<Rightarrow> (Inl err, w2)
           | (Inr ev2, w2) \<Rightarrow> (Inr (ev2, d1), w2)))"


section \<open>Coverage rows and the storage gate\<close>

definition record_cluster_observation :: "nat \<Rightarrow> 'w scan_evidence \<Rightarrow> time \<Rightarrow> nat \<Rightarrow> db \<Rightarrow> db" where
  "record_cluster_observation scan ev now pk d =
     (let attempted = sort (nodes_of pk (ev_attempts ev)); succeeded = sort (nodes_of pk (ev_coverage ev));
          errs = map snd (filter (\<lambda>p. fst p = pk) (ev_cluster_errors ev));
          save = (\<lambda>o'. o'\<lparr>so_nodes_attempted := attempted, so_nodes_succeeded := succeeded, so_errors := errs\<rparr>);
          d1 = d\<lparr>scan_observations := upsert_where (\<lambda>o'. so_scan_run o' = scan \<and> so_cluster o' = pk)
                 \<lparr>so_scan_run = scan, so_cluster = pk, so_nodes_attempted = [], so_nodes_succeeded = [], so_errors = []\<rparr>
                 save (scan_observations d)\<rparr>
      in snd (stamp_operational_footprint None pk ''scan_observation'' now d1))"

definition record_cluster_observations :: "nat \<Rightarrow> endpoint list \<Rightarrow> 'w scan_evidence \<Rightarrow> time \<Rightarrow> db \<Rightarrow> db" where
  "record_cluster_observations scan es ev now d =
     fold (record_cluster_observation scan ev now) (remdups (map ep_cluster es)) d"

record gate =
  gt_ok :: bool
  gt_status :: string
  gt_expected_consumers :: "string list"
  gt_inventoried_consumers :: "string list"
  gt_missing_consumers :: "string list"
  gt_expected_node_refs :: "string list"
  gt_missing_node_refs :: "string list"

definition consumer_covered :: "(nat \<times> string) list \<Rightarrow> storage_consumer \<Rightarrow> bool" where
  "consumer_covered coverage k = (sc_expected_node_name k \<in> set (nodes_of (sc_cluster k) coverage))"

text \<open>\<open>consumer.node_ref().serialize()\<close>: a reference that cannot be built raises.\<close>

definition consumer_ref :: "db \<Rightarrow> storage_consumer \<Rightarrow> (ref_error, string) result" where
  "consumer_ref d k =
     bind_result (make_node_ref (case get_cluster (sc_cluster k) d of Some c \<Rightarrow> cl_key c | None \<Rightarrow> []) (sc_expected_node_name k))
       (\<lambda>r. Inr (serialize_node_ref r))"

definition gate_row :: "string list \<Rightarrow> (nat \<times> string) list \<Rightarrow> time \<Rightarrow> storage_consumer \<Rightarrow> storage_consumer" where
  "gate_row expected coverage inventory_at k =
     (if sc_expected_node_name k \<notin> set expected then k\<lparr>sc_last_gate_status := ''not_expected''\<rparr>
      else if consumer_covered coverage k
      then k\<lparr>sc_last_successful_inventory_scan := Some inventory_at, sc_last_gate_status := ''ok''\<rparr>
      else k\<lparr>sc_last_gate_status := ''unavailable''\<rparr>)"

definition gate_of_mount ::
    "(nat \<times> string) list \<Rightarrow> time \<Rightarrow> storage_mount \<Rightarrow> (string \<times> gate) list \<times> db \<Rightarrow> (ref_error, (string \<times> gate) list \<times> db) result" where
  "gate_of_mount coverage inventory_at m s =
     (let (result, d) = s; expected = sm_expected_consumers m;
          consumers = filter (\<lambda>k. sc_storage k = sm_pk m) (storage_consumers d);
          relevant = filter (\<lambda>k. sc_expected_node_name k \<in> set expected) consumers;
          missing = filter (\<lambda>k. \<not> consumer_covered coverage k) relevant;
          unqualified = filter (\<lambda>n. n \<notin> set (map sc_expected_node_name consumers)) (remdups expected);
          missing_names = map sc_expected_node_name missing @ unqualified
      in bind_result (map_result (consumer_ref d) relevant) (\<lambda>refs.
         bind_result (map_result (consumer_ref d) missing) (\<lambda>missing_refs.
           Inr (dict_set (sm_storage_id m)
                  \<lparr>gt_ok = (missing_names = []),
                   gt_status = (if missing_names = [] then ''complete'' else ''inventory incomplete''),
                   gt_expected_consumers = sort (remdups expected),
                   gt_inventoried_consumers = sort (map sc_expected_node_name (filter (consumer_covered coverage) relevant)),
                   gt_missing_consumers = sort missing_names, gt_expected_node_refs = sort refs,
                   gt_missing_node_refs = sort (missing_refs @ unqualified)\<rparr> result,
                d\<lparr>storage_consumers := update_where (\<lambda>k. sc_storage k = sm_pk m)
                    (gate_row expected coverage inventory_at) (storage_consumers d)\<rparr>))))"

definition storage_gate_status ::
    "storage_mount list \<Rightarrow> (nat \<times> string) list \<Rightarrow> time \<Rightarrow> db \<Rightarrow> (ref_error, (string \<times> gate) list \<times> db) result" where
  "storage_gate_status mounts coverage inventory_at d = fold_result (gate_of_mount coverage inventory_at) mounts ([], d)"

section \<open>The inventory half of a scan\<close>

datatype scan_error = ScanFailed string | ScanRefError ref_error

definition scan_input_of :: "nat \<Rightarrow> endpoint list \<Rightarrow> 'w scan_evidence \<Rightarrow> scan_input" where
  "scan_input_of scan es ev =
     \<lparr>si_scan = scan, si_observations = ev_observations ev, si_attempted_endpoints = es,
      si_successful_endpoints = ev_successful ev, si_attempted_nodes = (\<lambda>pk. nodes_of pk (ev_attempts ev)),
      si_covered_nodes = (\<lambda>pk. nodes_of pk (ev_coverage ev)), si_errors = JObj (ev_endpoint_errors ev)\<rparr>"

definition enabled_mounts :: "db \<Rightarrow> storage_mount list" where
  "enabled_mounts d = sort_key sm_display_name (filter sm_enabled (storage_mounts d))"

definition scan_inventory ::
    "python \<Rightarrow> (endpoint \<Rightarrow> (string, 'w http) result) \<Rightarrow> nat list \<Rightarrow> nat \<Rightarrow> time \<Rightarrow> db \<Rightarrow> 'w
      \<Rightarrow> (scan_error, 'w scan_evidence \<times> (string \<times> gate) list \<times> db) result \<times> 'w" where
  "scan_inventory py mk quarantined scan now d w =
     (let es = scan_endpoints d; mounts = enabled_mounts d in
      case gather_evidence py mk quarantined es d w of
        (Inl err, w1) \<Rightarrow> (Inl (ScanFailed err), w1)
      | (Inr (ev, d1), w1) \<Rightarrow>
          (bind_result (map_error ScanFailed (reconcile_scan_guest_inventory (scan_input_of scan es ev) now now d1)) (\<lambda>r.
             let d2 = record_cluster_observations scan es ev now (snd r) in
             bind_result (map_error ScanRefError (storage_gate_status mounts (ev_coverage ev) now d2)) (\<lambda>(gates, d3).
               Inr (ev, gates, d3))), w1))"

section \<open>The verdict on an entry\<close>

text \<open>The context a mount's entries are classified in: the gate is looked up by the mount's storage id.\<close>

definition mount_context :: "'w scan_evidence \<Rightarrow> (string \<times> gate) list \<Rightarrow> storage_mount \<Rightarrow> classifier_context" where
  "mount_context ev gates m =
     \<lparr>cx_referenced_volids = ev_referenced ev, cx_template_vmids = ev_templates ev,
      cx_gate_ok = (case map_of gates (sm_storage_id m) of None \<Rightarrow> False | Some g \<Rightarrow> gt_ok g),
      cx_missing_consumers = (case map_of gates (sm_storage_id m) of None \<Rightarrow> [] | Some g \<Rightarrow> gt_missing_consumers g)\<rparr>"

definition CATALOG_AUTHORITATIVE_CATEGORIES :: "string list" where
  "CATALOG_AUTHORITATIVE_CATEGORIES = [''vm_disk'', ''base_image'']"

definition scan_classify ::
    "(string \<Rightarrow> classification_result option) \<Rightarrow> classifier_context \<Rightarrow> string \<Rightarrow> string \<Rightarrow> string \<Rightarrow> classification_result" where
  "scan_classify catalog cx storage_id relative entry_type =
     (let legacy = classify_scanned cx storage_id relative entry_type in
      if entry_category storage_id relative \<notin> set CATALOG_AUTHORITATIVE_CATEGORIES then legacy
      else (case catalog relative of
         None \<Rightarrow> legacy
       | Some c \<Rightarrow> c\<lparr>cs_evidence := dict_set ''comparison'' (JObj [(''legacy'', JStr (cs_classification legacy)),
              (''catalog'', JStr (cs_classification c)),
              (''matched'', JBool (cs_classification legacy = cs_classification c))]) (cs_evidence c)\<rparr>))"


section \<open>What a covered node means\<close>

text \<open>
  A covered node was read without errors, and the volumes of every guest found there are among
  the references of the scan.
\<close>

definition read_ok :: "python \<Rightarrow> string \<Rightarrow> string list \<Rightarrow> 'w http \<times> 'w \<times> inventory_result \<times> 'w \<Rightarrow> bool" where
  "read_ok py node referenced reading =
     (case reading of (h, w, r, w') \<Rightarrow> node_inventory py h node w = (Inr r, w') \<and> ir_ok r
        \<and> (\<forall>ob\<in>set (ir_objects r). set (po_disk_references ob) \<subseteq> set referenced))"

definition was_read :: "python \<Rightarrow> string \<Rightarrow> 'w scan_evidence \<Rightarrow> bool" where
  "was_read py node ev = (\<exists>reading :: 'w http \<times> 'w \<times> inventory_result \<times> 'w. read_ok py node (ev_referenced ev) reading)"

definition evidence_ok :: "python \<Rightarrow> nat list \<Rightarrow> 'w scan_evidence \<Rightarrow> bool" where
  "evidence_ok py quarantined ev =
     ((\<forall>p\<in>set (ev_coverage ev). fst p \<notin> set quarantined \<and> was_read py (snd p) ev)
      \<and> (\<forall>member\<in>set (ev_members ev). fst member \<notin> set quarantined))"

lemma read_ok_mono: "read_ok py node refs reading \<Longrightarrow> set refs \<subseteq> set refs' \<Longrightarrow> read_ok py node refs' reading"
  by (auto simp: read_ok_def)

lemma was_read_mono:
  fixes ev ev' :: "'w scan_evidence"
  assumes "was_read py node ev" "set (ev_referenced ev) \<subseteq> set (ev_referenced ev')"
  shows "was_read py node ev'"
proof -
  obtain reading :: "'w http \<times> 'w \<times> inventory_result \<times> 'w" where "read_ok py node (ev_referenced ev) reading"
    using assms(1) unfolding was_read_def by (rule exE)
  from read_ok_mono [OF this assms(2)] show ?thesis unfolding was_read_def by (rule exI)
qed

lemma ingest_frame [simp]:
  "ev_coverage (ingest_scan_objects py e r ev) = ev_coverage ev"
  "ev_members (ingest_scan_objects py e r ev) = ev_members ev"
proof -
  have "ev_coverage (fold (ingest_object py e) obs ev) = ev_coverage ev
      \<and> ev_members (fold (ingest_object py e) obs ev) = ev_members ev" for obs
    by (induction obs arbitrary: ev) (simp_all add: ingest_object_def)
  then show "ev_coverage (ingest_scan_objects py e r ev) = ev_coverage ev"
    "ev_members (ingest_scan_objects py e r ev) = ev_members ev"
    by (simp_all add: ingest_scan_objects_def)
qed

lemma ingest_referenced:
  "set (ev_referenced (ingest_scan_objects py e r ev)) = set (ev_referenced ev) \<union> (\<Union>ob\<in>set (ir_objects r). set (po_disk_references ob))"
proof -
  have "set (ev_referenced (fold (ingest_object py e) obs ev)) = set (ev_referenced ev) \<union> (\<Union>ob\<in>set obs. set (po_disk_references ob))" for obs
    by (induction obs arbitrary: ev) (auto simp: ingest_object_def)
  then show ?thesis by (simp add: ingest_scan_objects_def)
qed

lemma evidence_ok_frame:
  fixes ev ev' :: "'w scan_evidence"
  shows "evidence_ok py quarantined ev \<Longrightarrow> ev_coverage ev' = ev_coverage ev \<Longrightarrow> ev_referenced ev' = ev_referenced ev \<Longrightarrow>
   ev_members ev' = ev_members ev \<Longrightarrow> evidence_ok py quarantined ev'"
  by (simp add: evidence_ok_def was_read_def)

text \<open>Ingesting an error-free inventory of a cluster that is not quarantined keeps the evidence sound.\<close>

lemma ingest_ok:
  fixes ev ev' :: "'w scan_evidence" and h :: "'w http"
  assumes "evidence_ok py quarantined ev" "node_inventory py h node w = (Inr r, w')" "ir_ok r" "pk \<notin> set quarantined"
    and "ev_coverage ev' = ev_coverage ev @ [(pk, node)]" "ev_referenced ev' = ev_referenced ev"
    and "\<forall>member\<in>set (ev_members ev'). fst member \<notin> set quarantined"
  shows "evidence_ok py quarantined (ingest_scan_objects py e r ev')"
proof -
  let ?ev = "ingest_scan_objects py e r ev'"
  have "read_ok py node (ev_referenced ?ev) (h, w, r, w')"
    using assms(2,3) ingest_referenced [of py e r ev'] by (auto simp: read_ok_def)
  then have new: "was_read py node ?ev" unfolding was_read_def by (rule exI)
  have "set (ev_referenced ev) \<subseteq> set (ev_referenced ?ev)" using assms(6) ingest_referenced [of py e r ev'] by auto
  then show ?thesis
    using assms(1,4,5,7) new by (auto simp: evidence_ok_def intro: was_read_mono)
qed

lemma ingest_more:
  fixes ev ev' :: "'w scan_evidence"
  assumes "evidence_ok py quarantined ev" "ev_coverage ev' = ev_coverage ev" "ev_referenced ev' = ev_referenced ev"
    "ev_members ev' = ev_members ev"
  shows "evidence_ok py quarantined (ingest_scan_objects py e r ev')"
  using assms ingest_referenced [of py e r ev'] by (auto simp: evidence_ok_def intro: was_read_mono)

lemma scan_endpoint_ok:
  assumes "scan_endpoint py mk quarantined e (ev, d) w = (Inr (ev', d'), w')" "evidence_ok py quarantined ev"
  shows "evidence_ok py quarantined ev' \<and> (\<exists>es. d' = d\<lparr>endpoints := es\<rparr>)"
proof -
  obtain h node w1 where h: "mk e = Inr h" and node: "discover_node_name h (ep_name e) w = (Some node, w1)"
    using assms(1) by (auto simp: scan_endpoint_def split: sum.splits prod.splits option.splits)
  show ?thesis
  proof (cases "ep_cluster e \<in> set quarantined")
    case True
    with assms h node show ?thesis
      by (auto simp: scan_endpoint_def Let_def save_endpoint_def intro: evidence_ok_frame [OF assms(2)])
  next
    case False
    obtain r w2 where r: "node_inventory py h node w1 = (Inr r, w2)"
      using assms(1) h node False by (auto simp: scan_endpoint_def Let_def split: sum.splits prod.splits)
    show ?thesis
    proof (cases "ir_ok r")
      case True
      have members: "\<forall>member\<in>set (set_default (ep_cluster e) (e, h) (ev_members ev)). fst member \<notin> set quarantined"
        using assms(2) False by (auto simp: evidence_ok_def set_default_def)
      from assms(1) h node False r True have ev': "ev' = ingest_scan_objects py e r
          (ev\<lparr>ev_endpoint_attempts := ev_endpoint_attempts ev @ [node], ev_attempts := ev_attempts ev @ [(ep_cluster e, node)],
              ev_endpoint_successes := ev_endpoint_successes ev @ [node], ev_successful := ev_successful ev @ [e],
              ev_coverage := ev_coverage ev @ [(ep_cluster e, node)], ev_members := set_default (ep_cluster e) (e, h) (ev_members ev)\<rparr>)"
        and d': "\<exists>es. d' = d\<lparr>endpoints := es\<rparr>"
        by (auto simp: scan_endpoint_def Let_def save_endpoint_def)
      have "evidence_ok py quarantined ev'"
        unfolding ev' by (rule ingest_ok [OF assms(2) r True False]) (simp_all add: members)
      with d' show ?thesis by blast
    next
      case bad: False
      from assms(1) h node False r bad show ?thesis
        by (auto simp: scan_endpoint_def Let_def save_endpoint_def intro!: ingest_more [OF assms(2)])
    qed
  qed
qed

lemma fill_node_ok:
  assumes "fill_node py pk e h node ev w = (Inr ev', w')" "evidence_ok py quarantined ev" "pk \<notin> set quarantined"
  shows "evidence_ok py quarantined ev' \<and> ev_members ev' = ev_members ev"
proof (cases "(pk, node) \<in> set (ev_coverage ev)")
  case True
  with assms show ?thesis by (simp add: fill_node_def)
next
  case False
  obtain r w1 where r: "node_inventory py h node w = (Inr r, w1)"
    using assms(1) False by (auto simp: fill_node_def split: sum.splits prod.splits)
  show ?thesis
  proof (cases "ir_ok r")
    case True
    have "\<forall>member\<in>set (ev_members ev). fst member \<notin> set quarantined" using assms(2) by (simp add: evidence_ok_def)
    with assms(1) False r True show ?thesis
      by (auto simp: fill_node_def Let_def intro!: ingest_ok [OF assms(2) r True assms(3)])
  next
    case bad: False
    with assms False r show ?thesis by (auto simp: fill_node_def Let_def intro: evidence_ok_frame [OF assms(2)])
  qed
qed

lemma fold_io_invariant:
  assumes "fold_io f xs s w = (Inr s', w')" "I s"
    and "\<And>x s w s' w'. x \<in> set xs \<Longrightarrow> I s \<Longrightarrow> f x s w = (Inr s', w') \<Longrightarrow> I s'"
  shows "I s'"
  using assms
proof (induction xs arbitrary: s w)
  case (Cons x xs)
  obtain s1 w1 where one: "f x s w = (Inr s1, w1)" and rest: "fold_io f xs s1 w1 = (Inr s', w')"
    using Cons.prems(1) by (auto split: sum.splits prod.splits)
  from Cons.prems(2,3) one have "I s1" by (meson list.set_intros(1))
  with Cons.IH [OF rest] Cons.prems(3) show ?case by (meson list.set_intros(2))
qed simp

lemma gather_evidence_ok:
  assumes "gather_evidence py mk quarantined es d w = (Inr (ev, d'), w')"
  shows "evidence_ok py quarantined ev \<and> (\<exists>es. d' = d\<lparr>endpoints := es\<rparr>)"
proof -
  obtain ev1 w1 where first: "fold_io (scan_endpoint py mk quarantined) es (no_evidence, d) w = (Inr (ev1, d'), w1)"
    and second: "fold_io (fill_gaps py) (ev_members ev1) ev1 w1 = (Inr ev, w')"
    using assms by (auto simp: gather_evidence_def split: sum.splits prod.splits)
  have "(\<lambda>(ev, d'). evidence_ok py quarantined ev \<and> (\<exists>es. d' = d\<lparr>endpoints := es\<rparr>)) (ev1, d')"
    using first
  proof (rule fold_io_invariant)
    show "case (no_evidence, d) of (ev, d') \<Rightarrow> evidence_ok py quarantined ev \<and> (\<exists>es. d' = d\<lparr>endpoints := es\<rparr>)"
      by (auto simp: evidence_ok_def no_evidence_def intro: exI [of _ "endpoints d"])
  qed (auto dest!: scan_endpoint_ok)
  then have one: "evidence_ok py quarantined ev1" and db: "\<exists>es. d' = d\<lparr>endpoints := es\<rparr>" by auto
  have members: "\<forall>member\<in>set (ev_members ev1). fst member \<notin> set quarantined" using one by (simp add: evidence_ok_def)
  have "evidence_ok py quarantined ev"
    using second
  proof (rule fold_io_invariant [where I = "evidence_ok py quarantined"])
    show "evidence_ok py quarantined ev1" by (rule one)
    fix member s v s' v' assume member: "member \<in> set (ev_members ev1)" and s: "evidence_ok py quarantined s"
      and run: "fill_gaps py member s v = (Inr s', v')"
    obtain pk e h where m: "member = (pk, e, h)" by (cases member)
    with members member have pk: "pk \<notin> set quarantined" by force
    obtain nodes v1 where "fold_io (fill_node py pk e h) nodes s v1 = (Inr s', v')"
      using run m by (auto simp: fill_gaps_def split: option.splits prod.splits)
    then show "evidence_ok py quarantined s'"
    proof (rule fold_io_invariant [where I = "evidence_ok py quarantined"])
      show "evidence_ok py quarantined s" by (rule s)
      show "evidence_ok py quarantined t'"
        if "node \<in> set nodes" "evidence_ok py quarantined t" "fill_node py pk e h node t u = (Inr t', u')" for node t u t' u'
        using fill_node_ok [OF that(3,2) pk] by (rule conjunct1)
    qed
  qed
  with db show ?thesis by blast
qed


section \<open>What the gate promises\<close>

definition consumer_keys :: "db \<Rightarrow> (nat \<times> nat \<times> string) list" where
  "consumer_keys d = map (\<lambda>k. (sc_storage k, sc_cluster k, sc_expected_node_name k)) (storage_consumers d)"

text \<open>Every expected node has a consumer row, and every such row is covered in its own cluster.\<close>

definition mount_covered :: "(nat \<times> string) list \<Rightarrow> storage_mount \<Rightarrow> (nat \<times> nat \<times> string) list \<Rightarrow> bool" where
  "mount_covered coverage m keys =
     ((\<forall>n\<in>set (sm_expected_consumers m). \<exists>pk. (sm_pk m, pk, n) \<in> set keys)
      \<and> (\<forall>pk n. (sm_pk m, pk, n) \<in> set keys \<and> n \<in> set (sm_expected_consumers m) \<longrightarrow> (pk, n) \<in> set coverage))"

lemma consumer_covered_iff: "consumer_covered coverage k \<longleftrightarrow> (sc_cluster k, sc_expected_node_name k) \<in> set coverage"
  by (force simp: consumer_covered_def nodes_of_def)

lemma consumer_key_iff:
  "(s, pk, n) \<in> set (consumer_keys d) \<longleftrightarrow>
     (\<exists>k\<in>set (storage_consumers d). sc_storage k = s \<and> sc_cluster k = pk \<and> sc_expected_node_name k = n)"
  by (auto simp: consumer_keys_def image_iff)

lemma gate_row_key [simp]:
  "sc_storage (gate_row e c at k) = sc_storage k" "sc_cluster (gate_row e c at k) = sc_cluster k"
  "sc_expected_node_name (gate_row e c at k) = sc_expected_node_name k"
  by (simp_all add: gate_row_def)

lemma gate_of_mount_ok:
  assumes "gate_of_mount coverage at m (result, d) = Inr (result', d')"
  obtains g where "result' = dict_set (sm_storage_id m) g result" "gt_ok g \<longleftrightarrow> mount_covered coverage m (consumer_keys d)"
    "consumer_keys d' = consumer_keys d"
proof -
  let ?consumers = "filter (\<lambda>k. sc_storage k = sm_pk m) (storage_consumers d)"
  let ?relevant = "filter (\<lambda>k. sc_expected_node_name k \<in> set (sm_expected_consumers m)) ?consumers"
  let ?missing = "map sc_expected_node_name (filter (\<lambda>k. \<not> consumer_covered coverage k) ?relevant)
     @ filter (\<lambda>n. n \<notin> set (map sc_expected_node_name ?consumers)) (remdups (sm_expected_consumers m))"
  obtain g where g: "result' = dict_set (sm_storage_id m) g result" "gt_ok g \<longleftrightarrow> ?missing = []"
    and d': "d' = d\<lparr>storage_consumers := update_where (\<lambda>k. sc_storage k = sm_pk m)
        (gate_row (sm_expected_consumers m) coverage at) (storage_consumers d)\<rparr>"
    using assms by (auto simp: gate_of_mount_def Let_def result_simps)
  have "?missing = [] \<longleftrightarrow> mount_covered coverage m (consumer_keys d)"
    unfolding mount_covered_def consumer_key_iff by (auto simp: consumer_covered_iff filter_empty_conv image_iff) metis
  moreover have "consumer_keys d' = consumer_keys d"
    by (simp add: d' consumer_keys_def map_update_where)
  ultimately show ?thesis using that g by metis
qed

lemma gate_fold_ok:
  assumes "fold_result (gate_of_mount coverage at) mounts (result, d) = Inr (gates, d')"
  shows "consumer_keys d' = consumer_keys d
    \<and> (\<forall>sid. sid \<notin> sm_storage_id ` set mounts \<longrightarrow> map_of gates sid = map_of result sid)
    \<and> (distinct (map sm_storage_id mounts) \<longrightarrow> (\<forall>m\<in>set mounts. \<exists>g. map_of gates (sm_storage_id m) = Some g
         \<and> (gt_ok g \<longleftrightarrow> mount_covered coverage m (consumer_keys d))))"
  using assms
proof (induction mounts arbitrary: result d)
  case (Cons m mounts)
  then obtain r1 d1 where one: "gate_of_mount coverage at m (result, d) = Inr (r1, d1)"
    and rest: "fold_result (gate_of_mount coverage at) mounts (r1, d1) = Inr (gates, d')"
    by (auto simp: result_simps)
  obtain g where g: "r1 = dict_set (sm_storage_id m) g result" "gt_ok g \<longleftrightarrow> mount_covered coverage m (consumer_keys d)"
    "consumer_keys d1 = consumer_keys d" using one by (rule gate_of_mount_ok)
  from Cons.IH [OF rest] g show ?case by (auto simp: dict_set_map_of)
qed simp

lemma scan_cluster_consumers:
  assumes "reconcile_scan_cluster i at clock pk d = Inr d'"
  shows "storage_consumers d' = storage_consumers d"
  using assms
proof (cases rule: scan_cluster_steps)
  case (1 c d1 d2)
  obtain rows where "d2 = d1\<lparr>guests := rows\<rparr>" using scan_writer.write_all(4) [OF 1(3)] by blast
  moreover have "storage_consumers (update_state c u now x) = storage_consumers x" for u now x
    using stamp_changes_clusters_only [of "Some c" "cl_pk c" "''guest_projection''" now "upsert_state (cl_pk c) (save_state u) x"]
    by (auto simp: update_state_def upsert_state_def)
  ultimately show ?thesis by (simp add: 1(2,4))
qed

lemma scan_reconcile_consumers:
  assumes "reconcile_scan_guest_inventory i at clock d = Inr (st, d')"
  shows "storage_consumers d' = storage_consumers d"
proof -
  have "storage_consumers d2 = storage_consumers d1"
    if "fold_result (reconcile_scan_cluster i at clock) pks d1 = Inr d2" for pks d1 d2
    using that by (induction pks arbitrary: d1) (auto simp: result_simps dest!: scan_cluster_consumers)
  then show ?thesis using assms by (auto simp: reconcile_scan_guest_inventory_def Let_def result_simps)
qed

lemma record_observations_consumers [simp]:
  "storage_consumers (record_cluster_observations scan es ev now d) = storage_consumers d"
proof -
  have one: "storage_consumers (record_cluster_observation scan ev now pk d) = storage_consumers d" for pk d
  proof -
    obtain d1 where run: "record_cluster_observation scan ev now pk d = snd (stamp_operational_footprint None pk ''scan_observation'' now d1)"
      and d1: "storage_consumers d1 = storage_consumers d" by (auto simp: record_cluster_observation_def Let_def)
    obtain cs where "snd (stamp_operational_footprint None pk ''scan_observation'' now d1) = d1\<lparr>clusters := cs\<rparr>"
      using stamp_changes_clusters_only by blast
    with run d1 show ?thesis by simp
  qed
  have "storage_consumers (fold (record_cluster_observation scan ev now) pks d) = storage_consumers d" for pks d
    by (induction pks arbitrary: d) (simp_all add: one)
  then show ?thesis by (simp add: record_cluster_observations_def)
qed

lemma scan_inventory_steps:
  assumes "scan_inventory py mk quarantined scan now d w = (Inr (ev, gates, d'), w')"
  obtains d2 where "evidence_ok py quarantined ev" "consumer_keys d2 = consumer_keys d"
    "storage_gate_status (enabled_mounts d) (ev_coverage ev) now d2 = Inr (gates, d')"
proof -
  from assms obtain d1 w1 st dr where g: "gather_evidence py mk quarantined (scan_endpoints d) d w = (Inr (ev, d1), w1)"
    and r: "reconcile_scan_guest_inventory (scan_input_of scan (scan_endpoints d) ev) now now d1 = Inr (st, dr)"
    and gate: "storage_gate_status (enabled_mounts d) (ev_coverage ev) now
        (record_cluster_observations scan (scan_endpoints d) ev now dr) = Inr (gates, d')"
    by (auto simp: scan_inventory_def Let_def result_simps split: sum.splits prod.splits)
  from gather_evidence_ok [OF g] have "evidence_ok py quarantined ev" and "storage_consumers d1 = storage_consumers d" by auto
  moreover have "consumer_keys (record_cluster_observations scan (scan_endpoints d) ev now dr) = consumer_keys d"
    using scan_reconcile_consumers [OF r] calculation(2) by (simp add: consumer_keys_def)
  ultimately show ?thesis using that gate by blast
qed


section \<open>A scan and its orphans\<close>


section \<open>A scan to evaluate\<close>

definition demo_mount :: "nat \<Rightarrow> string \<Rightarrow> storage_mount" where
  "demo_mount pk node = \<lparr>sm_pk = pk, sm_storage_id = ''nfs'', sm_mount_key = ''k'', sm_display_name = ''NFS'',
     sm_expected_consumers = [node], sm_enabled = True, sm_backend_identity = []\<rparr>"

definition demo_consumer :: "nat \<Rightarrow> string \<Rightarrow> storage_consumer" where
  "demo_consumer mount node = \<lparr>sc_pk = mount, sc_storage = mount, sc_cluster = 1, sc_expected_node_name = node,
     sc_last_successful_inventory_scan = None, sc_last_gate_status = []\<rparr>"

definition scan_db :: db where
  "scan_db = demo_db\<lparr>storage_mounts := [demo_mount 1 ''a''], storage_consumers := [demo_consumer 1 ''a'']\<rparr>"

text \<open>The only node is \<open>a\<close>; its one guest, 100, uses \<open>vm-100-disk-0\<close>.\<close>

definition demo_http :: "unit http" where
  "demo_http =
     \<lparr>ht_exchange = (\<lambda>meth path body w. (HttpBody (Some (JObj [(''data'',
        if path = ''nodes'' then JList [JObj [(''node'', JStr ''a'')]]
        else if path = ''nodes/a/qemu'' then JList [JObj [(''vmid'', JInt 100)]]
        else if path = ''nodes/a/lxc'' then JList []
        else JObj [(''scsi0'', JStr ''nfs:100/vm-100-disk-0.qcow2'')])])), w)),
      ht_trust_mode = [], ht_str = (\<lambda>_. [])\<rparr>"


text \<open>
  The verdicts of the gate are kept by storage id, which two mounts may share. Here the first mount is
  used by node \<open>b\<close>, which was not inventoried, and the second by node \<open>a\<close>, which was: the second
  verdict replaces the first, and a disk of the first mount is called an orphan.
\<close>

theorem homonymous_mounts_share_a_gate:
  "case storage_gate_status [demo_mount 1 ''b'', demo_mount 2 ''a''] [(1, ''a'')] 7
          (demo_db\<lparr>storage_consumers := [demo_consumer 1 ''b'', demo_consumer 2 ''a'']\<rparr>) of
     Inl _ \<Rightarrow> False
   | Inr (gates, d') \<Rightarrow>
       \<not> mount_covered [(1, ''a'')] (demo_mount 1 ''b'') (consumer_keys d')
       \<and> cs_classification (scan_classify (\<lambda>_. None) (mount_context (no_evidence :: unit scan_evidence) gates (demo_mount 1 ''b'')) ''nfs''
           (image_path ''200'' ''vm-200-disk-0.qcow2'') ''file'') = ''likely_orphan''"
proof -
  have "case storage_gate_status [demo_mount 1 ''b'', demo_mount 2 ''a''] [(1, ''a'')] 7
          (demo_db\<lparr>storage_consumers := [demo_consumer 1 ''b'', demo_consumer 2 ''a'']\<rparr>) of
     Inl _ \<Rightarrow> False
   | Inr (gates, d') \<Rightarrow> (1, 1, ''b'') \<in> set (consumer_keys d')
       \<and> cs_classification (scan_classify (\<lambda>_. None) (mount_context (no_evidence :: unit scan_evidence) gates (demo_mount 1 ''b'')) ''nfs''
           (image_path ''200'' ''vm-200-disk-0.qcow2'') ''file'') = ''likely_orphan''" by code_simp
  then show ?thesis
    by (auto simp: mount_covered_def demo_mount_def split: sum.splits)
qed

end
