(* ===== verification/Storage_Usage.thy ===== *)
theory Storage_Usage
  imports Guest_Inventory
begin

text \<open>
  Who uses a volume: the read half of \<^verbatim>\<open>core/services/storage_catalog.py\<close> (the coverage of a storage view, the
  guest references, the usage scope and its decision, the storages of other clusters that may be
  the same backend, and the classification of a mounted volume), with \<^verbatim>\<open>core/services/storage_backends.py\<close>
  and the backend identities of \<^verbatim>\<open>core/services/storage_mounts.py\<close>. A set of guest labels is a list without
  order; a foreign key always has its row. The file-browsing half of a view needs the health of a
  mount and is left out, as is the refresh of the catalog.
\<close>

section \<open>Backends\<close>

datatype filesystem_mode = FS_NONE | FS_DIRECTORY | FS_NETWORK_MOUNT

record backend =
  be_storage_type :: string
  be_pve_api :: bool
  be_filesystem_mode :: filesystem_mode
  be_expected_filesystems :: "string list"
  be_known :: bool

definition filesystem_eligible :: "backend \<Rightarrow> bool" where
  "filesystem_eligible b = (be_filesystem_mode b \<noteq> FS_NONE)"

definition PROFILES :: "(string \<times> filesystem_mode \<times> string list) list" where
  "PROFILES =
     [(''dir'', FS_DIRECTORY, []), (''nfs'', FS_NETWORK_MOUNT, [''nfs'', ''nfs4'']),
      (''cifs'', FS_NETWORK_MOUNT, [''cifs'', ''smb3'']), (''cephfs'', FS_NETWORK_MOUNT, [''ceph'', ''cephfs'']),
      (''glusterfs'', FS_NETWORK_MOUNT, [''fuse.glusterfs'', ''glusterfs'']), (''btrfs'', FS_DIRECTORY, [''btrfs'']),
      (''bcachefs'', FS_DIRECTORY, [''bcachefs'']), (''lvm'', FS_NONE, []), (''lvmthin'', FS_NONE, []), (''iscsi'', FS_NONE, []),
      (''iscsidirect'', FS_NONE, []), (''zfspool'', FS_NONE, []), (''zfs'', FS_NONE, []), (''rbd'', FS_NONE, []),
      (''pbs'', FS_NONE, []), (''esxi'', FS_NONE, [])]"

definition backend_profile :: "string \<Rightarrow> backend" where
  "backend_profile storage_type =
     (let normalized = lower (strip storage_type) in
      case map_of PROFILES normalized of
        Some (mode, fs) \<Rightarrow> \<lparr>be_storage_type = normalized, be_pve_api = True, be_filesystem_mode = mode,
                          be_expected_filesystems = fs, be_known = True\<rparr>
      | None \<Rightarrow> \<lparr>be_storage_type = (if normalized \<noteq> [] then normalized else ''unknown''), be_pve_api = False,
                 be_filesystem_mode = FS_NONE, be_expected_filesystems = [], be_known = False\<rparr>)"

definition normalized_backend_identity :: "string \<Rightarrow> string option" where
  "normalized_backend_identity v =
     (let raw = strip v in
      if contains ''://'' raw \<or> contains ''@'' raw then None
      else if starts_with ''//'' raw
      then (case partition_on CHR ''/'' (drop 2 raw) of (server, sep, suffix) \<Rightarrow>
              Some (if server \<noteq> [] then ''//'' @ lower server @ (if sep then ''/'' else []) @ suffix else []))
      else (case partition_on CHR '':'' raw of (server, sep, suffix) \<Rightarrow>
              Some (if sep \<and> server \<noteq> [] then lower server @ '':'' @ suffix else raw)))"

definition hosts :: "string \<Rightarrow> string" where
  "hosts v = join '','' (sort (remdups (map (\<lambda>p. lower (strip p))
     (filter (\<lambda>p. strip p \<noteq> []) (split_on CHR '','' (map (\<lambda>c. if c = CHR '';'' then CHR '','' else c) v))))))"

fun config_value :: "(json \<Rightarrow> string) \<Rightarrow> json_object \<Rightarrow> string list \<Rightarrow> string" where
  "config_value str config [] = []"
| "config_value str config (name # names) =
     (let found = strip (text_or_empty str (map_of config name)) in if found \<noteq> [] then found else config_value str config names)"

definition lstrip_slash :: "string \<Rightarrow> string" where
  "lstrip_slash s = dropWhile (\<lambda>c. c = CHR ''/'') s"

definition strip_slash :: "string \<Rightarrow> string" where
  "strip_slash s = rev (lstrip_slash (rev (lstrip_slash s)))"

definition owner_of :: "cluster_storage \<Rightarrow> db \<Rightarrow> cluster" where
  "owner_of def d = (case get_cluster (st_cluster def) d of Some c \<Rightarrow> c | None \<Rightarrow> new_cluster (st_cluster def) [] [])"

definition network_identity :: "(json \<Rightarrow> string) \<Rightarrow> string \<Rightarrow> json_object \<Rightarrow> string" where
  "network_identity str storage_type config =
     (let server = config_value str config [''server'']; export = config_value str config [''export'', ''share'', ''volume''] in
      if server = [] \<or> export = [] then []
      else let raw = (if storage_type = ''cifs'' then ''//'' @ server @ ''/'' @ lstrip_slash export
                      else if storage_type = ''glusterfs'' then server @ '':'' @ lstrip_slash export
                      else server @ '':/'' @ lstrip_slash export)
           in case normalized_backend_identity raw of Some i \<Rightarrow> i | None \<Rightarrow> [])"

definition ceph_identity :: "(json \<Rightarrow> string) \<Rightarrow> string \<Rightarrow> string \<Rightarrow> json_object \<Rightarrow> string" where
  "ceph_identity str cluster_key storage_type config =
     (let monitors = hosts (config_value str config [''monhost'']);
          target0 = config_value str config [''pool'', ''subdir'']; target = (if target0 \<noteq> [] then target0 else ''/'');
          namespace = config_value str config [''namespace'']
      in if monitors = [] then storage_type @ ''://cluster:'' @ cluster_key @ ''/'' @ strip_slash target
         else storage_type @ ''://'' @ monitors @ ''/'' @ strip_slash target @ (if namespace \<noteq> [] then ''/'' @ namespace else []))"

definition iscsi_identity :: "(json \<Rightarrow> string) \<Rightarrow> json_object \<Rightarrow> string" where
  "iscsi_identity str config =
     (let portal = hosts (config_value str config [''portal'']); target = config_value str config [''target''];
          pool = config_value str config [''pool'']
      in if portal = [] \<or> target = [] then []
         else ''iscsi://'' @ portal @ ''/'' @ lower target @ (if pool \<noteq> [] then ''/'' @ pool else []))"

definition backend_identity_from_definition :: "(json \<Rightarrow> string) \<Rightarrow> cluster_storage \<Rightarrow> db \<Rightarrow> string" where
  "backend_identity_from_definition str def d =
     (let storage_type = lower (strip (st_storage_type def)); config = members (st_config def) in
      if storage_type \<in> {''nfs'', ''cifs'', ''glusterfs''} then network_identity str storage_type config
      else if storage_type \<in> {''cephfs'', ''rbd''} then ceph_identity str (cl_key (owner_of def d)) storage_type config
      else if storage_type \<in> {''iscsi'', ''iscsidirect'', ''zfs''} then iscsi_identity str config
      else if storage_type = ''pbs'' then
        (let server = lower (config_value str config [''server'']); datastore = config_value str config [''datastore''] in
         if server = [] \<or> datastore = [] then [] else ''pbs://'' @ server @ ''/'' @ datastore)
      else if storage_type = ''lvm'' then
        (let vgname = config_value str config [''vgname''] in if vgname \<noteq> [] then ''lvm://'' @ vgname else [])
      else [])"

section \<open>The coverage of a storage view\<close>

definition catalog_state_of :: "nat \<Rightarrow> db \<Rightarrow> catalog_state option" where
  "catalog_state_of pk d = first_where (\<lambda>s. cs_cluster s = pk) (catalog_states d)"

definition observed_node_states :: "cluster_storage \<Rightarrow> db \<Rightarrow> storage_node_state list" where
  "observed_node_states def d =
     sort_key sns_node (filter (\<lambda>n. sns_storage n = st_pk def \<and> sns_present n) (storage_node_states d))"

definition active_node_states :: "cluster_storage \<Rightarrow> db \<Rightarrow> storage_node_state list" where
  "active_node_states def d = filter (\<lambda>n. sns_active n \<and> sns_enabled n) (observed_node_states def d)"

definition coverage_of :: "cluster_storage \<Rightarrow> string option \<Rightarrow> db \<Rightarrow> volume_coverage option" where
  "coverage_of def node d = first_where (\<lambda>c. vc_storage c = st_pk def \<and> vc_node c = node) (volume_coverages d)"

definition requested_coverages :: "cluster_storage \<Rightarrow> string \<Rightarrow> db \<Rightarrow> volume_coverage option list" where
  "requested_coverages def node d =
     (if st_shared def then [coverage_of def None d]
      else if node \<noteq> [] then [coverage_of def (Some node) d]
      else map (\<lambda>n. coverage_of def (Some (sns_node n)) d) (active_node_states def d))"

definition coverage_is_current :: "catalog_state option \<Rightarrow> volume_coverage option \<Rightarrow> bool" where
  "coverage_is_current state coverage =
     (case (state, coverage) of
        (Some s, Some c) \<Rightarrow> vc_complete c \<and> vc_volume_generation c \<noteq> None \<and> cs_metadata_complete s
           \<and> vc_based_on_metadata_generation c = cs_metadata_generation s
      | _ \<Rightarrow> False)"

definition metadata_complete :: "catalog_state option \<Rightarrow> bool" where
  "metadata_complete state = (case state of Some s \<Rightarrow> cs_metadata_complete s | None \<Rightarrow> False)"

text \<open>\<open>list_reason\<close>: empty exactly when the coverage is complete.\<close>

definition coverage_reason :: "cluster_storage \<Rightarrow> string \<Rightarrow> db \<Rightarrow> string" where
  "coverage_reason def node d =
     (let state = catalog_state_of (st_cluster def) d; requested = requested_coverages def node d;
          profile = backend_profile (st_storage_type def)
      in if \<not> be_known profile
         then ''Unsupported storage type: '' @ (if st_storage_type def \<noteq> [] then st_storage_type def else ''unknown'') @ ''.''
         else if st_disabled def then ''Storage is disabled in Proxmox.''
         else if node \<noteq> [] \<and> \<not> list_ex (\<lambda>n. sns_node n = node \<and> sns_active n \<and> sns_enabled n) (observed_node_states def d)
         then ''The selected storage instance is not active.''
         else if active_node_states def d = [] then ''No permitted active node.''
         else if requested = [] \<or> \<not> list_all (coverage_is_current state) requested
         then (case List.find (\<lambda>c. \<not> coverage_is_current state c) requested of
                 Some (Some failed) \<Rightarrow>
                   if vc_error_reason failed \<noteq> [] then vc_error_reason failed
                   else if \<not> metadata_complete state then ''Storage metadata inventory is incomplete.''
                   else ''Volume coverage has not completed for this storage scope.''
               | _ \<Rightarrow> if \<not> metadata_complete state then ''Storage metadata inventory is incomplete.''
                   else ''Volume coverage has not completed for this storage scope.'')
         else [])"

definition coverage_complete :: "cluster_storage \<Rightarrow> string \<Rightarrow> db \<Rightarrow> bool" where
  "coverage_complete def node d = (coverage_reason def node d = [])"

definition coverage_token :: "cluster_storage \<Rightarrow> string \<Rightarrow> db \<Rightarrow> string" where
  "coverage_token def node d =
     (let state = catalog_state_of (st_cluster def) d in
      join '','' (sort (map (\<lambda>c. (case vc_node c of Some n \<Rightarrow> if n \<noteq> [] then n else ''shared'' | None \<Rightarrow> ''shared'') @ ''=''
          @ (case vc_volume_generation c of Some g \<Rightarrow> g | None \<Rightarrow> ''None''))
        (List.map_filter id (filter (coverage_is_current state) (requested_coverages def node d))))))"

section \<open>Guest references\<close>

record guest_references =
  gr_by_volid :: "(string \<times> string list) list"
  gr_any_volume :: "string list"

definition no_references :: guest_references where
  "no_references = \<lparr>gr_by_volid = [], gr_any_volume = []\<rparr>"

definition matching :: "guest_references \<Rightarrow> string \<Rightarrow> string list" where
  "matching refs volid =
     (if volid \<noteq> [] then (case map_of (gr_by_volid refs) volid of Some labels \<Rightarrow> labels | None \<Rightarrow> []) else gr_any_volume refs)"

definition guest_label :: "guest \<Rightarrow> string" where
  "guest_label g = g_object_type g @ '':'' @ show_nat (g_vmid g)"

definition add_reference :: "string \<Rightarrow> string \<Rightarrow> string \<Rightarrow> guest_references \<Rightarrow> guest_references" where
  "add_reference prefix label reference refs =
     (if starts_with prefix reference
      then refs\<lparr>gr_by_volid := dict_set reference
                  ((case map_of (gr_by_volid refs) reference of Some labels \<Rightarrow> labels | None \<Rightarrow> []) @ [label]) (gr_by_volid refs),
                gr_any_volume := gr_any_volume refs @ [label]\<rparr>
      else refs)"

definition reference_rows :: "nat \<Rightarrow> string \<Rightarrow> bool \<Rightarrow> db \<Rightarrow> guest list" where
  "reference_rows cluster node shared d =
     filter (\<lambda>g. g_cluster g = cluster \<and> (node \<noteq> [] \<and> \<not> shared \<longrightarrow> g_node g = node)) (guests d)"

definition guest_references_of :: "nat \<Rightarrow> string \<Rightarrow> string \<Rightarrow> bool \<Rightarrow> db \<Rightarrow> guest_references" where
  "guest_references_of cluster storage_id node shared d =
     fold (\<lambda>g. fold (add_reference (storage_id @ '':'') (guest_label g)) (g_disk_references g))
       (reference_rows cluster node shared d) no_references"


section \<open>Nodes that may not be read\<close>

definition unobserved_eligible_nodes :: "cluster_storage \<Rightarrow> db \<Rightarrow> string list" where
  "unobserved_eligible_nodes def d =
     (let scope = publication_scope_of (owner_of def d) d in
      if \<not> filtering scope then []
      else sort (map ns_node_name (filter (\<lambda>n. ns_cluster n = st_cluster def \<and> ns_present n \<and> \<not> observes scope (ns_node_name n)
             \<and> (st_nodes def = [] \<or> ns_node_name n \<in> set (st_nodes def))) (node_states d))))"

definition unobserved_node_reason :: "string list \<Rightarrow> string" where
  "unobserved_node_reason nodes =
     (let plural = 1 < length nodes in
      ''Node'' @ (if plural then ''s'' else []) @ '' '' @ join '', '' nodes @ '' could have this storage mounted and ''
      @ (if plural then ''are'' else ''is'') @ '' not enrolled, so nothing here can prove the disk is unused.'')"

section \<open>The same backend in other clusters\<close>

definition bound_mount :: "storage_binding \<Rightarrow> db \<Rightarrow> storage_mount option" where
  "bound_mount b d = first_where (\<lambda>m. sm_pk m = sb_mount b) (storage_mounts d)"

definition mount_identity :: "storage_binding \<Rightarrow> db \<Rightarrow> string" where
  "mount_identity b d = (case bound_mount b d of Some m \<Rightarrow> sm_backend_identity m | None \<Rightarrow> [])"

definition bindings_of :: "cluster_storage \<Rightarrow> db \<Rightarrow> storage_binding list" where
  "bindings_of def d = filter (\<lambda>b. sb_storage b = st_pk def) (storage_bindings d)"

definition managed_definition :: "cluster_storage \<Rightarrow> db \<Rightarrow> bool" where
  "managed_definition def d = (cl_retired_at (owner_of def d) = None \<and> st_unmanaged_at def = None \<and> st_present def)"

definition ordered_storages :: "db \<Rightarrow> cluster_storage list" where
  "ordered_storages d = sort_key (\<lambda>s. cl_key (owner_of s d)) (sort_key st_storage_id (storages d))"

text \<open>The first of each value stays.\<close>

definition first_distinct :: "'a list \<Rightarrow> 'a list" where
  "first_distinct xs = rev (remdups (rev xs))"

definition binding_node :: "string option \<Rightarrow> string" where
  "binding_node n = (case n of Some s \<Rightarrow> s | None \<Rightarrow> [])"

definition same_mount :: "storage_binding list \<Rightarrow> db \<Rightarrow> storage_binding \<Rightarrow> bool" where
  "same_mount own d b =
     (sb_mount b \<in> set (map sb_mount own) \<or> mount_identity b d \<in> set (map (\<lambda>x. mount_identity x d) own))"

definition mounted_candidates :: "cluster_storage \<Rightarrow> storage_binding list \<Rightarrow> db \<Rightarrow> (cluster_storage \<times> string) list" where
  "mounted_candidates def own d =
     concat (map (\<lambda>other. map (\<lambda>n. (other, binding_node n))
         (first_distinct (map sb_node (sort_key (\<lambda>b. binding_node (sb_node b)) (filter (same_mount own d) (bindings_of other d))))))
       (filter (\<lambda>other. managed_definition other d \<and> st_pk other \<noteq> st_pk def) (ordered_storages d)))"

definition cross_cluster_candidates ::
    "(json \<Rightarrow> string) \<Rightarrow> cluster_storage \<Rightarrow> db \<Rightarrow> (cluster_storage \<times> string) list \<times> string" where
  "cross_cluster_candidates str def d =
     (let own = bindings_of def d in
      if own \<noteq> [] then
        if list_ex (\<lambda>b. mount_identity b d = []) own then ([], ''A registered host mount has no verified backend identity.'')
        else (mounted_candidates def own d, [])
      else if filesystem_eligible (backend_profile (st_storage_type def))
      then ([], ''No host mount is registered for this storage, so its backend identity is unproven.'')
      else if \<not> st_shared def then ([], [])
      else let identity = backend_identity_from_definition str def d in
        if identity = []
        then ([], ''The '' @ (if st_storage_type def \<noteq> [] then st_storage_type def else ''unknown'')
                 @ '' definition does not publish a cross-cluster backend identity.'')
        else (map (\<lambda>o'. (o', [])) (filter (\<lambda>o'. managed_definition o' d \<and> st_shared o' \<and> st_storage_type o' = st_storage_type def
                \<and> st_pk o' \<noteq> st_pk def \<and> backend_identity_from_definition str o' d = identity) (ordered_storages d)), []))"

section \<open>The decision\<close>

datatype usage_state = REFERENCED | UNREFERENCED | USAGE_UNKNOWN | REFERENCED_ELSEWHERE

fun usage_value :: "usage_state \<Rightarrow> string" where
  "usage_value REFERENCED = ''referenced''"
| "usage_value UNREFERENCED = ''unreferenced''"
| "usage_value USAGE_UNKNOWN = ''unknown''"
| "usage_value REFERENCED_ELSEWHERE = ''referenced-elsewhere''"

record usage =
  us_state :: usage_state
  us_reason :: string
  us_token :: string
  us_references :: "string list"

record candidate_scope =
  cd_cluster_key :: string
  cd_storage_id :: string
  cd_incomplete :: bool
  cd_references :: guest_references

record usage_scope =
  uc_token :: string
  uc_unknown_reason :: string
  uc_references :: guest_references
  uc_candidate_reason :: string
  uc_candidates :: "candidate_scope list"
  uc_unobserved_nodes :: "string list"

definition candidate_scope_of :: "cluster_storage \<times> string \<Rightarrow> db \<Rightarrow> candidate_scope" where
  "candidate_scope_of p d =
     (let (other, node) = p; key = cl_key (owner_of other d) in
      if \<not> coverage_complete other node d
      then \<lparr>cd_cluster_key = key, cd_storage_id = [], cd_incomplete = True, cd_references = no_references\<rparr>
      else \<lparr>cd_cluster_key = key, cd_storage_id = st_storage_id other, cd_incomplete = False,
            cd_references = guest_references_of (st_cluster other) (st_storage_id other) node (st_shared other) d\<rparr>)"

definition usage_scope_of :: "(json \<Rightarrow> string) \<Rightarrow> cluster_storage \<Rightarrow> string \<Rightarrow> db \<Rightarrow> usage_scope" where
  "usage_scope_of str def node d =
     (let key = cl_key (owner_of def d);
          blank = \<lparr>uc_token = [], uc_unknown_reason = [], uc_references = no_references, uc_candidate_reason = [],
                   uc_candidates = [], uc_unobserved_nodes = []\<rparr>
      in case catalog_state_of (st_cluster def) d of
           None \<Rightarrow> blank\<lparr>uc_token := ''::'' @ key @ '':'' @ st_storage_id def @ '':'' @ node,
                        uc_unknown_reason := ''Storage catalog has not completed its first refresh.''\<rparr>
         | Some state \<Rightarrow>
             let token = join '':'' [case cs_metadata_generation state of Some g \<Rightarrow> g | None \<Rightarrow> [], coverage_token def node d,
                   key, st_storage_id def, node]
             in if \<not> coverage_complete def node d
                then blank\<lparr>uc_token := token, uc_unknown_reason := coverage_reason def node d\<rparr>
                else let (candidates, why) = cross_cluster_candidates str def d in
                  blank\<lparr>uc_token := token,
                     uc_references := guest_references_of (st_cluster def) (st_storage_id def) node (st_shared def) d,
                     uc_candidate_reason := why,
                     uc_candidates := (if why \<noteq> [] then [] else map (\<lambda>p. candidate_scope_of p d) candidates),
                     uc_unobserved_nodes := unobserved_eligible_nodes def d\<rparr>)"

definition decided :: "usage_state \<Rightarrow> string \<Rightarrow> usage_scope \<Rightarrow> string list \<Rightarrow> usage" where
  "decided state why scope refs = \<lparr>us_state = state, us_reason = why, us_token = uc_token scope, us_references = refs\<rparr>"

definition relative_of :: "string \<Rightarrow> string" where
  "relative_of volid = (case partition_on CHR '':'' volid of (_, found, rest) \<Rightarrow> if found then rest else [])"

text \<open>The walk over the candidates: the first incomplete or matching one decides.\<close>

fun walk_candidates :: "usage_scope \<Rightarrow> string \<Rightarrow> candidate_scope list \<Rightarrow> usage option" where
  "walk_candidates scope relative [] = None"
| "walk_candidates scope relative (c # cs) =
     (if cd_incomplete c
      then Some (decided USAGE_UNKNOWN ''The same backend has incomplete coverage in another cluster.'' scope [])
      else let matched = matching (cd_references c) (if relative \<noteq> [] then cd_storage_id c @ '':'' @ relative else []) in
        if matched \<noteq> []
        then Some (decided REFERENCED_ELSEWHERE ''The same backend is referenced by another cluster.'' scope
               [cd_cluster_key c @ '':'' @ hd (sort matched)])
        else walk_candidates scope relative cs)"

definition usage_decision :: "usage_scope \<Rightarrow> string \<Rightarrow> usage" where
  "usage_decision scope volid =
     (if uc_unknown_reason scope \<noteq> [] then decided USAGE_UNKNOWN (uc_unknown_reason scope) scope []
      else let refs = matching (uc_references scope) volid in
        if refs \<noteq> [] then decided REFERENCED ''Storage content is referenced by guests.'' scope (sort (remdups refs))
        else if uc_candidate_reason scope \<noteq> [] then decided USAGE_UNKNOWN (uc_candidate_reason scope) scope []
        else case walk_candidates scope (relative_of volid) (uc_candidates scope) of
          Some u \<Rightarrow> u
        | None \<Rightarrow>
            if uc_unobserved_nodes scope \<noteq> []
            then decided USAGE_UNKNOWN (unobserved_node_reason (uc_unobserved_nodes scope)
                   @ '' Coverage is complete for every node this connection reads.'') scope []
            else decided UNREFERENCED ''Complete coverage found no references.'' scope [])"

text \<open>\<open>usage_preflight(..., fresh=False)\<close>, and whether it permits a destructive action.\<close>

definition usage_preflight :: "(json \<Rightarrow> string) \<Rightarrow> cluster_storage \<Rightarrow> string \<Rightarrow> string \<Rightarrow> db \<Rightarrow> usage" where
  "usage_preflight str def volid node d = usage_decision (usage_scope_of str def node d) volid"

definition permits_destructive_action :: "usage \<Rightarrow> bool" where
  "permits_destructive_action u = (us_state u = UNREFERENCED)"

section \<open>Volumes of a mount\<close>

definition storage_of :: "storage_binding \<Rightarrow> db \<Rightarrow> cluster_storage option" where
  "storage_of b d = first_where (\<lambda>s. st_pk s = sb_storage b) (storages d)"

text \<open>In the order of the table: by cluster, storage and node, the shared binding last.\<close>

definition binding_order :: "db \<Rightarrow> (storage_binding \<times> cluster_storage) list \<Rightarrow> (storage_binding \<times> cluster_storage) list" where
  "binding_order d ps =
     sort_key (\<lambda>p. cl_key (owner_of (snd p) d)) (sort_key (\<lambda>p. st_storage_id (snd p))
       (sort_key (\<lambda>p. sb_node (fst p) = None) (sort_key (\<lambda>p. binding_node (sb_node (fst p))) ps)))"

definition classifier_bindings :: "storage_mount \<Rightarrow> db \<Rightarrow> (storage_binding \<times> cluster_storage) list" where
  "classifier_bindings m d =
     binding_order d (List.map_filter (\<lambda>b. case storage_of b d of
         Some s \<Rightarrow> if sb_mount b = sm_pk m \<and> cl_retired_at (owner_of s d) = None \<and> st_unmanaged_at s = None then Some (b, s) else None
       | None \<Rightarrow> None) (storage_bindings d))"

definition observed_volids :: "storage_binding \<times> cluster_storage \<Rightarrow> db \<Rightarrow> string list" where
  "observed_volids p d =
     map vo_volid (filter (\<lambda>v. vo_storage v = st_pk (snd p)
       \<and> (binding_node (sb_node (fst p)) \<noteq> [] \<longrightarrow> vo_node v = binding_node (sb_node (fst p)))) (volume_observations d))"

definition remove_prefix :: "string \<Rightarrow> string \<Rightarrow> string" where
  "remove_prefix p s = (if starts_with p s then drop (length p) s else s)"

definition mounted_volume_decisions :: "(json \<Rightarrow> string) \<Rightarrow> storage_mount \<Rightarrow> string \<Rightarrow> db \<Rightarrow> usage list" where
  "mounted_volume_decisions str m relative_path d =
     (let suffix = remove_prefix ''images/'' (lstrip_slash relative_path) in
      map (\<lambda>(b, s). usage_decision (usage_scope_of str s (binding_node (sb_node b)) d) (st_storage_id s @ '':'' @ suffix))
        (classifier_bindings m d))"

definition classify_mounted_volume :: "(json \<Rightarrow> string) \<Rightarrow> storage_mount \<Rightarrow> db \<Rightarrow> string \<Rightarrow> classification_result option" where
  "classify_mounted_volume str m d relative_path =
     (let bindings = classifier_bindings m d; suffix = remove_prefix ''images/'' (lstrip_slash relative_path);
          decisions = mounted_volume_decisions str m relative_path d;
          evidence = [(''catalog_authoritative'', JBool True),
                      (''catalog_decisions'', JList (map (\<lambda>u. JStr (usage_value (us_state u))) decisions)),
                      (''coverage_tokens'', JList (map (\<lambda>u. JStr (us_token u)) decisions))]
      in if bindings = [] then None
         else if list_ex (\<lambda>u. us_state u = REFERENCED \<or> us_state u = REFERENCED_ELSEWHERE) decisions
         then Some (verdict ''referenced'' ''The API storage catalog found this volume referenced in an associated cluster.'' [] evidence)
         else if list_ex (\<lambda>u. us_state u = USAGE_UNKNOWN) decisions
         then Some (verdict ''classification_blocked'' ''The API storage catalog lacks complete coverage for this volume.'' [] evidence)
         else if \<not> list_ex (\<lambda>p. st_storage_id (snd p) @ '':'' @ suffix \<in> set (observed_volids p d)) bindings
         then Some (verdict ''unknown'' ''File resembles a VM disk but is absent from the complete Proxmox volume catalog.'' [] evidence)
         else Some (verdict ''likely_orphan''
                ''Proxmox reports this volume, but complete catalog coverage found no guest reference.'' [] evidence))"

section \<open>What the decision rests on\<close>

lemma find_not_all: "\<not> list_all P xs \<Longrightarrow> \<exists>x. List.find (\<lambda>x. \<not> P x) xs = Some x"
  by (induction xs) auto

text \<open>A view is complete exactly when a known, enabled storage is active and every coverage it needs is current.\<close>

lemma coverage_complete_iff:
  "coverage_complete def node d \<longleftrightarrow>
     be_known (backend_profile (st_storage_type def)) \<and> \<not> st_disabled def
     \<and> (node \<noteq> [] \<longrightarrow> list_ex (\<lambda>n. sns_node n = node \<and> sns_active n \<and> sns_enabled n) (observed_node_states def d))
     \<and> active_node_states def d \<noteq> [] \<and> requested_coverages def node d \<noteq> []
     \<and> list_all (coverage_is_current (catalog_state_of (st_cluster def) d)) (requested_coverages def node d)"
proof -
  have "(case f of Some (Some failed) \<Rightarrow> if vc_error_reason failed \<noteq> [] then vc_error_reason failed
           else if p then ''Storage metadata inventory is incomplete.'' else ''Volume coverage has not completed for this storage scope.''
         | _ \<Rightarrow> if p then ''Storage metadata inventory is incomplete.'' else ''Volume coverage has not completed for this storage scope.'') \<noteq> []"
    for f :: "volume_coverage option option" and p
    by (auto split: option.splits)
  then show ?thesis unfolding coverage_complete_def coverage_reason_def Let_def by simp
qed

lemma coverage_complete_state: "coverage_complete def node d \<Longrightarrow> \<exists>s. catalog_state_of (st_cluster def) d = Some s \<and> cs_metadata_complete s"
  unfolding coverage_complete_iff
  by (cases "requested_coverages def node d") (auto simp: coverage_is_current_def split: option.splits)

text \<open>The index of the guest references answers membership.\<close>

definition labels_for :: "guest_references \<Rightarrow> string \<Rightarrow> string list" where
  "labels_for refs volid = (case map_of (gr_by_volid refs) volid of Some labels \<Rightarrow> labels | None \<Rightarrow> [])"

lemma labels_for_add:
  "labels_for (add_reference prefix label reference refs) volid =
     labels_for refs volid @ (if starts_with prefix reference \<and> reference = volid then [label] else [])"
  by (auto simp: labels_for_def add_reference_def dict_set_map_of)

lemma labels_for_fold_add:
  "labels_for (fold (add_reference prefix label) references refs) volid = [] \<longleftrightarrow>
     labels_for refs volid = [] \<and> \<not> (starts_with prefix volid \<and> volid \<in> set references)"
  by (induction references arbitrary: refs) (auto simp: labels_for_add)

lemma labels_for_guests:
  "labels_for (fold (\<lambda>g. fold (add_reference prefix (guest_label g)) (g_disk_references g)) gs refs) volid = [] \<longleftrightarrow>
     labels_for refs volid = [] \<and> \<not> (starts_with prefix volid \<and> (\<exists>g\<in>set gs. volid \<in> set (g_disk_references g)))"
  by (induction gs arbitrary: refs) (auto simp: labels_for_fold_add)

text \<open>Some guest of the storage's scope lists the volume \<open>rel\<close> of it.\<close>

definition used_in_scope :: "cluster_storage \<Rightarrow> string \<Rightarrow> string \<Rightarrow> db \<Rightarrow> bool" where
  "used_in_scope s node rel d =
     (\<exists>g\<in>set (guests d). g_cluster g = st_cluster s \<and> (node \<noteq> [] \<and> \<not> st_shared s \<longrightarrow> g_node g = node)
        \<and> st_storage_id s @ '':'' @ rel \<in> set (g_disk_references g))"

lemma matching_scope:
  "matching (guest_references_of (st_cluster s) (st_storage_id s) node (st_shared s) d) (st_storage_id s @ CHR '':'' # rel) = [] \<longleftrightarrow>
     \<not> used_in_scope s node rel d"
proof -
  have prefix: "starts_with (st_storage_id s @ '':'') (st_storage_id s @ CHR '':'' # rel)"
    using starts_with_append [of "st_storage_id s @ '':''" rel] by simp
  have "matching refs (st_storage_id s @ CHR '':'' # rel) = labels_for refs (st_storage_id s @ CHR '':'' # rel)" for refs
    by (simp add: matching_def labels_for_def)
  moreover have "labels_for no_references v = []" for v by (simp add: labels_for_def no_references_def)
  ultimately show ?thesis
    unfolding guest_references_of_def by (auto simp: labels_for_guests prefix used_in_scope_def reference_rows_def)
qed

lemma walk_candidates_None:
  "rel \<noteq> [] \<Longrightarrow> walk_candidates sc rel (map (\<lambda>p. candidate_scope_of p d) ps) = None \<longleftrightarrow>
     (\<forall>(other, n)\<in>set ps. coverage_complete other n d \<and> \<not> used_in_scope other n rel d)"
proof (induction ps)
  case (Cons p ps)
  show ?case using Cons.IH [OF Cons.prems] Cons.prems
    by (cases p) (auto simp: candidate_scope_of_def Let_def matching_scope)
qed simp

lemma walk_candidates_verdict: "walk_candidates sc rel cs = Some u \<Longrightarrow> us_state u \<noteq> UNREFERENCED"
  by (induction sc rel cs rule: walk_candidates.induct) (auto simp: decided_def Let_def split: if_splits)

lemma usage_decision_unreferenced:
  "us_state (usage_decision sc volid) = UNREFERENCED \<longleftrightarrow>
     uc_unknown_reason sc = [] \<and> matching (uc_references sc) volid = [] \<and> uc_candidate_reason sc = []
     \<and> walk_candidates sc (relative_of volid) (uc_candidates sc) = None \<and> uc_unobserved_nodes sc = []"
  using walk_candidates_verdict [of sc "relative_of volid" "uc_candidates sc"]
  by (auto simp: usage_decision_def Let_def decided_def split: option.splits)

lemma relative_of_volume: "CHR '':'' \<notin> set sid \<Longrightarrow> relative_of (sid @ CHR '':'' # rel) = rel"
  by (simp add: relative_of_def partition_on_append)

lemma usage_unreferenced_iff:
  assumes "CHR '':'' \<notin> set (st_storage_id def)" "rel \<noteq> []"
  shows "us_state (usage_decision (usage_scope_of str def node d) (st_storage_id def @ CHR '':'' # rel)) = UNREFERENCED \<longleftrightarrow>
     coverage_complete def node d \<and> \<not> used_in_scope def node rel d
     \<and> snd (cross_cluster_candidates str def d) = []
     \<and> (\<forall>(other, n)\<in>set (fst (cross_cluster_candidates str def d)). coverage_complete other n d \<and> \<not> used_in_scope other n rel d)
     \<and> unobserved_eligible_nodes def d = []"
proof (cases "coverage_complete def node d")
  case True
  with coverage_complete_state obtain s where "catalog_state_of (st_cluster def) d = Some s" by blast
  with True assms show ?thesis
    unfolding usage_decision_unreferenced usage_scope_of_def
    by (auto simp: Let_def case_prod_beta relative_of_volume matching_scope walk_candidates_None)
next
  case False
  then have "coverage_reason def node d \<noteq> []" by (simp add: coverage_complete_def)
  with False show ?thesis
    unfolding usage_decision_unreferenced usage_scope_of_def by (auto simp: Let_def split: option.splits)
qed

text \<open>
  C12: when a volume may be destroyed. The preflight permits it exactly when the coverage of the storage is
  complete, no guest row in the storage's scope lists the volume, the question whether another
  cluster has the same backend is answered, every storage that may be that backend has complete
  coverage and no guest there lists the same volume, and no node that could mount the storage is
  out of sight.
\<close>

theorem destructive_action_exact:
  assumes "CHR '':'' \<notin> set (st_storage_id def)" "rel \<noteq> []"
  shows "permits_destructive_action (usage_preflight str def (st_storage_id def @ '':'' @ rel) node d) \<longleftrightarrow>
     coverage_complete def node d \<and> \<not> used_in_scope def node rel d
     \<and> snd (cross_cluster_candidates str def d) = []
     \<and> (\<forall>(other, n)\<in>set (fst (cross_cluster_candidates str def d)). coverage_complete other n d \<and> \<not> used_in_scope other n rel d)
     \<and> unobserved_eligible_nodes def d = []"
  using usage_unreferenced_iff [OF assms] by (simp add: permits_destructive_action_def usage_preflight_def)

section \<open>Volumes a mount shows\<close>

lemma list_all_unreferenced:
  "\<not> list_ex (\<lambda>u. us_state u = REFERENCED \<or> us_state u = REFERENCED_ELSEWHERE) us \<Longrightarrow>
   \<not> list_ex (\<lambda>u. us_state u = USAGE_UNKNOWN) us \<Longrightarrow> u \<in> set us \<Longrightarrow> us_state u = UNREFERENCED"
  by (cases "us_state u") (auto simp: list_ex_iff)

lemma classify_mounted_volume_None: "classify_mounted_volume str m d relative = None \<longleftrightarrow> classifier_bindings m d = []"
  unfolding classify_mounted_volume_def Let_def by simp

lemma mounted_orphan_decisions:
  assumes "classify_mounted_volume str m d relative = Some c" "cs_classification c = ''likely_orphan''"
    and "(b, s) \<in> set (classifier_bindings m d)"
  shows "us_state (usage_decision (usage_scope_of str s (binding_node (sb_node b)) d)
       (st_storage_id s @ CHR '':'' # remove_prefix ''images/'' (lstrip_slash relative))) = UNREFERENCED"
proof -
  let ?us = "mounted_volume_decisions str m relative d"
  have "\<not> list_ex (\<lambda>u. us_state u = REFERENCED \<or> us_state u = REFERENCED_ELSEWHERE) ?us"
    "\<not> list_ex (\<lambda>u. us_state u = USAGE_UNKNOWN) ?us"
    using assms(1,2) by (auto simp: classify_mounted_volume_def Let_def verdict_def split: if_splits)
  then show ?thesis
    by (rule list_all_unreferenced) (use assms(3) in \<open>force simp: mounted_volume_decisions_def Let_def\<close>)
qed

lemma mounted_orphan_observed:
  assumes "classify_mounted_volume str m d relative = Some c" "cs_classification c = ''likely_orphan''"
  shows "\<exists>p\<in>set (classifier_bindings m d).
      st_storage_id (snd p) @ '':'' @ remove_prefix ''images/'' (lstrip_slash relative) \<in> set (observed_volids p d)"
  using assms by (auto simp: classify_mounted_volume_def Let_def verdict_def list_ex_iff split: if_splits)

section \<open>A storage to evaluate on\<close>

definition demo_storage :: cluster_storage where
  "demo_storage = \<lparr>st_pk = 1, st_cluster = 1, st_storage_id = ''nfs'', st_shared = True, st_nodes = [''a''], st_present = True,
     st_unmanaged_at = None, st_observed_metadata_generation = Some ''m1'', st_storage_type = ''nfs'', st_disabled = False,
     st_config = JObj []\<rparr>"

definition demo_nfs :: storage_mount where
  "demo_nfs = \<lparr>sm_pk = 1, sm_storage_id = ''nfs'', sm_mount_key = ''k'', sm_display_name = ''NFS'', sm_expected_consumers = [''a''],
     sm_enabled = True, sm_backend_identity = ''filer:/vm''\<rparr>"

definition storage_db :: db where
  "storage_db = demo_db\<lparr>storages := [demo_storage], storage_mounts := [demo_nfs],
     storage_bindings := [\<lparr>sb_pk = 1, sb_storage = 1, sb_mount = 1, sb_scope = ''shared'', sb_node = None\<rparr>],
     catalog_states := [\<lparr>cs_pk = 1, cs_cluster = 1, cs_metadata_generation = Some ''m1'', cs_metadata_complete = True\<rparr>],
     storage_node_states := [\<lparr>sns_pk = 1, sns_storage = 1, sns_node = ''a'', sns_present = True,
       sns_observed_metadata_generation = Some ''m1'', sns_active = True, sns_enabled = True\<rparr>],
     volume_coverages := [\<lparr>vc_pk = 1, vc_storage = 1, vc_scope = ''shared'', vc_node = None, vc_complete = True,
       vc_volume_generation = Some ''v1'', vc_based_on_metadata_generation = Some ''m1'', vc_error_reason = []\<rparr>],
     volume_observations := [\<lparr>vo_pk = 1, vo_storage = 1, vo_node = '''', vo_volid = ''nfs:300/vm-300-disk-0.qcow2''\<rparr>]\<rparr>"

definition demo_disk :: string where
  "demo_disk = ''300/vm-300-disk-0.qcow2''"

theorem destructive_action_exact_witness:
  "coverage_complete demo_storage [] storage_db \<and> \<not> used_in_scope demo_storage [] demo_disk storage_db
   \<and> unobserved_eligible_nodes demo_storage storage_db = []"
proof -
  have sid: "st_storage_id demo_storage = ''nfs''" by (simp add: demo_storage_def)
  have "permits_destructive_action (usage_preflight (\<lambda>_. []) demo_storage (''nfs'' @ '':'' @ demo_disk) [] storage_db)" by code_simp
  then show ?thesis
    using destructive_action_exact [of demo_storage demo_disk "\<lambda>_. []" "[]" storage_db] unfolding sid by (simp add: demo_disk_def)
qed

text \<open>
  A row the live inventory has just created carries no disk references, because the configuration of the
  guest was not read, and says so in \<open>g_config_complete\<close>. The decision does not look at it: the disk of the
  new guest may be destroyed.
\<close>

theorem unread_configuration_counts_as_unreferencing:
  "case reconcile_live_guest_inventory demo_py demo_inventory 7 8 storage_db of
     Inl _ \<Rightarrow> False
   | Inr d' \<Rightarrow> list_ex (\<lambda>g. g_cluster g = 1 \<and> g_vmid g = 300 \<and> \<not> g_config_complete g) (guests d')
       \<and> permits_destructive_action (usage_preflight (\<lambda>_. []) demo_storage (''nfs'' @ '':'' @ demo_disk) [] d')"
  by code_simp

end
